(* ===== verification/Prelude.thy ===== *)
theory Prelude
  imports Complex_Main "HOL-Library.Word"
begin

text \<open>
  Shared vocabulary of the development: Go's error values and the two ways the code inspects
  them (\<^verbatim>\<open>errors.Is\<close>, \<^verbatim>\<open>errors.As\<close>), results as sums, the decimal rounding modes named by
  the monetary code, and the record of third-party operations that the model takes as a
  parameter together with the documented laws the code relies on.
\<close>

section \<open>Proof automation\<close>

named_theorems hoare_rules "rules of the Hoare logic over the database monad"
named_theorems keeps_rules "programs that keep a relation between their first and last world"
named_theorems table_simps "equations on single database tables"

section \<open>Error values\<close>

text \<open>
  Every sentinel error the packages declare, the typed errors they inspect, and the errors of
  the database driver. \<open>Errorf\<close> is \<^verbatim>\<open>fmt.Errorf\<close> with \<^verbatim>\<open>%w\<close> verbs or \<^verbatim>\<open>errors.Join\<close>: a message
  and the errors it wraps. \<open>ErrorString\<close> is an unnamed \<^verbatim>\<open>errors.New\<close>.
\<close>

datatype go_error =
    ErrInvalidOfferID
  | ErrInvalidBondSeries
  | ErrInvalidPrice
  | ErrInvalidCurrencyCode
  | ErrSellerNotFound
  | ErrBondNotFound
  | ErrOfferAlreadyExists
  | ErrOfferUnavailable
  | ErrSelfTradeProhibited
  | ErrUnauthenticated
  | ErrPermissionDenied
  | ErrInvalidOperation
  | ErrInvalidIdempotencyKey
  | ErrIdempotencyConflict
  | ErrUnsupportedSubmissionCurrency
  | ErrConversionQuoteRequired
  | ErrInvalidConversionQuote
  | ErrConversionQuoteUnavailable
  | ErrExchangeRateUnavailable
  | ErrExceeded
  | ErrRateLimitUnavailable
  | ExceededError int
  | ErrNoPublishers
  | ErrUnknownDestination
  | ErrUnsupportedEvent
  | ErrInvalidSeries
  | ErrInvalidDateRange
  | ErrInvalidObservation
  | ErrIncompleteResponse
  | ErrUpstreamUnavailable
  | ErrProviderAuthentication
  | ErrProviderInvalidResponse
  | ErrColdFetchInProgress
  | RateLimitError int
  | ContextCanceled
  | ContextDeadlineExceeded
  | ErrNoRows
  | ErrTxClosed
  | ErrTxCommitRollback
  | PgError string string
  | ErrorString string
  | Errorf string "go_error list"

type_synonym 'a result = "go_error + 'a"

text \<open>
  \<^verbatim>\<open>errors.Is\<close>: the error itself or any error it wraps. \<^verbatim>\<open>ExceededError.Unwrap\<close> returns
  \<^verbatim>\<open>ErrExceeded\<close>.
\<close>

fun errors_Is :: "go_error \<Rightarrow> go_error \<Rightarrow> bool" where
  "errors_Is (Errorf m es) t \<longleftrightarrow> Errorf m es = t \<or> list_ex (\<lambda>e. errors_Is e t) es"
| "errors_Is (ExceededError d) t \<longleftrightarrow> ExceededError d = t \<or> t = ErrExceeded"
| "errors_Is e t \<longleftrightarrow> e = t"

text \<open>\<^verbatim>\<open>errors.As\<close> with a \<^verbatim>\<open>*pgconn.PgError\<close> target: the first one in the wrapping tree.\<close>

fun as_PgError :: "go_error \<Rightarrow> (string \<times> string) option"
  and as_PgError_list :: "go_error list \<Rightarrow> (string \<times> string) option" where
  "as_PgError (PgError c k) = Some (c, k)"
| "as_PgError (Errorf m es) = as_PgError_list es"
| "as_PgError _ = None"
| "as_PgError_list [] = None"
| "as_PgError_list (e # es) = (case as_PgError e of Some x \<Rightarrow> Some x | None \<Rightarrow> as_PgError_list es)"

lemma errors_Is_refl [simp]: "errors_Is e e"
  by (cases e) auto

section \<open>Results\<close>

definition bind_r :: "'a result \<Rightarrow> ('a \<Rightarrow> 'b result) \<Rightarrow> 'b result" where
  "bind_r r f = (case r of Inl e \<Rightarrow> Inl e | Inr a \<Rightarrow> f a)"

lemma bind_r_simps [simp]:
  "bind_r (Inl e) f = Inl e"
  "bind_r (Inr a) f = f a"
  by (simp_all add: bind_r_def)

lemma bind_r_Inr: "bind_r r f = Inr b \<longleftrightarrow> (\<exists>a. r = Inr a \<and> f a = Inr b)"
  by (cases r) auto

definition is_ok :: "'a result \<Rightarrow> bool" where
  "is_ok r = (case r of Inl _ \<Rightarrow> False | Inr _ \<Rightarrow> True)"

lemma is_ok_simps [simp]: "\<not> is_ok (Inl e)" "is_ok (Inr a)"
  by (simp_all add: is_ok_def)

section \<open>Lists\<close>

lemma filter_singleton_if_distinct:
  assumes "distinct (map f xs)" and "x \<in> set xs"
  shows "filter (\<lambda>y. f y = f x) xs = [x]"
  using assms
proof (induction xs)
  case Nil
  then show ?case by simp
next
  case (Cons y ys)
  show ?case
  proof (cases "y = x")
    case True
    with Cons.prems have "\<forall>z\<in>set ys. f z \<noteq> f x" by (auto simp: image_iff)
    then have "filter (\<lambda>y. f y = f x) ys = []" by (simp add: filter_empty_conv)
    with True show ?thesis by simp
  next
    case False
    with Cons show ?thesis by (auto simp: image_iff)
  qed
qed

lemma filter_notin: "i \<notin> f ` set xs \<Longrightarrow> filter (\<lambda>x. f x = i) xs = []"
  by (induction xs) auto

lemma distinct_map_eq: "distinct (map f xs) \<Longrightarrow> x \<in> set xs \<Longrightarrow> y \<in> set xs \<Longrightarrow> f x = f y \<Longrightarrow> x = y"
  by (auto simp: distinct_map inj_on_def)

lemma find_distinct:
  "distinct (map f xs) \<Longrightarrow> x \<in> set xs \<Longrightarrow> find (\<lambda>y. f y = f x) xs = Some x"
  by (induction xs) (auto simp: image_iff)

section \<open>Rounding modes\<close>

text \<open>
  \<^verbatim>\<open>half away from zero\<close> is what \<^verbatim>\<open>Decimal.Round\<close> and the cast to \<^verbatim>\<open>numeric(14,4)\<close> do,
  \<^verbatim>\<open>half to even\<close> what \<^verbatim>\<open>Decimal.RoundBank\<close> does. Both are functions of the exact value.
\<close>

definition round_half_away :: "nat \<Rightarrow> rat \<Rightarrow> rat" where
  "round_half_away n x = sgn x * of_int \<lfloor>\<bar>x\<bar> * 10 ^ n + 1 / 2\<rfloor> / 10 ^ n"

definition half_even :: "rat \<Rightarrow> int" where
  "half_even y = (let f = \<lfloor>y\<rfloor>; r = y - of_int f
     in if r < 1 / 2 then f else if 1 / 2 < r then f + 1 else if even f then f else f + 1)"

definition round_half_even :: "nat \<Rightarrow> rat \<Rightarrow> rat" where
  "round_half_even n x = of_int (half_even (x * 10 ^ n)) / 10 ^ n"

definition has_scale :: "nat \<Rightarrow> rat \<Rightarrow> bool" where
  "has_scale n x \<longleftrightarrow> of_int \<lfloor>x * 10 ^ n\<rfloor> = x * 10 ^ n"

lemma has_scale_floor:
  assumes "has_scale n x"
  shows "of_int \<lfloor>x * 10 ^ n\<rfloor> / 10 ^ n = x"
proof -
  have "of_int \<lfloor>x * 10 ^ n\<rfloor> / 10 ^ n = (x * 10 ^ n) / 10 ^ n"
    using assms unfolding has_scale_def by (simp only:)
  then show ?thesis by simp
qed

lemma has_scale_iff: "has_scale n x \<longleftrightarrow> (\<exists>k::int. x = of_int k / 10 ^ n)"
proof
  assume "has_scale n x"
  then have "x = of_int \<lfloor>x * 10 ^ n\<rfloor> / 10 ^ n" by (simp only: has_scale_floor)
  then show "\<exists>k::int. x = of_int k / 10 ^ n" ..
next
  assume "\<exists>k::int. x = of_int k / 10 ^ n"
  then show "has_scale n x" by (auto simp: has_scale_def)
qed

lemma has_scale_mono:
  assumes "has_scale m x" and "m \<le> n"
  shows "has_scale n x"
proof -
  obtain k :: int where "x = of_int k / 10 ^ m" using assms(1) by (auto simp: has_scale_iff)
  also have "\<dots> = (of_int k * 10 ^ (n - m)) / (10 ^ m * 10 ^ (n - m))" by simp
  also have "\<dots> = of_int (k * 10 ^ (n - m)) / 10 ^ n"
    using assms(2) by (simp flip: power_add)
  finally show ?thesis unfolding has_scale_iff by blast
qed

lemma has_scale_half_even [simp]: "has_scale n (round_half_even n x)"
  unfolding has_scale_iff round_half_even_def by blast

lemma half_even_error: "\<bar>of_int (half_even y) - y\<bar> \<le> 1 / 2"
proof -
  have "of_int \<lfloor>y\<rfloor> \<le> y" and "y < of_int \<lfloor>y\<rfloor> + 1" by linarith+
  then show ?thesis by (auto simp: half_even_def Let_def abs_le_iff)
qed

lemma round_half_even_error: "\<bar>round_half_even n x - x\<bar> \<le> 1 / (2 * 10 ^ n)"
proof -
  have p: "(0::rat) < 10 ^ n" by simp
  have "round_half_even n x - x = (of_int (half_even (x * 10 ^ n)) - x * 10 ^ n) / 10 ^ n"
    using p by (simp add: round_half_even_def field_simps)
  then have "\<bar>round_half_even n x - x\<bar> = \<bar>of_int (half_even (x * 10 ^ n)) - x * 10 ^ n\<bar> / 10 ^ n"
    using p by (simp add: abs_divide)
  also have "\<dots> \<le> (1 / 2) / 10 ^ n"
    using half_even_error [of "x * 10 ^ n"] p by (intro divide_right_mono) auto
  finally show ?thesis by simp
qed

lemma has_scale_round_half_away [simp]: "has_scale n (round_half_away n x)"
proof -
  have "round_half_away n x = of_int ((if 0 < x then 1 else if x = 0 then 0 else - 1)
      * \<lfloor>\<bar>x\<bar> * 10 ^ n + 1 / 2\<rfloor>) / 10 ^ n"
    by (simp add: round_half_away_def sgn_if)
  then show ?thesis unfolding has_scale_iff by blast
qed

lemma round_half_away_scaled:
  assumes "0 \<le> x" and "has_scale n x"
  shows "round_half_away n x = x"
proof -
  from assms(2) obtain k :: int where k: "x = of_int k / 10 ^ n"
    by (auto simp: has_scale_iff)
  have fl: "\<lfloor>of_int k + 1 / 2 :: rat\<rfloor> = k" by linarith
  show ?thesis
  proof (cases "x = 0")
    case True
    then show ?thesis by (simp add: round_half_away_def)
  next
    case False
    with assms(1) have pos: "0 < x" by simp
    have "\<bar>x\<bar> = x" and "sgn x = 1" using pos by simp_all
    moreover have "x * 10 ^ n = of_int k" using k by simp
    ultimately have "round_half_away n x = of_int \<lfloor>of_int k + 1 / 2 :: rat\<rfloor> / 10 ^ n"
      unfolding round_half_away_def by (simp only: mult_1)
    with fl k show ?thesis by (simp only:)
  qed
qed

lemma round_half_away_eq_iff:
  assumes "0 < x"
  shows "round_half_away n x = x \<longleftrightarrow> has_scale n x"
proof
  assume eq: "round_half_away n x = x"
  have "round_half_away n x = of_int \<lfloor>x * 10 ^ n + 1 / 2\<rfloor> / 10 ^ n"
    using assms by (simp add: round_half_away_def)
  with eq show "has_scale n x" unfolding has_scale_iff by metis
next
  assume "has_scale n x"
  with assms show "round_half_away n x = x" by (simp add: round_half_away_scaled)
qed

section \<open>Third-party operations\<close>

text \<open>
  The operations of google/uuid, shopspring/decimal and of PostgreSQL's numeric and UUID
  types that the sources call, as one record that the definitions take as an argument, and
  Go's Unicode case table beyond ASCII. The laws below are their documented behaviour; \<open>val\<close>
  is the exact rational number a decimal stands for.
\<close>

record ('u, 'd) lib =
  uuid_Parse :: "string \<Rightarrow> 'u option"
  uuid_Version :: "'u \<Rightarrow> nat"
  uuid_String :: "'u \<Rightarrow> string"
  dec_NewFromString :: "string \<Rightarrow> 'd option"
  dec_String :: "'d \<Rightarrow> string"
  dec_New :: "int \<Rightarrow> int \<Rightarrow> 'd"
  dec_IsPositive :: "'d \<Rightarrow> bool"
  dec_Equal :: "'d \<Rightarrow> 'd \<Rightarrow> bool"
  dec_GreaterThan :: "'d \<Rightarrow> 'd \<Rightarrow> bool"
  dec_Round :: "'d \<Rightarrow> nat \<Rightarrow> 'd"
  dec_RoundBank :: "'d \<Rightarrow> nat \<Rightarrow> 'd"
  dec_Mul :: "'d \<Rightarrow> 'd \<Rightarrow> 'd"
  pg_numeric_in :: "string \<Rightarrow> rat option"
  pg_numeric_out :: "rat \<Rightarrow> string"
  pg_uuidv7 :: "nat \<Rightarrow> string"
  unicode_ToUpper :: "nat \<Rightarrow> nat"

definition decimal_laws :: "('u, 'd) lib \<Rightarrow> ('d \<Rightarrow> rat) \<Rightarrow> bool" where
  "decimal_laws L val \<longleftrightarrow>
     (\<forall>d. dec_IsPositive L d = (0 < val d)) \<and>
     (\<forall>a b. dec_Equal L a b = (val a = val b)) \<and>
     (\<forall>a b. dec_GreaterThan L a b = (val b < val a)) \<and>
     (\<forall>c e. val (dec_New L c e) = of_int c * 10 powi e) \<and>
     (\<forall>d n. val (dec_Round L d n) = round_half_away n (val d)) \<and>
     (\<forall>d n. val (dec_RoundBank L d n) = round_half_even n (val d)) \<and>
     (\<forall>a b. val (dec_Mul L a b) = val a * val b) \<and>
     (\<forall>d. \<exists>d'. dec_NewFromString L (dec_String L d) = Some d' \<and> val d' = val d)"

lemma decimal_lawsD:
  assumes "decimal_laws L val"
  shows "dec_IsPositive L d = (0 < val d)"
    and "dec_Equal L a b = (val a = val b)"
    and "dec_GreaterThan L a b = (val b < val a)"
    and "val (dec_New L c e) = of_int c * 10 powi e"
    and "val (dec_Round L d n) = round_half_away n (val d)"
    and "val (dec_RoundBank L d n) = round_half_even n (val d)"
    and "val (dec_Mul L a b) = val a * val b"
    and "\<exists>d'. dec_NewFromString L (dec_String L d) = Some d' \<and> val d' = val d"
  using assms unfolding decimal_laws_def by blast+

text \<open>
  PostgreSQL's \<^verbatim>\<open>numeric\<close> holds every decimal with up to 131072 digits before and 16383 after the
  decimal point; in that range it reads decimal text exactly and prints an exact decimal.
\<close>

definition numeric_scale_limit :: nat where "numeric_scale_limit = 16383"
definition numeric_digits_limit :: nat where "numeric_digits_limit = 131072"

definition in_numeric_range :: "rat \<Rightarrow> bool" where
  "in_numeric_range r \<longleftrightarrow> has_scale numeric_scale_limit r \<and> \<bar>r\<bar> < 10 ^ numeric_digits_limit"

definition numeric_laws :: "('u, 'd) lib \<Rightarrow> ('d \<Rightarrow> rat) \<Rightarrow> bool" where
  "numeric_laws L val \<longleftrightarrow>
     (\<forall>d. in_numeric_range (val d) \<longrightarrow> pg_numeric_in L (dec_String L d) = Some (val d)) \<and>
     (\<forall>r. in_numeric_range r \<longrightarrow>
        (\<exists>d. dec_NewFromString L (pg_numeric_out L r) = Some d \<and> val d = r))"

lemma numeric_lawsD:
  assumes "numeric_laws L val"
  shows "in_numeric_range (val d) \<Longrightarrow> pg_numeric_in L (dec_String L d) = Some (val d)"
    and "in_numeric_range r \<Longrightarrow> \<exists>d. dec_NewFromString L (pg_numeric_out L r) = Some d \<and> val d = r"
  using assms unfolding numeric_laws_def by blast+

text \<open>
  The canonical text of a UUID parses back to it and is not empty; the text PostgreSQL prints
  for a \<^verbatim>\<open>uuidv7()\<close> value is the canonical text of a version-7 UUID. That successive values
  differ is stated where it is used, as freshness of the identifiers still to be drawn.
\<close>

definition uuid_laws :: "('u, 'd) lib \<Rightarrow> bool" where
  "uuid_laws L \<longleftrightarrow>
     (\<forall>v u. uuid_Parse L v = Some u \<longrightarrow>
        uuid_Parse L (uuid_String L u) = Some u \<and> uuid_String L u \<noteq> []) \<and>
     (\<forall>n. \<exists>u. uuid_Parse L (pg_uuidv7 L n) = Some u \<and> uuid_Version L u = 7 \<and>
        uuid_String L u = pg_uuidv7 L n)"

lemma uuid_lawsD:
  assumes "uuid_laws L"
  shows "uuid_Parse L v = Some u \<Longrightarrow> uuid_Parse L (uuid_String L u) = Some u"
    and "uuid_Parse L v = Some u \<Longrightarrow> uuid_String L u \<noteq> []"
    and "\<exists>u. uuid_Parse L (pg_uuidv7 L n) = Some u \<and> uuid_Version L u = 7 \<and>
        uuid_String L u = pg_uuidv7 L n"
  using assms unfolding uuid_laws_def by blast+

end
