(* ===== verification/Go_Strings.thy ===== *)
theory Go_Strings
  imports Prelude
begin

text \<open>
  Go strings are byte sequences; \<open>string\<close> is a list of bytes too. This theory models the parts
  of the language and of package \<^verbatim>\<open>strings\<close> that the sources use on them: byte comparisons, the
  rune iteration of a \<^verbatim>\<open>range\<close> loop (UTF-8 decoding, invalid bytes read as U+FFFD),
  \<^verbatim>\<open>strings.ToUpper\<close>, \<^verbatim>\<open>strings.Cut\<close> and \<^verbatim>\<open>strings.ContainsAny\<close>. The Unicode case table beyond
  ASCII is data of package \<^verbatim>\<open>unicode\<close> and stays a parameter.
\<close>

definition byte_of :: "char \<Rightarrow> nat" where
  "byte_of c = of_char c"

lemma byte_of_less [simp]: "byte_of c < 256"
  by (simp add: byte_of_def)

lemma char_of_byte_of [simp]: "char_of (byte_of c) = c"
  by (simp add: byte_of_def)

lemma byte_of_char_of [simp]: "n < 256 \<Longrightarrow> byte_of (char_of n) = n"
  by (simp add: byte_of_def)

definition byte_in :: "char \<Rightarrow> char \<Rightarrow> char \<Rightarrow> bool" where
  "byte_in lo hi c \<longleftrightarrow> byte_of lo \<le> byte_of c \<and> byte_of c \<le> byte_of hi"

definition is_digit_byte :: "char \<Rightarrow> bool" where
  "is_digit_byte = byte_in (CHR ''0'') (CHR ''9'')"

definition is_upper_byte :: "char \<Rightarrow> bool" where
  "is_upper_byte = byte_in (CHR ''A'') (CHR ''Z'')"

definition is_lower_byte :: "char \<Rightarrow> bool" where
  "is_lower_byte = byte_in (CHR ''a'') (CHR ''z'')"

definition is_ascii_byte :: "char \<Rightarrow> bool" where
  "is_ascii_byte c \<longleftrightarrow> byte_of c < 128"

lemmas byte_class_defs = byte_in_def is_digit_byte_def is_upper_byte_def is_lower_byte_def
  is_ascii_byte_def byte_of_def

section \<open>Runes\<close>

definition rune_error :: nat where
  "rune_error = 65533"

definition cont_byte :: "nat \<Rightarrow> bool" where
  "cont_byte b \<longleftrightarrow> 128 \<le> b \<and> b \<le> 191"

text \<open>
  One step of \<^verbatim>\<open>utf8.DecodeRuneInString\<close>: the rune and its width in bytes. Sequences of two,
  three and four bytes first, each with the ranges UTF-8 allows for its second byte.
\<close>

fun decode_2 :: "nat \<Rightarrow> nat list \<Rightarrow> (nat \<times> nat) option" where
  "decode_2 b (b1 # _) = (if cont_byte b1 then Some ((b - 192) * 64 + (b1 - 128), 2) else None)"
| "decode_2 b _ = None"

fun decode_3 :: "nat \<Rightarrow> nat list \<Rightarrow> (nat \<times> nat) option" where
  "decode_3 b (b1 # b2 # _) =
     (if (if b = 224 then 160 else 128) \<le> b1 \<and> b1 \<le> (if b = 237 then 159 else 191) \<and> cont_byte b2
      then Some ((b - 224) * 4096 + (b1 - 128) * 64 + (b2 - 128), 3) else None)"
| "decode_3 b _ = None"

fun decode_4 :: "nat \<Rightarrow> nat list \<Rightarrow> (nat \<times> nat) option" where
  "decode_4 b (b1 # b2 # b3 # _) =
     (if (if b = 240 then 144 else 128) \<le> b1 \<and> b1 \<le> (if b = 244 then 143 else 191)
         \<and> cont_byte b2 \<and> cont_byte b3
      then Some ((b - 240) * 262144 + (b1 - 128) * 4096 + (b2 - 128) * 64 + (b3 - 128), 4)
      else None)"
| "decode_4 b _ = None"

definition decode_multi :: "nat \<Rightarrow> nat list \<Rightarrow> (nat \<times> nat) option" where
  "decode_multi b bs =
     (if 194 \<le> b \<and> b \<le> 223 then decode_2 b bs
      else if 224 \<le> b \<and> b \<le> 239 then decode_3 b bs
      else if 240 \<le> b \<and> b \<le> 244 then decode_4 b bs
      else None)"

fun decode_rune :: "nat list \<Rightarrow> nat \<times> nat" where
  "decode_rune [] = (rune_error, 0)"
| "decode_rune (b # bs) =
     (if b < 128 then (b, 1)
      else case decode_multi b bs of Some rw \<Rightarrow> rw | None \<Rightarrow> (rune_error, 1))"

lemma decode_2_Some:
  "decode_2 b bs = Some (r, w) \<Longrightarrow> 194 \<le> b \<Longrightarrow>
     128 \<le> r \<and> 0 < w \<and> (\<forall>x\<in>set (take (w - 1) bs). 128 \<le> x)"
  by (cases "(b, bs)" rule: decode_2.cases) (auto simp: cont_byte_def split: if_splits)

lemma decode_3_Some:
  "decode_3 b bs = Some (r, w) \<Longrightarrow> 224 \<le> b \<Longrightarrow>
     128 \<le> r \<and> 0 < w \<and> (\<forall>x\<in>set (take (w - 1) bs). 128 \<le> x)"
  by (cases "(b, bs)" rule: decode_3.cases) (auto simp: cont_byte_def split: if_splits)

lemma decode_4_Some:
  "decode_4 b bs = Some (r, w) \<Longrightarrow> 240 \<le> b \<Longrightarrow>
     128 \<le> r \<and> 0 < w \<and> (\<forall>x\<in>set (take (w - 1) bs). 128 \<le> x)"
  by (cases "(b, bs)" rule: decode_4.cases) (auto simp: cont_byte_def split: if_splits)

lemma decode_multi_Some:
  assumes "decode_multi b bs = Some (r, w)"
  shows "128 \<le> r \<and> 0 < w \<and> (\<forall>x\<in>set (take (w - 1) bs). 128 \<le> x)"
proof -
  from assms have "decode_2 b bs = Some (r, w) \<and> 194 \<le> b \<or> decode_3 b bs = Some (r, w) \<and> 224 \<le> b \<or>
    decode_4 b bs = Some (r, w) \<and> 240 \<le> b"
    by (simp add: decode_multi_def split: if_splits)
  then show ?thesis using decode_2_Some decode_3_Some decode_4_Some by blast
qed

lemma decode_rune_width: "0 < snd (decode_rune (b # bs))"
  by (auto split: option.splits dest: decode_multi_Some)

declare decode_rune.simps(2) [simp del]

text \<open>The runes of a \<^verbatim>\<open>range\<close> loop over a string.\<close>

function range_runes :: "nat list \<Rightarrow> nat list" where
  "range_runes [] = []"
| "range_runes (b # bs) =
     fst (decode_rune (b # bs)) # range_runes (drop (snd (decode_rune (b # bs))) (b # bs))"
  by pat_completeness auto
termination
proof (relation "measure length")
  fix b :: nat and bs :: "nat list"
  show "(drop (snd (decode_rune (b # bs))) (b # bs), b # bs) \<in> measure length"
    using decode_rune_width [of b bs] by (simp add: diff_less)
qed simp

definition encode_rune :: "nat \<Rightarrow> nat list" where
  "encode_rune r =
     (let r = (if 1114111 < r \<or> (55296 \<le> r \<and> r \<le> 57343) then rune_error else r)
      in if r < 128 then [r]
         else if r < 2048 then [192 + r div 64, 128 + r mod 64]
         else if r < 65536 then [224 + r div 4096, 128 + r div 64 mod 64, 128 + r mod 64]
         else [240 + r div 262144, 128 + r div 4096 mod 64, 128 + r div 64 mod 64, 128 + r mod 64])"

definition upper_rune :: "(nat \<Rightarrow> nat) \<Rightarrow> nat \<Rightarrow> nat" where
  "upper_rune tab r = (if 97 \<le> r \<and> r \<le> 122 then r - 32 else if r < 128 then r else tab r)"

definition ascii_upper :: "char \<Rightarrow> char" where
  "ascii_upper c = (if is_lower_byte c then char_of (byte_of c - 32) else c)"

text \<open>
  \<^verbatim>\<open>strings.ToUpper\<close>: byte-wise on ASCII strings, otherwise \<^verbatim>\<open>strings.Map(unicode.ToUpper, s)\<close>.
\<close>

definition strings_ToUpper :: "(nat \<Rightarrow> nat) \<Rightarrow> string \<Rightarrow> string" where
  "strings_ToUpper tab s =
     (if list_all is_ascii_byte s then map ascii_upper s
      else map char_of (concat (map (encode_rune \<circ> upper_rune tab) (range_runes (map byte_of s)))))"

section \<open>Cut and ContainsAny\<close>

text \<open>\<^verbatim>\<open>strings.Cut\<close> at the first occurrence of a one-byte separator.\<close>

fun strings_Cut :: "char \<Rightarrow> string \<Rightarrow> (string \<times> string) option" where
  "strings_Cut sep [] = None"
| "strings_Cut sep (c # cs) =
     (if c = sep then Some ([], cs)
      else map_option (\<lambda>(a, b). (c # a, b)) (strings_Cut sep cs))"

definition strings_ContainsAny :: "string \<Rightarrow> string \<Rightarrow> bool" where
  "strings_ContainsAny s chars \<longleftrightarrow> list_ex (\<lambda>c. c \<in> set chars) s"

lemma strings_Cut_Some: "strings_Cut sep s = Some (a, b) \<longleftrightarrow> s = a @ sep # b \<and> sep \<notin> set a"
proof (induction s arbitrary: a)
  case Nil
  then show ?case by simp
next
  case (Cons c cs)
  show ?case by (cases a) (auto simp: Cons.IH)
qed

lemma strings_Cut_None: "strings_Cut sep s = None \<longleftrightarrow> sep \<notin> set s"
  by (induction s) auto

section \<open>Lemmas\<close>

lemma ascii_upper_fixes: "\<not> is_lower_byte c \<Longrightarrow> ascii_upper c = c"
  by (simp add: ascii_upper_def)

lemma strings_ToUpper_ascii:
  "list_all is_ascii_byte s \<Longrightarrow> strings_ToUpper tab s = map ascii_upper s"
  by (simp add: strings_ToUpper_def)

lemma strings_ToUpper_fixes:
  assumes "list_all (\<lambda>c. is_ascii_byte c \<and> \<not> is_lower_byte c) s"
  shows "strings_ToUpper tab s = s"
proof -
  have "map ascii_upper s = s"
    using assms by (induction s) (auto simp: ascii_upper_fixes)
  moreover have "list_all is_ascii_byte s" using assms by (induction s) auto
  ultimately show ?thesis by (simp add: strings_ToUpper_ascii)
qed

text \<open>
  A byte below 0x80 is a rune of the loop, and a rune below 0x80 is a byte of the string: UTF-8
  never hides an ASCII byte inside a longer sequence.
\<close>

lemma decode_rune_ascii: "b < 128 \<Longrightarrow> decode_rune (b # bs) = (b, 1)"
  by (simp add: decode_rune.simps(2))

lemma decode_rune_multi:
  assumes "\<not> b < 128"
  shows "128 \<le> fst (decode_rune (b # bs)) \<and>
    (\<forall>x\<in>set (take (snd (decode_rune (b # bs))) (b # bs)). 128 \<le> x)"
proof (cases "decode_multi b bs")
  case None
  with assms show ?thesis by (simp add: decode_rune.simps(2) rune_error_def)
next
  case (Some rw)
  obtain r w where rw: "rw = (r, w)" by force
  with Some have d: "decode_multi b bs = Some (r, w)" by simp
  from decode_multi_Some [OF d] have "0 < w" by blast
  then have "take w (b # bs) = b # take (w - 1) bs" by (cases w) auto
  with decode_multi_Some [OF d] d assms show ?thesis by (simp add: decode_rune.simps(2))
qed

lemma ascii_rune_iff:
  assumes "r < 128"
  shows "r \<in> set (range_runes bs) \<longleftrightarrow> r \<in> set bs"
proof (induction bs rule: range_runes.induct)
  case 1
  then show ?case by simp
next
  case (2 b bs)
  let ?w = "snd (decode_rune (b # bs))"
  have split: "set (b # bs) = set (take ?w (b # bs)) \<union> set (drop ?w (b # bs))"
    by (metis append_take_drop_id set_append)
  show ?case
  proof (cases "b < 128")
    case True
    with "2.IH" show ?thesis by (auto simp: decode_rune_ascii)
  next
    case False
    then have "r \<noteq> fst (decode_rune (b # bs))" and "r \<notin> set (take ?w (b # bs))"
      using decode_rune_multi [of b bs] assms by (auto simp del: set_take_subset)
    with "2.IH" split show ?thesis by auto
  qed
qed

end
