(* ===== verification/Exchange.thy ===== *)
theory Exchange
  imports Go_Strings
begin

text \<open>
  Package \<^verbatim>\<open>exchange\<close>: the domain values and their parsers (\<^verbatim>\<open>model.go\<close>), operations, permissions
  and request contexts (\<^verbatim>\<open>security.go\<close>), and the application service that validates a request
  before it reaches the store (\<^verbatim>\<open>service.go\<close>). The store is an interface in the code and a record
  of operations here, which \<open>Store\<close> fills with the operations on PostgreSQL.
\<close>

section \<open>model.go\<close>

definition MinBondSeriesLength :: nat where "MinBondSeriesLength = 3"
definition MaxBondSeriesLength :: nat where "MaxBondSeriesLength = 40"
definition MonetaryAmountPrecision :: nat where "MonetaryAmountPrecision = 14"
definition MonetaryAmountScale :: nat where "MonetaryAmountScale = 4"

definition maxMonetaryAmount :: "('u, 'd) lib \<Rightarrow> 'd" where
  "maxMonetaryAmount L = dec_New L 99999999999999 (- int MonetaryAmountScale)"

type_synonym PrincipalID = string
type_synonym OfferID = string
type_synonym PurchaseID = string
type_synonym BondSeries = string
type_synonym CurrencyCode = string

definition isCanonicalUUIDVersion :: "('u, 'd) lib \<Rightarrow> string \<Rightarrow> nat \<Rightarrow> bool" where
  "isCanonicalUUIDVersion L v ver =
     (case uuid_Parse L v of
        None \<Rightarrow> False
      | Some u \<Rightarrow> uuid_Version L u = ver \<and> uuid_String L u = v)"

definition ParseOfferID :: "('u, 'd) lib \<Rightarrow> string \<Rightarrow> OfferID result" where
  "ParseOfferID L v = (if \<not> isCanonicalUUIDVersion L v 7 then Inl ErrInvalidOfferID else Inr v)"

text \<open>
  The loop returns false at the first byte outside \<^verbatim>\<open>0-9\<close> and \<^verbatim>\<open>A-Z\<close>. Lengths are in bytes.
\<close>

definition IsCanonicalBondSeries :: "string \<Rightarrow> bool" where
  "IsCanonicalBondSeries v =
     (if length v < MinBondSeriesLength \<or> MaxBondSeriesLength < length v then False
      else list_all (\<lambda>c. is_digit_byte c \<or> is_upper_byte c) v)"

definition ParseBondSeries :: "('u, 'd) lib \<Rightarrow> string \<Rightarrow> BondSeries result" where
  "ParseBondSeries L v =
     (let canonical = strings_ToUpper (unicode_ToUpper L) v
      in if \<not> IsCanonicalBondSeries canonical then Inl ErrInvalidBondSeries else Inr canonical)"

definition ParsePrice :: "('u, 'd) lib \<Rightarrow> string \<Rightarrow> 'd result" where
  "ParsePrice L v =
     (case dec_NewFromString L v of
        None \<Rightarrow> Inl ErrInvalidPrice
      | Some price \<Rightarrow>
          if \<not> dec_IsPositive L price
             \<or> \<not> dec_Equal L price (dec_Round L price MonetaryAmountScale)
             \<or> dec_GreaterThan L price (maxMonetaryAmount L)
          then Inl ErrInvalidPrice
          else Inr price)"

definition MXN :: CurrencyCode where "MXN = ''MXN''"

definition ParseCurrencyCode :: "string \<Rightarrow> CurrencyCode result" where
  "ParseCurrencyCode v =
     (if length v \<noteq> 3 then Inl ErrInvalidCurrencyCode
      else if \<not> list_all is_upper_byte v then Inl ErrInvalidCurrencyCode
      else Inr v)"

record 'd SaleOffer =
  so_ID :: OfferID
  so_SellerID :: PrincipalID
  so_BondSeries :: BondSeries
  so_Price :: 'd
  so_Currency :: CurrencyCode

record 'd Purchase =
  pu_ID :: PurchaseID
  pu_Offer :: "'d SaleOffer"
  pu_BuyerID :: PrincipalID
  pu_BoughtAt :: int

section \<open>security.go\<close>

definition OperationBuy :: string where "OperationBuy = ''purchases.buy''"
definition OperationCreateSaleOffer :: string where "OperationCreateSaleOffer = ''offers.create''"
definition OperationQuoteSaleOffer :: string where "OperationQuoteSaleOffer = ''offers.quote''"
definition OperationListActiveOffers :: string where "OperationListActiveOffers = ''offers.list''"
definition OperationListBondSeries :: string where "OperationListBondSeries = ''bond-series.list''"
definition OperationCheckHealth :: string where "OperationCheckHealth = ''health.read''"
definition OperationPublishPendingEvents :: string where
  "OperationPublishPendingEvents = ''events.publish-pending''"

lemmas operation_defs = OperationBuy_def OperationCreateSaleOffer_def OperationQuoteSaleOffer_def
  OperationListActiveOffers_def OperationListBondSeries_def OperationCheckHealth_def
  OperationPublishPendingEvents_def

definition PermissionBuy :: string where "PermissionBuy = ''purchases.buy''"
definition PermissionCreateSaleOffer :: string where "PermissionCreateSaleOffer = ''offers.create''"
definition PermissionQuoteSaleOffer :: string where "PermissionQuoteSaleOffer = ''offers.quote''"
definition PermissionListActiveOffers :: string where "PermissionListActiveOffers = ''offers.list''"
definition PermissionListBondSeries :: string where "PermissionListBondSeries = ''offers.list''"
definition PermissionCheckHealth :: string where "PermissionCheckHealth = ''health.read''"
definition PermissionPublishEvents :: string where "PermissionPublishEvents = ''events.publish''"

type_synonym byte = "8 word"

record Principal =
  p_ID :: PrincipalID
  p_Issuer :: string
  p_Subject :: string
  p_ClientID :: string
  p_ClientClass :: string

record AccessContext =
  ac_Principal :: Principal
  ac_Operation :: string
  ac_AssertionID :: string
  ac_AssertionDigest :: "byte list"
  ac_RequestDigest :: "byte list"

record MutationContext =
  mc_Access :: AccessContext
  mc_IdempotencyKey :: string

definition IsValidIdempotencyKey :: "('u, 'd) lib \<Rightarrow> string \<Rightarrow> bool" where
  "IsValidIdempotencyKey L v = isCanonicalUUIDVersion L v 4"

section \<open>service.go\<close>

text \<open>
  \<^verbatim>\<open>Store\<close>: an operation takes the world it runs in and returns its result and the next world.
  A \<^verbatim>\<open>yield\<close> callback is a function of the same shape; a nil callback is \<open>None\<close>.
\<close>

record ('d, 'w) Store =
  st_Buy :: "MutationContext \<Rightarrow> OfferID \<Rightarrow> 'w \<Rightarrow> 'd Purchase result \<times> 'w"
  st_CreateSaleOffer :: "MutationContext \<Rightarrow> 'd SaleOffer \<Rightarrow> 'w \<Rightarrow> 'd SaleOffer result \<times> 'w"
  st_StreamActiveOffers ::
    "AccessContext \<Rightarrow> BondSeries \<Rightarrow> ('d SaleOffer \<Rightarrow> 'w \<Rightarrow> unit result \<times> 'w) \<Rightarrow> 'w \<Rightarrow> unit result \<times> 'w"
  st_ActiveBondSeries :: "AccessContext \<Rightarrow> 'w \<Rightarrow> BondSeries list result \<times> 'w"

definition Service_Buy ::
  "('u, 'd) lib \<Rightarrow> ('d, 'w) Store \<Rightarrow> AccessContext \<Rightarrow> string \<Rightarrow> string \<Rightarrow> 'w
     \<Rightarrow> 'd Purchase result \<times> 'w" where
  "Service_Buy L store access key offer w =
     (if ac_Operation access \<noteq> OperationBuy \<or> p_ID (ac_Principal access) = '''' then
        (Inl ErrInvalidOperation, w)
      else if \<not> IsValidIdempotencyKey L key then (Inl ErrInvalidIdempotencyKey, w)
      else (case ParseOfferID L offer of
              Inl e \<Rightarrow> (Inl e, w)
            | Inr offerID \<Rightarrow>
                st_Buy store \<lparr>mc_Access = access, mc_IdempotencyKey = key\<rparr> offerID w))"

definition PrepareSaleOffer ::
  "('u, 'd) lib \<Rightarrow> AccessContext \<Rightarrow> string \<Rightarrow> string \<Rightarrow> string \<Rightarrow> string
     \<Rightarrow> (MutationContext \<times> 'd SaleOffer) result" where
  "PrepareSaleOffer L access key bond price currency =
     (if ac_Operation access \<noteq> OperationCreateSaleOffer \<or> p_ID (ac_Principal access) = '''' then
        Inl ErrInvalidOperation
      else if \<not> IsValidIdempotencyKey L key then Inl ErrInvalidIdempotencyKey
      else bind_r (ParseBondSeries L bond) (\<lambda>bondSeries.
           bind_r (ParsePrice L price) (\<lambda>offerPrice.
           case ParseCurrencyCode currency of
             Inl _ \<Rightarrow> Inl ErrInvalidCurrencyCode
           | Inr currencyCode \<Rightarrow>
               if currencyCode \<noteq> MXN then Inl ErrInvalidCurrencyCode
               else Inr (\<lparr>mc_Access = access, mc_IdempotencyKey = key\<rparr>,
                         \<lparr>so_ID = '''', so_SellerID = p_ID (ac_Principal access),
                          so_BondSeries = bondSeries, so_Price = offerPrice,
                          so_Currency = currencyCode\<rparr>))))"

definition Service_CreateSaleOffer ::
  "('u, 'd) lib \<Rightarrow> ('d, 'w) Store \<Rightarrow> AccessContext \<Rightarrow> string \<Rightarrow> string \<Rightarrow> string \<Rightarrow> string \<Rightarrow> 'w
     \<Rightarrow> 'd SaleOffer result \<times> 'w" where
  "Service_CreateSaleOffer L store access key bond price currency w =
     (case PrepareSaleOffer L access key bond price currency of
        Inl e \<Rightarrow> (Inl e, w)
      | Inr (operation, offer) \<Rightarrow> st_CreateSaleOffer store operation offer w)"

definition Service_StreamActiveOffers ::
  "('u, 'd) lib \<Rightarrow> ('d, 'w) Store \<Rightarrow> AccessContext \<Rightarrow> string
     \<Rightarrow> ('d SaleOffer \<Rightarrow> 'w \<Rightarrow> unit result \<times> 'w) option \<Rightarrow> 'w \<Rightarrow> unit result \<times> 'w" where
  "Service_StreamActiveOffers L store access bond yield w =
     (if ac_Operation access \<noteq> OperationListActiveOffers \<or> p_ID (ac_Principal access) = '''' then
        (Inl ErrInvalidOperation, w)
      else case yield of
             None \<Rightarrow> (Inl ErrInvalidOperation, w)
           | Some y \<Rightarrow>
               (case ParseBondSeries L bond of
                  Inl e \<Rightarrow> (Inl e, w)
                | Inr series \<Rightarrow> st_StreamActiveOffers store access series y w))"

definition Service_ActiveBondSeries ::
  "('d, 'w) Store \<Rightarrow> AccessContext \<Rightarrow> 'w \<Rightarrow> BondSeries list result \<times> 'w" where
  "Service_ActiveBondSeries store access w =
     (if ac_Operation access \<noteq> OperationListBondSeries \<or> p_ID (ac_Principal access) = '''' then
        (Inl ErrInvalidOperation, w)
      else st_ActiveBondSeries store access w)"

section \<open>Values accepted by the parsers\<close>

lemma isCanonicalUUIDVersion_iff:
  assumes "uuid_laws L"
  shows "isCanonicalUUIDVersion L v ver \<longleftrightarrow>
    (\<exists>t u. uuid_Parse L t = Some u \<and> uuid_Version L u = ver \<and> v = uuid_String L u)"
proof
  assume "isCanonicalUUIDVersion L v ver"
  then show "\<exists>t u. uuid_Parse L t = Some u \<and> uuid_Version L u = ver \<and> v = uuid_String L u"
    by (auto simp: isCanonicalUUIDVersion_def split: option.splits)
next
  assume "\<exists>t u. uuid_Parse L t = Some u \<and> uuid_Version L u = ver \<and> v = uuid_String L u"
  then obtain t u where u: "uuid_Parse L t = Some u" "uuid_Version L u = ver" "v = uuid_String L u"
    by blast
  with uuid_lawsD(1) [OF assms] have "uuid_Parse L v = Some u" by blast
  with u show "isCanonicalUUIDVersion L v ver" by (simp add: isCanonicalUUIDVersion_def)
qed

lemma pg_uuidv7_canonical: "uuid_laws L \<Longrightarrow> isCanonicalUUIDVersion L (pg_uuidv7 L n) 7"
  using uuid_lawsD(3) [of L n] by (auto simp: isCanonicalUUIDVersion_def)

lemma ParseOfferID_Inr: "ParseOfferID L v = Inr i \<longleftrightarrow> i = v \<and> isCanonicalUUIDVersion L v 7"
  by (auto simp: ParseOfferID_def)

lemma canonical_series_bytes:
  assumes "IsCanonicalBondSeries v"
  shows "list_all (\<lambda>c. is_ascii_byte c \<and> \<not> is_lower_byte c) v"
proof -
  have "list_all (\<lambda>c. is_digit_byte c \<or> is_upper_byte c) v"
    using assms by (simp add: IsCanonicalBondSeries_def split: if_splits)
  moreover have "is_digit_byte c \<or> is_upper_byte c \<Longrightarrow> is_ascii_byte c \<and> \<not> is_lower_byte c" for c
    by (auto simp: byte_class_defs)
  ultimately show ?thesis by (simp add: list_all_iff)
qed

lemma canonical_series_ToUpper: "IsCanonicalBondSeries v \<Longrightarrow> strings_ToUpper tab v = v"
  by (rule strings_ToUpper_fixes) (rule canonical_series_bytes)

lemma ParseBondSeries_Inr:
  "ParseBondSeries L v = Inr s \<longleftrightarrow> s = strings_ToUpper (unicode_ToUpper L) v \<and> IsCanonicalBondSeries s"
  by (auto simp: ParseBondSeries_def Let_def)

definition valid_price :: "rat \<Rightarrow> bool" where
  "valid_price r \<longleftrightarrow> 0 < r \<and> r \<le> 99999999999999 / 10000 \<and> has_scale MonetaryAmountScale r"

lemma max_amount_val:
  assumes "decimal_laws L val"
  shows "val (maxMonetaryAmount L) = 99999999999999 / 10000"
  by (simp add: maxMonetaryAmount_def MonetaryAmountScale_def decimal_lawsD(4) [OF assms] power_int_def
    power_divide)

lemma price_checks:
  assumes "decimal_laws L val"
  shows "(dec_IsPositive L d \<and> dec_Equal L d (dec_Round L d MonetaryAmountScale)
      \<and> \<not> dec_GreaterThan L d (maxMonetaryAmount L)) \<longleftrightarrow> valid_price (val d)"
  using round_half_away_eq_iff [of "val d" MonetaryAmountScale]
  by (auto simp: decimal_lawsD [OF assms] max_amount_val [OF assms] valid_price_def not_less)

lemma ParsePrice_Inr:
  assumes "decimal_laws L val"
  shows "ParsePrice L v = Inr d \<longleftrightarrow> dec_NewFromString L v = Some d \<and> valid_price (val d)"
  by (auto simp: ParsePrice_def price_checks [OF assms, symmetric] split: option.splits)

lemma ParsePrice_error: "ParsePrice L v = Inl e \<Longrightarrow> e = ErrInvalidPrice"
  by (auto simp: ParsePrice_def split: option.splits if_splits)

lemma ParsePrice_String:
  assumes "decimal_laws L val" and "valid_price (val d)"
  shows "\<exists>d'. ParsePrice L (dec_String L d) = Inr d' \<and> val d' = val d"
proof -
  obtain d' where d': "dec_NewFromString L (dec_String L d) = Some d'" "val d' = val d"
    using decimal_lawsD(8) [OF assms(1)] by blast
  with assms show ?thesis by (auto simp: ParsePrice_Inr)
qed

lemma valid_price_numeric:
  assumes "valid_price r"
  shows "in_numeric_range r"
proof -
  have "has_scale numeric_scale_limit r"
    using assms has_scale_mono [of MonetaryAmountScale r numeric_scale_limit]
    by (simp add: valid_price_def MonetaryAmountScale_def numeric_scale_limit_def)
  moreover have "\<bar>r\<bar> < 10 ^ 10" using assms by (simp add: valid_price_def)
  moreover have "(10::rat) ^ 10 \<le> 10 ^ numeric_digits_limit"
    by (rule power_increasing) (simp_all add: numeric_digits_limit_def)
  ultimately show ?thesis unfolding in_numeric_range_def by linarith
qed

lemma ParsePrice_numeric_out:
  assumes "decimal_laws L val" and "numeric_laws L val" and "valid_price r"
  shows "\<exists>d. ParsePrice L (pg_numeric_out L r) = Inr d \<and> val d = r"
  using numeric_lawsD(2) [OF assms(2) valid_price_numeric [OF assms(3)]] assms
  by (auto simp: ParsePrice_Inr)

section \<open>Properties of the domain values\<close>

end
