(* ===== verification/Database.thy ===== *)
theory Database
  imports Exchange
begin

text \<open>
  The PostgreSQL schema at the end of the migration history (\<^verbatim>\<open>db/migrations\<close>): one record per
  table with the columns the Go sources read or write, tables as lists of rows in insertion
  order. Fact tables only ever grow; the mutable coordination tables (delivery leases, rate-limit
  windows, rate-fetch coordination) are updated in place. Identifiers drawn with \<^verbatim>\<open>uuidv7()\<close> come
  from the library parameter, indexed by a counter of the database. Timestamps are
  microseconds, dates are day numbers, both as integers.
\<close>

section \<open>Identity and authorization facts\<close>

record principal_row =
  pr_uuid :: string
  pr_issuer :: string
  pr_subject :: string
  pr_client_class :: string

record suspension_row =
  su_uuid :: string
  su_principal :: string

record reinstatement_row =
  re_suspension :: string

record permission_row =
  pm_uuid :: string
  pm_code :: string

record role_permission_grant_row =
  rpg_uuid :: string
  rpg_role :: string
  rpg_permission :: string

record principal_role_grant_row =
  prg_uuid :: string
  prg_principal :: string
  prg_role :: string

section \<open>Marketplace facts\<close>

record bond_row =
  bo_uuid :: string
  bo_series :: string

record sale_offer_row =
  of_uuid :: string
  of_seller :: string
  of_bond :: string
  of_price :: rat
  of_currency :: string

record canonical_terms_row =
  ct_offer :: string
  ct_price :: rat
  ct_currency :: string

record submission_row =
  sb_offer :: string
  sb_price :: rat
  sb_currency :: string
  sb_quote :: "string option"

record quote_row =
  cq_uuid :: string
  cq_principal :: string
  cq_bond :: string
  cq_submitted_price :: rat
  cq_currency :: string
  cq_mxn_price :: rat
  cq_observation :: string
  cq_rounding :: string
  cq_created_at :: int
  cq_expires_at :: int

record purchase_row =
  pc_uuid :: string
  pc_offer :: string
  pc_buyer :: string
  pc_bought_at :: int

section \<open>Operations and integration events\<close>

record claim_row =
  cl_uuid :: string
  cl_principal :: string
  cl_client :: string
  cl_operation :: string
  cl_nonce :: string
  cl_request_digest :: "byte list"
  cl_assertion_digest :: "byte list"

record result_row =
  rs_claim :: string
  rs_outcome :: string
  rs_resource :: "string option"
  rs_error :: "string option"
  rs_completed_at :: int

record event_row =
  ev_uuid :: string
  ev_table :: string
  ev_source :: string
  ev_version :: nat
  ev_completed_at :: int

record delivery_row =
  dl_destination :: string
  dl_event :: string
  dl_attempts :: nat
  dl_lease_nonce :: "string option"
  dl_lease_until :: "int option"
  dl_next_attempt :: int
  dl_delivered_at :: "int option"
  dl_error_class :: "string option"

record rate_limit_row =
  rl_principal :: string
  rl_window :: int
  rl_count :: int
  rl_updated :: int

section \<open>Exchange rates\<close>

record import_row =
  im_uuid :: string
  im_kind :: string
  im_series :: "string list"
  im_period :: "(int \<times> int) option"
  im_response :: string
  im_digest :: "byte list"

record observation_row =
  ob_uuid :: string
  ob_import :: string
  ob_series :: string
  ob_base :: string
  ob_quote :: string
  ob_observed_on :: int
  ob_value :: rat
  ob_recorded_at :: int
  ob_revision :: nat

record coordination_row =
  fc_key :: string
  fc_series :: string
  fc_base :: string
  fc_quote :: string
  fc_kind :: string
  fc_period :: "(int \<times> int) option"
  fc_covered_until :: "int option"
  fc_completed_at :: "int option"
  fc_fresh_until :: "int option"
  fc_lease_nonce :: "string option"
  fc_lease_until :: "int option"
  fc_next_attempt :: int
  fc_error_class :: "string option"

section \<open>The database\<close>

record database =
  principals :: "principal_row list"
  principal_suspensions :: "suspension_row list"
  principal_reinstatements :: "reinstatement_row list"
  permissions :: "permission_row list"
  role_permission_grants :: "role_permission_grant_row list"
  role_permission_revocations :: "string list"
  principal_role_grants :: "principal_role_grant_row list"
  principal_role_revocations :: "string list"
  bonds :: "bond_row list"
  sale_offers :: "sale_offer_row list"
  canonical_terms :: "canonical_terms_row list"
  submissions :: "submission_row list"
  conversion_quotes :: "quote_row list"
  purchases :: "purchase_row list"
  operation_claims :: "claim_row list"
  operation_results :: "result_row list"
  integration_events :: "event_row list"
  deliveries :: "delivery_row list"
  rate_limits :: "rate_limit_row list"
  rate_imports :: "import_row list"
  observations :: "observation_row list"
  coordination :: "coordination_row list"
  provider_blocked_until :: "int option"
  next_uuid :: nat
  next_revision :: nat

definition draw_uuid :: "('u, 'd) lib \<Rightarrow> database \<Rightarrow> string \<times> database" where
  "draw_uuid L d = (pg_uuidv7 L (next_uuid d), d\<lparr>next_uuid := Suc (next_uuid d)\<rparr>)"

section \<open>Views\<close>

text \<open>
  \<^verbatim>\<open>principal_suspensions\<close> without a reinstatement, and the view
  \<^verbatim>\<open>effective_principal_permissions\<close> (migration \<^verbatim>\<open>20260904170000\<close>).
\<close>

definition suspended :: "database \<Rightarrow> string \<Rightarrow> bool" where
  "suspended d p \<longleftrightarrow>
     list_ex (\<lambda>s. su_principal s = p
       \<and> \<not> list_ex (\<lambda>r. re_suspension r = su_uuid s) (principal_reinstatements d))
       (principal_suspensions d)"

definition effective_permission :: "database \<Rightarrow> string \<Rightarrow> string \<Rightarrow> bool" where
  "effective_permission d p code \<longleftrightarrow>
     list_ex (\<lambda>g. prg_principal g = p
       \<and> prg_uuid g \<notin> set (principal_role_revocations d)
       \<and> list_ex (\<lambda>h. rpg_role h = prg_role g
             \<and> rpg_uuid h \<notin> set (role_permission_revocations d)
             \<and> list_ex (\<lambda>m. pm_uuid m = rpg_permission h \<and> pm_code m = code) (permissions d))
           (role_permission_grants d)
       \<and> \<not> suspended d (prg_principal g))
       (principal_role_grants d)"

section \<open>Constraints\<close>

text \<open>Constraint violations, as the driver reports them.\<close>

definition unique_violation :: "string \<Rightarrow> go_error" where
  "unique_violation c = PgError ''23505'' c"

definition foreign_key_violation :: "string \<Rightarrow> go_error" where
  "foreign_key_violation c = PgError ''23503'' c"

definition check_violation :: "string \<Rightarrow> go_error" where
  "check_violation c = PgError ''23514'' c"

lemmas violation_defs = unique_violation_def foreign_key_violation_def check_violation_def

text \<open>A list of guarded errors: the first condition that holds names the violation.\<close>

fun first_violation :: "(bool \<times> go_error) list \<Rightarrow> go_error option" where
  "first_violation [] = None"
| "first_violation ((b, e) # cs) = (if b then Some e else first_violation cs)"

lemma first_violation_None: "first_violation cs = None \<longleftrightarrow> (\<forall>(b, e)\<in>set cs. \<not> b)"
  by (induction cs rule: first_violation.induct) auto

text \<open>
  The domain \<^verbatim>\<open>monetary_amount\<close>, \<^verbatim>\<open>numeric(14,4)\<close>: the cast rounds half away from zero to four
  fractional digits and rejects ten or more integer digits beyond its precision.
\<close>

definition monetary_cast :: "rat \<Rightarrow> rat result" where
  "monetary_cast r =
     (let k = round_half_away 4 r
      in if 10 ^ 10 \<le> \<bar>k\<bar> then Inl (PgError ''22003'' '''') else Inr k)"

definition numeric_param :: "('u, 'd) lib \<Rightarrow> string \<Rightarrow> rat result" where
  "numeric_param L s =
     (case pg_numeric_in L s of None \<Rightarrow> Inl (PgError ''22P02'' '''') | Some r \<Rightarrow> Inr r)"

lemma monetary_cast_valid:
  assumes "valid_price r"
  shows "monetary_cast r = Inr r"
proof -
  have "round_half_away 4 r = r"
    using assms round_half_away_scaled [of r 4] by (simp add: valid_price_def MonetaryAmountScale_def)
  moreover have "\<not> 10 ^ 10 \<le> \<bar>r\<bar>" using assms by (simp add: valid_price_def)
  ultimately show ?thesis by (simp add: monetary_cast_def Let_def)
qed

lemma numeric_param_price:
  assumes "numeric_laws L val" and "valid_price (val p)"
  shows "numeric_param L (dec_String L p) = Inr (val p)"
  using numeric_lawsD(1) [OF assms(1) valid_price_numeric [OF assms(2)]]
  by (simp add: numeric_param_def)

section \<open>Growth of the fact tables\<close>

text \<open>
  The append-only rule (\<^verbatim>\<open>reject_domain_fact_mutation\<close>): every fact table of the later database
  starts with the rows of the earlier one. Coordination tables are not facts and are not
  mentioned.
\<close>

definition prefix_of :: "'a list \<Rightarrow> 'a list \<Rightarrow> bool" where
  "prefix_of xs ys \<longleftrightarrow> (\<exists>zs. ys = xs @ zs)"

definition extends :: "database \<Rightarrow> database \<Rightarrow> bool" where
  "extends d d' \<longleftrightarrow>
     prefix_of (principals d) (principals d') \<and>
     prefix_of (principal_suspensions d) (principal_suspensions d') \<and>
     prefix_of (principal_reinstatements d) (principal_reinstatements d') \<and>
     prefix_of (permissions d) (permissions d') \<and>
     prefix_of (role_permission_grants d) (role_permission_grants d') \<and>
     prefix_of (role_permission_revocations d) (role_permission_revocations d') \<and>
     prefix_of (principal_role_grants d) (principal_role_grants d') \<and>
     prefix_of (principal_role_revocations d) (principal_role_revocations d') \<and>
     prefix_of (bonds d) (bonds d') \<and>
     prefix_of (sale_offers d) (sale_offers d') \<and>
     prefix_of (canonical_terms d) (canonical_terms d') \<and>
     prefix_of (submissions d) (submissions d') \<and>
     prefix_of (conversion_quotes d) (conversion_quotes d') \<and>
     prefix_of (purchases d) (purchases d') \<and>
     prefix_of (operation_claims d) (operation_claims d') \<and>
     prefix_of (operation_results d) (operation_results d') \<and>
     prefix_of (integration_events d) (integration_events d') \<and>
     prefix_of (rate_imports d) (rate_imports d') \<and>
     prefix_of (observations d) (observations d') \<and>
     next_uuid d \<le> next_uuid d' \<and> next_revision d \<le> next_revision d'"

lemma prefix_of_refl [simp]: "prefix_of xs xs"
  by (simp add: prefix_of_def)

lemma prefix_of_snoc [simp]: "prefix_of xs (xs @ ys)"
  by (simp add: prefix_of_def)

lemma prefix_of_trans: "prefix_of xs ys \<Longrightarrow> prefix_of ys zs \<Longrightarrow> prefix_of xs zs"
  by (auto simp: prefix_of_def)

lemma prefix_of_set: "prefix_of xs ys \<Longrightarrow> set xs \<subseteq> set ys"
  by (auto simp: prefix_of_def)

lemma prefix_of_find: "prefix_of xs ys \<Longrightarrow> find P xs = Some x \<Longrightarrow> find P ys = Some x"
proof -
  assume "prefix_of xs ys" and f: "find P xs = Some x"
  then obtain zs where "ys = xs @ zs" by (auto simp: prefix_of_def)
  moreover have "find P (xs @ zs) = Some x" using f by (induction xs) auto
  ultimately show ?thesis by simp
qed

lemma extends_refl [simp]: "extends d d"
  by (simp add: extends_def)

lemma extends_trans:
  assumes "extends a b" and "extends b c"
  shows "extends a c"
  using assms unfolding extends_def by (blast intro: prefix_of_trans le_trans)

lemma extends_prefix:
  assumes "extends d d'"
  shows "prefix_of (sale_offers d) (sale_offers d')" "prefix_of (canonical_terms d) (canonical_terms d')"
    "prefix_of (purchases d) (purchases d')" "prefix_of (operation_claims d) (operation_claims d')"
    "prefix_of (operation_results d) (operation_results d')" "prefix_of (bonds d) (bonds d')"
    "prefix_of (integration_events d) (integration_events d')"
    "prefix_of (principals d) (principals d')" "prefix_of (conversion_quotes d) (conversion_quotes d')"
    "prefix_of (submissions d) (submissions d')"
  using assms by (simp_all add: extends_def)

end
