(* ===== verification/Pg_World.thy ===== *)
theory Pg_World
  imports Database
begin

text \<open>
  The world a store call runs in and the monad its code is written in. The world holds the
  committed database, the working copy of an open transaction, and the environment's script:
  for every round trip to PostgreSQL the time at which the server handles it and whether the
  request succeeds, fails, or is applied although its reply is lost. Every connection error,
  cancelled context, serialization failure or deadlock the driver can report is such a failure;
  a script that has run out means no further fault. Transactions are serializable, so a
  successful one reads and writes as if it ran alone; conflicts show up as failures with SQLSTATE
  40001 or 40P01. Telemetry calls append to \<open>metrics\<close>.
\<close>

section \<open>World and round trips\<close>

text \<open>
  \<open>ServerFailed\<close> carries a SQLSTATE without a constraint name (serialization failures, deadlocks,
  shutdowns, timeouts): the server did not apply the request. A broken link leaves it open whether
  the request was applied, \<open>LinkFailed\<close> or \<open>LostReply\<close>.
\<close>

datatype link_error = LinkCanceled | LinkDeadline | LinkBroken string

datatype fault = NoFault | ServerFailed string | LinkFailed link_error | LostReply link_error

primrec link_go_error :: "link_error \<Rightarrow> go_error" where
  "link_go_error LinkCanceled = ContextCanceled"
| "link_go_error LinkDeadline = ContextDeadlineExceeded"
| "link_go_error (LinkBroken s) = ErrorString s"

primrec fault_err :: "fault \<Rightarrow> go_error option" where
  "fault_err NoFault = None"
| "fault_err (ServerFailed c) = Some (PgError c '''')"
| "fault_err (LinkFailed l) = Some (link_go_error l)"
| "fault_err (LostReply l) = Some (link_go_error l)"

primrec applied :: "fault \<Rightarrow> bool" where
  "applied NoFault = True"
| "applied (ServerFailed c) = False"
| "applied (LinkFailed l) = False"
| "applied (LostReply l) = True"

record round_trip =
  rt_time :: int
  rt_fault :: fault

datatype metric = Metric string "string list"

record world =
  db :: database
  txdb :: database
  tx_open :: bool
  tx_aborted :: bool
  savepoint :: "database option"
  tx_time :: int
  stmt_time :: int
  script :: "round_trip list"
  waits :: "link_error option list"
  slept_ms :: int
  nonces :: "string result list"
  metrics :: "metric list"

type_synonym 'a m = "world \<Rightarrow> 'a result \<times> world"

definition trip :: "world \<Rightarrow> fault \<times> world" where
  "trip w = (case script w of
     [] \<Rightarrow> (NoFault, w)
   | r # rs \<Rightarrow> (rt_fault r, w\<lparr>script := rs, stmt_time := rt_time r\<rparr>))"

section \<open>The monad\<close>

definition return_m :: "'a \<Rightarrow> 'a m" where
  "return_m a w = (Inr a, w)"

definition fail_m :: "go_error \<Rightarrow> 'a m" where
  "fail_m e w = (Inl e, w)"

definition bind_m :: "'a m \<Rightarrow> ('a \<Rightarrow> 'b m) \<Rightarrow> 'b m" where
  "bind_m p f w = (case p w of (Inl e, w') \<Rightarrow> (Inl e, w') | (Inr a, w') \<Rightarrow> f a w')"

text \<open>A call whose error the caller inspects instead of returning it.\<close>

definition try_m :: "'a m \<Rightarrow> 'a result m" where
  "try_m p w = (case p w of (r, w') \<Rightarrow> (Inr r, w'))"

definition lift_r :: "'a result \<Rightarrow> 'a m" where
  "lift_r r w = (r, w)"

definition metric_m :: "string \<Rightarrow> string list \<Rightarrow> unit m" where
  "metric_m name attrs w = (Inr (), w\<lparr>metrics := metrics w @ [Metric name attrs]\<rparr>)"

text \<open>\<^verbatim>\<open>defer\<close>: the clean-up runs whatever the body returned, and its own error is dropped.\<close>

definition defer_m :: "'a m \<Rightarrow> unit m \<Rightarrow> 'a m" where
  "defer_m body cleanup w = (case body w of (r, w') \<Rightarrow> (r, snd (cleanup w')))"

section \<open>Transactions\<close>

definition begin_tx :: "unit m" where
  "begin_tx w = (case trip w of (f, w') \<Rightarrow>
     (case fault_err f of
        Some e \<Rightarrow> (Inl e, w')
      | None \<Rightarrow> (Inr (), w'\<lparr>txdb := db w', tx_open := True, tx_aborted := False,
                            savepoint := None, tx_time := stmt_time w'\<rparr>)))"

text \<open>
  A statement of the open transaction sees \<^verbatim>\<open>transaction_timestamp()\<close>, \<^verbatim>\<open>statement_timestamp()\<close> and
  the working copy. An error of the statement or of the round trip aborts the transaction; a
  statement sent to an aborted transaction fails with 25P02.
\<close>

definition exec_tx :: "(int \<Rightarrow> int \<Rightarrow> database \<Rightarrow> ('a \<times> database) result) \<Rightarrow> 'a m" where
  "exec_tx q w = (case trip w of (f, w') \<Rightarrow>
     if tx_aborted w' then (Inl (PgError ''25P02'' ''''), w')
     else (case fault_err f of
        Some e \<Rightarrow> (Inl e, w'\<lparr>tx_aborted := True\<rparr>)
      | None \<Rightarrow>
          (case q (tx_time w') (stmt_time w') (txdb w') of
             Inl e \<Rightarrow> (Inl e, w'\<lparr>tx_aborted := True\<rparr>)
           | Inr (a, d) \<Rightarrow> (Inr a, w'\<lparr>txdb := d\<rparr>))))"

definition commit_tx :: "unit m" where
  "commit_tx w = (case trip w of (f, w') \<Rightarrow>
     let w'' = (if applied f \<and> \<not> tx_aborted w' then w'\<lparr>db := txdb w', tx_open := False\<rparr>
                else w'\<lparr>tx_open := False\<rparr>)
     in (case fault_err f of
           Some e \<Rightarrow> (Inl e, w'')
         | None \<Rightarrow> (if tx_aborted w' then Inl ErrTxCommitRollback else Inr (), w'')))"

definition rollback_tx :: "unit m" where
  "rollback_tx w =
     (if \<not> tx_open w then (Inl ErrTxClosed, w)
      else case trip w of (f, w') \<Rightarrow>
        (case fault_err f of
           Some e \<Rightarrow> (Inl e, w'\<lparr>tx_open := False\<rparr>)
         | None \<Rightarrow> (Inr (), w'\<lparr>tx_open := False\<rparr>)))"

text \<open>A nested \<^verbatim>\<open>tx.Begin\<close>: a savepoint, its release and the rollback to it.\<close>

definition begin_savepoint :: "unit m" where
  "begin_savepoint w =
     (case exec_tx (\<lambda>_ _ d. Inr ((), d)) w of
        (Inl e, w') \<Rightarrow> (Inl e, w')
      | (Inr _, w') \<Rightarrow> (Inr (), w'\<lparr>savepoint := Some (txdb w')\<rparr>))"

definition release_savepoint :: "unit m" where
  "release_savepoint w =
     (case exec_tx (\<lambda>_ _ d. Inr ((), d)) w of
        (Inl e, w') \<Rightarrow> (Inl e, w')
      | (Inr _, w') \<Rightarrow> (Inr (), w'\<lparr>savepoint := None\<rparr>))"

definition rollback_savepoint :: "unit m" where
  "rollback_savepoint w = (case trip w of (f, w') \<Rightarrow>
     (case fault_err f of
        Some e \<Rightarrow> (Inl e, w'\<lparr>tx_aborted := True\<rparr>)
      | None \<Rightarrow>
          (case savepoint w' of
             Some d \<Rightarrow> (Inr (), w'\<lparr>txdb := d, tx_aborted := False, savepoint := None\<rparr>)
           | None \<Rightarrow> (Inl ErrTxClosed, w'))))"

section \<open>Statements outside a transaction\<close>

text \<open>
  \<^verbatim>\<open>pool.QueryRow\<close> and \<^verbatim>\<open>pool.Exec\<close>: one statement, committed by itself. When the reply is lost the
  statement's effect stays.
\<close>

definition exec_pool :: "(int \<Rightarrow> database \<Rightarrow> ('a \<times> database) result) \<Rightarrow> 'a m" where
  "exec_pool q w = (case trip w of (f, w') \<Rightarrow>
     (case q (stmt_time w') (db w') of
        Inl e \<Rightarrow> (Inl (case fault_err f of Some e' \<Rightarrow> e' | None \<Rightarrow> e), w')
      | Inr (a, d) \<Rightarrow>
          (case fault_err f of Some e' \<Rightarrow> Inl e' | None \<Rightarrow> Inr a,
           if applied f then w'\<lparr>db := d\<rparr> else w')))"

text \<open>\<^verbatim>\<open>Row.Scan\<close>: the first row, or \<^verbatim>\<open>pgx.ErrNoRows\<close>.\<close>

definition scan_row :: "'a list \<Rightarrow> 'a m" where
  "scan_row rows = (case rows of [] \<Rightarrow> fail_m ErrNoRows | r # _ \<Rightarrow> return_m r)"

definition query_tx :: "(int \<Rightarrow> int \<Rightarrow> database \<Rightarrow> 'a list) \<Rightarrow> 'a list m" where
  "query_tx q = exec_tx (\<lambda>ts st d. Inr (q ts st d, d))"

definition query_pool :: "(int \<Rightarrow> database \<Rightarrow> 'a list) \<Rightarrow> 'a list m" where
  "query_pool q = exec_pool (\<lambda>st d. Inr (q st d, d))"

section \<open>Random identifiers and waiting\<close>

text \<open>
  \<^verbatim>\<open>uuid.NewRandom\<close>: the next outcome the environment holds; an exhausted supply is a failing
  entropy source.
\<close>

definition uuid_NewRandom :: "string m" where
  "uuid_NewRandom w = (case nonces w of
     [] \<Rightarrow> (Inl (ErrorString ''entropy source failed''), w)
   | n # ns \<Rightarrow> (n, w\<lparr>nonces := ns\<rparr>))"

text \<open>A timer against the context: the environment chooses which comes first.\<close>

definition wait_ms :: "int \<Rightarrow> unit m" where
  "wait_ms delay w = (case waits w of
     Some l # ws \<Rightarrow> (Inl (link_go_error l), w\<lparr>waits := ws\<rparr>)
   | None # ws \<Rightarrow> (Inr (), w\<lparr>waits := ws, slept_ms := slept_ms w + delay\<rparr>)
   | [] \<Rightarrow> (Inr (), w\<lparr>slept_ms := slept_ms w + delay\<rparr>))"

section \<open>Hoare triples\<close>

definition triple :: "(world \<Rightarrow> bool) \<Rightarrow> 'a m \<Rightarrow> ('a \<Rightarrow> world \<Rightarrow> bool) \<Rightarrow> (go_error \<Rightarrow> world \<Rightarrow> bool) \<Rightarrow> bool"
  where
  "triple P p Q E \<longleftrightarrow>
     (\<forall>w. P w \<longrightarrow> (case p w of (Inl e, w') \<Rightarrow> E e w' | (Inr a, w') \<Rightarrow> Q a w'))"

lemma triple_bind:
  assumes "triple P p R E" and "\<And>a. triple (R a) (f a) Q E"
  shows "triple P (bind_m p f) Q E"
  using assms unfolding triple_def bind_m_def by (fastforce split: prod.splits sum.splits)

lemma triple_conseq:
  assumes "triple P' p Q' E'"
    and "\<And>w. P w \<Longrightarrow> P' w" and "\<And>a w. Q' a w \<Longrightarrow> Q a w" and "\<And>e w. E' e w \<Longrightarrow> E e w"
  shows "triple P p Q E"
  using assms unfolding triple_def by (fastforce split: prod.splits sum.splits)

lemma triple_try:
  assumes "triple P p (\<lambda>a. Q (Inr a)) (\<lambda>e. Q (Inl e))"
  shows "triple P (try_m p) Q E"
  using assms unfolding triple_def try_m_def by (fastforce split: prod.splits sum.splits)

lemma triple_defer:
  assumes "triple P body Q' E'"
    and "\<And>a w. Q' a w \<Longrightarrow> Q a (snd (cleanup w))" and "\<And>e w. E' e w \<Longrightarrow> E e (snd (cleanup w))"
  shows "triple P (defer_m body cleanup) Q E"
  using assms unfolding triple_def defer_m_def by (fastforce split: prod.splits sum.splits)

lemma triple_return: "(\<And>w. P w \<Longrightarrow> Q a w) \<Longrightarrow> triple P (return_m a) Q E"
  by (simp add: triple_def return_m_def)

lemma triple_fail: "(\<And>w. P w \<Longrightarrow> E e w) \<Longrightarrow> triple P (fail_m e) Q E"
  by (simp add: triple_def fail_m_def)

lemma triple_lift:
  "(\<And>e w. P w \<Longrightarrow> r = Inl e \<Longrightarrow> E e w) \<Longrightarrow> (\<And>a w. P w \<Longrightarrow> r = Inr a \<Longrightarrow> Q a w) \<Longrightarrow>
     triple P (lift_r r) Q E"
  by (auto simp: triple_def lift_r_def split: sum.splits)

lemma triple_metric:
  "(\<And>w ms. P w \<Longrightarrow> Q () (w\<lparr>metrics := ms\<rparr>)) \<Longrightarrow> triple P (metric_m n as) Q E"
  by (simp add: triple_def metric_m_def)

lemma triple_scan:
  "(\<And>w. P w \<Longrightarrow> rows = [] \<Longrightarrow> E ErrNoRows w) \<Longrightarrow> (\<And>r rs w. P w \<Longrightarrow> rows = r # rs \<Longrightarrow> Q r w) \<Longrightarrow>
     triple P (scan_row rows) Q E"
  by (auto simp: triple_def scan_row_def fail_m_def return_m_def split: list.splits)

lemma triple_if:
  "(b \<Longrightarrow> triple P p Q E) \<Longrightarrow> (\<not> b \<Longrightarrow> triple P q Q E) \<Longrightarrow> triple P (if b then p else q) Q E"
  by simp

text \<open>
  The errors a fault can surface as. None of them is a sentinel of the domain, none carries a
  constraint name, and none is \<^verbatim>\<open>pgx.ErrNoRows\<close>.
\<close>

definition is_fault :: "go_error \<Rightarrow> bool" where
  "is_fault e = (case e of
     ContextCanceled \<Rightarrow> True | ContextDeadlineExceeded \<Rightarrow> True | ErrorString _ \<Rightarrow> True
   | PgError _ c \<Rightarrow> c = '''' | _ \<Rightarrow> False)"

lemma link_go_error_props: "is_fault (link_go_error l)" "as_PgError (link_go_error l) = None"
  by (cases l; simp add: is_fault_def)+

lemma fault_err_is_fault: "fault_err f = Some e \<Longrightarrow> is_fault e"
  by (cases f) (auto simp: is_fault_def link_go_error_props(1) [unfolded is_fault_def])

lemma fault_err_None [simp]: "fault_err f = None \<longleftrightarrow> f = NoFault"
  by (cases f) auto

lemma fault_err_applied: "fault_err f = Some e \<Longrightarrow> applied f \<Longrightarrow> as_PgError e = None"
  by (cases f) (auto simp: link_go_error_props)

text \<open>
  Assertions. \<open>calm\<close> says that the environment injects no further fault; a triple carries it as a
  flag \<open>b\<close>, so that one statement covers both the faulty and the fault-free runs. \<open>at_db\<close> names the
  committed database, \<open>in_tx\<close> also the working copy \<open>t\<close> of the open transaction and its timestamp,
  \<open>in_work\<close> also the copy \<open>t0\<close> saved by the savepoint, and \<open>in_doubt\<close> forgets the working copy.
\<close>

definition calm :: "bool \<Rightarrow> world \<Rightarrow> bool" where
  "calm b w \<longleftrightarrow> (b \<longrightarrow> script w = [])"

definition at_db :: "bool \<Rightarrow> database \<Rightarrow> world \<Rightarrow> bool" where
  "at_db b d w \<longleftrightarrow> db w = d \<and> calm b w"

definition in_doubt :: "bool \<Rightarrow> database \<Rightarrow> int \<Rightarrow> world \<Rightarrow> bool" where
  "in_doubt b d ts w \<longleftrightarrow> at_db b d w \<and> tx_time w = ts \<and> tx_open w"

definition in_tx :: "bool \<Rightarrow> database \<Rightarrow> int \<Rightarrow> database \<Rightarrow> world \<Rightarrow> bool" where
  "in_tx b d ts t w \<longleftrightarrow> in_doubt b d ts w \<and> txdb w = t \<and> \<not> tx_aborted w"

definition in_work :: "bool \<Rightarrow> database \<Rightarrow> int \<Rightarrow> database \<Rightarrow> database \<Rightarrow> world \<Rightarrow> bool" where
  "in_work b d ts t0 t w \<longleftrightarrow> in_tx b d ts t w \<and> savepoint w = Some t0"

lemmas assertion_defs = calm_def at_db_def in_doubt_def in_tx_def in_work_def

text \<open>A request that failed because of the environment, with nothing committed.\<close>

definition faulted :: "bool \<Rightarrow> database \<Rightarrow> go_error \<Rightarrow> world \<Rightarrow> bool" where
  "faulted b d e w \<longleftrightarrow> \<not> b \<and> is_fault e \<and> db w = d"

lemma assertion_metrics [simp]:
  "calm b (w\<lparr>metrics := ms\<rparr>) = calm b w" "at_db b d (w\<lparr>metrics := ms\<rparr>) = at_db b d w"
  "in_doubt b d ts (w\<lparr>metrics := ms\<rparr>) = in_doubt b d ts w"
  "in_tx b d ts t (w\<lparr>metrics := ms\<rparr>) = in_tx b d ts t w"
  "in_work b d ts t0 t (w\<lparr>metrics := ms\<rparr>) = in_work b d ts t0 t w"
  "faulted b d e (w\<lparr>metrics := ms\<rparr>) = faulted b d e w"
  by (simp_all add: assertion_defs faulted_def)

lemma in_tx_at_db: "in_tx b d ts t w \<Longrightarrow> at_db b d w"
  by (simp add: assertion_defs)

lemma trip_frame:
  assumes "trip w = (f, w')"
  shows "db w' = db w" "txdb w' = txdb w" "tx_open w' = tx_open w" "tx_aborted w' = tx_aborted w"
    "tx_time w' = tx_time w" "savepoint w' = savepoint w" "metrics w' = metrics w"
    "waits w' = waits w" "slept_ms w' = slept_ms w" "nonces w' = nonces w"
  using assms by (auto simp: trip_def split: list.splits)

lemma trip_calm:
  assumes "trip w = (f, w')" and "calm b w"
  shows "calm b w'" "b \<Longrightarrow> fault_err f = None"
  using assms by (auto simp: trip_def calm_def split: list.splits)

lemmas exec_splits = prod.splits option.splits sum.splits
lemmas trip_facts = trip_frame trip_calm fault_err_is_fault fault_err_applied

lemma calm_updates [simp]:
  "calm b (w\<lparr>db := d\<rparr>) = calm b w" "calm b (w\<lparr>txdb := d\<rparr>) = calm b w"
  "calm b (w\<lparr>tx_open := o'\<rparr>) = calm b w" "calm b (w\<lparr>tx_aborted := a\<rparr>) = calm b w"
  "calm b (w\<lparr>savepoint := s\<rparr>) = calm b w" "calm b (w\<lparr>tx_time := t\<rparr>) = calm b w"
  "calm b (w\<lparr>slept_ms := n\<rparr>) = calm b w" "calm b (w\<lparr>waits := ws\<rparr>) = calm b w"
  "calm b (w\<lparr>nonces := ns\<rparr>) = calm b w"
  by (simp_all add: calm_def)

lemmas tx_assertions = at_db_def in_doubt_def in_tx_def in_work_def faulted_def

lemma triple_begin:
  "triple (at_db b d) begin_tx (\<lambda>_ w. \<exists>ts. in_tx b d ts d w) (faulted b d)"
  by (auto simp: triple_def begin_tx_def tx_assertions trip_facts split: exec_splits)

lemma triple_exec:
  "triple (in_tx b d ts t) (exec_tx q)
     (\<lambda>a w. \<exists>st t'. q ts st t = Inr (a, t') \<and> in_tx b d ts t' w)
     (\<lambda>e w. faulted b d e w \<or> (at_db b d w \<and> (\<exists>st. q ts st t = Inl e)))"
  by (auto simp: triple_def exec_tx_def tx_assertions trip_facts split: exec_splits)

lemma triple_query:
  "triple (in_tx b d ts t) (query_tx q) (\<lambda>a w. (\<exists>st. a = q ts st t) \<and> in_tx b d ts t w) (faulted b d)"
  unfolding query_tx_def by (rule triple_conseq [OF triple_exec]) auto

lemma triple_commit:
  "triple (in_tx b d ts t) commit_tx (\<lambda>_ w. at_db b t w)
     (\<lambda>e w. \<not> b \<and> is_fault e \<and> (db w = d \<or> db w = t \<and> as_PgError e = None))"
  by (auto simp: triple_def commit_tx_def tx_assertions trip_facts Let_def split: exec_splits)

lemma rollback_db [simp]: "db (snd (rollback_tx w)) = db w"
  by (auto simp: rollback_tx_def trip_frame split: exec_splits)

lemma rollback_calm: "calm b w \<Longrightarrow> calm b (snd (rollback_tx w))"
  by (auto simp: rollback_tx_def trip_calm split: exec_splits)

lemma triple_rollback:
  "triple (at_db b d) (try_m rollback_tx)
     (\<lambda>r w. at_db b d w \<and> (\<forall>e. r = Inl e \<longrightarrow> e = ErrTxClosed \<or> faulted b d e w)) E"
  by (auto simp: triple_def try_m_def rollback_tx_def tx_assertions trip_facts split: exec_splits)

lemma triple_query_pool:
  "triple (at_db b d) (query_pool q) (\<lambda>a w. (\<exists>st. a = q st d) \<and> at_db b d w) (faulted b d)"
  by (auto simp: triple_def query_pool_def exec_pool_def tx_assertions trip_facts split: exec_splits)

text \<open>Savepoints.\<close>

lemma triple_begin_savepoint:
  "triple (in_tx b d ts t) begin_savepoint (\<lambda>_. in_work b d ts t t) (faulted b d)"
  by (auto simp: triple_def begin_savepoint_def exec_tx_def tx_assertions trip_facts split: exec_splits)

lemma triple_exec_work:
  "triple (in_work b d ts t0 t) (exec_tx q)
     (\<lambda>a w. \<exists>st t'. q ts st t = Inr (a, t') \<and> in_work b d ts t0 t' w)
     (\<lambda>e w. in_doubt b d ts w \<and> savepoint w = Some t0 \<and>
        (\<not> b \<and> is_fault e \<or> (\<exists>st. q ts st t = Inl e)))"
  by (auto simp: triple_def exec_tx_def tx_assertions trip_facts split: exec_splits)

lemma triple_release_savepoint:
  "triple (in_work b d ts t0 t) release_savepoint (\<lambda>_. in_tx b d ts t) (faulted b d)"
  by (auto simp: triple_def release_savepoint_def exec_tx_def tx_assertions trip_facts split: exec_splits)

lemma triple_rollback_savepoint:
  "triple (\<lambda>w. in_doubt b d ts w \<and> savepoint w = Some t0) (try_m rollback_savepoint)
     (\<lambda>_ w. in_tx b d ts t0 w \<or> (\<not> b \<and> in_doubt b d ts w \<and> tx_aborted w)) E"
  by (auto simp: triple_def try_m_def rollback_savepoint_def tx_assertions trip_facts split: exec_splits)

lemma triple_exec_aborted:
  "triple (\<lambda>w. \<not> b \<and> in_doubt b d ts w \<and> tx_aborted w) (exec_tx q) Q (faulted b d)"
  by (auto simp: triple_def exec_tx_def tx_assertions trip_facts is_fault_def split: exec_splits)

section \<open>Relations kept by a program\<close>

text \<open>
  A program keeps a reflexive and transitive relation on databases when its last committed
  database is related to its first one. The contract is shared by every store operation; the
  relations of interest instantiate it.
\<close>

definition keeps :: "(database \<Rightarrow> database \<Rightarrow> bool) \<Rightarrow> 'a m \<Rightarrow> bool" where
  "keeps R p \<longleftrightarrow> (\<forall>w. R (db w) (db (snd (p w))))"

locale db_relation =
  fixes R :: "database \<Rightarrow> database \<Rightarrow> bool"
  assumes rel_refl: "R d d"
    and rel_trans: "R a b \<Longrightarrow> R b c \<Longrightarrow> R a c"
begin

lemma keeps_return: "keeps R (return_m a)"
  by (simp add: keeps_def return_m_def rel_refl)

lemma keeps_fail: "keeps R (fail_m e)"
  by (simp add: keeps_def fail_m_def rel_refl)

lemma keeps_metric: "keeps R (metric_m n as)"
  by (simp add: keeps_def metric_m_def rel_refl)

lemma keeps_bind:
  assumes "keeps R p" and "\<And>a. keeps R (f a)"
  shows "keeps R (bind_m p f)"
  unfolding keeps_def
proof
  fix w
  show "R (db w) (db (snd (bind_m p f w)))"
  proof (cases "p w")
    case (Pair r w')
    have step: "R (db w) (db w')" using assms(1) Pair unfolding keeps_def by (metis snd_conv)
    show ?thesis
    proof (cases r)
      case (Inl e)
      with Pair step show ?thesis by (simp add: bind_m_def)
    next
      case (Inr a)
      have "R (db w') (db (snd (f a w')))" using assms(2) unfolding keeps_def by blast
      with Pair Inr step show ?thesis by (auto simp: bind_m_def intro: rel_trans)
    qed
  qed
qed

lemma keeps_try: "keeps R p \<Longrightarrow> keeps R (try_m p)"
  by (simp add: keeps_def try_m_def split: prod.splits) (metis snd_conv)

lemma keeps_triple:
  assumes "\<And>d. triple (\<lambda>w. db w = d) p (\<lambda>_ w. R d (db w)) (\<lambda>_ w. R d (db w))"
  shows "keeps R p"
  unfolding keeps_def
proof
  fix w
  show "R (db w) (db (snd (p w)))"
    using assms [of "db w"]
    by (cases "fst (p w)"; cases "p w") (auto simp: triple_def split: prod.splits sum.splits)
qed

end

interpretation facts: db_relation extends
  by unfold_locales (auto intro: extends_trans)

interpretation same_db: db_relation "(=)"
  by unfold_locales auto

end
