(* ===== verification/Store_Sql.thy ===== *)
theory Store_Sql
  imports Pg_World "HOL-Library.List_Lexorder" "HOL-Library.Char_ord"
begin

text \<open>
  The SQL statements of \<^verbatim>\<open>postgres/store.go\<close> as functions on the database: each query as the list
  of rows its joins select, each insert with the constraints and triggers of the schema in the
  order PostgreSQL evaluates them (\<^verbatim>\<open>BEFORE\<close> trigger, checks, unique indexes or conflict target,
  foreign keys, \<^verbatim>\<open>AFTER\<close> trigger). A statement that violates a constraint is an error and changes
  nothing. Identifiers reach the statements in canonical text form, which the service layer checks,
  so equality of \<^verbatim>\<open>uuid\<close> values is equality of strings and their order is the order of the texts.
\<close>

section \<open>Queries\<close>

definition principal_exists :: "database \<Rightarrow> string \<Rightarrow> bool" where
  "principal_exists d p = list_ex (\<lambda>r. pr_uuid r = p) (principals d)"

definition purchased :: "database \<Rightarrow> string \<Rightarrow> bool" where
  "purchased d offer = list_ex (\<lambda>p. pc_offer p = offer) (purchases d)"

text \<open>\<^verbatim>\<open>sale_offers JOIN sale_offer_canonical_terms JOIN bonds\<close>\<close>

definition offer_rows :: "database \<Rightarrow> (sale_offer_row \<times> canonical_terms_row \<times> bond_row) list" where
  "offer_rows d =
     [(s, c, b). s \<leftarrow> sale_offers d, c \<leftarrow> canonical_terms d, ct_offer c = of_uuid s,
                 b \<leftarrow> bonds d, bo_uuid b = of_bond s]"

type_synonym offer_out = "string \<times> string \<times> string \<times> string \<times> string"

definition offer_out ::
  "('u, 'd) lib \<Rightarrow> sale_offer_row \<times> canonical_terms_row \<times> bond_row \<Rightarrow> offer_out" where
  "offer_out L = (\<lambda>(s, c, b).
     (of_uuid s, of_seller s, bo_series b, pg_numeric_out L (ct_price c), ct_currency c))"

definition principalQuery :: "string \<Rightarrow> string \<Rightarrow> database \<Rightarrow> (string \<times> string) list" where
  "principalQuery issuer subject d =
     [(pr_uuid p, pr_client_class p). p \<leftarrow> principals d, pr_issuer p = issuer, pr_subject p = subject,
        \<not> suspended d (pr_uuid p)]"

type_synonym purchase_out = "string \<times> offer_out \<times> string \<times> int"

definition purchaseByOfferQuery :: "('u, 'd) lib \<Rightarrow> string \<Rightarrow> database \<Rightarrow> purchase_out list" where
  "purchaseByOfferQuery L offer d =
     [(pc_uuid p, offer_out L r, pc_buyer p, pc_bought_at p).
        p \<leftarrow> purchases d, pc_offer p = offer, r \<leftarrow> offer_rows d, of_uuid (fst r) = pc_offer p]"

definition offerByIdQuery :: "('u, 'd) lib \<Rightarrow> string \<Rightarrow> database \<Rightarrow> offer_out list" where
  "offerByIdQuery L offer d = [offer_out L r. r \<leftarrow> offer_rows d, of_uuid (fst r) = offer]"

definition classifyFailedBuyQuery :: "string \<Rightarrow> string \<Rightarrow> database \<Rightarrow> bool" where
  "classifyFailedBuyQuery buyer offer d =
     list_ex (\<lambda>s. of_uuid s = offer \<and> of_seller s = buyer
        \<and> list_ex (\<lambda>c. ct_offer c = of_uuid s) (canonical_terms d)
        \<and> \<not> purchased d (of_uuid s)) (sale_offers d)"

definition activeOffersQuery :: "('u, 'd) lib \<Rightarrow> string \<Rightarrow> string \<Rightarrow> database \<Rightarrow> offer_out list" where
  "activeOffersQuery L series viewer d =
     map (offer_out L)
       (sort_key (\<lambda>r. of_uuid (fst r))
         [r. r \<leftarrow> offer_rows d, bo_series (snd (snd r)) = series,
             of_seller (fst r) \<noteq> viewer, \<not> purchased d (of_uuid (fst r))])"

definition activeBondSeriesQuery :: "string \<Rightarrow> database \<Rightarrow> string list" where
  "activeBondSeriesQuery viewer d =
     sort (remdups [bo_series (snd (snd r)). r \<leftarrow> offer_rows d,
        \<not> purchased d (of_uuid (fst r)), of_seller (fst r) \<noteq> viewer])"

text \<open>The stored outcome of an operation: resource, outcome, safe error code, request digest.\<close>

type_synonym stored_result = "string option \<times> string \<times> string \<times> byte list"

definition same_scope :: "MutationContext \<Rightarrow> claim_row \<Rightarrow> bool" where
  "same_scope op c \<longleftrightarrow>
     cl_principal c = p_ID (ac_Principal (mc_Access op))
     \<and> cl_client c = p_ClientID (ac_Principal (mc_Access op))
     \<and> cl_operation c = ac_Operation (mc_Access op)
     \<and> cl_nonce c = mc_IdempotencyKey op"

definition replayQuery :: "MutationContext \<Rightarrow> database \<Rightarrow> stored_result list" where
  "replayQuery op d =
     [(rs_resource r, rs_outcome r, case rs_error r of None \<Rightarrow> '''' | Some e \<Rightarrow> e,
       cl_request_digest c).
        c \<leftarrow> operation_claims d, same_scope op c, r \<leftarrow> operation_results d, rs_claim r = cl_uuid c]"

section \<open>Operation claims\<close>

text \<open>\<^verbatim>\<open>operation ~ '^[a-z][a-z0-9.-]{0,63}$'\<close>\<close>

fun operation_canonical :: "string \<Rightarrow> bool" where
  "operation_canonical [] = False"
| "operation_canonical (c # cs) \<longleftrightarrow> is_lower_byte c \<and> length cs \<le> 63
     \<and> list_all (\<lambda>x. is_lower_byte x \<or> is_digit_byte x \<or> x = CHR ''.'' \<or> x = CHR ''-'') cs"

definition claim_row_of :: "MutationContext \<Rightarrow> string \<Rightarrow> claim_row" where
  "claim_row_of op u =
     \<lparr>cl_uuid = u,
      cl_principal = p_ID (ac_Principal (mc_Access op)),
      cl_client = p_ClientID (ac_Principal (mc_Access op)),
      cl_operation = ac_Operation (mc_Access op),
      cl_nonce = mc_IdempotencyKey op,
      cl_request_digest = ac_RequestDigest (mc_Access op),
      cl_assertion_digest = ac_AssertionDigest (mc_Access op)\<rparr>"

definition claim_checks :: "('u, 'd) lib \<Rightarrow> claim_row \<Rightarrow> go_error option" where
  "claim_checks L c = first_violation
     [(cl_client c = '''', check_violation ''operation_claims_client_id_not_empty''),
      (256 < length (cl_client c), check_violation ''operation_claims_client_id_size''),
      (\<not> operation_canonical (cl_operation c), check_violation ''operation_claims_operation_canonical''),
      (length (cl_request_digest c) \<noteq> 32, check_violation ''operation_claims_request_digest_sha256''),
      (length (cl_assertion_digest c) \<noteq> 32, check_violation ''operation_claims_assertion_digest_sha256''),
      (\<not> isCanonicalUUIDVersion L (cl_nonce c) 4, check_violation ''operation_claims_nonce_v4'')]"

text \<open>
  \<^verbatim>\<open>INSERT INTO operation_claims ... ON CONFLICT (scope) DO NOTHING RETURNING uuid_id\<close>: the rows
  returned, and the database.
\<close>

definition insert_claim ::
  "('u, 'd) lib \<Rightarrow> MutationContext \<Rightarrow> database \<Rightarrow> (string list \<times> database) result" where
  "insert_claim L op d =
     (case draw_uuid L d of (u, d1) \<Rightarrow>
      let c = claim_row_of op u
      in case claim_checks L c of
           Some e \<Rightarrow> Inl e
         | None \<Rightarrow>
             if list_ex (same_scope op) (operation_claims d) then Inr ([], d1)
             else if list_ex (\<lambda>x. cl_uuid x = u) (operation_claims d) then
               Inl (unique_violation ''operation_claims_pkey'')
             else if \<not> principal_exists d (cl_principal c) then
               Inl (foreign_key_violation ''operation_claims_principal_uuid_fkey'')
             else Inr ([u], d1\<lparr>operation_claims := operation_claims d1 @ [c]\<rparr>))"

section \<open>Operation results and the integration event trigger\<close>

definition insert_event ::
  "('u, 'd) lib \<Rightarrow> string \<Rightarrow> string option \<Rightarrow> nat \<Rightarrow> int \<Rightarrow> database \<Rightarrow> database result" where
  "insert_event L table source version completed d =
     (case draw_uuid L d of (u, d1) \<Rightarrow>
      (case source of
         None \<Rightarrow> Inl (PgError ''23502'' '''')
       | Some s \<Rightarrow>
           if list_ex (\<lambda>e. ev_uuid e = u) (integration_events d) then
             Inl (unique_violation ''integration_events_pkey'')
           else if list_ex (\<lambda>e. ev_table e = table \<and> ev_source e = s) (integration_events d) then
             Inl (unique_violation ''integration_events_source_uuid_unique'')
           else Inr (d1\<lparr>integration_events := integration_events d1 @
             [\<lparr>ev_uuid = u, ev_table = table, ev_source = s, ev_version = version,
               ev_completed_at = completed\<rparr>]\<rparr>)))"

definition has_terms :: "database \<Rightarrow> string \<Rightarrow> bool" where
  "has_terms d offer = list_ex (\<lambda>c. ct_offer c = offer) (canonical_terms d)"

text \<open>
  \<^verbatim>\<open>record_integration_event_on_completion\<close>. \<^verbatim>\<open>SELECT ... INTO STRICT\<close> raises \<^verbatim>\<open>no_data_found\<close> or
  \<^verbatim>\<open>too_many_rows\<close>.
\<close>

definition record_integration_event_on_completion ::
  "('u, 'd) lib \<Rightarrow> result_row \<Rightarrow> database \<Rightarrow> database result" where
  "record_integration_event_on_completion L r d =
     (if rs_outcome r \<noteq> ''succeeded'' then Inr d
      else case filter (\<lambda>c. cl_uuid c = rs_claim r) (operation_claims d) of
        [] \<Rightarrow> Inl (PgError ''P0002'' '''')
      | [c] \<Rightarrow>
          if cl_operation c = ''offers.create'' then
            insert_event L ''sale_offers'' (rs_resource r)
              (if list_ex (\<lambda>c. rs_resource r = Some (ct_offer c)) (canonical_terms d) then 2 else 1) (rs_completed_at r) d
          else if cl_operation c = ''purchases.buy'' then
            (case filter (\<lambda>p. rs_resource r = Some (pc_offer p)) (purchases d) of
               [] \<Rightarrow> Inl (PgError ''P0002'' '''')
             | [p] \<Rightarrow> insert_event L ''purchases'' (Some (pc_uuid p))
                 (if has_terms d (pc_offer p) then 2 else 1) (rs_completed_at r) d
             | _ \<Rightarrow> Inl (PgError ''P0003'' ''''))
          else Inr d
      | _ \<Rightarrow> Inl (PgError ''P0003'' ''''))"

definition insert_result ::
  "('u, 'd) lib \<Rightarrow> result_row \<Rightarrow> database \<Rightarrow> database result" where
  "insert_result L r d =
     (if rs_outcome r \<noteq> ''succeeded'' \<and> rs_outcome r \<noteq> ''rejected'' then
        Inl (check_violation ''operation_results_outcome_known'')
      else if rs_error r = Some ''buyer_not_found'' then
        Inl (check_violation ''operation_results_buyer_not_found_retired'')
      else if list_ex (\<lambda>x. rs_claim x = rs_claim r) (operation_results d) then
        Inl (unique_violation ''operation_results_claim_uuid_unique'')
      else if \<not> list_ex (\<lambda>c. cl_uuid c = rs_claim r) (operation_claims d) then
        Inl (foreign_key_violation ''operation_results_claim_uuid_fkey'')
      else record_integration_event_on_completion L r
             (d\<lparr>operation_results := operation_results d @ [r]\<rparr>))"

section \<open>Buying\<close>

text \<open>
  One row of \<^verbatim>\<open>INSERT INTO purchases ... ON CONFLICT (sale_offer_uuid) DO NOTHING\<close>, with the
  trigger \<^verbatim>\<open>purchases_reject_self_trade\<close>; \<open>None\<close> when the conflict clause skipped the row.
\<close>

definition insert_purchase ::
  "('u, 'd) lib \<Rightarrow> int \<Rightarrow> string \<Rightarrow> string \<Rightarrow> database \<Rightarrow> (purchase_row option \<times> database) result" where
  "insert_purchase L ts offer buyer d =
     (case draw_uuid L d of (u, d1) \<Rightarrow>
      if list_ex (\<lambda>s. of_uuid s = offer \<and> of_seller s = buyer) (sale_offers d) then
        Inl (check_violation ''purchases_buyer_not_seller'')
      else if purchased d offer then Inr (None, d1)
      else if list_ex (\<lambda>p. pc_uuid p = u) (purchases d) then
        Inl (unique_violation ''purchases_pkey'')
      else if \<not> list_ex (\<lambda>s. of_uuid s = offer) (sale_offers d) then
        Inl (foreign_key_violation ''purchases_sale_offer_uuid_fkey'')
      else if \<not> principal_exists d buyer then
        Inl (foreign_key_violation ''purchases_buyer_principal_fkey'')
      else (let p = \<lparr>pc_uuid = u, pc_offer = offer, pc_buyer = buyer, pc_bought_at = ts\<rparr>
            in Inr (Some p, d1\<lparr>purchases := purchases d1 @ [p]\<rparr>)))"

fun insert_purchases ::
  "('u, 'd) lib \<Rightarrow> int \<Rightarrow> (string \<times> string) list \<Rightarrow> database
     \<Rightarrow> (purchase_row list \<times> database) result" where
  "insert_purchases L ts [] d = Inr ([], d)"
| "insert_purchases L ts ((offer, buyer) # rest) d =
     (case insert_purchase L ts offer buyer d of
        Inl e \<Rightarrow> Inl e
      | Inr (p, d1) \<Rightarrow>
          (case insert_purchases L ts rest d1 of
             Inl e \<Rightarrow> Inl e
           | Inr (ps, d2) \<Rightarrow> Inr (case p of None \<Rightarrow> ps | Some x \<Rightarrow> x # ps, d2)))"

definition buyQuery ::
  "('u, 'd) lib \<Rightarrow> int \<Rightarrow> string \<Rightarrow> string \<Rightarrow> database \<Rightarrow> (purchase_out list \<times> database) result" where
  "buyQuery L ts offer buyer d =
     (case insert_purchases L ts
             [(of_uuid s, pr_uuid p). s \<leftarrow> sale_offers d, of_uuid s = offer,
                c \<leftarrow> canonical_terms d, ct_offer c = of_uuid s,
                p \<leftarrow> principals d, pr_uuid p = buyer, of_seller s \<noteq> pr_uuid p] d of
        Inl e \<Rightarrow> Inl e
      | Inr (ps, d1) \<Rightarrow>
          Inr ([(pc_uuid p, offer_out L r, pc_buyer p, pc_bought_at p).
                  p \<leftarrow> ps, r \<leftarrow> offer_rows d, of_uuid (fst r) = pc_offer p], d1))"

section \<open>Creating an offer\<close>

definition currency_canonical :: "string \<Rightarrow> bool" where
  "currency_canonical c \<longleftrightarrow> length c = 3 \<and> list_all is_upper_byte c"

text \<open>
  The three inserts of one offer: the offer, its canonical terms and its submission. \<open>price\<close> and
  \<open>currency\<close> are the offer's own (and its canonical terms), \<open>sub_price\<close>, \<open>sub_currency\<close> and \<open>quote\<close>
  what was submitted.
\<close>

definition offer_checks ::
  "database \<Rightarrow> sale_offer_row \<Rightarrow> submission_row \<Rightarrow> go_error option" where
  "offer_checks d s sub = first_violation
     [(\<not> 0 < of_price s, check_violation ''sale_offers_price_positive''),
      (\<not> currency_canonical (of_currency s), check_violation ''sale_offers_currency_code_canonical''),
      (list_ex (\<lambda>x. of_uuid x = of_uuid s) (sale_offers d), unique_violation ''sale_offers_pkey''),
      (of_currency s \<noteq> ''MXN'', check_violation ''sale_offer_canonical_terms_currency_mxn''),
      (list_ex (\<lambda>x. ct_offer x = of_uuid s) (canonical_terms d),
        unique_violation ''sale_offer_canonical_terms_sale_offer_uuid_key''),
      (\<not> 0 < sb_price sub, check_violation ''sale_offer_submissions_price_positive''),
      (sb_currency sub \<noteq> ''MXN'' \<and> sb_currency sub \<noteq> ''USD'',
        check_violation ''sale_offer_submissions_currency_supported''),
      ((sb_currency sub = ''MXN'') \<noteq> (sb_quote sub = None),
        check_violation ''sale_offer_submissions_conversion_shape''),
      (list_ex (\<lambda>x. sb_offer x = of_uuid s) (submissions d),
        unique_violation ''sale_offer_submissions_sale_offer_uuid_key''),
      (sb_quote sub \<noteq> None \<and> list_ex (\<lambda>x. sb_quote x = sb_quote sub) (submissions d),
        unique_violation ''sale_offer_submissions_conversion_quote_uuid_key''),
      (\<not> principal_exists d (of_seller s), foreign_key_violation ''sale_offers_seller_principal_fkey''),
      (\<not> list_ex (\<lambda>b. bo_uuid b = of_bond s) (bonds d),
        foreign_key_violation ''sale_offers_bond_uuid_fkey''),
      (sb_quote sub \<noteq> None \<and> \<not> list_ex (\<lambda>q. Some (cq_uuid q) = sb_quote sub) (conversion_quotes d),
        foreign_key_violation ''sale_offer_submissions_conversion_quote_uuid_fkey'')]"

definition insert_offer ::
  "('u, 'd) lib \<Rightarrow> string \<Rightarrow> string \<Rightarrow> rat \<Rightarrow> string \<Rightarrow> rat \<Rightarrow> string \<Rightarrow> string option \<Rightarrow> database
     \<Rightarrow> (sale_offer_row \<times> database) result" where
  "insert_offer L seller bond price currency sub_price sub_currency quote d =
     (case draw_uuid L d of (u, d1) \<Rightarrow>
      let s = \<lparr>of_uuid = u, of_seller = seller, of_bond = bond, of_price = price,
               of_currency = currency\<rparr>;
          sub = \<lparr>sb_offer = u, sb_price = sub_price, sb_currency = sub_currency, sb_quote = quote\<rparr>
      in case offer_checks d s sub of
           Some e \<Rightarrow> Inl e
         | None \<Rightarrow>
             Inr (s, d1\<lparr>sale_offers := sale_offers d1 @ [s],
                        canonical_terms := canonical_terms d1 @
                          [\<lparr>ct_offer = u, ct_price = price, ct_currency = currency\<rparr>],
                        submissions := submissions d1 @ [sub]\<rparr>))"

text \<open>The value list selects the bonds of the series; \<^verbatim>\<open>bonds_series_unique\<close> makes that at most one.\<close>

fun insert_offers ::
  "('u, 'd) lib \<Rightarrow> string \<Rightarrow> rat \<Rightarrow> string \<Rightarrow> bond_row list \<Rightarrow> database
     \<Rightarrow> ((sale_offer_row \<times> bond_row) list \<times> database) result" where
  "insert_offers L seller price currency [] d = Inr ([], d)"
| "insert_offers L seller price currency (b # bs) d =
     (case insert_offer L seller (bo_uuid b) price currency price currency None d of
        Inl e \<Rightarrow> Inl e
      | Inr (s, d1) \<Rightarrow>
          (case insert_offers L seller price currency bs d1 of
             Inl e \<Rightarrow> Inl e
           | Inr (rs, d2) \<Rightarrow> Inr ((s, b) # rs, d2)))"

definition createSaleOfferQuery ::
  "('u, 'd) lib \<Rightarrow> string \<Rightarrow> string \<Rightarrow> string \<Rightarrow> string \<Rightarrow> database
     \<Rightarrow> (offer_out list \<times> database) result" where
  "createSaleOfferQuery L seller series price currency d =
     (case numeric_param L price of
        Inl e \<Rightarrow> Inl e
      | Inr v \<Rightarrow>
          (case filter (\<lambda>b. bo_series b = series) (bonds d) of
             [] \<Rightarrow> Inr ([], d)
           | b # bs \<Rightarrow>
               (case monetary_cast v of
                  Inl e \<Rightarrow> Inl e
                | Inr amount \<Rightarrow>
                    (case insert_offers L seller amount currency (b # bs) d of
                       Inl e \<Rightarrow> Inl e
                     | Inr (rows, d1) \<Rightarrow>
                         Inr ([(of_uuid s, of_seller s, bo_series x, pg_numeric_out L (of_price s),
                                of_currency s). (s, x) \<leftarrow> rows], d1)))))"

end
