(* ===== verification/Store.thy ===== *)
theory Store
  imports Store_Sql
begin

text \<open>
  \<^verbatim>\<open>postgres/store.go\<close>: principal resolution, authorization, operation claims and their replay, the
  two marketplace mutations and the two read-only listings, and the bounded retry of serializable
  transactions. Every method is a program of the database monad over the statements of
  \<open>Store_Sql\<close>, in the order the code issues them.
\<close>

unbundle bit_operations_syntax

section \<open>Error codes\<close>

definition safeOperationErrorCode :: "go_error \<Rightarrow> string option" where
  "safeOperationErrorCode err =
     (if errors_Is err ErrOfferUnavailable then Some ''offer_unavailable''
      else if errors_Is err ErrSelfTradeProhibited then Some ''self_trade_prohibited''
      else if errors_Is err ErrOfferAlreadyExists then Some ''offer_already_exists''
      else if errors_Is err ErrSellerNotFound then Some ''seller_not_found''
      else if errors_Is err ErrBondNotFound then Some ''bond_not_found''
      else if errors_Is err ErrConversionQuoteUnavailable then Some ''conversion_quote_unavailable''
      else None)"

definition operationErrorFromCode :: "string \<Rightarrow> go_error" where
  "operationErrorFromCode code =
     (if code = ''offer_unavailable'' then ErrOfferUnavailable
      else if code = ''self_trade_prohibited'' then ErrSelfTradeProhibited
      else if code = ''offer_already_exists'' then ErrOfferAlreadyExists
      else if code = ''seller_not_found'' then ErrSellerNotFound
      else if code = ''bond_not_found'' then ErrBondNotFound
      else if code = ''conversion_quote_unavailable'' then ErrConversionQuoteUnavailable
      else ErrorString ''invalid stored operation error code'')"

definition classifyBuyError :: "go_error \<Rightarrow> go_error" where
  "classifyBuyError err = (case as_PgError err of
     Some (_, constraint) \<Rightarrow>
       if constraint = ''purchases_buyer_not_seller'' then ErrSelfTradeProhibited else err
   | None \<Rightarrow> err)"

definition classifyCreateSaleOfferError :: "go_error \<Rightarrow> go_error" where
  "classifyCreateSaleOfferError err = (case as_PgError err of
     None \<Rightarrow> err
   | Some (_, constraint) \<Rightarrow>
       if constraint = ''sale_offers_pkey'' then ErrOfferAlreadyExists
       else if constraint = ''sale_offers_seller_principal_fkey'' then ErrSellerNotFound
       else if constraint = ''sale_offers_bond_uuid_fkey'' then ErrBondNotFound
       else err)"

section \<open>Retrying transactions\<close>

definition isRetryableTransactionError :: "go_error \<Rightarrow> bool" where
  "isRetryableTransactionError err = (case as_PgError err of
     Some (code, _) \<Rightarrow> code = ''40001'' \<or> code = ''40P01'' | None \<Rightarrow> False)"

definition retryReason :: "go_error \<Rightarrow> string" where
  "retryReason err = (case as_PgError err of
     Some (code, _) \<Rightarrow> if code = ''40P01'' then ''deadlock'' else ''serialization_failure''
   | None \<Rightarrow> ''serialization_failure'')"

text \<open>
  The timer or the context, whichever fires first, is the environment's choice; a finished timer
  adds its delay, one millisecond shifted by the attempt.
\<close>

definition waitBeforeTransactionRetry :: "nat \<Rightarrow> unit m" where
  "waitBeforeTransactionRetry attempt w =
     (case waits w of
        Some l # ws \<Rightarrow> (Inl (link_go_error l), w\<lparr>waits := ws\<rparr>)
      | None # ws \<Rightarrow> (Inr (), w\<lparr>waits := ws, slept_ms := slept_ms w + 2 ^ min attempt 6\<rparr>)
      | [] \<Rightarrow> (Inr (), w\<lparr>slept_ms := slept_ms w + 2 ^ min attempt 6\<rparr>))"

function retry_loop :: "string \<Rightarrow> 'a m \<Rightarrow> nat \<Rightarrow> go_error \<Rightarrow> 'a m" where
  "retry_loop name op attempt lastErr w =
     (if attempt < 8 then
        (case op w of
           (Inr v, w1) \<Rightarrow> (Inr v, w1)
         | (Inl e, w1) \<Rightarrow>
             if \<not> isRetryableTransactionError e then (Inl e, w1)
             else (case bind_m (metric_m ''database_retry'' [name, retryReason e])
                          (\<lambda>_. waitBeforeTransactionRetry attempt) w1 of
                     (Inl e', w2) \<Rightarrow> (Inl e', w2)
                   | (Inr _, w2) \<Rightarrow> retry_loop name op (Suc attempt) e w2))
      else (Inl lastErr, w))"
  by auto
termination
  by (relation "measure (\<lambda>(_, _, attempt, _, _). 8 - attempt)") auto

declare retry_loop.simps [simp del]

text \<open>\<open>lastErr\<close> is unset before the first attempt and never returned unset.\<close>

definition retryTransaction :: "string \<Rightarrow> 'a m \<Rightarrow> 'a m" where
  "retryTransaction name op = retry_loop name op 0 (ErrorString '''')"

section \<open>Digests\<close>

definition equalDigest :: "byte list \<Rightarrow> byte list \<Rightarrow> bool" where
  "equalDigest actual expected =
     (if length actual \<noteq> 32 then False
      else foldl (\<lambda>difference index. difference OR (actual ! index XOR expected ! index)) 0
             [0..<length actual] = 0)"

section \<open>Principals and authorization\<close>

definition ResolvePrincipal :: "string \<Rightarrow> string \<Rightarrow> Principal m" where
  "ResolvePrincipal issuer subject =
     bind_m (query_pool (\<lambda>_. principalQuery issuer subject)) (\<lambda>rows.
     bind_m (scan_row rows) (\<lambda>(uuid_id, client_class).
     return_m \<lparr>p_ID = uuid_id, p_Issuer = '''', p_Subject = '''', p_ClientID = '''',
               p_ClientClass = client_class\<rparr>))"

definition authorize :: "AccessContext \<Rightarrow> string \<Rightarrow> unit m" where
  "authorize access permission =
     bind_m (query_tx (\<lambda>_ _ d. [effective_permission d (p_ID (ac_Principal access)) permission])) (\<lambda>rows.
     bind_m (scan_row rows) (\<lambda>allowed.
     if \<not> allowed then fail_m ErrPermissionDenied else return_m ()))"

definition Authorize :: "AccessContext \<Rightarrow> string \<Rightarrow> unit m" where
  "Authorize access permission =
     bind_m begin_tx (\<lambda>_.
     defer_m (bind_m (authorize access permission) (\<lambda>_. commit_tx)) rollback_tx)"

definition beginAuthorizedMutation :: "MutationContext \<Rightarrow> string \<Rightarrow> unit m" where
  "beginAuthorizedMutation operation permission =
     bind_m begin_tx (\<lambda>_.
     bind_m (try_m (authorize (mc_Access operation) permission)) (\<lambda>r.
     case r of
       Inl e \<Rightarrow> bind_m (try_m rollback_tx) (\<lambda>_. fail_m e)
     | Inr _ \<Rightarrow> return_m ()))"

section \<open>Claims, results and replay\<close>

definition RecordIdempotency :: "MutationContext \<Rightarrow> string \<Rightarrow> unit m" where
  "RecordIdempotency operation outcome =
     metric_m ''idempotency'' [ac_Operation (mc_Access operation), outcome]"

definition claimOperation :: "('u, 'd) lib \<Rightarrow> MutationContext \<Rightarrow> (string \<times> bool) m" where
  "claimOperation L operation =
     bind_m (try_m (bind_m (exec_tx (\<lambda>_ _. insert_claim L operation)) scan_row)) (\<lambda>r.
     case r of
       Inl e \<Rightarrow>
         if errors_Is e ErrNoRows then return_m ('''', False)
         else bind_m (RecordIdempotency operation ''storage_error'') (\<lambda>_. fail_m e)
     | Inr inserted \<Rightarrow>
         bind_m (RecordIdempotency operation ''claimed'') (\<lambda>_. return_m (inserted, True)))"

definition succeeded_row :: "string \<Rightarrow> string \<Rightarrow> int \<Rightarrow> result_row" where
  "succeeded_row claimID resourceID ts =
     \<lparr>rs_claim = claimID, rs_outcome = ''succeeded'', rs_resource = Some resourceID,
      rs_error = None, rs_completed_at = ts\<rparr>"

definition rejected_row :: "string \<Rightarrow> string \<Rightarrow> int \<Rightarrow> result_row" where
  "rejected_row claimID code ts =
     \<lparr>rs_claim = claimID, rs_outcome = ''rejected'', rs_resource = None,
      rs_error = Some code, rs_completed_at = ts\<rparr>"

definition unit_result :: "database result \<Rightarrow> (unit \<times> database) result" where
  "unit_result r = bind_r r (\<lambda>d. Inr ((), d))"

definition recordOperationSuccess :: "('u, 'd) lib \<Rightarrow> string \<Rightarrow> string \<Rightarrow> unit m" where
  "recordOperationSuccess L claimID resourceID =
     exec_tx (\<lambda>ts _ d. unit_result (insert_result L (succeeded_row claimID resourceID ts) d))"

definition recordOperationRejection :: "('u, 'd) lib \<Rightarrow> string \<Rightarrow> string \<Rightarrow> unit m" where
  "recordOperationRejection L claimID code =
     exec_tx (\<lambda>ts _ d. unit_result (insert_result L (rejected_row claimID code ts) d))"

definition replayResource :: "MutationContext \<Rightarrow> string m" where
  "replayResource operation =
     bind_m (try_m (bind_m (query_pool (\<lambda>_. replayQuery operation)) scan_row)) (\<lambda>r.
     case r of
       Inl e \<Rightarrow> bind_m (RecordIdempotency operation ''storage_error'') (\<lambda>_. fail_m e)
     | Inr (resourceID, outcome, safeErrorCode, requestDigest) \<Rightarrow>
         if \<not> equalDigest requestDigest (ac_RequestDigest (mc_Access operation)) then
           bind_m (RecordIdempotency operation ''conflict'') (\<lambda>_. fail_m ErrIdempotencyConflict)
         else if outcome = ''rejected'' then
           bind_m (RecordIdempotency operation ''replayed'') (\<lambda>_.
             fail_m (operationErrorFromCode safeErrorCode))
         else case resourceID of
           Some resource \<Rightarrow>
             if outcome \<noteq> ''succeeded'' then
               bind_m (RecordIdempotency operation ''storage_error'') (\<lambda>_.
                 fail_m (ErrorString ''invalid stored operation result''))
             else bind_m (RecordIdempotency operation ''replayed'') (\<lambda>_. return_m resource)
         | None \<Rightarrow>
             bind_m (RecordIdempotency operation ''storage_error'') (\<lambda>_.
               fail_m (ErrorString ''invalid stored operation result'')))"

definition scan_offer :: "('u, 'd) lib \<Rightarrow> offer_out \<Rightarrow> 'd SaleOffer result" where
  "scan_offer L = (\<lambda>(uuid_id, seller, series, priceText, currency).
     bind_r (ParsePrice L priceText) (\<lambda>price.
     Inr \<lparr>so_ID = uuid_id, so_SellerID = seller, so_BondSeries = series, so_Price = price,
          so_Currency = currency\<rparr>))"

definition scanPurchase :: "('u, 'd) lib \<Rightarrow> purchase_out \<Rightarrow> 'd Purchase result" where
  "scanPurchase L = (\<lambda>(uuid_id, offer, buyer, boughtAt).
     case scan_offer L offer of
       Inl e \<Rightarrow> Inl (Errorf ''parse stored price: %w'' [e])
     | Inr so \<Rightarrow> Inr \<lparr>pu_ID = uuid_id, pu_Offer = so, pu_BuyerID = buyer, pu_BoughtAt = boughtAt\<rparr>)"

definition replayPurchase :: "('u, 'd) lib \<Rightarrow> MutationContext \<Rightarrow> 'd Purchase m" where
  "replayPurchase L operation =
     bind_m (replayResource operation) (\<lambda>resourceID.
     bind_m (query_pool (\<lambda>_. purchaseByOfferQuery L resourceID)) (\<lambda>rows.
     bind_m (scan_row rows) (\<lambda>row. lift_r (scanPurchase L row))))"

definition replayCreatedOffer :: "('u, 'd) lib \<Rightarrow> MutationContext \<Rightarrow> 'd SaleOffer m" where
  "replayCreatedOffer L operation =
     bind_m (replayResource operation) (\<lambda>resourceID.
     bind_m (query_pool (\<lambda>_. offerByIdQuery L resourceID)) (\<lambda>rows.
     bind_m (scan_row rows) (\<lambda>row. lift_r (scan_offer L row))))"

text \<open>The early return of both mutations when the claim already existed.\<close>

definition rollback_then :: "'a m \<Rightarrow> 'a m" where
  "rollback_then replay =
     bind_m (try_m rollback_tx) (\<lambda>r.
     case r of
       Inl e \<Rightarrow> if errors_Is e ErrTxClosed then replay else fail_m e
     | Inr _ \<Rightarrow> replay)"

section \<open>Creating a sale offer\<close>

definition create_insert ::
  "('u, 'd) lib \<Rightarrow> MutationContext \<Rightarrow> 'd SaleOffer \<Rightarrow> offer_out m" where
  "create_insert L operation offer =
     bind_m (exec_tx (\<lambda>_ _. createSaleOfferQuery L (p_ID (ac_Principal (mc_Access operation)))
               (so_BondSeries offer) (dec_String L (so_Price offer)) (so_Currency offer)))
       scan_row"

definition createSaleOfferOnce ::
  "('u, 'd) lib \<Rightarrow> MutationContext \<Rightarrow> 'd SaleOffer \<Rightarrow> 'd SaleOffer m" where
  "createSaleOfferOnce L operation offer =
     bind_m (beginAuthorizedMutation operation PermissionCreateSaleOffer) (\<lambda>_.
     defer_m
       (bind_m (claimOperation L operation) (\<lambda>(claimID, claimed).
        if \<not> claimed then rollback_then (replayCreatedOffer L operation)
        else
          bind_m begin_savepoint (\<lambda>_.
          bind_m (try_m (create_insert L operation offer)) (\<lambda>r.
          case r of
            Inl e \<Rightarrow>
              bind_m (try_m rollback_savepoint) (\<lambda>_.
              let classified = (if errors_Is e ErrNoRows then ErrBondNotFound
                                else classifyCreateSaleOfferError e)
              in case safeOperationErrorCode classified of
                   Some code \<Rightarrow>
                     bind_m (recordOperationRejection L claimID code) (\<lambda>_.
                     bind_m commit_tx (\<lambda>_. fail_m classified))
                 | None \<Rightarrow> fail_m classified)
          | Inr row \<Rightarrow>
              bind_m release_savepoint (\<lambda>_.
              bind_m (lift_r (scan_offer L row)) (\<lambda>created.
              bind_m (recordOperationSuccess L claimID (so_ID created)) (\<lambda>_.
              bind_m commit_tx (\<lambda>_. return_m created))))))))
       rollback_tx)"

definition CreateSaleOffer ::
  "('u, 'd) lib \<Rightarrow> MutationContext \<Rightarrow> 'd SaleOffer \<Rightarrow> 'd SaleOffer m" where
  "CreateSaleOffer L operation offer =
     retryTransaction OperationCreateSaleOffer (createSaleOfferOnce L operation offer)"

section \<open>Buying\<close>

definition purchase_of_row :: "('u, 'd) lib \<Rightarrow> purchase_out \<Rightarrow> 'd Purchase result" where
  "purchase_of_row L = (\<lambda>(uuid_id, offer, buyer, boughtAt).
     bind_r (scan_offer L offer) (\<lambda>so.
     Inr \<lparr>pu_ID = uuid_id, pu_Offer = so, pu_BuyerID = buyer, pu_BoughtAt = boughtAt\<rparr>))"

definition buyOnce :: "('u, 'd) lib \<Rightarrow> MutationContext \<Rightarrow> OfferID \<Rightarrow> 'd Purchase m" where
  "buyOnce L operation offerID =
     bind_m (beginAuthorizedMutation operation PermissionBuy) (\<lambda>_.
     defer_m
       (bind_m (claimOperation L operation) (\<lambda>(claimID, claimed).
        if \<not> claimed then rollback_then (replayPurchase L operation)
        else
          bind_m (try_m (bind_m (exec_tx (\<lambda>ts _.
                    buyQuery L ts offerID (p_ID (ac_Principal (mc_Access operation))))) scan_row)) (\<lambda>r.
          case r of
            Inr row \<Rightarrow>
              bind_m (lift_r (purchase_of_row L row)) (\<lambda>purchase.
              bind_m (recordOperationSuccess L claimID offerID) (\<lambda>_.
              bind_m commit_tx (\<lambda>_. return_m purchase)))
          | Inl e \<Rightarrow>
              if \<not> errors_Is e ErrNoRows then fail_m (classifyBuyError e)
              else
                bind_m (query_tx (\<lambda>_ _ d. [classifyFailedBuyQuery
                          (p_ID (ac_Principal (mc_Access operation))) offerID d])) (\<lambda>rows.
                bind_m (scan_row rows) (\<lambda>selfTrade.
                let err = (if selfTrade then ErrSelfTradeProhibited else ErrOfferUnavailable);
                    code = (case safeOperationErrorCode err of Some c \<Rightarrow> c | None \<Rightarrow> '''')
                in bind_m (recordOperationRejection L claimID code) (\<lambda>_.
                   bind_m commit_tx (\<lambda>_. fail_m err)))))))
       rollback_tx)"

definition Buy :: "('u, 'd) lib \<Rightarrow> MutationContext \<Rightarrow> OfferID \<Rightarrow> 'd Purchase m" where
  "Buy L operation offerID = retryTransaction OperationBuy (buyOnce L operation offerID)"

section \<open>Listings\<close>

text \<open>\<^verbatim>\<open>rows.Next\<close>: a fetch that may fail, which ends the loop with \<^verbatim>\<open>rows.Err\<close>.\<close>

definition next_row :: "unit m" where
  "next_row = exec_tx (\<lambda>_ _ d. Inr ((), d))"

fun stream_rows ::
  "('u, 'd) lib \<Rightarrow> ('d SaleOffer \<Rightarrow> unit m) \<Rightarrow> offer_out list \<Rightarrow> unit m" where
  "stream_rows L yield [] = next_row"
| "stream_rows L yield (row # rows) =
     bind_m next_row (\<lambda>_.
     bind_m (lift_r (scan_offer L row)) (\<lambda>offer.
     bind_m (yield offer) (\<lambda>_. stream_rows L yield rows)))"

definition StreamActiveOffers ::
  "('u, 'd) lib \<Rightarrow> AccessContext \<Rightarrow> BondSeries \<Rightarrow> ('d SaleOffer \<Rightarrow> unit m) \<Rightarrow> unit m" where
  "StreamActiveOffers L access bondSeries yield =
     bind_m begin_tx (\<lambda>_.
     defer_m
       (bind_m (authorize access PermissionListActiveOffers) (\<lambda>_.
        bind_m (query_tx (\<lambda>_ _. activeOffersQuery L bondSeries (p_ID (ac_Principal access)))) (\<lambda>rows.
        bind_m (stream_rows L yield rows) (\<lambda>_. commit_tx))))
       rollback_tx)"

fun collect_rows :: "'a list \<Rightarrow> 'a list \<Rightarrow> 'a list m" where
  "collect_rows acc [] = bind_m next_row (\<lambda>_. return_m acc)"
| "collect_rows acc (row # rows) = bind_m next_row (\<lambda>_. collect_rows (acc @ [row]) rows)"

definition ActiveBondSeries :: "AccessContext \<Rightarrow> BondSeries list m" where
  "ActiveBondSeries access =
     bind_m begin_tx (\<lambda>_.
     defer_m
       (bind_m (authorize access PermissionListBondSeries) (\<lambda>_.
        bind_m (query_tx (\<lambda>_ _. activeBondSeriesQuery (p_ID (ac_Principal access)))) (\<lambda>rows.
        bind_m (collect_rows [] rows) (\<lambda>series.
        bind_m commit_tx (\<lambda>_. return_m series)))))
       rollback_tx)"

text \<open>The PostgreSQL implementation of the interface \<^verbatim>\<open>exchange.Store\<close>.\<close>

definition postgres_store :: "('u, 'd) lib \<Rightarrow> ('d, world) Store" where
  "postgres_store L =
     \<lparr>st_Buy = Buy L, st_CreateSaleOffer = CreateSaleOffer L,
      st_StreamActiveOffers = StreamActiveOffers L, st_ActiveBondSeries = ActiveBondSeries\<rparr>"

end
