(* ===== verification/Tx_Logic.thy ===== *)
theory Tx_Logic
  imports Pg_World
begin

text \<open>
  A calculus for transactions on top of the Hoare triples. \<open>steps\<close> relates a program running inside
  a transaction to a pure function of the working copy, \<open>ends\<close> a program that completes the
  transaction to the result and the database it commits, \<open>reads\<close> a program outside a transaction to
  a pure query. \<open>finished\<close> is their common outcome: either the pure result, with its database
  committed, or an error of the environment, with nothing committed or, when the reply to a
  commit was lost, everything. \<open>atomic\<close> states it of a whole store operation.
\<close>

section \<open>Structural rules\<close>

lemma triple_step:
  assumes "triple P p R E'" and "\<And>e w. E' e w \<Longrightarrow> E e w" and "\<And>a. triple (R a) (f a) Q E"
  shows "triple P (bind_m p f) Q E"
  by (rule triple_bind [where R = R]) (auto intro: triple_conseq [OF assms(1)] assms)

definition outcome_ok :: "('a \<Rightarrow> world \<Rightarrow> bool) \<Rightarrow> (go_error \<Rightarrow> world \<Rightarrow> bool) \<Rightarrow> 'a result \<times> world \<Rightarrow> bool"
  where "outcome_ok Q E x = (case x of (Inl e, w') \<Rightarrow> E e w' | (Inr a, w') \<Rightarrow> Q a w')"

lemma triple_alt: "triple P p Q E \<longleftrightarrow> (\<forall>w. P w \<longrightarrow> outcome_ok Q E (p w))"
  by (simp only: triple_def outcome_ok_def)

lemma triple_ex: "(\<And>x. triple (P x) p Q E) \<Longrightarrow> triple (\<lambda>w. \<exists>x. P x w) p Q E"
  unfolding triple_alt by blast

lemma triple_disj:
  "triple P1 p Q E \<Longrightarrow> triple P2 p Q E \<Longrightarrow> triple (\<lambda>w. P1 w \<or> P2 w) p Q E"
  unfolding triple_alt by blast

lemma triple_fact: "(c \<Longrightarrow> triple P p Q E) \<Longrightarrow> triple (\<lambda>w. c \<and> P w) p Q E"
  unfolding triple_alt by blast

lemma triple_skip_metric:
  assumes "\<And>w ms. P w \<Longrightarrow> P (w\<lparr>metrics := ms\<rparr>)" and "triple P (f ()) Q E"
  shows "triple P (bind_m (metric_m n as) f) Q E"
  by (rule triple_bind [OF triple_metric [where Q = "\<lambda>_. P"]]) (auto intro: assms)

section \<open>Programs outside a transaction\<close>

definition reads :: "bool \<Rightarrow> database \<Rightarrow> 'a m \<Rightarrow> 'a result \<Rightarrow> bool" where
  "reads b d p r \<longleftrightarrow> triple (at_db b d) p
     (\<lambda>a w. r = Inr a \<and> at_db b d w) (\<lambda>e w. r = Inl e \<and> at_db b d w \<or> faulted b d e w)"

definition first_row :: "'a list \<Rightarrow> 'a result" where
  "first_row rows = (case rows of [] \<Rightarrow> Inl ErrNoRows | r # _ \<Rightarrow> Inr r)"

lemma reads_bind:
  assumes "reads b d p r" and "\<And>a. r = Inr a \<Longrightarrow> reads b d (f a) (g a)"
  shows "reads b d (bind_m p f) (bind_r r g)"
  unfolding reads_def
proof (rule triple_step [OF assms(1) [unfolded reads_def]])
  show "triple (\<lambda>w. r = Inr a \<and> at_db b d w) (f a) (\<lambda>c w. bind_r r g = Inr c \<and> at_db b d w)
      (\<lambda>e w. bind_r r g = Inl e \<and> at_db b d w \<or> faulted b d e w)" for a
    by (rule triple_fact) (use assms(2) [of a] in \<open>simp add: reads_def\<close>)
qed auto

lemma reads_return: "reads b d (return_m a) (Inr a)"
  unfolding reads_def by (rule triple_return) simp

lemma reads_fail: "reads b d (fail_m e) (Inl e)"
  unfolding reads_def by (rule triple_fail) simp

lemma reads_lift: "reads b d (lift_r r) r"
  unfolding reads_def by (rule triple_lift) auto

lemma reads_metric: "reads b d (f ()) r \<Longrightarrow> reads b d (bind_m (metric_m n as) f) r"
  unfolding reads_def by (rule triple_skip_metric) auto

lemma reads_query: "reads b d (query_pool (\<lambda>_. q)) (Inr (q d))"
  unfolding reads_def by (rule triple_conseq [OF triple_query_pool]) auto

lemma reads_scan: "reads b d (scan_row rows) (first_row rows)"
  by (auto simp: reads_fail reads_return scan_row_def first_row_def split: list.split)

lemma reads_query_row: "reads b d (bind_m (query_pool (\<lambda>_. q)) scan_row) (first_row (q d))"
  using reads_bind [OF reads_query reads_scan, of b d q] by simp

lemma reads_query_lift:
  "reads b d (bind_m (query_pool (\<lambda>_. q)) (\<lambda>rows. bind_m (scan_row rows) (\<lambda>row. lift_r (f row))))
     (bind_r (first_row (q d)) f)"
proof -
  have "reads b d (bind_m (query_pool (\<lambda>_. q)) (\<lambda>rows. bind_m (scan_row rows) (\<lambda>row. lift_r (f row))))
     (bind_r (Inr (q d)) (\<lambda>rows. bind_r (first_row rows) f))"
    by (intro reads_bind reads_query reads_scan reads_lift)
  then show ?thesis by simp
qed

lemma reads_try:
  assumes "reads b d p r" and "reads b d (f r) r'"
    and "\<And>e. is_fault e \<Longrightarrow> triple (\<lambda>w. faulted b d e w) (f (Inl e)) (\<lambda>_ _. False) (faulted b d)"
  shows "reads b d (bind_m (try_m p) f) r'"
  unfolding reads_def
proof (rule triple_bind [OF triple_try])
  show "triple (at_db b d) p (\<lambda>a w. r = Inr a \<and> at_db b d w \<or> (\<exists>e. Inr a = Inl e \<and> faulted b d e w))
      (\<lambda>e w. r = Inl e \<and> at_db b d w \<or> (\<exists>e'. Inl e = (Inl e' :: 'a result) \<and> faulted b d e' w))"
    by (rule triple_conseq [OF assms(1) [unfolded reads_def]]) auto
next
  fix x :: "'a result"
  have fault: "triple (\<lambda>w. \<exists>e. x = Inl e \<and> faulted b d e w) (f x)
      (\<lambda>a w. r' = Inr a \<and> at_db b d w) (\<lambda>e w. r' = Inl e \<and> at_db b d w \<or> faulted b d e w)"
  proof (rule triple_ex, rule triple_fact)
    fix e
    assume "x = Inl e"
    show "triple (faulted b d e) (f x)
      (\<lambda>a w. r' = Inr a \<and> at_db b d w) (\<lambda>e w. r' = Inl e \<and> at_db b d w \<or> faulted b d e w)"
    proof (cases "is_fault e")
      case True
      then show ?thesis by (simp add: \<open>x = Inl e\<close>) (rule triple_conseq [OF assms(3)], auto)
    next
      case False
      then show ?thesis by (simp add: triple_def faulted_def)
    qed
  qed
  show "triple (\<lambda>w. r = x \<and> at_db b d w \<or> (\<exists>e. x = Inl e \<and> faulted b d e w)) (f x)
      (\<lambda>a w. r' = Inr a \<and> at_db b d w) (\<lambda>e w. r' = Inl e \<and> at_db b d w \<or> faulted b d e w)"
    by (rule triple_disj [OF triple_fact fault]) (use assms(2) in \<open>simp add: reads_def\<close>)
qed

section \<open>Programs inside a transaction\<close>

definition steps ::
  "bool \<Rightarrow> database \<Rightarrow> int \<Rightarrow> database \<Rightarrow> 'a m \<Rightarrow> ('a \<times> database) result \<Rightarrow> bool" where
  "steps b d ts t p r \<longleftrightarrow> triple (in_tx b d ts t) p
     (\<lambda>a w. \<exists>t'. r = Inr (a, t') \<and> in_tx b d ts t' w)
     (\<lambda>e w. r = Inl e \<and> at_db b d w \<or> faulted b d e w)"

definition finished :: "bool \<Rightarrow> database \<Rightarrow> 'a result \<times> database \<Rightarrow> 'a result \<Rightarrow> world \<Rightarrow> bool" where
  "finished b d eff r w \<longleftrightarrow>
     calm b w \<and> eff = (r, db w)
   \<or> \<not> b \<and> (\<exists>e. r = Inl e \<and> is_fault e \<and> (db w = d \<or> as_PgError e = None \<and> db w = snd eff))"

definition ends ::
  "bool \<Rightarrow> database \<Rightarrow> (world \<Rightarrow> bool) \<Rightarrow> 'a m \<Rightarrow> 'a result \<times> database \<Rightarrow> bool" where
  "ends b d P p eff \<longleftrightarrow> triple P p (\<lambda>a. finished b d eff (Inr a)) (\<lambda>e. finished b d eff (Inl e))"

lemma finished_fault: "faulted b d e w \<Longrightarrow> finished b d eff (Inl e) w"
  by (auto simp: faulted_def finished_def)

lemma steps_exec: "steps b d ts t (exec_tx (\<lambda>ts _. q ts)) (q ts t)"
  unfolding steps_def by (rule triple_conseq [OF triple_exec]) auto

lemma steps_query: "steps b d ts t (query_tx (\<lambda>_ _. q)) (Inr (q t, t))"
  unfolding steps_def by (rule triple_conseq [OF triple_query]) auto

lemma steps_return: "steps b d ts t (return_m a) (Inr (a, t))"
  unfolding steps_def by (rule triple_return) simp

lemma steps_fail: "steps b d ts t (fail_m e) (Inl e)"
  unfolding steps_def by (rule triple_fail) (simp add: in_tx_at_db)

lemma steps_lift: "steps b d ts t (lift_r r) (bind_r r (\<lambda>a. Inr (a, t)))"
  by (cases r) (auto simp: steps_def in_tx_at_db intro: triple_lift)

lemma steps_bind:
  assumes "steps b d ts t p r" and "\<And>a t'. r = Inr (a, t') \<Longrightarrow> steps b d ts t' (f a) (g (a, t'))"
  shows "steps b d ts t (bind_m p f) (bind_r r g)"
  unfolding steps_def
proof (rule triple_step [OF assms(1) [unfolded steps_def]])
  show "triple (\<lambda>w. \<exists>t'. r = Inr (a, t') \<and> in_tx b d ts t' w) (f a)
      (\<lambda>c w. \<exists>t'. bind_r r g = Inr (c, t') \<and> in_tx b d ts t' w)
      (\<lambda>e w. bind_r r g = Inl e \<and> at_db b d w \<or> faulted b d e w)" for a
    by (rule triple_ex, rule triple_fact) (use assms(2) [of a] in \<open>simp add: steps_def\<close>)
qed auto

lemma steps_metric: "steps b d ts t (f ()) r \<Longrightarrow> steps b d ts t (bind_m (metric_m n as) f) r"
  unfolding steps_def by (rule triple_skip_metric) auto

lemma ends_bind:
  assumes "steps b d ts t p r"
    and "\<And>e. r = Inl e \<Longrightarrow> eff = (Inl e, d)"
    and "\<And>a t'. r = Inr (a, t') \<Longrightarrow> ends b d (in_tx b d ts t') (f a) eff"
  shows "ends b d (in_tx b d ts t) (bind_m p f) eff"
  unfolding ends_def
proof (rule triple_step [OF assms(1) [unfolded steps_def]])
  show "r = Inl e \<and> at_db b d w \<or> faulted b d e w \<Longrightarrow> finished b d eff (Inl e) w" for e w
    using assms(2) [of e] finished_fault [of b d e w eff] by (auto simp: finished_def at_db_def)
  show "triple (\<lambda>w. \<exists>t'. r = Inr (a, t') \<and> in_tx b d ts t' w) (f a)
      (\<lambda>a. finished b d eff (Inr a)) (\<lambda>e. finished b d eff (Inl e))" for a
    by (rule triple_ex, rule triple_fact) (use assms(3) [of a] in \<open>simp add: ends_def\<close>)
qed

lemma ends_query:
  assumes "ends b d (in_tx b d ts t) (f (q t)) eff"
  shows "ends b d (in_tx b d ts t) (bind_m (query_tx (\<lambda>_ _. q)) f) eff"
  by (rule ends_bind [OF steps_query]) (use assms in auto)

lemma ends_metric:
  "ends b d (in_tx b d ts t) (f ()) eff \<Longrightarrow> ends b d (in_tx b d ts t) (bind_m (metric_m n as) f) eff"
  unfolding ends_def by (rule triple_skip_metric) auto

lemma ends_fail: "eff = (Inl e, d) \<Longrightarrow> ends b d (in_tx b d ts t) (fail_m e) eff"
  unfolding ends_def by (rule triple_fail) (simp add: finished_def assertion_defs)

lemma ends_commit:
  assumes "\<And>a. f a = return_m c \<and> eff = (Inr c, t) \<or> f a = fail_m e \<and> eff = (Inl e, t)"
  shows "ends b d (in_tx b d ts t) (bind_m commit_tx f) eff"
  unfolding ends_def
proof (rule triple_step [OF triple_commit])
  show "\<not> b \<and> is_fault e \<and> (db w = d \<or> db w = t \<and> as_PgError e = None) \<Longrightarrow> finished b d eff (Inl e) w"
    for e w
    using assms [of "()"] by (auto simp: finished_def)
  show "triple (at_db b t) (f a) (\<lambda>a. finished b d eff (Inr a)) (\<lambda>e. finished b d eff (Inl e))" for a
    using assms [of a] by (auto simp: triple_def return_m_def fail_m_def finished_def at_db_def)
qed

lemma finished_rollback: "finished b d eff r w \<Longrightarrow> finished b d eff r (snd (rollback_tx w))"
  using rollback_calm by (auto simp: finished_def)

lemma ends_defer: "ends b d P p eff \<Longrightarrow> ends b d P (defer_m p rollback_tx) eff"
  unfolding ends_def by (erule triple_defer) (rule finished_rollback, assumption)+

lemma ends_reads: "reads b d p r \<Longrightarrow> ends b d (at_db b d) p (r, d)"
  unfolding ends_def reads_def
  by (erule triple_conseq) (auto simp: finished_def at_db_def faulted_def)

section \<open>Statements returning a row\<close>

text \<open>
  The three ways a row query of a transaction can go: a row, no row with the transaction still
  usable, or a failed statement that leaves it aborted.
\<close>

lemma triple_try_row:
  "triple (in_tx b d ts t) (try_m (bind_m (exec_tx (\<lambda>ts _. q ts)) scan_row))
     (\<lambda>r w. (\<exists>rows t'. q ts t = Inr (rows, t') \<and> r = first_row rows \<and> in_tx b d ts t' w)
        \<or> (\<exists>e. r = Inl e \<and> q ts t = Inl e \<and> at_db b d w)
        \<or> (\<exists>e. r = Inl e \<and> faulted b d e w)) E"
proof (rule triple_try, rule triple_step [OF triple_exec])
  fix a
  show "triple (\<lambda>w. \<exists>st t'. q ts t = Inr (a, t') \<and> in_tx b d ts t' w) (scan_row a)
    (\<lambda>x w. (\<exists>rows t'. q ts t = Inr (rows, t') \<and> Inr x = first_row rows \<and> in_tx b d ts t' w)
        \<or> (\<exists>e. Inr x = (Inl e :: 'a result) \<and> q ts t = Inl e \<and> at_db b d w)
        \<or> (\<exists>e. Inr x = (Inl e :: 'a result) \<and> faulted b d e w))
    (\<lambda>x w. (\<exists>rows t'. q ts t = Inr (rows, t') \<and> Inl x = first_row rows \<and> in_tx b d ts t' w)
        \<or> (\<exists>e. Inl x = (Inl e :: 'a result) \<and> q ts t = Inl e \<and> at_db b d w)
        \<or> (\<exists>e. Inl x = (Inl e :: 'a result) \<and> faulted b d e w))"
    by (rule triple_scan) (auto simp: first_row_def)
qed auto

lemma ends_try_row:
  assumes row: "\<And>rows t'. q ts t = Inr (rows, t') \<Longrightarrow> ends b d (in_tx b d ts t') (f (first_row rows)) eff"
    and error: "\<And>e. q ts t = Inl e \<Longrightarrow> ends b d (at_db b d) (f (Inl e)) eff"
    and fault: "\<And>e. is_fault e \<Longrightarrow> ends b d (faulted b d e) (f (Inl e)) eff"
  shows "ends b d (in_tx b d ts t) (bind_m (try_m (bind_m (exec_tx (\<lambda>ts _. q ts)) scan_row)) f) eff"
  unfolding ends_def
proof (rule triple_bind [OF triple_try_row], intro triple_disj triple_ex triple_fact)
  fix r :: "'a result" and e :: go_error
  assume "r = Inl e"
  show "triple (faulted b d e) (f r) (\<lambda>a. finished b d eff (Inr a)) (\<lambda>e. finished b d eff (Inl e))"
  proof (cases "is_fault e")
    case True
    then show ?thesis using fault [OF True] \<open>r = Inl e\<close> by (simp add: ends_def)
  qed (simp add: triple_def faulted_def)
qed (use row error in \<open>auto simp: ends_def\<close>)

lemma bind_m_assoc: "bind_m (bind_m p f) g = bind_m p (\<lambda>x. bind_m (f x) g)"
  by (rule ext) (simp add: bind_m_def split: prod.splits sum.splits)

lemma bind_m_return [simp]: "bind_m (return_m a) f = f a"
  by (rule ext) (simp add: bind_m_def return_m_def)

lemma bind_m_fail [simp]: "bind_m (fail_m e) f = fail_m e"
  by (rule ext) (simp add: bind_m_def fail_m_def)

lemma ends_weaken: "ends b d P p eff \<Longrightarrow> (\<And>w. P' w \<Longrightarrow> P w) \<Longrightarrow> ends b d P' p eff"
  unfolding ends_def by (erule triple_conseq) auto

lemma ends_fail_at: "eff = (Inl e, d) \<Longrightarrow> ends b d (at_db b d) (fail_m e) eff"
  unfolding ends_def by (rule triple_fail) (simp add: finished_def at_db_def)

lemma ends_fail_fault: "ends b d (faulted b d e) (fail_m e) eff"
  unfolding ends_def by (rule triple_fail) (simp add: finished_fault)

lemma ends_metric_at:
  "ends b d (at_db b d) (f ()) eff \<Longrightarrow> ends b d (at_db b d) (bind_m (metric_m n as) f) eff"
  unfolding ends_def by (rule triple_skip_metric) auto

lemma ends_metric_fault:
  "ends b d (faulted b d e) (f ()) eff \<Longrightarrow> ends b d (faulted b d e) (bind_m (metric_m n as) f) eff"
  unfolding ends_def by (rule triple_skip_metric) auto

lemma ends_try:
  assumes p: "steps b d ts t p r"
    and ok: "\<And>a t'. r = Inr (a, t') \<Longrightarrow> ends b d (in_tx b d ts t') (f (Inr a)) eff"
    and error: "\<And>e. r = Inl e \<Longrightarrow> ends b d (at_db b d) (f (Inl e)) eff"
    and fault: "\<And>e. is_fault e \<Longrightarrow> ends b d (faulted b d e) (f (Inl e)) eff"
  shows "ends b d (in_tx b d ts t) (bind_m (try_m p) f) eff"
  unfolding ends_def
proof (rule triple_bind [OF triple_try])
  show "triple (in_tx b d ts t) p
      (\<lambda>a w. (\<exists>t' c. Inr a = (Inr c :: 'a result) \<and> r = Inr (c, t') \<and> in_tx b d ts t' w)
          \<or> (\<exists>e. Inr a = (Inl e :: 'a result) \<and> r = Inl e \<and> at_db b d w)
          \<or> (\<exists>e. Inr a = (Inl e :: 'a result) \<and> faulted b d e w))
      (\<lambda>x w. (\<exists>t' c. Inl x = (Inr c :: 'a result) \<and> r = Inr (c, t') \<and> in_tx b d ts t' w)
          \<or> (\<exists>e. Inl x = (Inl e :: 'a result) \<and> r = Inl e \<and> at_db b d w)
          \<or> (\<exists>e. Inl x = (Inl e :: 'a result) \<and> faulted b d e w))"
    by (rule triple_conseq [OF p [unfolded steps_def]]) auto
next
  fix x :: "'a result"
  have "triple (faulted b d e) (f (Inl e)) (\<lambda>a. finished b d eff (Inr a)) (\<lambda>e. finished b d eff (Inl e))"
    for e
    using fault [of e] by (cases "is_fault e") (auto simp: ends_def triple_def faulted_def)
  then show "triple (\<lambda>w. (\<exists>t' c. x = Inr c \<and> r = Inr (c, t') \<and> in_tx b d ts t' w)
          \<or> (\<exists>e. x = Inl e \<and> r = Inl e \<and> at_db b d w) \<or> (\<exists>e. x = Inl e \<and> faulted b d e w)) (f x)
      (\<lambda>a. finished b d eff (Inr a)) (\<lambda>e. finished b d eff (Inl e))"
    using ok error by (intro triple_disj triple_ex triple_fact) (auto simp: ends_def)
qed

text \<open>Leaving a transaction by \<^verbatim>\<open>Rollback\<close>.\<close>

lemma rollback_faulted:
  "triple (faulted b d e) (try_m rollback_tx) (\<lambda>_. faulted b d e) E"
  by (auto simp: triple_def try_m_def faulted_def rollback_tx_def trip_frame split: exec_splits)

lemma ends_rollback_fail:
  "eff = (Inl e, d) \<Longrightarrow> ends b d (at_db b d) (bind_m (try_m rollback_tx) (\<lambda>_. fail_m e)) eff"
  unfolding ends_def
  by (rule triple_step [OF triple_rollback])
    (auto intro!: triple_fail simp: finished_def at_db_def intro: finished_fault)

lemma ends_rollback_fail_fault:
  "ends b d (faulted b d e) (bind_m (try_m rollback_tx) (\<lambda>_. fail_m e)) eff"
  unfolding ends_def
  by (rule triple_step [OF rollback_faulted]) (auto intro!: triple_fail intro: finished_fault)

section \<open>Savepoints\<close>

abbreviation saved :: "bool \<Rightarrow> database \<Rightarrow> int \<Rightarrow> database \<Rightarrow> world \<Rightarrow> bool" where
  "saved b d ts t0 w \<equiv> in_doubt b d ts w \<and> savepoint w = Some t0"

lemma ends_savepoint_row:
  assumes row: "\<And>row rows t'. q ts t = Inr (row # rows, t') \<Longrightarrow>
      ends b d (in_work b d ts t t') (f (Inr row)) eff"
    and none: "\<And>t'. q ts t = Inr ([], t') \<Longrightarrow> ends b d (saved b d ts t) (f (Inl ErrNoRows)) eff"
    and error: "\<And>e. q ts t = Inl e \<Longrightarrow> ends b d (saved b d ts t) (f (Inl e)) eff"
    and fault: "\<And>e. \<not> b \<Longrightarrow> is_fault e \<Longrightarrow> ends b d (saved b d ts t) (f (Inl e)) eff"
  shows "ends b d (in_tx b d ts t)
    (bind_m begin_savepoint (\<lambda>_. bind_m (try_m (bind_m (exec_tx (\<lambda>ts _. q ts)) scan_row)) f)) eff"
  unfolding ends_def
proof (rule triple_step [OF triple_begin_savepoint])
  let ?R = "\<lambda>r w. (\<exists>row rows t'. r = Inr row \<and> q ts t = Inr (row # rows, t') \<and> in_work b d ts t t' w)
      \<or> (\<exists>t'. r = Inl ErrNoRows \<and> q ts t = Inr ([], t') \<and> saved b d ts t w)
      \<or> (\<exists>e. r = Inl e \<and> q ts t = Inl e \<and> saved b d ts t w)
      \<or> (\<exists>e. r = Inl e \<and> \<not> b \<and> is_fault e \<and> saved b d ts t w)"
  have *: "triple (in_work b d ts t t) (try_m (bind_m (exec_tx (\<lambda>ts _. q ts)) scan_row)) ?R E" for E
  proof (rule triple_try, rule triple_step [OF triple_exec_work])
    show "triple (\<lambda>w. \<exists>st t'. q ts t = Inr (a, t') \<and> in_work b d ts t t' w) (scan_row a)
        (\<lambda>a. ?R (Inr a)) (\<lambda>e. ?R (Inl e))" for a
      by (rule triple_scan) (auto simp: in_work_def in_tx_def)
  qed auto
  show "triple (in_work b d ts t t) (bind_m (try_m (bind_m (exec_tx (\<lambda>ts _. q ts)) scan_row)) f)
      (\<lambda>a. finished b d eff (Inr a)) (\<lambda>e. finished b d eff (Inl e))"
    by (rule triple_bind [OF *], intro triple_disj triple_ex triple_fact)
      (use row none error fault in \<open>auto simp: ends_def\<close>)
qed (auto intro: finished_fault)

lemma ends_rollback_savepoint:
  assumes "ends b d (in_tx b d ts t0) g eff"
    and "\<not> b \<Longrightarrow> ends b d (\<lambda>w. in_doubt b d ts w \<and> tx_aborted w) g eff"
  shows "ends b d (saved b d ts t0) (bind_m (try_m rollback_savepoint) (\<lambda>_. g)) eff"
  unfolding ends_def
proof (rule triple_bind [OF triple_rollback_savepoint], intro triple_disj triple_fact)
qed (use assms in \<open>auto simp: ends_def\<close>)

lemma ends_release_savepoint:
  "ends b d (in_tx b d ts t) g eff \<Longrightarrow>
     ends b d (in_work b d ts t0 t) (bind_m release_savepoint (\<lambda>_. g)) eff"
  unfolding ends_def by (rule triple_step [OF triple_release_savepoint]) (auto intro: finished_fault)

lemma ends_exec_aborted:
  "\<not> b \<Longrightarrow> ends b d (\<lambda>w. in_doubt b d ts w \<and> tx_aborted w) (bind_m (exec_tx q) f) eff"
  unfolding ends_def
  by (rule triple_step [OF triple_conseq [OF triple_exec_aborted [where b = b and Q = "\<lambda>_ _. False"]]])
    (auto intro: finished_fault simp: triple_def)

lemma ends_fail_doubt:
  "eff = (Inl e, d) \<or> \<not> b \<and> is_fault e \<Longrightarrow> ends b d (in_doubt b d ts) (fail_m e) eff"
  unfolding ends_def by (rule triple_fail) (auto simp: finished_def in_doubt_def at_db_def)

section \<open>Atomic operations\<close>

text \<open>
  The contract of a store operation: whatever the environment does, it finishes as its effect
  function says for some value of the server's clock (its parameter), or it reports an error of the environment; without
  faults only the former.
\<close>

definition atomic :: "'a m \<Rightarrow> ('x \<Rightarrow> database \<Rightarrow> 'a result \<times> database) \<Rightarrow> bool" where
  "atomic p eff \<longleftrightarrow>
     (\<forall>b d w. at_db b d w \<longrightarrow> (\<exists>ts. finished b d (eff ts d) (fst (p w)) (snd (p w))))"

lemma atomicI:
  assumes "\<And>b d. triple (at_db b d) p (\<lambda>a w. \<exists>ts. finished b d (eff ts d) (Inr a) w)
      (\<lambda>e w. \<exists>ts. finished b d (eff ts d) (Inl e) w)"
  shows "atomic p eff"
  unfolding atomic_def
proof (intro allI impI)
  fix b d w
  assume "at_db b d w"
  with assms [of b d] show "\<exists>ts. finished b d (eff ts d) (fst (p w)) (snd (p w))"
    by (cases "fst (p w)"; cases "p w") (auto simp: triple_def split: prod.splits sum.splits)
qed

lemma atomic_begin:
  fixes eff :: "int \<Rightarrow> database \<Rightarrow> 'a result \<times> database"
  assumes "\<And>b d ts. ends b d (in_tx b d ts d) p (eff ts d)"
  shows "atomic (bind_m begin_tx (\<lambda>_. p)) eff"
proof (rule atomicI, rule triple_step [OF triple_begin])
  show "faulted b d e w \<Longrightarrow> \<exists>ts. finished b d (eff ts d) (Inl e) w" for b d e w
    by (auto intro: finished_fault)
  show "triple (\<lambda>w. \<exists>ts. in_tx b d ts d w) p (\<lambda>a w. \<exists>ts. finished b d (eff ts d) (Inr a) w)
      (\<lambda>e w. \<exists>ts. finished b d (eff ts d) (Inl e) w)" for b d
    by (rule triple_ex, rule triple_conseq [OF assms [unfolded ends_def]]) auto
qed

end
