(* ===== verification/Store_Effect.thy ===== *)
theory Store_Effect
  imports Store Tx_Logic
begin

text \<open>
  What one run of a store operation does to the database, as a pure function: the intermediate
  level between the statements of \<open>Store\<close> and the market specification. \<open>buy_effect\<close> and
  \<open>create_effect\<close> give the result and the committed database of a run that is not disturbed; the
  theorems \<open>buyOnce_atomic\<close> and \<open>createSaleOfferOnce_atomic\<close> show that every run of the code, under
  every fault script, either finishes exactly like that or reports an error of the environment and
  leaves the database as it was or, if only the reply to the commit was lost, as the effect says.
\<close>

section \<open>Errors of the statements\<close>

definition sql_error :: "go_error \<Rightarrow> bool" where
  "sql_error e = (case e of PgError c _ \<Rightarrow> c \<noteq> ''40001'' \<and> c \<noteq> ''40P01'' | _ \<Rightarrow> False)"

lemma sql_error_violation [simp]:
  "sql_error (unique_violation c)" "sql_error (check_violation c)" "sql_error (foreign_key_violation c)"
  by (simp_all add: sql_error_def violation_defs)

lemma sql_error_props:
  assumes "sql_error e"
  shows "\<not> errors_Is e ErrNoRows" "\<not> isRetryableTransactionError e"
  using assms by (cases e; simp add: sql_error_def isRetryableTransactionError_def)+

lemma first_violation_sql:
  "first_violation cs = Some e \<Longrightarrow> \<forall>x\<in>set cs. sql_error (snd x) \<Longrightarrow> sql_error e"
  by (induction cs rule: first_violation.induct) (auto split: if_splits)

lemma claim_checks_sql: "claim_checks L c = Some e \<Longrightarrow> sql_error e"
  unfolding claim_checks_def by (erule first_violation_sql) auto

lemma offer_checks_sql: "offer_checks d s sub = Some e \<Longrightarrow> sql_error e"
  unfolding offer_checks_def by (erule first_violation_sql) auto

lemma insert_claim_sql: "insert_claim L op d = Inl e \<Longrightarrow> sql_error e"
  by (auto simp: insert_claim_def Let_def claim_checks_sql split: prod.splits option.splits if_splits)

lemma insert_event_sql: "insert_event L tab src v c d = Inl e \<Longrightarrow> sql_error e"
  by (auto simp: insert_event_def sql_error_def violation_defs split: prod.splits option.splits if_splits)

lemma event_trigger_sql: "record_integration_event_on_completion L r d = Inl e \<Longrightarrow> sql_error e"
  by (auto simp: record_integration_event_on_completion_def insert_event_sql sql_error_def
      split: if_splits list.splits dest: insert_event_sql)

lemma insert_result_sql: "insert_result L r d = Inl e \<Longrightarrow> sql_error e"
  by (auto simp: insert_result_def event_trigger_sql split: if_splits)

lemma insert_purchase_sql: "insert_purchase L ts i u d = Inl e \<Longrightarrow> sql_error e"
  by (auto simp: insert_purchase_def Let_def split: prod.splits if_splits)

lemma insert_purchases_sql: "insert_purchases L ts xs d = Inl e \<Longrightarrow> sql_error e"
  by (induction xs arbitrary: d) (auto simp: insert_purchase_sql split: sum.splits prod.splits)

lemma buyQuery_sql: "buyQuery L ts i u d = Inl e \<Longrightarrow> sql_error e"
  by (auto simp: buyQuery_def dest: insert_purchases_sql split: sum.splits prod.splits)

lemma insert_offer_sql: "insert_offer L s b p c sp sc q d = Inl e \<Longrightarrow> sql_error e"
  by (auto simp: insert_offer_def Let_def offer_checks_sql split: prod.splits option.splits)

lemma insert_offers_sql: "insert_offers L s p c bs d = Inl e \<Longrightarrow> sql_error e"
  by (induction bs arbitrary: d) (auto simp: insert_offer_sql split: sum.splits prod.splits)

lemma numeric_sql: "numeric_param L s = Inl e \<Longrightarrow> sql_error e" "monetary_cast r = Inl e \<Longrightarrow> sql_error e"
  by (auto simp: numeric_param_def monetary_cast_def sql_error_def Let_def split: option.splits if_splits)

lemma createSaleOfferQuery_sql: "createSaleOfferQuery L s i p c d = Inl e \<Longrightarrow> sql_error e"
  by (auto simp: createSaleOfferQuery_def numeric_sql dest: insert_offers_sql insert_offer_sql
      split: sum.splits prod.splits list.splits)

lemma fault_unclassified:
  assumes "is_fault e"
  shows "classifyBuyError e = e" "classifyCreateSaleOfferError e = e" "safeOperationErrorCode e = None"
    "\<not> errors_Is e ErrNoRows" "\<not> errors_Is e ErrTxClosed"
  using assms by (cases e;
      simp add: is_fault_def classifyBuyError_def classifyCreateSaleOfferError_def safeOperationErrorCode_def)+

section \<open>Replay\<close>

definition replay_resource_result :: "MutationContext \<Rightarrow> database \<Rightarrow> string result" where
  "replay_resource_result op d =
     bind_r (first_row (replayQuery op d)) (\<lambda>(resource, outcome, code, digest).
       if \<not> equalDigest digest (ac_RequestDigest (mc_Access op)) then Inl ErrIdempotencyConflict
       else if outcome = ''rejected'' then Inl (operationErrorFromCode code)
       else case resource of
              Some x \<Rightarrow> if outcome \<noteq> ''succeeded'' then Inl (ErrorString ''invalid stored operation result'')
                        else Inr x
            | None \<Rightarrow> Inl (ErrorString ''invalid stored operation result''))"

definition replay_purchase_result :: "('u, 'd) lib \<Rightarrow> MutationContext \<Rightarrow> database \<Rightarrow> 'd Purchase result" where
  "replay_purchase_result L op d =
     bind_r (replay_resource_result op d) (\<lambda>r.
     bind_r (first_row (purchaseByOfferQuery L r d)) (scanPurchase L))"

definition replay_offer_result :: "('u, 'd) lib \<Rightarrow> MutationContext \<Rightarrow> database \<Rightarrow> 'd SaleOffer result" where
  "replay_offer_result L op d =
     bind_r (replay_resource_result op d) (\<lambda>r.
     bind_r (first_row (offerByIdQuery L r d)) (scan_offer L))"

lemma reads_replayResource: "reads b d (replayResource op) (replay_resource_result op d)"
  unfolding replayResource_def RecordIdempotency_def
proof (rule reads_try [OF reads_query_row], goal_cases)
  case 1
  show ?case
    by (auto simp: replay_resource_result_def intro!: reads_metric reads_fail reads_return
        split: sum.splits prod.splits option.splits)
next
  case (2 e)
  show ?case by (simp, rule triple_skip_metric) (auto intro: triple_fail)
qed

lemma reads_replayPurchase: "reads b d (replayPurchase L op) (replay_purchase_result L op d)"
  unfolding replayPurchase_def replay_purchase_result_def
  by (intro reads_bind reads_replayResource reads_query_lift)

lemma reads_replayCreatedOffer: "reads b d (replayCreatedOffer L op) (replay_offer_result L op d)"
  unfolding replayCreatedOffer_def replay_offer_result_def
  by (intro reads_bind reads_replayResource reads_query_lift)

lemma ends_rollback_then:
  assumes "reads b d replay r"
  shows "ends b d (in_tx b d ts t) (rollback_then replay) (r, d)"
  unfolding ends_def rollback_then_def
proof (rule triple_bind)
  show "triple (in_tx b d ts t) (try_m rollback_tx)
      (\<lambda>x w. at_db b d w \<and> (\<forall>e. x = Inl e \<longrightarrow> e = ErrTxClosed \<or> faulted b d e w))
      (\<lambda>e. finished b d (r, d) (Inl e))"
    by (rule triple_conseq [OF triple_rollback]) (auto simp: in_tx_at_db)
  fix x :: "unit result"
  have replay: "triple (at_db b d) replay (\<lambda>a. finished b d (r, d) (Inr a)) (\<lambda>e. finished b d (r, d) (Inl e))"
    using ends_reads [OF assms] by (simp add: ends_def)
  show "triple (\<lambda>w. at_db b d w \<and> (\<forall>e. x = Inl e \<longrightarrow> e = ErrTxClosed \<or> faulted b d e w))
      (case x of Inl e \<Rightarrow> if errors_Is e ErrTxClosed then replay else fail_m e | Inr _ \<Rightarrow> replay)
      (\<lambda>a. finished b d (r, d) (Inr a)) (\<lambda>e. finished b d (r, d) (Inl e))"
  proof (cases "\<exists>e. x = Inl e \<and> \<not> errors_Is e ErrTxClosed")
    case True
    then show ?thesis by (auto intro!: triple_fail finished_fault)
  next
    case False
    have "triple (\<lambda>w. at_db b d w \<and> (\<forall>e. x = Inl e \<longrightarrow> e = ErrTxClosed \<or> faulted b d e w)) replay
      (\<lambda>a. finished b d (r, d) (Inr a)) (\<lambda>e. finished b d (r, d) (Inl e))"
      by (rule triple_conseq [OF replay]) auto
    with False show ?thesis by (cases x) auto
  qed
qed

section \<open>Authorized, claimed mutations\<close>

text \<open>
  The frame both mutations share: permission, claim, and then either the replay of the stored
  outcome or the work under the new claim.
\<close>

definition mutation_effect ::
  "('u, 'd) lib \<Rightarrow> MutationContext \<Rightarrow> string \<Rightarrow> (database \<Rightarrow> 'a result)
     \<Rightarrow> (string \<Rightarrow> database \<Rightarrow> 'a result \<times> database) \<Rightarrow> database \<Rightarrow> 'a result \<times> database" where
  "mutation_effect L op permission replay work d =
     (if \<not> effective_permission d (p_ID (ac_Principal (mc_Access op))) permission then
        (Inl ErrPermissionDenied, d)
      else case insert_claim L op d of
        Inl e \<Rightarrow> (Inl e, d)
      | Inr ([], _) \<Rightarrow> (replay d, d)
      | Inr (claim # _, d1) \<Rightarrow> work claim d1)"

lemma steps_authorize:
  "steps b d ts t (authorize access perm)
     (if \<not> effective_permission t (p_ID (ac_Principal access)) perm then Inl ErrPermissionDenied
      else Inr ((), t))"
proof -
  let ?q = "\<lambda>d. [effective_permission d (p_ID (ac_Principal access)) perm]"
  have "steps b d ts t (authorize access perm)
      (bind_r (Inr (?q t, t)) (\<lambda>(rows, t'). if \<not> hd rows then Inl ErrPermissionDenied else Inr ((), t')))"
    unfolding authorize_def
    by (rule steps_bind [OF steps_query]) (auto simp: scan_row_def steps_fail steps_return)
  then show ?thesis by simp
qed

lemma ends_claimed:
  assumes replay: "reads b d replay (replay_r d)"
    and work: "\<And>claim t. ends b d (in_tx b d ts t) (work claim) (work_eff claim t)"
    and auth: "effective_permission d (p_ID (ac_Principal (mc_Access op))) perm"
  shows "ends b d (in_tx b d ts d)
    (bind_m (claimOperation L op) (\<lambda>(claim, claimed).
       if \<not> claimed then rollback_then replay else work claim))
    (mutation_effect L op perm replay_r work_eff d)"
  unfolding claimOperation_def RecordIdempotency_def bind_m_assoc
proof (rule ends_try_row [where q = "\<lambda>_. insert_claim L op"], goal_cases)
  case (1 rows t')
  with auth show ?case
    by (cases rows)
      (auto simp: first_row_def mutation_effect_def bind_m_assoc
        intro!: ends_metric work ends_rollback_then replay)
next
  case (2 e)
  with auth show ?case
    using sql_error_props(1) [OF insert_claim_sql [OF 2]]
    by (auto simp: bind_m_assoc mutation_effect_def intro!: ends_metric_at ends_fail_at)
next
  case (3 e)
  then show ?case
    using fault_unclassified(4) [OF 3] by (auto simp: bind_m_assoc intro!: ends_metric_fault ends_fail_fault)
qed

lemma atomic_mutation:
  assumes replay: "\<And>b d. reads b d replay (replay_r d)"
    and work: "\<And>b d ts claim t. ends b d (in_tx b d ts t) (work claim) (work_eff ts d claim t)"
  shows "atomic
    (bind_m (beginAuthorizedMutation op perm) (\<lambda>_.
     defer_m (bind_m (claimOperation L op) (\<lambda>(claim, claimed).
       if \<not> claimed then rollback_then replay else work claim)) rollback_tx))
    (\<lambda>ts d. mutation_effect L op perm replay_r (work_eff ts d) d)"
  unfolding beginAuthorizedMutation_def bind_m_assoc
proof (rule atomic_begin, rule ends_try [OF steps_authorize], goal_cases)
  case (1 b d ts a t')
  then show ?case
    by (auto split: if_splits intro!: ends_defer ends_claimed replay work)
next
  case (2 b d ts e)
  then show ?case
    by (auto simp: bind_m_assoc mutation_effect_def split: if_splits intro!: ends_rollback_fail)
next
  case (3 b d ts e)
  then show ?case by (simp add: bind_m_assoc ends_rollback_fail_fault)
qed

section \<open>Recording the outcome\<close>

definition accept_effect ::
  "('u, 'd) lib \<Rightarrow> int \<Rightarrow> string \<Rightarrow> string \<Rightarrow> 'a \<Rightarrow> database \<Rightarrow> database \<Rightarrow> 'a result \<times> database" where
  "accept_effect L ts claim resource v d t =
     (case insert_result L (succeeded_row claim resource ts) t of
        Inl e \<Rightarrow> (Inl e, d) | Inr t' \<Rightarrow> (Inr v, t'))"

definition reject_effect ::
  "('u, 'd) lib \<Rightarrow> int \<Rightarrow> string \<Rightarrow> string \<Rightarrow> go_error \<Rightarrow> database \<Rightarrow> database \<Rightarrow> 'a result \<times> database" where
  "reject_effect L ts claim code err d t =
     (case insert_result L (rejected_row claim code ts) t of
        Inl e \<Rightarrow> (Inl e, d) | Inr t' \<Rightarrow> (Inl err, t'))"

lemma ends_accept:
  "ends b d (in_tx b d ts t)
     (bind_m (recordOperationSuccess L claim resource) (\<lambda>_. bind_m commit_tx (\<lambda>_. return_m v)))
     (accept_effect L ts claim resource v d t)"
  unfolding recordOperationSuccess_def
  by (rule ends_bind [OF steps_exec])
    (auto simp: accept_effect_def unit_result_def bind_r_Inr bind_r_def split: sum.splits
      intro!: ends_commit)

lemma ends_reject:
  "ends b d (in_tx b d ts t)
     (bind_m (recordOperationRejection L claim code) (\<lambda>_. bind_m commit_tx (\<lambda>_. fail_m err)))
     (reject_effect L ts claim code err d t)"
  unfolding recordOperationRejection_def
  by (rule ends_bind [OF steps_exec])
    (auto simp: reject_effect_def unit_result_def bind_r_Inr bind_r_def split: sum.splits
      intro!: ends_commit)

section \<open>Buy\<close>

definition buy_work ::
  "('u, 'd) lib \<Rightarrow> MutationContext \<Rightarrow> OfferID \<Rightarrow> int \<Rightarrow> database \<Rightarrow> string \<Rightarrow> database
     \<Rightarrow> 'd Purchase result \<times> database" where
  "buy_work L op offer ts d claim t =
     (let buyer = p_ID (ac_Principal (mc_Access op))
      in case buyQuery L ts offer buyer t of
           Inl e \<Rightarrow> (Inl (classifyBuyError e), d)
         | Inr ([], t1) \<Rightarrow>
             if classifyFailedBuyQuery buyer offer t1 then
               reject_effect L ts claim ''self_trade_prohibited'' ErrSelfTradeProhibited d t1
             else reject_effect L ts claim ''offer_unavailable'' ErrOfferUnavailable d t1
         | Inr (row # _, t1) \<Rightarrow>
             (case purchase_of_row L row of
                Inl e \<Rightarrow> (Inl e, d)
              | Inr p \<Rightarrow> accept_effect L ts claim offer p d t1))"

definition buy_effect ::
  "('u, 'd) lib \<Rightarrow> MutationContext \<Rightarrow> OfferID \<Rightarrow> int \<Rightarrow> database \<Rightarrow> 'd Purchase result \<times> database" where
  "buy_effect L op offer ts d =
     mutation_effect L op PermissionBuy (replay_purchase_result L op) (buy_work L op offer ts d) d"

lemma safe_code_simps [simp]:
  "safeOperationErrorCode ErrOfferUnavailable = Some ''offer_unavailable''"
  "safeOperationErrorCode ErrSelfTradeProhibited = Some ''self_trade_prohibited''"
  "safeOperationErrorCode ErrOfferAlreadyExists = Some ''offer_already_exists''"
  "safeOperationErrorCode ErrSellerNotFound = Some ''seller_not_found''"
  "safeOperationErrorCode ErrBondNotFound = Some ''bond_not_found''"
  "safeOperationErrorCode ErrConversionQuoteUnavailable = Some ''conversion_quote_unavailable''"
  by (simp_all add: safeOperationErrorCode_def)

lemma buyOnce_atomic: "atomic (buyOnce L op offer) (buy_effect L op offer)"
  unfolding buyOnce_def buy_effect_def
proof (rule atomic_mutation [OF reads_replayPurchase], rule ends_try_row, goal_cases)
  case (1 b d ts claim t rows t')
  show ?case
  proof (cases rows)
    case Nil
    with 1 Nil show ?thesis
      by (auto simp: first_row_def scan_row_def buy_work_def Let_def intro!: ends_query ends_reject)
  next
    case (Cons row rest)
    with 1 show ?thesis
      by (cases "purchase_of_row L row")
        (auto simp: first_row_def buy_work_def Let_def intro!: ends_bind [OF steps_lift] ends_accept)
  qed
next
  case (2 b d ts claim t e)
  with sql_error_props(1) [OF buyQuery_sql [OF 2]] show ?case
    by (auto simp: buy_work_def Let_def intro!: ends_fail_at)
next
  case (3 b d ts claim t e)
  with fault_unclassified [OF 3] show ?case by (simp add: ends_fail_fault)
qed

section \<open>CreateSaleOffer\<close>

definition create_work ::
  "('u, 'd) lib \<Rightarrow> MutationContext \<Rightarrow> 'd SaleOffer \<Rightarrow> int \<Rightarrow> database \<Rightarrow> string \<Rightarrow> database
     \<Rightarrow> 'd SaleOffer result \<times> database" where
  "create_work L op offer ts d claim t =
     (case createSaleOfferQuery L (p_ID (ac_Principal (mc_Access op))) (so_BondSeries offer)
             (dec_String L (so_Price offer)) (so_Currency offer) t of
        Inl e \<Rightarrow>
          (let err = classifyCreateSaleOfferError e
           in case safeOperationErrorCode err of
                Some code \<Rightarrow> reject_effect L ts claim code err d t
              | None \<Rightarrow> (Inl err, d))
      | Inr ([], _) \<Rightarrow> reject_effect L ts claim ''bond_not_found'' ErrBondNotFound d t
      | Inr (row # _, t1) \<Rightarrow>
          (case scan_offer L row of
             Inl e \<Rightarrow> (Inl e, d)
           | Inr created \<Rightarrow> accept_effect L ts claim (so_ID created) created d t1))"

definition create_effect ::
  "('u, 'd) lib \<Rightarrow> MutationContext \<Rightarrow> 'd SaleOffer \<Rightarrow> int \<Rightarrow> database
     \<Rightarrow> 'd SaleOffer result \<times> database" where
  "create_effect L op offer ts d =
     mutation_effect L op PermissionCreateSaleOffer (replay_offer_result L op)
       (create_work L op offer ts d) d"

lemma ends_reject_aborted:
  "\<not> b \<Longrightarrow> ends b d (\<lambda>w. in_doubt b d ts w \<and> tx_aborted w)
     (bind_m (recordOperationRejection L claim code) f) eff"
  unfolding recordOperationRejection_def by (rule ends_exec_aborted)

lemma createSaleOfferOnce_atomic: "atomic (createSaleOfferOnce L op offer) (create_effect L op offer)"
  unfolding createSaleOfferOnce_def create_effect_def create_insert_def
proof (rule atomic_mutation [OF reads_replayCreatedOffer], rule ends_savepoint_row, goal_cases)
  case (1 b d ts claim t row rows t')
  then show ?case
    by (cases "scan_offer L row")
      (auto simp: create_work_def intro!: ends_release_savepoint ends_bind [OF steps_lift] ends_accept)
next
  case (2 b d ts claim t t')
  then show ?case
    by (auto simp: create_work_def intro!: ends_rollback_savepoint ends_reject ends_reject_aborted)
next
  case (3 b d ts claim t e)
  with sql_error_props(1) [OF createSaleOfferQuery_sql [OF 3]] show ?case
    by (auto simp: create_work_def Let_def split: option.splits
        intro!: ends_rollback_savepoint ends_reject ends_reject_aborted ends_fail
          ends_weaken [OF ends_fail_doubt])
next
  case (4 b d ts claim t e)
  with fault_unclassified [OF 4(2)] show ?case
    by (auto intro!: ends_rollback_savepoint ends_weaken [OF ends_fail_doubt]
        intro: ends_weaken [OF ends_fail_fault] simp: in_tx_def)
qed

end
