(* ===== verification/Store_Contract.thy ===== *)
theory Store_Contract
  imports Store_Effect
begin

text \<open>
  The contract of a store operation as a locale: an atomic program and its effect function. From it
  follow what a caller can conclude from each kind of reply. The retry loop keeps the contract, so
  \<open>Buy\<close> and \<open>CreateSaleOffer\<close> provide it too.
\<close>

section \<open>The contract\<close>

locale store_operation =
  fixes p :: "'a m" and eff :: "'x \<Rightarrow> database \<Rightarrow> 'a result \<times> database"
  assumes is_atomic: "atomic p eff"
begin

lemma run_cases:
  assumes "p w = (r, w')"
  obtains (effect) ts where "eff ts (db w) = (r, db w')"
  | (fault) e where "r = Inl e" "is_fault e" "db w' = db w"
  | (lost) e ts where "r = Inl e" "is_fault e" "db w' = snd (eff ts (db w))"
proof -
  have "at_db False (db w) w" by (simp add: at_db_def calm_def)
  with is_atomic obtain ts where "finished False (db w) (eff ts (db w)) (fst (p w)) (snd (p w))"
    unfolding atomic_def by blast
  with assms show thesis by (auto simp: finished_def intro: that)
qed

lemma success: "p w = (Inr a, w') \<Longrightarrow> \<exists>ts. eff ts (db w) = (Inr a, db w')"
  by (erule run_cases) auto

lemma definite_error: "p w = (Inl e, w') \<Longrightarrow> \<not> is_fault e \<Longrightarrow> \<exists>ts. eff ts (db w) = (Inl e, db w')"
  by (erule run_cases) auto

lemma all_or_nothing: "db (snd (p w)) = db w \<or> (\<exists>ts. db (snd (p w)) = snd (eff ts (db w)))"
proof (cases "p w")
  case (Pair r w')
  from Pair show ?thesis
  proof (cases rule: run_cases)
    case (effect ts)
    then have "db (snd (p w)) = snd (eff ts (db w))" using Pair by simp
    then show ?thesis by blast
  qed (use Pair in auto)
qed

lemma fault_free:
  assumes "script w = []"
  shows "\<exists>ts. (fst (p w), db (snd (p w))) = eff ts (db w)"
proof -
  have "at_db True (db w) w" using assms by (simp add: at_db_def calm_def)
  with is_atomic obtain ts where "finished True (db w) (eff ts (db w)) (fst (p w)) (snd (p w))"
    unfolding atomic_def by blast
  then have "(fst (p w), db (snd (p w))) = eff ts (db w)" by (simp add: finished_def)
  then show ?thesis by blast
qed

lemma keeps_relation:
  assumes "\<And>d. R d d" and "\<And>ts d. R d (snd (eff ts d))"
  shows "keeps R p"
  unfolding keeps_def using all_or_nothing assms by (metis (no_types))

lemma keeps_predicate:
  assumes "I (db w)" and "\<And>ts. I (snd (eff ts (db w)))"
  shows "I (db (snd (p w)))"
  using all_or_nothing [of w] assms by metis

end

section \<open>The retry loop keeps it\<close>

lemma wait_frame:
  assumes "waitBeforeTransactionRetry n w = (r, w')"
  shows "db w' = db w" "script w' = script w" "r = Inl e \<Longrightarrow> is_fault e"
  using assms by (auto simp: waitBeforeTransactionRetry_def link_go_error_props split: list.splits option.splits)

lemma retry_pause:
  assumes "bind_m (metric_m n as) (\<lambda>_. waitBeforeTransactionRetry k) w = (r, w')"
  shows "db w' = db w" "r = Inl e \<Longrightarrow> is_fault e"
  using wait_frame [of k "w\<lparr>metrics := metrics w @ [Metric n as]\<rparr>" r w'] assms
  by (auto simp: bind_m_def metric_m_def)

lemma finished_retryable:
  assumes "finished b d eff (Inl e) w" and "isRetryableTransactionError e"
    and "\<And>e'. fst eff = Inl e' \<Longrightarrow> \<not> isRetryableTransactionError e'"
  shows "\<not> b" "is_fault e" "db w = d"
  using assms by (auto simp: finished_def isRetryableTransactionError_def split: option.splits)

lemma retry_loop_finished:
  assumes "atomic op eff" and "\<And>ts d e. fst (eff ts d) = Inl e \<Longrightarrow> \<not> isRetryableTransactionError e"
    and "at_db b d w" and "attempt < 8 \<or> \<not> b \<and> is_fault err0"
  shows "\<exists>ts. finished b d (eff ts d) (fst (retry_loop name op attempt err0 w))
      (snd (retry_loop name op attempt err0 w))"
  using assms(3,4)
proof (induction "8 - attempt" arbitrary: attempt err0 w rule: less_induct)
  case less
  show ?case
  proof (cases "attempt < 8")
    case False
    with less.prems show ?thesis
      by (subst (1 2) retry_loop.simps) (auto simp: finished_def at_db_def)
  next
    case True
    obtain r w1 where run: "op w = (r, w1)" by fastforce
    with assms(1) less.prems(1) obtain ts where fin: "finished b d (eff ts d) r w1"
      unfolding atomic_def by (metis fst_conv snd_conv)
    show ?thesis
    proof (cases "\<exists>e. r = Inl e \<and> isRetryableTransactionError e")
      case False
      with True run fin show ?thesis
        by (subst (1 2) retry_loop.simps) (auto split: sum.splits)
    next
      case retry: True
      then obtain e where e: "r = Inl e" "isRetryableTransactionError e" by blast
      have stuck: "\<not> b" "is_fault e" "db w1 = d"
        using finished_retryable [OF fin [unfolded e(1)] e(2)] assms(2) by blast+
      obtain r2 w2 where pause:
        "bind_m (metric_m ''database_retry'' [name, retryReason e]) (\<lambda>_. waitBeforeTransactionRetry attempt) w1
          = (r2, w2)" by fastforce
      have "db w2 = d" using retry_pause(1) [OF pause] stuck by simp
      then have "at_db b d w2" using stuck by (simp add: at_db_def calm_def)
      with stuck True have again: "\<exists>ts. finished b d (eff ts d) (fst (retry_loop name op (Suc attempt) e w2))
          (snd (retry_loop name op (Suc attempt) e w2))"
        by (intro less.hyps) auto
      show ?thesis
      proof (cases r2)
        case (Inl e2)
        have "finished b d (eff ts d) (Inl e2) w2"
          using retry_pause(2) [OF pause Inl] stuck \<open>db w2 = d\<close> by (simp add: finished_def)
        with True run e pause Inl show ?thesis by (subst (1 2) retry_loop.simps) auto
      next
        case (Inr u)
        with True run e pause again show ?thesis by (subst (1 2) retry_loop.simps) auto
      qed
    qed
  qed
qed

lemma atomic_retry:
  assumes "atomic op eff" and "\<And>ts d e. fst (eff ts d) = Inl e \<Longrightarrow> \<not> isRetryableTransactionError e"
  shows "atomic (retryTransaction name op) eff"
  unfolding atomic_def retryTransaction_def
  by (intro allI impI retry_loop_finished [OF assms]) auto

section \<open>Effects never fail with a retryable error\<close>

lemma not_retryable_simps [simp]:
  "\<not> isRetryableTransactionError ErrPermissionDenied" "\<not> isRetryableTransactionError ErrNoRows"
  "\<not> isRetryableTransactionError ErrIdempotencyConflict" "\<not> isRetryableTransactionError (ErrorString m)"
  "\<not> isRetryableTransactionError ErrInvalidPrice" "\<not> isRetryableTransactionError ErrSelfTradeProhibited"
  "\<not> isRetryableTransactionError ErrOfferUnavailable" "\<not> isRetryableTransactionError ErrBondNotFound"
  "\<not> isRetryableTransactionError ErrOfferAlreadyExists" "\<not> isRetryableTransactionError ErrSellerNotFound"
  "\<not> isRetryableTransactionError ErrConversionQuoteUnavailable"
  "\<not> isRetryableTransactionError (Errorf m [ErrInvalidPrice])"
  by (simp_all add: isRetryableTransactionError_def)

lemma sql_not_retryable: "sql_error e \<Longrightarrow> \<not> isRetryableTransactionError e"
  by (rule sql_error_props)

lemma scan_offer_error: "scan_offer L row = Inl e \<Longrightarrow> e = ErrInvalidPrice"
  by (auto simp: scan_offer_def bind_r_def dest: ParsePrice_error split: prod.splits sum.splits)

lemma classify_not_retryable:
  "sql_error e \<Longrightarrow> \<not> isRetryableTransactionError (classifyBuyError e)"
  "sql_error e \<Longrightarrow> \<not> isRetryableTransactionError (classifyCreateSaleOfferError e)"
  using sql_not_retryable [of e]
  by (auto simp: classifyBuyError_def classifyCreateSaleOfferError_def split: option.splits)

lemma operationErrorFromCode_not_retryable [simp]:
  "\<not> isRetryableTransactionError (operationErrorFromCode c)"
  by (simp add: operationErrorFromCode_def)

lemma replay_not_retryable:
  "replay_resource_result op d = Inl e \<Longrightarrow> \<not> isRetryableTransactionError e"
  by (auto simp: replay_resource_result_def bind_r_def first_row_def
      split: sum.splits list.splits prod.splits if_splits option.splits)

lemma replay_results_not_retryable:
  "replay_purchase_result L op d = Inl e \<Longrightarrow> \<not> isRetryableTransactionError e"
  "replay_offer_result L op d = Inl e \<Longrightarrow> \<not> isRetryableTransactionError e"
  by (auto simp: replay_purchase_result_def replay_offer_result_def bind_r_def first_row_def scanPurchase_def
      dest: replay_not_retryable scan_offer_error split: sum.splits list.splits prod.splits)

lemma record_effects_not_retryable:
  "fst (accept_effect L ts c r v d t) = Inl e \<Longrightarrow> \<not> isRetryableTransactionError e"
  "fst (reject_effect L ts c k err d t) = Inl e \<Longrightarrow> \<not> isRetryableTransactionError err \<Longrightarrow>
     \<not> isRetryableTransactionError e"
  by (auto simp: accept_effect_def reject_effect_def dest!: insert_result_sql sql_not_retryable
      split: sum.splits)

lemma mutation_effect_not_retryable:
  assumes "fst (mutation_effect L op perm replay work d) = Inl e"
    and "\<And>e. replay d = Inl e \<Longrightarrow> \<not> isRetryableTransactionError e"
    and "\<And>c t e. fst (work c t) = Inl e \<Longrightarrow> \<not> isRetryableTransactionError e"
  shows "\<not> isRetryableTransactionError e"
  using assms
  by (auto simp: mutation_effect_def dest!: insert_claim_sql sql_not_retryable
      split: if_splits sum.splits list.splits prod.splits)

lemma buy_work_not_retryable:
  "fst (buy_work L op offer ts d c t) = Inl e \<Longrightarrow> \<not> isRetryableTransactionError e"
  by (auto simp: buy_work_def Let_def purchase_of_row_def bind_r_def
      dest: record_effects_not_retryable scan_offer_error classify_not_retryable(1) [OF buyQuery_sql]
      split: sum.splits list.splits prod.splits if_splits)

lemma safe_code_not_retryable: "safeOperationErrorCode (classifyCreateSaleOfferError e) = Some c \<Longrightarrow>
    sql_error e \<Longrightarrow> \<not> isRetryableTransactionError (classifyCreateSaleOfferError e)"
  by (rule classify_not_retryable)

lemma create_work_not_retryable:
  "fst (create_work L op offer ts d c t) = Inl e \<Longrightarrow> \<not> isRetryableTransactionError e"
  by (auto simp: create_work_def Let_def
      dest!: createSaleOfferQuery_sql classify_not_retryable(2)
      dest: record_effects_not_retryable scan_offer_error
      split: sum.splits list.splits prod.splits option.splits)

lemma buy_effect_not_retryable: "fst (buy_effect L op offer ts d) = Inl e \<Longrightarrow> \<not> isRetryableTransactionError e"
  unfolding buy_effect_def
  by (erule mutation_effect_not_retryable) (auto dest: replay_results_not_retryable buy_work_not_retryable)

lemma create_effect_not_retryable:
  "fst (create_effect L op offer ts d) = Inl e \<Longrightarrow> \<not> isRetryableTransactionError e"
  unfolding create_effect_def
  by (erule mutation_effect_not_retryable) (auto dest: replay_results_not_retryable create_work_not_retryable)

section \<open>Providers\<close>

interpretation buy_op: store_operation "Buy L op offer" "buy_effect L op offer"
  unfolding Buy_def
  by unfold_locales (rule atomic_retry [OF buyOnce_atomic buy_effect_not_retryable])

interpretation create_op: store_operation "CreateSaleOffer L op offer" "create_effect L op offer"
  unfolding CreateSaleOffer_def
  by unfold_locales (rule atomic_retry [OF createSaleOfferOnce_atomic create_effect_not_retryable])

end
