(* ===== verification/Market.thy ===== *)
theory Market
  imports Store_Contract
begin

text \<open>
  The well-formedness invariant of the exchange database and its preservation by every statement
  and every store operation, however the environment behaves: key uniqueness, referential
  integrity, at most one purchase per offer, no purchase by the seller, canonical MXN prices,
  one result per operation claim and one integration event per completed mutation.
\<close>

section \<open>The invariant\<close>

definition wf_catalog :: "database \<Rightarrow> bool" where
  "wf_catalog d \<longleftrightarrow>
     distinct (map pr_uuid (principals d)) \<and>
     distinct (map bo_uuid (bonds d)) \<and> distinct (map bo_series (bonds d))"

definition wf_offers :: "database \<Rightarrow> bool" where
  "wf_offers d \<longleftrightarrow>
     distinct (map of_uuid (sale_offers d)) \<and>
     of_bond ` set (sale_offers d) \<subseteq> bo_uuid ` set (bonds d) \<and>
     of_seller ` set (sale_offers d) \<subseteq> pr_uuid ` set (principals d) \<and>
     distinct (map ct_offer (canonical_terms d)) \<and>
     ct_offer ` set (canonical_terms d) \<subseteq> of_uuid ` set (sale_offers d) \<and>
     (\<forall>c\<in>set (canonical_terms d). valid_price (ct_price c) \<and> ct_currency c = MXN)"

definition wf_submissions :: "database \<Rightarrow> bool" where
  "wf_submissions d \<longleftrightarrow>
     distinct (map sb_offer (submissions d)) \<and>
     distinct (filter (\<lambda>q. q \<noteq> None) (map sb_quote (submissions d))) \<and>
     (\<forall>s\<in>set (submissions d). (sb_currency s = ''MXN'') = (sb_quote s = None))"

definition wf_purchases :: "database \<Rightarrow> bool" where
  "wf_purchases d \<longleftrightarrow>
     distinct (map pc_uuid (purchases d)) \<and>
     distinct (map pc_offer (purchases d)) \<and>
     pc_offer ` set (purchases d) \<subseteq> of_uuid ` set (sale_offers d) \<and>
     pc_buyer ` set (purchases d) \<subseteq> pr_uuid ` set (principals d) \<and>
     (\<forall>p\<in>set (purchases d). \<forall>s\<in>set (sale_offers d). of_uuid s = pc_offer p \<longrightarrow> of_seller s \<noteq> pc_buyer p)"

definition claim_scope :: "claim_row \<Rightarrow> string \<times> string \<times> string \<times> string" where
  "claim_scope c = (cl_principal c, cl_client c, cl_operation c, cl_nonce c)"

definition result_shape :: "result_row \<Rightarrow> bool" where
  "result_shape r \<longleftrightarrow>
     rs_outcome r = ''succeeded'' \<and> rs_resource r \<noteq> None \<and> rs_error r = None \<or>
     rs_outcome r = ''rejected'' \<and> rs_resource r = None \<and> rs_error r \<noteq> None"

definition wf_operations :: "database \<Rightarrow> bool" where
  "wf_operations d \<longleftrightarrow>
     distinct (map cl_uuid (operation_claims d)) \<and>
     distinct (map claim_scope (operation_claims d)) \<and>
     distinct (map rs_claim (operation_results d)) \<and>
     rs_claim ` set (operation_results d) \<subseteq> cl_uuid ` set (operation_claims d) \<and>
     (\<forall>r\<in>set (operation_results d). result_shape r)"

definition wf_events :: "database \<Rightarrow> bool" where
  "wf_events d \<longleftrightarrow>
     distinct (map ev_uuid (integration_events d)) \<and>
     distinct (map (\<lambda>e. (ev_table e, ev_source e)) (integration_events d)) \<and>
     (\<forall>e\<in>set (integration_events d).
        ev_table e = ''purchases'' \<and> ev_source e \<in> pc_uuid ` set (purchases d) \<or>
        ev_table e = ''sale_offers'' \<and> ev_source e \<in> of_uuid ` set (sale_offers d))"

definition wf_db :: "database \<Rightarrow> bool" where
  "wf_db d \<longleftrightarrow> wf_catalog d \<and> wf_offers d \<and> wf_submissions d \<and> wf_purchases d
     \<and> wf_operations d \<and> wf_events d"

text \<open>Between transactions every claim has its result.\<close>

definition settled :: "database \<Rightarrow> bool" where
  "settled d \<longleftrightarrow> cl_uuid ` set (operation_claims d) \<subseteq> rs_claim ` set (operation_results d)"

lemmas wf_parts = wf_catalog_def wf_offers_def wf_submissions_def wf_purchases_def
  wf_operations_def wf_events_def

lemma list_ex_image: "list_ex (\<lambda>x. f x = a) xs \<longleftrightarrow> a \<in> f ` set xs"
  by (auto simp: list_ex_iff)

lemma same_scope_iff: "same_scope op c \<longleftrightarrow> claim_scope c = claim_scope (claim_row_of op u)"
  by (auto simp: same_scope_def claim_scope_def claim_row_of_def)

section \<open>Statements keep the invariant\<close>

lemma insert_claim_cases:
  assumes "insert_claim L op d = Inr (rows, d')"
  obtains (conflict) "list_ex (same_scope op) (operation_claims d)" "rows = []"
      "d' = d\<lparr>next_uuid := Suc (next_uuid d)\<rparr>"
  | (claimed) u where "u = pg_uuidv7 L (next_uuid d)" "rows = [u]"
      "\<not> list_ex (same_scope op) (operation_claims d)" "u \<notin> cl_uuid ` set (operation_claims d)"
      "principal_exists d (p_ID (ac_Principal (mc_Access op)))" "claim_checks L (claim_row_of op u) = None"
      "d' = d\<lparr>next_uuid := Suc (next_uuid d), operation_claims := operation_claims d @ [claim_row_of op u]\<rparr>"
  using assms
  by (auto simp: insert_claim_def Let_def draw_uuid_def list_ex_image claim_row_of_def
      split: option.splits if_splits intro: that)

lemma wf_next_uuid [simp]: "wf_db (d\<lparr>next_uuid := n\<rparr>) = wf_db d"
  by (simp add: wf_db_def wf_parts)

lemma insert_claim_wf:
  assumes "wf_db d" and "insert_claim L op d = Inr (rows, d')"
  shows "wf_db d'"
  using assms(2)
proof (cases rule: insert_claim_cases)
  case conflict
  then show ?thesis using assms(1) by simp
next
  case (claimed u)
  have "claim_scope (claim_row_of op u) \<notin> claim_scope ` set (operation_claims d)"
    using claimed(3) by (auto simp: list_ex_iff same_scope_iff [where u = u])
  moreover have "cl_uuid (claim_row_of op u) = u" by (simp add: claim_row_of_def)
  ultimately show ?thesis using assms(1) claimed by (auto simp: wf_db_def wf_parts)
qed

lemma insert_event_cases:
  assumes "insert_event L tab src v c d = Inr d'"
  obtains u s where "src = Some s" "u = pg_uuidv7 L (next_uuid d)"
    "\<not> list_ex (\<lambda>e. ev_uuid e = u) (integration_events d)"
    "\<not> list_ex (\<lambda>e. ev_table e = tab \<and> ev_source e = s) (integration_events d)"
    "d' = d\<lparr>next_uuid := Suc (next_uuid d), integration_events := integration_events d @
        [\<lparr>ev_uuid = u, ev_table = tab, ev_source = s, ev_version = v, ev_completed_at = c\<rparr>]\<rparr>"
  using assms
  by (auto simp: insert_event_def draw_uuid_def
      split: option.splits if_splits intro: that)

lemma insert_event_wf:
  assumes "wf_db d" and "insert_event L tab src v c d = Inr d'"
    and "tab = ''purchases'' \<and> src \<in> Some ` pc_uuid ` set (purchases d) \<or>
      tab = ''sale_offers'' \<and> src \<in> Some ` of_uuid ` set (sale_offers d)"
  shows "wf_db d'"
  using assms(2)
proof (cases rule: insert_event_cases)
  case (1 u s)
  with assms(3) have "tab = ''purchases'' \<and> s \<in> pc_uuid ` set (purchases d) \<or>
      tab = ''sale_offers'' \<and> s \<in> of_uuid ` set (sale_offers d)" by auto
  moreover have "u \<notin> ev_uuid ` set (integration_events d)"
    "(tab, s) \<notin> (\<lambda>e. (ev_table e, ev_source e)) ` set (integration_events d)"
    using 1(3,4) by (auto simp: list_ex_iff)
  ultimately show ?thesis using assms(1) by (simp add: 1(5) wf_db_def wf_parts)
qed

text \<open>What the trigger does: nothing for a rejection, one event for a completed mutation.\<close>

lemma event_trigger_split:
  assumes "record_integration_event_on_completion L r d = Inr d'"
  shows "d' = d
    \<or> (\<exists>v. insert_event L ''sale_offers'' (rs_resource r) v (rs_completed_at r) d = Inr d')
    \<or> (\<exists>p v. filter (\<lambda>p. rs_resource r = Some (pc_offer p)) (purchases d) = [p] \<and>
        insert_event L ''purchases'' (Some (pc_uuid p)) v (rs_completed_at r) d = Inr d')"
  using assms
  by (simp add: record_integration_event_on_completion_def split: if_splits list.splits; blast)

lemma event_trigger_cases:
  assumes "record_integration_event_on_completion L r d = Inr d'"
  shows "d' = d \<or> (\<exists>tab src v. insert_event L tab src v (rs_completed_at r) d = Inr d' \<and>
    (tab = ''purchases'' \<and> src \<in> Some ` pc_uuid ` set (purchases d) \<or> tab = ''sale_offers'' \<and> src = rs_resource r))"
proof -
  from event_trigger_split [OF assms] consider "d' = d"
    | v where "insert_event L ''sale_offers'' (rs_resource r) v (rs_completed_at r) d = Inr d'"
    | p v where "filter (\<lambda>p. rs_resource r = Some (pc_offer p)) (purchases d) = [p]"
        "insert_event L ''purchases'' (Some (pc_uuid p)) v (rs_completed_at r) d = Inr d'"
    by (elim disjE exE conjE)
  then show ?thesis
  proof cases
    case 3
    have "p \<in> set (filter (\<lambda>p. rs_resource r = Some (pc_offer p)) (purchases d))" unfolding 3(1) by simp
    then have "p \<in> set (purchases d)" by simp
    with 3(2) show ?thesis
      by (intro disjI2 exI [of _ "''purchases''"] exI [of _ "Some (pc_uuid p)"] exI [of _ v]) simp
  qed auto
qed

lemma event_trigger_wf:
  assumes "wf_db d" and "record_integration_event_on_completion L r d = Inr d'"
    and "rs_resource r \<in> insert None (Some ` of_uuid ` set (sale_offers d))"
  shows "wf_db d'"
  using event_trigger_cases [OF assms(2)]
proof (elim disjE exE conjE)
  fix tab src v
  assume "insert_event L tab src v (rs_completed_at r) d = Inr d'" "tab = ''sale_offers''" "src = rs_resource r"
  moreover from this have "src \<noteq> None" by (auto elim: insert_event_cases)
  ultimately show ?thesis using assms(1,3) by (auto intro: insert_event_wf)
qed (auto intro: insert_event_wf assms(1))

lemma insert_result_cases:
  assumes "insert_result L r d = Inr d'"
  obtains "rs_claim r \<notin> rs_claim ` set (operation_results d)" "rs_claim r \<in> cl_uuid ` set (operation_claims d)"
    "record_integration_event_on_completion L r (d\<lparr>operation_results := operation_results d @ [r]\<rparr>) = Inr d'"
  using assms by (auto simp: insert_result_def list_ex_image split: if_splits intro: that)

lemma insert_result_wf:
  assumes "wf_db d" and "result_shape r" and "insert_result L r d = Inr d'"
    and "rs_resource r \<in> insert None (Some ` of_uuid ` set (sale_offers d))"
  shows "wf_db d'"
  using assms(3)
proof (cases rule: insert_result_cases)
  case 1
  have "wf_db (d\<lparr>operation_results := operation_results d @ [r]\<rparr>)"
    using assms(1,2) 1(1,2) by (auto simp: wf_db_def wf_parts)
  then show ?thesis using 1(3) by (rule event_trigger_wf) (use assms(4) in simp)
qed

lemma result_shapes [simp]: "result_shape (succeeded_row c x ts)" "result_shape (rejected_row c k ts)"
  by (simp_all add: result_shape_def succeeded_row_def rejected_row_def)

lemma insert_purchase_cases:
  assumes "insert_purchase L ts offer buyer d = Inr (p, d')"
  obtains (conflict) "purchased d offer" "p = None" "d' = d\<lparr>next_uuid := Suc (next_uuid d)\<rparr>"
  | (bought) u where "u = pg_uuidv7 L (next_uuid d)"
      "p = Some \<lparr>pc_uuid = u, pc_offer = offer, pc_buyer = buyer, pc_bought_at = ts\<rparr>"
      "\<not> purchased d offer" "u \<notin> pc_uuid ` set (purchases d)"
      "offer \<in> of_uuid ` set (sale_offers d)" "buyer \<in> pr_uuid ` set (principals d)"
      "\<forall>s\<in>set (sale_offers d). of_uuid s = offer \<longrightarrow> of_seller s \<noteq> buyer"
      "d' = d\<lparr>next_uuid := Suc (next_uuid d), purchases := purchases d @
          [\<lparr>pc_uuid = u, pc_offer = offer, pc_buyer = buyer, pc_bought_at = ts\<rparr>]\<rparr>"
  using assms
  by (auto simp: insert_purchase_def draw_uuid_def Let_def list_ex_image principal_exists_def
      list_ex_iff [of "\<lambda>s. of_uuid s = offer \<and> of_seller s = buyer"]
      split: if_splits intro: that)

lemma purchased_image: "purchased d offer \<longleftrightarrow> offer \<in> pc_offer ` set (purchases d)"
  by (simp add: purchased_def list_ex_image)

lemma insert_purchase_wf:
  assumes "wf_db d" and "insert_purchase L ts offer buyer d = Inr (p, d')"
  shows "wf_db d'"
  using assms(2)
proof (cases rule: insert_purchase_cases)
  case (bought u)
  then show ?thesis using assms(1) by (auto simp: wf_db_def wf_parts purchased_image)
qed (use assms in simp)

lemma insert_purchases_wf:
  "wf_db d \<Longrightarrow> insert_purchases L ts xs d = Inr (ps, d') \<Longrightarrow> wf_db d'"
proof (induction L ts xs d arbitrary: ps d' rule: insert_purchases.induct)
  case (2 L ts offer buyer rest d)
  then show ?case by (auto dest: insert_purchase_wf split: sum.splits prod.splits)
qed simp

lemma buyQuery_wf: "wf_db d \<Longrightarrow> buyQuery L ts offer buyer d = Inr (rows, d') \<Longrightarrow> wf_db d'"
  by (auto simp: buyQuery_def dest: insert_purchases_wf split: sum.splits prod.splits)

text \<open>
  The domain \<^verbatim>\<open>monetary_amount\<close> and the positivity check make every stored price a valid one.
\<close>

lemma monetary_cast_range:
  assumes "monetary_cast r = Inr v" and "0 < v"
  shows "valid_price v"
proof -
  have v: "v = round_half_away 4 r" "\<bar>v\<bar> < 10 ^ 10"
    using assms(1) by (auto simp: monetary_cast_def Let_def split: if_splits)
  have "has_scale 4 v" by (simp add: v(1) has_scale_round_half_away)
  then obtain k :: int where k: "v = of_int k / 10 ^ 4" by (auto simp: has_scale_iff)
  have "of_int k < (10 ^ 14 :: rat)" using v(2) assms(2) by (simp add: k)
  then have "k < 10 ^ 14" by (metis of_int_less_iff of_int_numeral of_int_power)
  then have "of_int k \<le> (99999999999999 :: rat)" by simp
  then show ?thesis
    using assms(2) \<open>has_scale 4 v\<close> by (simp add: valid_price_def MonetaryAmountScale_def k)
qed

lemma insert_offer_cases:
  assumes "insert_offer L seller bond price currency sp sc quote d = Inr (s, d')"
  obtains u where "u = pg_uuidv7 L (next_uuid d)"
    "s = \<lparr>of_uuid = u, of_seller = seller, of_bond = bond, of_price = price, of_currency = currency\<rparr>"
    "u \<notin> of_uuid ` set (sale_offers d)" "0 < price" "currency = MXN" "(sc = ''MXN'') = (quote = None)"
    "u \<notin> ct_offer ` set (canonical_terms d)" "u \<notin> sb_offer ` set (submissions d)"
    "quote = None \<or> quote \<notin> sb_quote ` set (submissions d)"
    "seller \<in> pr_uuid ` set (principals d)" "bond \<in> bo_uuid ` set (bonds d)"
    "d' = d\<lparr>next_uuid := Suc (next_uuid d), sale_offers := sale_offers d @ [s],
        canonical_terms := canonical_terms d @ [\<lparr>ct_offer = u, ct_price = price, ct_currency = currency\<rparr>],
        submissions := submissions d @
          [\<lparr>sb_offer = u, sb_price = sp, sb_currency = sc, sb_quote = quote\<rparr>]\<rparr>"
  using assms
  by (auto simp: insert_offer_def draw_uuid_def Let_def offer_checks_def list_ex_image principal_exists_def
      MXN_def split: option.splits if_splits intro: that)

lemma insert_offer_wf:
  assumes "wf_db d" and "insert_offer L seller bond price currency sp sc quote d = Inr (s, d')"
    and "0 < price \<Longrightarrow> valid_price price"
  shows "wf_db d'"
  using assms(2)
proof (cases rule: insert_offer_cases)
  case (1 u)
  have "\<forall>p\<in>set (purchases d). pc_offer p \<noteq> u"
    using assms(1) 1(3) by (auto simp: wf_db_def wf_purchases_def)
  then have "wf_purchases d'" using assms(1) 1(2,12) by (auto simp: wf_db_def wf_purchases_def)
  moreover have "wf_offers d'"
    using assms(1,3) 1(2-5,7,10,11,12) by (auto simp: wf_db_def wf_offers_def)
  moreover have "wf_submissions d'"
    using assms(1) 1(6,8,9,12) by (auto simp: wf_db_def wf_submissions_def)
  ultimately show ?thesis
    using assms(1) 1(12) by (auto simp: wf_db_def wf_catalog_def wf_operations_def wf_events_def)
qed

lemma insert_offers_wf:
  "wf_db d \<Longrightarrow> insert_offers L seller price currency bs d = Inr (rows, d') \<Longrightarrow>
     (0 < price \<Longrightarrow> valid_price price) \<Longrightarrow> wf_db d'"
proof (induction L seller price currency bs d arbitrary: rows d' rule: insert_offers.induct)
  case (2 L seller price currency b bs d)
  then show ?case by (auto dest: insert_offer_wf split: sum.splits prod.splits)
qed simp

lemma createSaleOfferQuery_wf:
  "wf_db d \<Longrightarrow> createSaleOfferQuery L seller series price currency d = Inr (rows, d') \<Longrightarrow> wf_db d'"
  by (auto simp: createSaleOfferQuery_def simp del: insert_offers.simps
      dest: insert_offers_wf monetary_cast_range split: sum.splits prod.splits list.splits)

section \<open>What each statement may change\<close>

lemma insert_claim_frame:
  assumes "insert_claim L op d = Inr (rows, d')"
  shows "\<exists>n\<ge>next_uuid d. d' = d\<lparr>next_uuid := n,
    operation_claims := operation_claims d @ map (claim_row_of op) rows\<rparr>"
  using assms by (cases rule: insert_claim_cases) (auto intro!: exI [of _ "Suc (next_uuid d)"])

lemma insert_result_frame:
  assumes "insert_result L r d = Inr d'"
  shows "\<exists>es. \<exists>n\<ge>next_uuid d. d' = d\<lparr>next_uuid := n, operation_results := operation_results d @ [r],
    integration_events := integration_events d @ es\<rparr>"
  using assms
proof (cases rule: insert_result_cases)
  case 1
  from event_trigger_cases [OF 1(3)]
  have "d' = d\<lparr>operation_results := operation_results d @ [r]\<rparr> \<or> (\<exists>tab src v.
      insert_event L tab src v (rs_completed_at r) (d\<lparr>operation_results := operation_results d @ [r]\<rparr>) = Inr d')"
    by blast
  then show ?thesis
  proof (elim disjE exE)
    assume "d' = d\<lparr>operation_results := operation_results d @ [r]\<rparr>"
    then show ?thesis by (intro exI [of _ "[]"] exI [of _ "next_uuid d"]) simp
  next
    fix tab src v
    assume "insert_event L tab src v (rs_completed_at r) (d\<lparr>operation_results := operation_results d @ [r]\<rparr>) = Inr d'"
    then obtain e where "d' = d\<lparr>operation_results := operation_results d @ [r], next_uuid := Suc (next_uuid d),
        integration_events := integration_events d @ [e]\<rparr>"
      by (cases rule: insert_event_cases) auto
    then show ?thesis by (intro exI [of _ "[e]"] exI [of _ "Suc (next_uuid d)"]) simp
  qed
qed

lemma insert_purchases_frame:
  "insert_purchases L ts xs d = Inr (ps, d') \<Longrightarrow>
     \<exists>n\<ge>next_uuid d. d' = d\<lparr>next_uuid := n, purchases := purchases d @ ps\<rparr>"
proof (induction L ts xs d arbitrary: ps d' rule: insert_purchases.induct)
  case (1 L ts d)
  then show ?case by (auto intro!: exI [of _ "next_uuid d"])
next
  case (2 L ts offer buyer rest d)
  then obtain p d1 ps1 where step: "insert_purchase L ts offer buyer d = Inr (p, d1)"
    "insert_purchases L ts rest d1 = Inr (ps1, d')" "ps = (case p of None \<Rightarrow> ps1 | Some x \<Rightarrow> x # ps1)"
    by (auto split: sum.splits prod.splits)
  from 2(1) [OF step(1) refl step(2)] obtain n where n: "next_uuid d1 \<le> n"
    "d' = d1\<lparr>next_uuid := n, purchases := purchases d1 @ ps1\<rparr>" by auto
  from step(1) show ?case
    by (cases rule: insert_purchase_cases) (use n step(3) in \<open>auto intro!: exI [of _ n]\<close>)
qed

lemma buyQuery_frame:
  assumes "buyQuery L ts offer buyer d = Inr (rows, d')"
  shows "\<exists>ps. \<exists>n\<ge>next_uuid d. d' = d\<lparr>next_uuid := n, purchases := purchases d @ ps\<rparr>"
proof -
  from assms obtain xs ps where "insert_purchases L ts xs d = Inr (ps, d')"
    by (auto simp: buyQuery_def split: sum.splits prod.splits)
  then show ?thesis using insert_purchases_frame by blast
qed

lemma insert_offers_frame:
  "insert_offers L seller price currency bs d = Inr (rows, d') \<Longrightarrow>
     \<exists>ss cs subs. \<exists>n\<ge>next_uuid d. d' = d\<lparr>next_uuid := n, sale_offers := sale_offers d @ ss,
       canonical_terms := canonical_terms d @ cs, submissions := submissions d @ subs\<rparr>"
proof (induction L seller price currency bs d arbitrary: rows d' rule: insert_offers.induct)
  case (1 L seller price currency d)
  then show ?case by (auto intro!: exI [of _ "[]"] exI [of _ "next_uuid d"])
next
  case (2 L seller price currency b bs d)
  then obtain s d1 rs where step:
    "insert_offer L seller (bo_uuid b) price currency price currency None d = Inr (s, d1)"
    "insert_offers L seller price currency bs d1 = Inr (rs, d')"
    by (auto split: sum.splits prod.splits)
  from 2(1) [OF step(1) refl step(2)] obtain ss cs subs n where n: "next_uuid d1 \<le> n"
    "d' = d1\<lparr>next_uuid := n, sale_offers := sale_offers d1 @ ss,
       canonical_terms := canonical_terms d1 @ cs, submissions := submissions d1 @ subs\<rparr>" by blast
  from step(1) obtain c sub where "d1 = d\<lparr>next_uuid := Suc (next_uuid d), sale_offers := sale_offers d @ [s],
      canonical_terms := canonical_terms d @ [c], submissions := submissions d @ [sub]\<rparr>"
    by (elim insert_offer_cases) blast
  with n show ?case
    by (intro exI [of _ "s # ss"] exI [of _ "c # cs"] exI [of _ "sub # subs"] exI [of _ n]) simp
qed

lemma createSaleOfferQuery_frame:
  assumes "createSaleOfferQuery L seller series price currency d = Inr (rows, d')"
  shows "\<exists>ss cs subs. \<exists>n\<ge>next_uuid d. d' = d\<lparr>next_uuid := n, sale_offers := sale_offers d @ ss,
       canonical_terms := canonical_terms d @ cs, submissions := submissions d @ subs\<rparr>"
proof (cases "d' = d")
    case True
    then show ?thesis by (auto intro!: exI [of _ "[]"] exI [of _ "next_uuid d"])
  next
    case False
    with assms obtain bs v rs where "insert_offers L seller v currency bs d = Inr (rs, d')"
      by (auto simp: createSaleOfferQuery_def simp del: insert_offers.simps
          split: sum.splits prod.splits list.splits)
    then show ?thesis by (rule insert_offers_frame)
qed

section \<open>Effects keep the invariant\<close>

lemma accept_effect_wf:
  assumes "wf_db d" and "wf_db t" and "x \<in> of_uuid ` set (sale_offers t)"
  shows "wf_db (snd (accept_effect L ts c x v d t))"
  using assms insert_result_wf [OF assms(2) result_shapes(1), of L c x ts]
  by (auto simp: accept_effect_def succeeded_row_def split: sum.splits)

lemma reject_effect_wf:
  assumes "wf_db d" and "wf_db t"
  shows "wf_db (snd (reject_effect L ts c k e d t))"
  using assms insert_result_wf [OF assms(2) result_shapes(2), of L c k ts]
  by (auto simp: reject_effect_def rejected_row_def split: sum.splits)

lemma buyQuery_offer:
  assumes "buyQuery L ts offer buyer d = Inr (row # rows, d')"
  shows "offer \<in> of_uuid ` set (sale_offers d')"
proof (rule ccontr)
  assume none: "offer \<notin> of_uuid ` set (sale_offers d')"
  have "sale_offers d' = sale_offers d" using buyQuery_frame [OF assms] by auto
  with none have "[(of_uuid s, pr_uuid p). s \<leftarrow> sale_offers d, of_uuid s = offer,
      c \<leftarrow> canonical_terms d, ct_offer c = of_uuid s,
      p \<leftarrow> principals d, pr_uuid p = buyer, of_seller s \<noteq> pr_uuid p] = []"
    by (auto simp: image_iff)
  with assms show False by (simp add: buyQuery_def)
qed

lemma insert_offers_rows:
  "insert_offers L seller price currency bs d = Inr (rows, d') \<Longrightarrow>
     fst ` set rows \<subseteq> set (sale_offers d') \<and> set (sale_offers d) \<subseteq> set (sale_offers d')"
proof (induction L seller price currency bs d arbitrary: rows d' rule: insert_offers.induct)
  case (2 L seller price currency b bs d)
  then obtain s d1 rs where step:
    "insert_offer L seller (bo_uuid b) price currency price currency None d = Inr (s, d1)"
    "insert_offers L seller price currency bs d1 = Inr (rs, d')" "rows = (s, b) # rs"
    by (auto split: sum.splits prod.splits)
  from step(1) have "set (sale_offers d1) = insert s (set (sale_offers d))"
    by (cases rule: insert_offer_cases) simp
  with 2(1) [OF step(1) refl step(2)] step(3) show ?case by auto
qed simp

lemma createSaleOfferQuery_rows:
  assumes "createSaleOfferQuery L seller series price currency d = Inr (rows, d')"
  shows "fst ` set rows \<subseteq> of_uuid ` set (sale_offers d')"
proof (cases "rows = []")
  case False
  with assms obtain v bs rs where ins: "insert_offers L seller v currency bs d = Inr (rs, d')"
    and rows: "rows = [(of_uuid s, of_seller s, bo_series x, pg_numeric_out L (of_price s), of_currency s).
      (s, x) \<leftarrow> rs]"
    by (auto simp: createSaleOfferQuery_def simp del: insert_offers.simps
        split: sum.splits prod.splits list.splits)
  from insert_offers_rows [OF ins] show ?thesis by (force simp: rows)
qed simp

lemma mutation_effect_wf:
  assumes "wf_db d" and "\<And>c t. wf_db t \<Longrightarrow> wf_db (snd (work c t))"
  shows "wf_db (snd (mutation_effect L op perm replay work d))"
  using assms by (auto simp: mutation_effect_def dest: insert_claim_wf split: sum.splits list.splits prod.splits)

lemma buy_work_wf: "wf_db d \<Longrightarrow> wf_db t \<Longrightarrow> wf_db (snd (buy_work L op offer ts d c t))"
  by (auto simp: buy_work_def Let_def dest: buyQuery_wf buyQuery_offer
      intro: accept_effect_wf reject_effect_wf split: sum.splits prod.splits list.splits)

lemma scan_offer_ID: "scan_offer L row = Inr so \<Longrightarrow> so_ID so = fst row"
  by (auto simp: scan_offer_def bind_r_Inr split: prod.splits)

lemma create_work_wf:
  assumes "wf_db d" and "wf_db t"
  shows "wf_db (snd (create_work L op offer ts d c t))"
proof (cases "createSaleOfferQuery L (p_ID (ac_Principal (mc_Access op))) (so_BondSeries offer)
             (dec_String L (so_Price offer)) (so_Currency offer) t")
  case (Inl e)
  with assms show ?thesis
    by (auto simp: create_work_def Let_def intro: reject_effect_wf split: option.splits)
next
  case (Inr x)
  obtain rows t1 where x: "x = (rows, t1)" by (cases x)
  have "wf_db t1" using createSaleOfferQuery_wf [OF assms(2) Inr [unfolded x]] .
  with Inr x assms createSaleOfferQuery_rows [OF Inr [unfolded x]] show ?thesis
    by (auto simp: create_work_def scan_offer_ID intro!: accept_effect_wf reject_effect_wf
        split: list.splits sum.splits)
qed

lemma buy_effect_wf: "wf_db d \<Longrightarrow> wf_db (snd (buy_effect L op offer ts d))"
  unfolding buy_effect_def by (intro mutation_effect_wf buy_work_wf)

lemma create_effect_wf: "wf_db d \<Longrightarrow> wf_db (snd (create_effect L op offer ts d))"
  unfolding create_effect_def by (intro mutation_effect_wf create_work_wf)

section \<open>Effects only append facts, and settle every claim\<close>

text \<open>
  The two shapes a committed mutation can have: nothing, or work under a claim that ends with the
  claim's result.
\<close>

definition grows_settled :: "string \<Rightarrow> database \<Rightarrow> database \<Rightarrow> bool" where
  "grows_settled c t t' \<longleftrightarrow> extends t t' \<and> operation_claims t' = operation_claims t
     \<and> (\<exists>r. rs_claim r = c \<and> operation_results t' = operation_results t @ [r])"

lemma grows_settled_result:
  "insert_result L r t = Inr t' \<Longrightarrow> grows_settled (rs_claim r) t t'"
  by (drule insert_result_frame) (auto simp: grows_settled_def extends_def)

lemma accept_effect_grows: "snd (accept_effect L ts c x v d t) = d \<or> grows_settled c t (snd (accept_effect L ts c x v d t))"
  by (auto simp: accept_effect_def succeeded_row_def dest: grows_settled_result split: sum.splits)

lemma reject_effect_grows: "snd (reject_effect L ts c k e d t) = d \<or> grows_settled c t (snd (reject_effect L ts c k e d t))"
  by (auto simp: reject_effect_def rejected_row_def dest: grows_settled_result split: sum.splits)

lemma grows_settled_after:
  assumes "extends t t1" "operation_claims t1 = operation_claims t" "operation_results t1 = operation_results t"
    and "grows_settled c t1 t2"
  shows "grows_settled c t t2"
  using assms by (auto simp: grows_settled_def intro: extends_trans)

lemma buy_work_grows:
  "snd (buy_work L op offer ts d c t) = d \<or> grows_settled c t (snd (buy_work L op offer ts d c t))"
proof (cases "buyQuery L ts offer (p_ID (ac_Principal (mc_Access op))) t")
  case (Inr x)
  obtain rows t1 where x: "x = (rows, t1)" by (cases x)
  have "extends t t1" "operation_claims t1 = operation_claims t" "operation_results t1 = operation_results t"
    using buyQuery_frame [OF Inr [unfolded x]] by (auto simp: extends_def)
  then have "grows_settled c t1 t2 \<Longrightarrow> grows_settled c t t2" for t2
    by (rule grows_settled_after)
  with Inr x show ?thesis
    using accept_effect_grows reject_effect_grows
    by (fastforce simp: buy_work_def Let_def split: list.splits sum.splits)
qed (simp add: buy_work_def)

lemma create_work_grows:
  "snd (create_work L op offer ts d c t) = d \<or> grows_settled c t (snd (create_work L op offer ts d c t))"
proof (cases "createSaleOfferQuery L (p_ID (ac_Principal (mc_Access op))) (so_BondSeries offer)
             (dec_String L (so_Price offer)) (so_Currency offer) t")
  case (Inl e)
  then show ?thesis using reject_effect_grows by (fastforce simp: create_work_def Let_def split: option.splits)
next
  case (Inr x)
  obtain rows t1 where x: "x = (rows, t1)" by (cases x)
  have "extends t t1" "operation_claims t1 = operation_claims t" "operation_results t1 = operation_results t"
    using createSaleOfferQuery_frame [OF Inr [unfolded x]] by (auto simp: extends_def)
  then have "grows_settled c t1 t2 \<Longrightarrow> grows_settled c t t2" for t2
    by (rule grows_settled_after)
  with Inr x show ?thesis
    using accept_effect_grows reject_effect_grows
    by (fastforce simp: create_work_def split: list.splits sum.splits)
qed

lemma mutation_effect_grows:
  assumes "\<And>c t. snd (work c t) = d \<or> grows_settled c t (snd (work c t))"
  shows "extends d (snd (mutation_effect L op perm replay work d))"
    and "settled d \<Longrightarrow> settled (snd (mutation_effect L op perm replay work d))"
proof -
  let ?d' = "snd (mutation_effect L op perm replay work d)"
  have "?d' = d \<or> (\<exists>c d1. insert_claim L op d = Inr ([c], d1) \<and> grows_settled c d1 ?d')"
  proof (cases "insert_claim L op d")
    case (Inr x)
    then show ?thesis
      using assms by (cases x; auto simp: mutation_effect_def split: list.splits elim!: insert_claim_cases; metis)
  qed (simp add: mutation_effect_def)
  then have cases: "?d' = d \<or> (\<exists>c n d1. next_uuid d \<le> n \<and> grows_settled c d1 ?d' \<and>
      d1 = d\<lparr>next_uuid := n, operation_claims := operation_claims d @ [claim_row_of op c]\<rparr>)"
    by (auto dest!: insert_claim_frame)
  from cases show "extends d ?d'"
    by (auto simp: grows_settled_def intro: extends_trans [rotated] simp: extends_def)
  show "settled ?d'" if "settled d"
    using cases
  proof (elim disjE exE conjE)
    fix c n d1
    assume g: "grows_settled c d1 ?d'"
      and d1: "d1 = d\<lparr>next_uuid := n, operation_claims := operation_claims d @ [claim_row_of op c]\<rparr>"
    from g obtain r where "rs_claim r = c" "operation_results ?d' = operation_results d1 @ [r]"
      "operation_claims ?d' = operation_claims d1" unfolding grows_settled_def by blast
    with d1 that show ?thesis by (auto simp: settled_def claim_row_of_def)
  qed (use that in simp)
qed

lemma buy_effect_grows:
  "extends d (snd (buy_effect L op offer ts d))"
  "settled d \<Longrightarrow> settled (snd (buy_effect L op offer ts d))"
  unfolding buy_effect_def by (intro mutation_effect_grows buy_work_grows; assumption?)+

lemma create_effect_grows:
  "extends d (snd (create_effect L op offer ts d))"
  "settled d \<Longrightarrow> settled (snd (create_effect L op offer ts d))"
  unfolding create_effect_def by (intro mutation_effect_grows create_work_grows; assumption?)+

section \<open>Authorization facts are never touched\<close>

text \<open>The authorization tables and the bond catalogue, which only administrators write.\<close>

definition auth_of where
  "auth_of d = (principals d, principal_suspensions d, principal_reinstatements d, permissions d,
     role_permission_grants d, role_permission_revocations d, principal_role_grants d,
     principal_role_revocations d, bonds d)"

lemma effective_permission_auth: "auth_of d' = auth_of d \<Longrightarrow> effective_permission d' = effective_permission d"
  by (simp add: auth_of_def effective_permission_def suspended_def fun_eq_iff)

lemma statement_auth:
  "insert_claim L op d = Inr (rows, d') \<Longrightarrow> auth_of d' = auth_of d"
  "insert_result L r d = Inr d' \<Longrightarrow> auth_of d' = auth_of d"
  "buyQuery L ts offer buyer d = Inr (prows, d') \<Longrightarrow> auth_of d' = auth_of d"
  "createSaleOfferQuery L seller series price currency d = Inr (orows, d') \<Longrightarrow> auth_of d' = auth_of d"
  by (auto simp: auth_of_def dest!: insert_claim_frame insert_result_frame buyQuery_frame createSaleOfferQuery_frame)

lemma record_auth:
  "auth_of t = auth_of d \<Longrightarrow> auth_of (snd (accept_effect L ts c x v d t)) = auth_of d"
  "auth_of t = auth_of d \<Longrightarrow> auth_of (snd (reject_effect L ts c k e d t)) = auth_of d"
  by (auto simp: accept_effect_def reject_effect_def dest: statement_auth(2) split: sum.splits)

lemma mutation_effect_auth:
  assumes "\<And>c t. auth_of t = auth_of d \<Longrightarrow> auth_of (snd (work c t)) = auth_of d"
  shows "auth_of (snd (mutation_effect L op perm replay work d)) = auth_of d"
  using assms by (auto simp: mutation_effect_def dest: statement_auth(1) split: sum.splits list.splits prod.splits)

lemma buy_effect_auth: "auth_of (snd (buy_effect L op offer ts d)) = auth_of d"
  unfolding buy_effect_def
  by (rule mutation_effect_auth)
    (auto simp: buy_work_def Let_def dest!: statement_auth(3) intro: record_auth
      split: sum.splits list.splits prod.splits)

lemma create_effect_auth: "auth_of (snd (create_effect L op offer ts d)) = auth_of d"
  unfolding create_effect_def
  by (rule mutation_effect_auth)
    (auto simp: create_work_def Let_def dest!: statement_auth(4) intro: record_auth
      split: sum.splits list.splits prod.splits option.splits)

end
