(* ===== verification/Market_Spec.thy ===== *)
theory Market_Spec
  imports Market
begin

text \<open>
  The abstract market the store implements: which offers are listed, with seller, series and price,
  and who bought which. On a well-formed database the statements of \<open>Store_Sql\<close> reduce to lookups,
  and an authorized, fresh request to buy or to create an offer changes the abstraction exactly as
  the specification says and replies with its verdict.
\<close>

section \<open>Lookups\<close>

lemma comp_filter: "concat (map (\<lambda>x. if P x then [f x] else []) xs) = map f (filter P xs)"
  by (induction xs) auto

lemma comp_find:
  assumes "distinct (map k xs)"
  shows "concat (map (\<lambda>x. if k x = i then F x else []) xs) =
    (case find (\<lambda>x. k x = i) xs of None \<Rightarrow> [] | Some x \<Rightarrow> F x)"
  using assms
proof (induction xs)
  case (Cons x xs)
  show ?case
  proof (cases "k x = i")
    case True
    with Cons.prems have "\<forall>y\<in>set xs. k y \<noteq> i" by (metis distinct.simps(2) image_eqI list.simps(9) set_map)
    then have "concat (map (\<lambda>x. if k x = i then F x else []) xs) = []" by auto
    with True show ?thesis by simp
  qed (use Cons in simp)
qed simp

lemma find_None_image: "find (\<lambda>x. f x = i) xs = None \<longleftrightarrow> i \<notin> f ` set xs"
  by (auto simp: find_None_iff)

lemma find_SomeD: "find P xs = Some x \<Longrightarrow> x \<in> set xs \<and> P x"
  by (auto simp: find_Some_iff)

lemma find_append: "find P (xs @ ys) = (case find P xs of None \<Rightarrow> find P ys | Some x \<Rightarrow> Some x)"
  by (induction xs) auto

definition offer_lookup ::
  "database \<Rightarrow> string \<Rightarrow> (sale_offer_row \<times> canonical_terms_row \<times> bond_row) option" where
  "offer_lookup d i =
     (case find (\<lambda>s. of_uuid s = i) (sale_offers d) of
        None \<Rightarrow> None
      | Some s \<Rightarrow>
          (case find (\<lambda>c. ct_offer c = i) (canonical_terms d) of
             None \<Rightarrow> None
           | Some c \<Rightarrow> map_option (\<lambda>b. (s, c, b)) (find (\<lambda>b. bo_uuid b = of_bond s) (bonds d))))"

lemma offer_lookup_SomeD:
  assumes "offer_lookup d i = Some (s, c, b)"
  shows "s \<in> set (sale_offers d)" "of_uuid s = i" "c \<in> set (canonical_terms d)" "ct_offer c = i"
    "b \<in> set (bonds d)" "bo_uuid b = of_bond s"
  using assms by (auto simp: offer_lookup_def split: option.splits dest: find_SomeD)

lemma offer_lookup_None:
  assumes "wf_db d"
  shows "offer_lookup d i = None \<longleftrightarrow> i \<notin> of_uuid ` set (sale_offers d) \<or> \<not> has_terms d i"
proof -
  have "find (\<lambda>b. bo_uuid b = of_bond s) (bonds d) \<noteq> None" if "find (\<lambda>s. of_uuid s = i) (sale_offers d) = Some s" for s
    using find_SomeD [OF that] assms by (auto simp: find_None_image wf_db_def wf_offers_def)
  then show ?thesis
    by (auto simp: offer_lookup_def has_terms_def list_ex_image find_None_image [symmetric] split: option.splits)
qed

lemma offer_rows_filter:
  assumes "wf_db d"
  shows "filter (\<lambda>r. of_uuid (fst r) = i) (offer_rows d) =
    (case offer_lookup d i of None \<Rightarrow> [] | Some r \<Rightarrow> [r])"
proof -
  let ?B = "\<lambda>s c. concat (map (\<lambda>b. if bo_uuid b = of_bond s then [(s, c, b)] else []) (bonds d))"
  let ?F = "\<lambda>s. concat (map (\<lambda>c. if ct_offer c = of_uuid s then ?B s c else []) (canonical_terms d))"
  have dist: "distinct (map of_uuid (sale_offers d))" "distinct (map ct_offer (canonical_terms d))"
    "distinct (map bo_uuid (bonds d))"
    using assms by (auto simp: wf_db_def wf_offers_def wf_catalog_def)
  have "filter (\<lambda>r. of_uuid (fst r) = i) (offer_rows d) =
      concat (map (\<lambda>s. filter (\<lambda>r. of_uuid (fst r) = i) (?F s)) (sale_offers d))"
    by (simp add: offer_rows_def filter_concat comp_def)
  also have "(\<lambda>s. filter (\<lambda>r. of_uuid (fst r) = i) (?F s)) = (\<lambda>s. if of_uuid s = i then ?F s else [])"
    by (auto simp: fun_eq_iff filter_concat comp_def filter_empty_conv filter_id_conv intro!: arg_cong [of _ _ concat])
  also have "concat (map (\<lambda>s. if of_uuid s = i then ?F s else []) (sale_offers d)) =
      (case offer_lookup d i of None \<Rightarrow> [] | Some r \<Rightarrow> [r])"
  proof (cases "find (\<lambda>s. of_uuid s = i) (sale_offers d)")
    case (Some s)
    then have "of_uuid s = i" by (auto dest: find_SomeD)
    with Some show ?thesis by (simp add: comp_find dist offer_lookup_def split: option.split)
  qed (simp add: comp_find dist offer_lookup_def)
  finally show ?thesis .
qed

lemma buy_candidates:
  assumes "wf_db d" and "principal_exists d buyer"
  shows "[(of_uuid s, pr_uuid p). s \<leftarrow> sale_offers d, of_uuid s = offer,
      c \<leftarrow> canonical_terms d, ct_offer c = of_uuid s,
      p \<leftarrow> principals d, pr_uuid p = buyer, of_seller s \<noteq> pr_uuid p]
    = (case offer_lookup d offer of None \<Rightarrow> []
       | Some (s, _, _) \<Rightarrow> if of_seller s = buyer then [] else [(offer, buyer)])"
proof -
  have dist: "distinct (map of_uuid (sale_offers d))" "distinct (map ct_offer (canonical_terms d))"
    "distinct (map pr_uuid (principals d))"
    using assms by (auto simp: wf_db_def wf_offers_def wf_catalog_def)
  have "find (\<lambda>p. pr_uuid p = buyer) (principals d) \<noteq> None"
    using assms(2) unfolding find_None_image principal_exists_def list_ex_image by blast
  then obtain p where p: "find (\<lambda>p. pr_uuid p = buyer) (principals d) = Some p" "pr_uuid p = buyer"
    by (auto dest: find_SomeD)
  have bond: "find (\<lambda>b. bo_uuid b = of_bond s) (bonds d) \<noteq> None"
    if "find (\<lambda>s. of_uuid s = offer) (sale_offers d) = Some s" for s
    using find_SomeD [OF that] assms(1) by (auto simp: find_None_image wf_db_def wf_offers_def)
  show ?thesis
  proof (cases "find (\<lambda>s. of_uuid s = offer) (sale_offers d)")
    case (Some s)
    then have "of_uuid s = offer" by (auto dest: find_SomeD)
    with Some p bond [OF Some] show ?thesis
      by (auto simp: comp_find dist offer_lookup_def split: option.split)
  qed (simp add: comp_find dist offer_lookup_def)
qed

section \<open>The statement that buys\<close>

definition new_purchase :: "('u, 'd) lib \<Rightarrow> int \<Rightarrow> string \<Rightarrow> string \<Rightarrow> database \<Rightarrow> purchase_row" where
  "new_purchase L ts offer buyer d =
     \<lparr>pc_uuid = pg_uuidv7 L (next_uuid d), pc_offer = offer, pc_buyer = buyer, pc_bought_at = ts\<rparr>"

lemma purchase_rows:
  assumes "wf_db d"
  shows "[(pc_uuid p, offer_out L r, pc_buyer p, pc_bought_at p). p \<leftarrow> ps, r \<leftarrow> offer_rows d, of_uuid (fst r) = pc_offer p]
    = concat (map (\<lambda>p. case offer_lookup d (pc_offer p) of None \<Rightarrow> []
        | Some r \<Rightarrow> [(pc_uuid p, offer_out L r, pc_buyer p, pc_bought_at p)]) ps)"
  by (simp add: comp_filter offer_rows_filter [OF assms] option.case_distrib cong: option.case_cong)

lemma buyQuery_wf_cases:
  assumes wf: "wf_db d" and buyer: "principal_exists d buyer"
    and fresh: "pg_uuidv7 L (next_uuid d) \<notin> pc_uuid ` set (purchases d)"
  shows "buyQuery L ts offer buyer d =
    (case offer_lookup d offer of
       None \<Rightarrow> Inr ([], d)
     | Some (s, c, b) \<Rightarrow>
         if of_seller s = buyer then Inr ([], d)
         else if purchased d offer then Inr ([], d\<lparr>next_uuid := Suc (next_uuid d)\<rparr>)
         else Inr ([(pg_uuidv7 L (next_uuid d), offer_out L (s, c, b), buyer, ts)],
                   d\<lparr>next_uuid := Suc (next_uuid d),
                     purchases := purchases d @ [new_purchase L ts offer buyer d]\<rparr>))"
proof (cases "offer_lookup d offer")
  case None
  then show ?thesis unfolding buyQuery_def buy_candidates [OF wf buyer] by simp
next
  case (Some r)
  obtain s c b where r: "r = (s, c, b)" by (cases r)
  note found = offer_lookup_SomeD [OF Some [unfolded r]]
  have unique: "s' = s" if "s' \<in> set (sale_offers d)" "of_uuid s' = offer" for s'
    using wf found that distinct_map_eq [of of_uuid "sale_offers d" s' s] by (simp add: wf_db_def wf_offers_def)
  have "\<not> list_ex (\<lambda>x. of_uuid x = offer \<and> of_seller x = buyer) (sale_offers d)" if "of_seller s \<noteq> buyer"
    using unique that by (auto simp: list_ex_iff)
  moreover have "list_ex (\<lambda>x. of_uuid x = offer) (sale_offers d)"
    using found by (auto simp: list_ex_iff)
  moreover have "\<not> list_ex (\<lambda>p. pc_uuid p = pg_uuidv7 L (next_uuid d)) (purchases d)"
    using fresh by (simp add: list_ex_image)
  ultimately show ?thesis
    unfolding buyQuery_def buy_candidates [OF wf buyer] purchase_rows [OF wf]
    by (simp add: Some r insert_purchase_def draw_uuid_def buyer Let_def new_purchase_def)
qed

section \<open>The abstract market\<close>

record market =
  listed :: "string \<Rightarrow> (string \<times> string \<times> rat) option"
  sold :: "string \<Rightarrow> string option"

definition market_of :: "database \<Rightarrow> market" where
  "market_of d =
     \<lparr>listed = (\<lambda>i. map_option (\<lambda>(s, c, b). (of_seller s, bo_series b, ct_price c)) (offer_lookup d i)),
      sold = (\<lambda>i. map_option pc_buyer (find (\<lambda>p. pc_offer p = i) (purchases d)))\<rparr>"

definition market_buy :: "string \<Rightarrow> string \<Rightarrow> market \<Rightarrow> unit result \<times> market" where
  "market_buy buyer i m =
     (case listed m i of
        None \<Rightarrow> (Inl ErrOfferUnavailable, m)
      | Some (seller, _, _) \<Rightarrow>
          if sold m i \<noteq> None then (Inl ErrOfferUnavailable, m)
          else if seller = buyer then (Inl ErrSelfTradeProhibited, m)
          else (Inr (), m\<lparr>sold := (sold m)(i \<mapsto> buyer)\<rparr>))"

definition market_list :: "string \<Rightarrow> string \<Rightarrow> string \<Rightarrow> rat \<Rightarrow> market \<Rightarrow> market" where
  "market_list i seller series price m = m\<lparr>listed := (listed m)(i \<mapsto> (seller, series, price))\<rparr>"

text \<open>A request the claim's constraints accept, from a known principal.\<close>

definition valid_request :: "('u, 'd) lib \<Rightarrow> MutationContext \<Rightarrow> database \<Rightarrow> bool" where
  "valid_request L op d \<longleftrightarrow>
     claim_checks L (claim_row_of op '''') = None \<and>
     principal_exists d (p_ID (ac_Principal (mc_Access op)))"

text \<open>The identifiers PostgreSQL draws next are new, as \<^verbatim>\<open>uuidv7()\<close> promises for practical purposes.\<close>

definition fresh_ids :: "('u, 'd) lib \<Rightarrow> database \<Rightarrow> bool" where
  "fresh_ids L d \<longleftrightarrow>
     list_all (\<lambda>k. let u = pg_uuidv7 L (next_uuid d + k)
       in \<not> list_ex (\<lambda>c. cl_uuid c = u) (operation_claims d)
        \<and> \<not> list_ex (\<lambda>s. of_uuid s = u) (sale_offers d)
        \<and> \<not> list_ex (\<lambda>c. ct_offer c = u) (canonical_terms d)
        \<and> \<not> list_ex (\<lambda>s. sb_offer s = u) (submissions d)
        \<and> \<not> list_ex (\<lambda>p. pc_uuid p = u) (purchases d)
        \<and> \<not> list_ex (\<lambda>e. ev_uuid e = u) (integration_events d)) [0, 1, 2, 3]"

lemma fresh_idsD:
  assumes "fresh_ids L d" and "k \<le> 3"
  shows "pg_uuidv7 L (next_uuid d + k) \<notin> cl_uuid ` set (operation_claims d)"
    "pg_uuidv7 L (next_uuid d + k) \<notin> of_uuid ` set (sale_offers d)"
    "pg_uuidv7 L (next_uuid d + k) \<notin> ct_offer ` set (canonical_terms d)"
    "pg_uuidv7 L (next_uuid d + k) \<notin> sb_offer ` set (submissions d)"
    "pg_uuidv7 L (next_uuid d + k) \<notin> pc_uuid ` set (purchases d)"
    "pg_uuidv7 L (next_uuid d + k) \<notin> ev_uuid ` set (integration_events d)"
proof -
  have "k \<in> set [0, 1, 2, 3]" using assms(2) by (simp; arith)
  with assms(1) have "\<not> list_ex (\<lambda>c. cl_uuid c = pg_uuidv7 L (next_uuid d + k)) (operation_claims d)
        \<and> \<not> list_ex (\<lambda>s. of_uuid s = pg_uuidv7 L (next_uuid d + k)) (sale_offers d)
        \<and> \<not> list_ex (\<lambda>c. ct_offer c = pg_uuidv7 L (next_uuid d + k)) (canonical_terms d)
        \<and> \<not> list_ex (\<lambda>s. sb_offer s = pg_uuidv7 L (next_uuid d + k)) (submissions d)
        \<and> \<not> list_ex (\<lambda>p. pc_uuid p = pg_uuidv7 L (next_uuid d + k)) (purchases d)
        \<and> \<not> list_ex (\<lambda>e. ev_uuid e = pg_uuidv7 L (next_uuid d + k)) (integration_events d)"
    unfolding fresh_ids_def list_all_iff Let_def by blast
  then show "pg_uuidv7 L (next_uuid d + k) \<notin> cl_uuid ` set (operation_claims d)"
    "pg_uuidv7 L (next_uuid d + k) \<notin> of_uuid ` set (sale_offers d)"
    "pg_uuidv7 L (next_uuid d + k) \<notin> ct_offer ` set (canonical_terms d)"
    "pg_uuidv7 L (next_uuid d + k) \<notin> sb_offer ` set (submissions d)"
    "pg_uuidv7 L (next_uuid d + k) \<notin> pc_uuid ` set (purchases d)"
    "pg_uuidv7 L (next_uuid d + k) \<notin> ev_uuid ` set (integration_events d)"
    unfolding list_ex_image by blast+
qed

definition claimed_db :: "('u, 'd) lib \<Rightarrow> MutationContext \<Rightarrow> database \<Rightarrow> database" where
  "claimed_db L op d = d\<lparr>next_uuid := Suc (next_uuid d),
     operation_claims := operation_claims d @ [claim_row_of op (pg_uuidv7 L (next_uuid d))]\<rparr>"

lemma claim_succeeds:
  assumes "valid_request L op d" and "fresh_ids L d" and "\<not> list_ex (same_scope op) (operation_claims d)"
  shows "insert_claim L op d = Inr ([pg_uuidv7 L (next_uuid d)], claimed_db L op d)"
proof -
  have "claim_checks L (claim_row_of op (pg_uuidv7 L (next_uuid d))) = None"
    using assms(1) by (simp add: valid_request_def claim_checks_def claim_row_of_def)
  moreover have "\<not> list_ex (\<lambda>x. cl_uuid x = pg_uuidv7 L (next_uuid d)) (operation_claims d)"
    using fresh_idsD(1) [OF assms(2), of 0] by (simp add: list_ex_image)
  moreover have "principal_exists d (cl_principal (claim_row_of op (pg_uuidv7 L (next_uuid d))))"
    using assms(1) by (simp add: valid_request_def claim_row_of_def)
  ultimately show ?thesis
    using assms(3) by (simp add: insert_claim_def draw_uuid_def Let_def claimed_db_def)
qed

section \<open>Recording succeeds\<close>

lemma reject_succeeds:
  assumes "c \<in> cl_uuid ` set (operation_claims t)" and "c \<notin> rs_claim ` set (operation_results t)"
    and "code \<noteq> ''buyer_not_found''"
  shows "reject_effect L ts c code e d t =
    (Inl e, t\<lparr>operation_results := operation_results t @ [rejected_row c code ts]\<rparr>)"
proof -
  have "list_ex (\<lambda>x. cl_uuid x = c) (operation_claims t)" "\<not> list_ex (\<lambda>x. rs_claim x = c) (operation_results t)"
    using assms(1,2) by (simp_all add: list_ex_image)
  with assms(3) show ?thesis
    by (simp add: reject_effect_def insert_result_def rejected_row_def
        record_integration_event_on_completion_def)
qed

text \<open>The completed operation of a claim: its result and its event.\<close>

definition completed_db ::
  "('u, 'd) lib \<Rightarrow> int \<Rightarrow> string \<Rightarrow> string \<Rightarrow> string \<Rightarrow> string \<Rightarrow> database \<Rightarrow> database" where
  "completed_db L ts c resource table source t =
     t\<lparr>operation_results := operation_results t @ [succeeded_row c resource ts],
       next_uuid := Suc (next_uuid t),
       integration_events := integration_events t @
         [\<lparr>ev_uuid = pg_uuidv7 L (next_uuid t), ev_table = table, ev_source = source,
           ev_version = 2, ev_completed_at = ts\<rparr>]\<rparr>"

lemma accept_succeeds:
  assumes claim: "filter (\<lambda>x. cl_uuid x = c) (operation_claims t) = [cl]"
    and new: "c \<notin> rs_claim ` set (operation_results t)"
    and ids: "pg_uuidv7 L (next_uuid t) \<notin> ev_uuid ` set (integration_events t)"
      "\<forall>e\<in>set (integration_events t). \<not> (ev_table e = table \<and> ev_source e = source)"
    and terms: "has_terms t resource"
    and op: "cl_operation cl = ''offers.create'' \<and> table = ''sale_offers'' \<and> source = resource \<or>
      cl_operation cl = ''purchases.buy'' \<and> table = ''purchases'' \<and>
      (\<exists>p. filter (\<lambda>p. pc_offer p = resource) (purchases t) = [p] \<and> pc_uuid p = source)"
  shows "accept_effect L ts c resource v d t = (Inr v, completed_db L ts c resource table source t)"
proof -
  have cl: "list_ex (\<lambda>x. cl_uuid x = c) (operation_claims t)"
    using claim by (metis (mono_tags, lifting) filter_False list.distinct(1) list_ex_iff)
  have res: "\<not> list_ex (\<lambda>x. rs_claim x = c) (operation_results t)" using new by (simp add: list_ex_image)
  have ev: "\<not> list_ex (\<lambda>e. ev_uuid e = pg_uuidv7 L (next_uuid t)) (integration_events t)"
    "\<not> list_ex (\<lambda>e. ev_table e = table \<and> ev_source e = source) (integration_events t)"
    using ids(1) unfolding list_ex_image using ids(2) by (simp_all add: list_ex_iff)
  let ?t = "t\<lparr>operation_results := operation_results t @ [succeeded_row c resource ts]\<rparr>"
  have ins: "insert_event L table (Some source) 2 ts ?t = Inr (completed_db L ts c resource table source t)"
    using ev by (simp add: insert_event_def draw_uuid_def completed_db_def)
  have "list_ex (\<lambda>x. resource = ct_offer x) (canonical_terms t)"
    using terms by (auto simp: has_terms_def list_ex_iff)
  then have "record_integration_event_on_completion L (succeeded_row c resource ts) ?t =
      insert_event L table (Some source) 2 ts ?t"
    using op claim terms
    by (auto simp: record_integration_event_on_completion_def succeeded_row_def has_terms_def
        eq_commute [of resource] filter_eq_Cons_iff)
  with ins cl res show ?thesis
    by (simp add: accept_effect_def insert_result_def) (simp add: succeeded_row_def)
qed

section \<open>Buying refines the market\<close>

lemma market_of_frame [simp]:
  "market_of (d\<lparr>next_uuid := n\<rparr>) = market_of d"
  "market_of (d\<lparr>operation_results := rs\<rparr>) = market_of d"
  "market_of (d\<lparr>operation_claims := cs\<rparr>) = market_of d"
  "market_of (d\<lparr>integration_events := es\<rparr>) = market_of d"
  by (simp_all add: market_of_def offer_lookup_def fun_eq_iff cong: option.case_cong)

lemma market_of_completed [simp]: "market_of (completed_db L ts c resource table source t) = market_of t"
  by (simp add: completed_db_def)

lemma lookup_frame [simp]:
  "offer_lookup (d\<lparr>next_uuid := n\<rparr>) i = offer_lookup d i"
  "offer_lookup (d\<lparr>operation_results := rs\<rparr>) i = offer_lookup d i"
  "offer_lookup (d\<lparr>operation_claims := cs\<rparr>) i = offer_lookup d i"
  "offer_lookup (d\<lparr>integration_events := es\<rparr>) i = offer_lookup d i"
  "offer_lookup (d\<lparr>purchases := ps\<rparr>) i = offer_lookup d i"
  "purchased (d\<lparr>next_uuid := n\<rparr>) i = purchased d i"
  "purchased (d\<lparr>operation_claims := cs\<rparr>) i = purchased d i"
  by (simp_all add: offer_lookup_def purchased_def cong: option.case_cong)

lemma sold_iff: "sold (market_of d) i \<noteq> None \<longleftrightarrow> purchased d i"
  using find_None_image [of pc_offer i "purchases d"]
  by (simp add: market_of_def purchased_image)

lemma market_of_purchase:
  assumes "\<not> purchased d (pc_offer p)"
  shows "market_of (d\<lparr>purchases := purchases d @ [p]\<rparr>) =
    (market_of d)\<lparr>sold := (sold (market_of d))(pc_offer p \<mapsto> pc_buyer p)\<rparr>"
  using assms find_None_image [of pc_offer "pc_offer p" "purchases d"]
  by (auto simp: market_of_def fun_eq_iff find_append purchased_image split: option.splits)

lemma classify_iff:
  assumes "wf_db d"
  shows "classifyFailedBuyQuery buyer offer d \<longleftrightarrow>
    (\<exists>s c b. offer_lookup d offer = Some (s, c, b) \<and> of_seller s = buyer) \<and> \<not> purchased d offer"
proof
  assume "classifyFailedBuyQuery buyer offer d"
  then obtain s where s: "s \<in> set (sale_offers d)" "of_uuid s = offer" "of_seller s = buyer" "has_terms d offer"
    and free: "\<not> purchased d offer"
    by (auto simp: classifyFailedBuyQuery_def list_ex_iff has_terms_def)
  then obtain s' c b where l: "offer_lookup d offer = Some (s', c, b)"
    using offer_lookup_None [OF assms, of offer] by (cases "offer_lookup d offer") auto
  have "s' = s"
    using offer_lookup_SomeD [OF l] s assms distinct_map_eq [of of_uuid "sale_offers d" s' s]
    by (simp add: wf_db_def wf_offers_def)
  with l s free show "(\<exists>s c b. offer_lookup d offer = Some (s, c, b) \<and> of_seller s = buyer) \<and> \<not> purchased d offer"
    by blast
next
  assume "(\<exists>s c b. offer_lookup d offer = Some (s, c, b) \<and> of_seller s = buyer) \<and> \<not> purchased d offer"
  then obtain s c b where l: "offer_lookup d offer = Some (s, c, b)" and "of_seller s = buyer" "\<not> purchased d offer"
    by blast
  with offer_lookup_SomeD [OF l] show "classifyFailedBuyQuery buyer offer d"
    unfolding classifyFailedBuyQuery_def list_ex_iff by blast
qed

lemma purchase_parses:
  assumes "decimal_laws L val" and "numeric_laws L val" and "wf_db d" and "offer_lookup d i = Some (s, c, b)"
  shows "\<exists>q. purchase_of_row L (u, offer_out L (s, c, b), buyer, ts) =
    Inr \<lparr>pu_ID = u, pu_Offer = \<lparr>so_ID = i, so_SellerID = of_seller s, so_BondSeries = bo_series b,
           so_Price = q, so_Currency = MXN\<rparr>, pu_BuyerID = buyer, pu_BoughtAt = ts\<rparr> \<and> val q = ct_price c"
proof -
  note found = offer_lookup_SomeD [OF assms(4)]
  have "valid_price (ct_price c)" "ct_currency c = MXN"
    using assms(3) found(3) by (auto simp: wf_db_def wf_offers_def)
  with ParsePrice_numeric_out [OF assms(1,2)] obtain q where
    "ParsePrice L (pg_numeric_out L (ct_price c)) = Inr q" "val q = ct_price c" by blast
  with found \<open>ct_currency c = MXN\<close> show ?thesis
    by (auto simp: purchase_of_row_def offer_out_def scan_offer_def)
qed

text \<open>The preconditions of a first, authorized request.\<close>

definition first_request :: "('u, 'd) lib \<Rightarrow> MutationContext \<Rightarrow> string \<Rightarrow> database \<Rightarrow> bool" where
  "first_request L op permission d \<longleftrightarrow>
     wf_db d \<and> valid_request L op d \<and> fresh_ids L d
     \<and> \<not> list_ex (same_scope op) (operation_claims d)
     \<and> effective_permission d (p_ID (ac_Principal (mc_Access op))) permission"

lemma first_request_effect:
  assumes "first_request L op permission d"
  shows "mutation_effect L op permission replay work d = work (pg_uuidv7 L (next_uuid d)) (claimed_db L op d)"
    and "wf_db (claimed_db L op d)"
    and "pg_uuidv7 L (next_uuid d) \<notin> rs_claim ` set (operation_results (claimed_db L op d))"
    and "filter (\<lambda>x. cl_uuid x = pg_uuidv7 L (next_uuid d)) (operation_claims (claimed_db L op d))
      = [claim_row_of op (pg_uuidv7 L (next_uuid d))]"
    and "principal_exists (claimed_db L op d) (p_ID (ac_Principal (mc_Access op)))"
proof -
  note a = assms [unfolded first_request_def]
  have ins: "insert_claim L op d = Inr ([pg_uuidv7 L (next_uuid d)], claimed_db L op d)"
    using claim_succeeds a by blast
  then show "mutation_effect L op permission replay work d = work (pg_uuidv7 L (next_uuid d)) (claimed_db L op d)"
    using a by (simp add: mutation_effect_def)
  show "wf_db (claimed_db L op d)" using insert_claim_wf [OF _ ins] a by blast
  have free: "pg_uuidv7 L (next_uuid d) \<notin> cl_uuid ` set (operation_claims d)"
    using fresh_idsD(1) [of L d 0] a by simp
  then show "pg_uuidv7 L (next_uuid d) \<notin> rs_claim ` set (operation_results (claimed_db L op d))"
    using a by (auto simp: wf_db_def wf_operations_def claimed_db_def)
  from free have "filter (\<lambda>x. cl_uuid x = pg_uuidv7 L (next_uuid d)) (operation_claims d) = []"
    by (rule filter_notin)
  then show "filter (\<lambda>x. cl_uuid x = pg_uuidv7 L (next_uuid d)) (operation_claims (claimed_db L op d))
      = [claim_row_of op (pg_uuidv7 L (next_uuid d))]"
    by (simp add: claimed_db_def claim_row_of_def)
  show "principal_exists (claimed_db L op d) (p_ID (ac_Principal (mc_Access op)))"
    using a by (simp add: valid_request_def principal_exists_def claimed_db_def)
qed

lemma fresh_source:
  assumes "wf_db d"
  shows "u \<notin> pc_uuid ` set (purchases d) \<Longrightarrow>
      \<forall>e\<in>set (integration_events d). \<not> (ev_table e = ''purchases'' \<and> ev_source e = u)"
    and "u \<notin> of_uuid ` set (sale_offers d) \<Longrightarrow>
      \<forall>e\<in>set (integration_events d). \<not> (ev_table e = ''sale_offers'' \<and> ev_source e = u)"
proof -
  have tables: "''purchases'' \<noteq> ''sale_offers''" by simp
  have "\<forall>e\<in>set (integration_events d).
        ev_table e = ''purchases'' \<and> ev_source e \<in> pc_uuid ` set (purchases d) \<or>
        ev_table e = ''sale_offers'' \<and> ev_source e \<in> of_uuid ` set (sale_offers d)"
    using assms by (simp add: wf_db_def wf_events_def)
  then show "u \<notin> pc_uuid ` set (purchases d) \<Longrightarrow>
      \<forall>e\<in>set (integration_events d). \<not> (ev_table e = ''purchases'' \<and> ev_source e = u)"
    and "u \<notin> of_uuid ` set (sale_offers d) \<Longrightarrow>
      \<forall>e\<in>set (integration_events d). \<not> (ev_table e = ''sale_offers'' \<and> ev_source e = u)"
    using tables by metis+
qed

definition purchase_matches :: "('d \<Rightarrow> rat) \<Rightarrow> string \<Rightarrow> string \<Rightarrow> int \<Rightarrow> market \<Rightarrow> 'd Purchase \<Rightarrow> bool" where
  "purchase_matches val buyer i ts m p \<longleftrightarrow>
     so_ID (pu_Offer p) = i \<and> so_Currency (pu_Offer p) = MXN \<and>
     listed m i = Some (so_SellerID (pu_Offer p), so_BondSeries (pu_Offer p), val (so_Price (pu_Offer p))) \<and>
     pu_BuyerID p = buyer \<and> pu_BoughtAt p = ts"

definition buy_implements ::
  "('d \<Rightarrow> rat) \<Rightarrow> string \<Rightarrow> string \<Rightarrow> int \<Rightarrow> database \<Rightarrow> 'd Purchase result \<times> database \<Rightarrow> bool" where
  "buy_implements val buyer i ts d run \<longleftrightarrow>
     market_of (snd run) = snd (market_buy buyer i (market_of d)) \<and>
     (case fst (market_buy buyer i (market_of d)) of
        Inl e \<Rightarrow> fst run = Inl e
      | Inr _ \<Rightarrow> (\<exists>p. fst run = Inr p \<and> purchase_matches val buyer i ts (market_of d) p))"

lemma buy_success:
  assumes laws: "decimal_laws L val" "numeric_laws L val"
    and first: "first_request L op PermissionBuy d" and oper: "ac_Operation (mc_Access op) = OperationBuy"
    and found: "offer_lookup d offer = Some (s, c, b)"
    and other: "of_seller s \<noteq> p_ID (ac_Principal (mc_Access op))" and free: "\<not> purchased d offer"
  shows "buy_implements val (p_ID (ac_Principal (mc_Access op))) offer ts d (buy_effect L op offer ts d)"
proof -
  let ?buyer = "p_ID (ac_Principal (mc_Access op))"
  let ?t = "claimed_db L op d"
  let ?u = "pg_uuidv7 L (next_uuid ?t)"
  let ?p = "new_purchase L ts offer ?buyer ?t"
  let ?t1 = "?t\<lparr>next_uuid := Suc (next_uuid ?t), purchases := purchases ?t @ [?p]\<rparr>"
  note t = first_request_effect [OF first]
  have wf: "wf_db d" and ids: "fresh_ids L d" using first by (auto simp: first_request_def)
  have u: "?u \<notin> pc_uuid ` set (purchases ?t)"
    using fresh_idsD(5) [OF ids, of 1] by (simp add: claimed_db_def)
  have lk: "offer_lookup ?t offer = Some (s, c, b)" "\<not> purchased ?t offer"
    using found free by (simp_all add: claimed_db_def)
  have query: "buyQuery L ts offer ?buyer ?t = Inr ([(?u, offer_out L (s, c, b), ?buyer, ts)], ?t1)"
    using buyQuery_wf_cases [OF t(2,5) u, of ts offer] lk other by simp
  obtain q where q: "purchase_of_row L (?u, offer_out L (s, c, b), ?buyer, ts) =
      Inr \<lparr>pu_ID = ?u, pu_Offer = \<lparr>so_ID = offer, so_SellerID = of_seller s, so_BondSeries = bo_series b,
           so_Price = q, so_Currency = MXN\<rparr>, pu_BuyerID = ?buyer, pu_BoughtAt = ts\<rparr>" "val q = ct_price c"
    using purchase_parses [OF laws wf found] by blast
  have none: "offer \<notin> pc_offer ` set (purchases d)" using free by (simp add: purchased_image)
  have "pc_offer p \<noteq> offer" if "p \<in> set (purchases d)" for p using none that by blast
  then have mine: "filter (\<lambda>p. pc_offer p = offer) (purchases ?t1) = [?p]"
    by (simp add: new_purchase_def claimed_db_def filter_empty_conv)
  have quiet: "\<forall>e\<in>set (integration_events ?t1). \<not> (ev_table e = ''purchases'' \<and> ev_source e = ?u)"
    using fresh_source(1) [OF t(2) u] by simp
  have "has_terms ?t1 offer"
    using offer_lookup_SomeD(3,4) [OF found] by (auto simp: has_terms_def list_ex_iff claimed_db_def)
  then have acc: "accept_effect L ts (pg_uuidv7 L (next_uuid d)) offer v d ?t1 =
      (Inr v, completed_db L ts (pg_uuidv7 L (next_uuid d)) offer ''purchases'' ?u ?t1)" for v :: "'b Purchase"
  proof (intro accept_succeeds)
    show "pg_uuidv7 L (next_uuid ?t1) \<notin> ev_uuid ` set (integration_events ?t1)"
      using fresh_idsD(6) [OF ids, of 2] by (simp add: claimed_db_def)
    show "filter (\<lambda>x. cl_uuid x = pg_uuidv7 L (next_uuid d)) (operation_claims ?t1)
        = [claim_row_of op (pg_uuidv7 L (next_uuid d))]"
      using t(4) by simp
  qed (use t(3) quiet mine oper in \<open>auto simp: claim_row_of_def operation_defs new_purchase_def\<close>)
  have run: "buy_effect L op offer ts d = (Inr \<lparr>pu_ID = ?u, pu_Offer = \<lparr>so_ID = offer, so_SellerID = of_seller s,
      so_BondSeries = bo_series b, so_Price = q, so_Currency = MXN\<rparr>, pu_BuyerID = ?buyer, pu_BoughtAt = ts\<rparr>,
      completed_db L ts (pg_uuidv7 L (next_uuid d)) offer ''purchases'' ?u ?t1)"
    unfolding buy_effect_def t(1) buy_work_def Let_def by (simp add: query q acc)
  have "market_of ?t1 = (market_of d)\<lparr>sold := (sold (market_of d))(offer \<mapsto> ?buyer)\<rparr>"
    using market_of_purchase [of "?t\<lparr>next_uuid := Suc (next_uuid ?t)\<rparr>" ?p] lk
    by (simp add: new_purchase_def claimed_db_def)
  moreover have "listed (market_of d) offer = Some (of_seller s, bo_series b, ct_price c)"
    using found by (simp add: market_of_def)
  moreover have "sold (market_of d) offer = None" using sold_iff [of d offer] free by simp
  ultimately show ?thesis
    using other q(2)
    by (simp add: run buy_implements_def market_buy_def purchase_matches_def)
qed

lemma buy_refusal:
  assumes first: "first_request L op PermissionBuy d"
    and refused: "offer_lookup d offer = None \<or> purchased d offer \<or>
      (\<exists>s c b. offer_lookup d offer = Some (s, c, b) \<and> of_seller s = p_ID (ac_Principal (mc_Access op)))"
  shows "buy_implements val (p_ID (ac_Principal (mc_Access op))) offer ts d (buy_effect L op offer ts d)"
proof -
  let ?buyer = "p_ID (ac_Principal (mc_Access op))"
  let ?t = "claimed_db L op d"
  let ?c = "pg_uuidv7 L (next_uuid d)"
  note t = first_request_effect [OF first]
  have ids: "fresh_ids L d" using first by (auto simp: first_request_def)
  have u: "pg_uuidv7 L (next_uuid ?t) \<notin> pc_uuid ` set (purchases ?t)"
    using fresh_idsD(5) [OF ids, of 1] by (simp add: claimed_db_def)
  have lk: "offer_lookup ?t offer = offer_lookup d offer" "purchased ?t offer = purchased d offer"
    by (simp_all add: claimed_db_def)
  have "buyQuery L ts offer ?buyer ?t = Inr ([], ?t\<lparr>next_uuid := next_uuid ?t\<rparr>) \<or>
      buyQuery L ts offer ?buyer ?t = Inr ([], ?t\<lparr>next_uuid := Suc (next_uuid ?t)\<rparr>)"
  proof (cases "offer_lookup d offer")
    case (Some r)
    obtain s c b where r: "r = (s, c, b)" by (cases r)
    have "of_seller s = ?buyer \<or> purchased d offer" using refused Some r by auto
    then show ?thesis
      unfolding buyQuery_wf_cases [OF t(2,5) u, of ts offer] lk Some r by fastforce
  qed (simp add: buyQuery_wf_cases [OF t(2,5) u, of ts offer] lk)
  then obtain n where query: "buyQuery L ts offer ?buyer ?t = Inr ([], ?t\<lparr>next_uuid := n\<rparr>)" by blast
  let ?t1 = "?t\<lparr>next_uuid := n\<rparr>"
  have claim: "?c \<in> cl_uuid ` set (operation_claims ?t1)" "?c \<notin> rs_claim ` set (operation_results ?t1)"
    using t(3) by (auto simp: claimed_db_def claim_row_of_def)
  have own: "classifyFailedBuyQuery ?buyer offer ?t1 \<longleftrightarrow>
      (\<exists>s c b. offer_lookup d offer = Some (s, c, b) \<and> of_seller s = ?buyer) \<and> \<not> purchased d offer"
    using classify_iff [of ?t1 ?buyer offer] t(2) lk by simp
  have "buy_effect L op offer ts d =
      (if classifyFailedBuyQuery ?buyer offer ?t1 then
         (Inl ErrSelfTradeProhibited, ?t1\<lparr>operation_results := operation_results ?t1 @
            [rejected_row ?c ''self_trade_prohibited'' ts]\<rparr>)
       else (Inl ErrOfferUnavailable, ?t1\<lparr>operation_results := operation_results ?t1 @
            [rejected_row ?c ''offer_unavailable'' ts]\<rparr>))"
    unfolding buy_effect_def t(1) buy_work_def Let_def using claim by (simp add: query reject_succeeds)
  then show ?thesis
    using own refused sold_iff [of d offer]
    by (auto simp: buy_implements_def market_buy_def claimed_db_def market_of_def split: option.splits)
qed

lemma buy_effect_refines:
  assumes "decimal_laws L val" "numeric_laws L val"
    and "first_request L op PermissionBuy d" and "ac_Operation (mc_Access op) = OperationBuy"
  shows "buy_implements val (p_ID (ac_Principal (mc_Access op))) offer ts d (buy_effect L op offer ts d)"
proof (cases "offer_lookup d offer = None \<or> purchased d offer \<or>
      (\<exists>s c b. offer_lookup d offer = Some (s, c, b) \<and> of_seller s = p_ID (ac_Principal (mc_Access op)))")
  case True
  then show ?thesis by (rule buy_refusal [OF assms(3)])
next
  case False
  then obtain s c b where "offer_lookup d offer = Some (s, c, b)" by (cases "offer_lookup d offer") auto
  with False assms show ?thesis by (intro buy_success) auto
qed

end
