(* ===== verification/Replay.thy ===== *)
theory Replay
  imports Market_Spec
begin

text \<open>
  Idempotency: what the stored outcome of a claim says. On a well-formed database the replay query
  finds at most one row; the reply to a first run equals the replay of what it stored; and later
  growth of the database does not change it.
\<close>

unbundle bit_operations_syntax

section \<open>Digest comparison\<close>

lemma or_eq_0_word: "(a::byte) OR b = 0 \<longleftrightarrow> a = 0 \<and> b = 0"
  by (auto simp: bit_eq_iff bit_or_iff)

lemma xor_eq_0_word: "(a::byte) XOR b = 0 \<longleftrightarrow> a = b"
  by (auto simp: bit_eq_iff bit_xor_iff)

lemma foldl_or_0:
  "foldl (\<lambda>(x::byte) i. x OR f i) a xs = 0 \<longleftrightarrow> a = 0 \<and> (\<forall>i\<in>set xs. f i = 0)"
  by (induction xs arbitrary: a) (auto simp: or_eq_0_word)

lemma equalDigest_iff:
  assumes "length expected = 32"
  shows "equalDigest actual expected \<longleftrightarrow> actual = expected"
  using assms
  by (auto simp: equalDigest_def foldl_or_0 xor_eq_0_word intro!: nth_equalityI)

section \<open>The replay query\<close>

definition stored_row :: "claim_row \<Rightarrow> result_row \<Rightarrow> stored_result" where
  "stored_row c r = (rs_resource r, rs_outcome r, case rs_error r of None \<Rightarrow> '''' | Some e \<Rightarrow> e,
     cl_request_digest c)"

lemma replayQuery_row:
  assumes wf: "wf_db d" and c: "c \<in> set (operation_claims d)" "same_scope op c"
    and r: "r \<in> set (operation_results d)" "rs_claim r = cl_uuid c"
  shows "replayQuery op d = [stored_row c r]"
proof -
  let ?k = "claim_scope (claim_row_of op '''')"
  have dist: "distinct (map claim_scope (operation_claims d))" "distinct (map rs_claim (operation_results d))"
    using wf by (auto simp: wf_db_def wf_operations_def)
  have "same_scope op = (\<lambda>x. claim_scope x = ?k)" by (auto simp: same_scope_iff [where u = "''''"])
  moreover have "find (\<lambda>x. claim_scope x = ?k) (operation_claims d) = Some c"
    using find_distinct [OF dist(1) c(1)] c(2) by (simp add: same_scope_iff [where u = "''''"])
  moreover have "filter (\<lambda>x. rs_claim x = cl_uuid c) (operation_results d) = [r]"
    using filter_singleton_if_distinct [OF dist(2) r(1)] r(2) by simp
  ultimately show ?thesis
    by (simp add: replayQuery_def comp_filter comp_find dist stored_row_def)
qed

definition outcome_of :: "MutationContext \<Rightarrow> stored_result \<Rightarrow> string result" where
  "outcome_of op = (\<lambda>(resource, outcome, code, digest).
       if digest \<noteq> ac_RequestDigest (mc_Access op) then Inl ErrIdempotencyConflict
       else if outcome = ''rejected'' then Inl (operationErrorFromCode code)
       else case resource of
              Some x \<Rightarrow> if outcome \<noteq> ''succeeded'' then Inl (ErrorString ''invalid stored operation result'')
                        else Inr x
            | None \<Rightarrow> Inl (ErrorString ''invalid stored operation result''))"

lemma replay_resource_row:
  assumes "replayQuery op d = [row]" and "length (ac_RequestDigest (mc_Access op)) = 32"
  shows "replay_resource_result op d = outcome_of op row"
  using assms(1)
  by (simp add: replay_resource_result_def first_row_def outcome_of_def equalDigest_iff [OF assms(2)]
      split: prod.splits)

lemma purchaseByOffer_row:
  assumes wf: "wf_db d" and p: "p \<in> set (purchases d)" and l: "offer_lookup d (pc_offer p) = Some r"
  shows "purchaseByOfferQuery L (pc_offer p) d = [(pc_uuid p, offer_out L r, pc_buyer p, pc_bought_at p)]"
proof -
  have "distinct (map pc_offer (purchases d))" using wf by (auto simp: wf_db_def wf_purchases_def)
  then show ?thesis
    using find_distinct [of pc_offer "purchases d" p] p l
    by (simp add: purchaseByOfferQuery_def comp_filter comp_find offer_rows_filter [OF wf])
qed

lemma offerById_row:
  assumes "wf_db d" and "offer_lookup d i = Some r"
  shows "offerByIdQuery L i d = [offer_out L r]"
  using assms(2) by (simp add: offerByIdQuery_def comp_filter offer_rows_filter [OF assms(1)])

section \<open>Stability under growth\<close>

lemma prefix_find:
  "prefix_of xs ys \<Longrightarrow> find P xs = Some x \<Longrightarrow> find P ys = Some x"
  by (auto simp: prefix_of_def find_append)

lemma offer_lookup_extends:
  assumes "extends d d'" and "offer_lookup d i = Some r"
  shows "offer_lookup d' i = Some r"
proof -
  obtain s c b where r: "r = (s, c, b)" by (cases r)
  have "find (\<lambda>s. of_uuid s = i) (sale_offers d) = Some s" "find (\<lambda>c. ct_offer c = i) (canonical_terms d) = Some c"
    "find (\<lambda>b. bo_uuid b = of_bond s) (bonds d) = Some b"
    using assms(2) r by (auto simp: offer_lookup_def split: option.splits)
  then have "find (\<lambda>s. of_uuid s = i) (sale_offers d') = Some s" "find (\<lambda>c. ct_offer c = i) (canonical_terms d') = Some c"
    "find (\<lambda>b. bo_uuid b = of_bond s) (bonds d') = Some b"
    using extends_prefix [OF assms(1)] prefix_find by metis+
  then show ?thesis by (simp add: offer_lookup_def r)
qed

text \<open>The stored outcome of a settled claim, found by its scope.\<close>

definition settled_outcome :: "MutationContext \<Rightarrow> database \<Rightarrow> claim_row \<Rightarrow> result_row \<Rightarrow> bool" where
  "settled_outcome op d c r \<longleftrightarrow>
     c \<in> set (operation_claims d) \<and> same_scope op c \<and>
     r \<in> set (operation_results d) \<and> rs_claim r = cl_uuid c"

lemma settled_outcome_extends:
  assumes "extends d d'" and "settled_outcome op d c r"
  shows "settled_outcome op d' c r"
  using prefix_of_set [OF extends_prefix(4) [OF assms(1)]] prefix_of_set [OF extends_prefix(5) [OF assms(1)]]
    assms(2) by (auto simp: settled_outcome_def)

lemma settled_outcome_exists:
  assumes "settled d" and "list_ex (same_scope op) (operation_claims d)"
  shows "\<exists>c r. settled_outcome op d c r"
proof -
  from assms(2) obtain c where c: "c \<in> set (operation_claims d)" "same_scope op c"
    by (auto simp: list_ex_iff)
  with assms(1) have "cl_uuid c \<in> rs_claim ` set (operation_results d)" by (auto simp: settled_def)
  then show ?thesis using c by (force simp: settled_outcome_def)
qed

lemma replay_settled:
  assumes "wf_db d" and "settled_outcome op d c r" and "length (ac_RequestDigest (mc_Access op)) = 32"
  shows "replay_resource_result op d = outcome_of op (stored_row c r)"
  using replayQuery_row [OF assms(1)] replay_resource_row assms(2,3) by (auto simp: settled_outcome_def)

text \<open>
  The reply a settled claim stands for: an error, or a resource whose rows are in the database.
\<close>

definition stands_for_purchase ::
  "('u, 'd) lib \<Rightarrow> MutationContext \<Rightarrow> database \<Rightarrow> 'd Purchase result \<Rightarrow> bool" where
  "stands_for_purchase L op d res \<longleftrightarrow>
     (\<exists>c r. settled_outcome op d c r \<and>
       (case outcome_of op (stored_row c r) of
          Inl e \<Rightarrow> res = Inl e
        | Inr x \<Rightarrow> (\<exists>p\<in>set (purchases d). \<exists>o'. pc_offer p = x \<and> offer_lookup d x = Some o' \<and>
            res = scanPurchase L (pc_uuid p, offer_out L o', pc_buyer p, pc_bought_at p))))"

lemma stands_for_purchase_extends:
  assumes "extends d d'" and "stands_for_purchase L op d res"
  shows "stands_for_purchase L op d' res"
proof -
  have "set (purchases d) \<subseteq> set (purchases d')"
    using extends_prefix [OF assms(1)] prefix_of_set by blast
  then show ?thesis
    using assms settled_outcome_extends [OF assms(1)] offer_lookup_extends [OF assms(1)]
    unfolding stands_for_purchase_def by (fastforce split: sum.splits)
qed

lemma replay_purchase_stands:
  assumes "wf_db d" and "stands_for_purchase L op d res" and "length (ac_RequestDigest (mc_Access op)) = 32"
  shows "replay_purchase_result L op d = res"
proof -
  from assms(2) obtain c r where cr: "settled_outcome op d c r" and
    res: "case outcome_of op (stored_row c r) of
          Inl e \<Rightarrow> res = Inl e
        | Inr x \<Rightarrow> (\<exists>p\<in>set (purchases d). \<exists>o'. pc_offer p = x \<and> offer_lookup d x = Some o' \<and>
            res = scanPurchase L (pc_uuid p, offer_out L o', pc_buyer p, pc_bought_at p))"
    unfolding stands_for_purchase_def by blast
  show ?thesis
  proof (cases "outcome_of op (stored_row c r)")
    case (Inr x)
    with res obtain p o' where "p \<in> set (purchases d)" "pc_offer p = x" "offer_lookup d x = Some o'"
      "res = scanPurchase L (pc_uuid p, offer_out L o', pc_buyer p, pc_bought_at p)" by auto
    then show ?thesis
      using purchaseByOffer_row [OF assms(1), of p o' L]
      by (simp add: replay_purchase_result_def replay_settled [OF assms(1) cr assms(3)] Inr first_row_def)
  qed (use res in \<open>simp add: replay_purchase_result_def replay_settled [OF assms(1) cr assms(3)]\<close>)
qed

section \<open>A run leaves what it replied\<close>

lemma classified_conflict:
  assumes "insert_claim L op d = Inr ([], d')"
  shows "list_ex (same_scope op) (operation_claims d)"
  using assms by (cases rule: insert_claim_cases) auto

lemma reject_stands:
  assumes claim: "claim_row_of op c \<in> set (operation_claims t)"
    and run: "reject_effect L ts c code err d t = (res, d')" and "d' \<noteq> d"
    and code: "operationErrorFromCode code = err"
  shows "\<exists>r. settled_outcome op d' (claim_row_of op c) r \<and>
    outcome_of op (stored_row (claim_row_of op c) r) = Inl err \<and> res = Inl err"
proof -
  from run \<open>d' \<noteq> d\<close> have ins: "insert_result L (rejected_row c code ts) t = Inr d'" and res: "res = Inl err"
    by (auto simp: reject_effect_def split: sum.splits)
  from insert_result_frame [OF ins] claim
  have "settled_outcome op d' (claim_row_of op c) (rejected_row c code ts)"
    by (auto simp: settled_outcome_def same_scope_def claim_row_of_def rejected_row_def)
  moreover have "outcome_of op (stored_row (claim_row_of op c) (rejected_row c code ts)) = Inl err"
    using code by (simp add: outcome_of_def stored_row_def claim_row_of_def rejected_row_def)
  ultimately show ?thesis using res by blast
qed

lemma accept_stands:
  assumes claim: "claim_row_of op c \<in> set (operation_claims t)"
    and run: "accept_effect L ts c x v d t = (res, d')" and "d' \<noteq> d"
  shows "\<exists>r. settled_outcome op d' (claim_row_of op c) r \<and>
    outcome_of op (stored_row (claim_row_of op c) r) = Inr x \<and> res = Inr v \<and> extends t d'"
proof -
  from run \<open>d' \<noteq> d\<close> have ins: "insert_result L (succeeded_row c x ts) t = Inr d'" and res: "res = Inr v"
    by (auto simp: accept_effect_def split: sum.splits)
  from insert_result_frame [OF ins] claim
  have "settled_outcome op d' (claim_row_of op c) (succeeded_row c x ts)"
    by (auto simp: settled_outcome_def same_scope_def claim_row_of_def succeeded_row_def)
  moreover have "outcome_of op (stored_row (claim_row_of op c) (succeeded_row c x ts)) = Inr x"
    by (simp add: outcome_of_def stored_row_def claim_row_of_def succeeded_row_def)
  moreover have "extends t d'" using grows_settled_result [OF ins] by (simp add: grows_settled_def)
  ultimately show ?thesis using res by blast
qed

lemma buyQuery_row:
  assumes wf: "wf_db t" and run: "buyQuery L ts offer buyer t = Inr (row # rows, t1)"
  shows "\<exists>p o'. p \<in> set (purchases t1) \<and> pc_offer p = offer \<and> offer_lookup t1 offer = Some o' \<and>
    row = (pc_uuid p, offer_out L o', pc_buyer p, pc_bought_at p)"
proof -
  from run obtain ps where ins: "insert_purchases L ts
        [(of_uuid s, pr_uuid p). s \<leftarrow> sale_offers t, of_uuid s = offer,
          c \<leftarrow> canonical_terms t, ct_offer c = of_uuid s,
          p \<leftarrow> principals t, pr_uuid p = buyer, of_seller s \<noteq> pr_uuid p] t = Inr (ps, t1)"
    and rows: "row # rows = concat (map (\<lambda>p. case offer_lookup t (pc_offer p) of None \<Rightarrow> []
        | Some r \<Rightarrow> [(pc_uuid p, offer_out L r, pc_buyer p, pc_bought_at p)]) ps)"
    unfolding buyQuery_def purchase_rows [OF wf] by (auto split: sum.splits)
  have "row \<in> set (row # rows)" by simp
  then obtain p where "p \<in> set ps" "row \<in> set (case offer_lookup t (pc_offer p) of None \<Rightarrow> []
        | Some r \<Rightarrow> [(pc_uuid p, offer_out L r, pc_buyer p, pc_bought_at p)])"
    unfolding rows set_concat set_map by blast
  then obtain o' where p: "p \<in> set ps" "offer_lookup t (pc_offer p) = Some o'"
    "row = (pc_uuid p, offer_out L o', pc_buyer p, pc_bought_at p)"
    by (cases "offer_lookup t (pc_offer p)") auto
  have keys: "\<forall>p\<in>set ps. pc_offer p \<in> fst ` set xs" if "insert_purchases L ts xs t = Inr (ps, t1)" for xs ps t
    using that
  proof (induction L ts xs t arbitrary: ps t1 rule: insert_purchases.induct)
    case (2 L ts i u rest d)
    then show ?case
      by (fastforce split: sum.splits prod.splits option.splits elim: insert_purchase_cases)
  qed simp
  have "pc_offer p = offer" using keys [OF ins] p(1) by (auto simp: image_iff split: if_splits)
  moreover have "p \<in> set (purchases t1)" using insert_purchases_frame [OF ins] p(1) by auto
  moreover have "offer_lookup t1 (pc_offer p) = Some o'"
    using insert_purchases_frame [OF ins] p(2) by auto
  ultimately show ?thesis using p by blast
qed

lemma scan_purchase_of_row:
  "purchase_of_row L row = Inr p \<Longrightarrow> scanPurchase L row = Inr p"
  by (auto simp: purchase_of_row_def scanPurchase_def bind_r_Inr split: prod.splits)

lemma code_round_trip [simp]:
  "operationErrorFromCode ''self_trade_prohibited'' = ErrSelfTradeProhibited"
  "operationErrorFromCode ''offer_unavailable'' = ErrOfferUnavailable"
  "operationErrorFromCode ''bond_not_found'' = ErrBondNotFound"
  by (simp_all add: operationErrorFromCode_def)

lemma buy_work_stands:
  assumes wf: "wf_db t" and claim: "claim_row_of op c \<in> set (operation_claims t)"
    and run: "buy_work L op offer ts d c t = (r, d')" and "d' \<noteq> d"
  shows "stands_for_purchase L op d' r"
proof -
  let ?buyer = "p_ID (ac_Principal (mc_Access op))"
  obtain rows t1 where q: "buyQuery L ts offer ?buyer t = Inr (rows, t1)"
    using run \<open>d' \<noteq> d\<close> by (cases "buyQuery L ts offer ?buyer t") (auto simp: buy_work_def)
  have claim1: "claim_row_of op c \<in> set (operation_claims t1)" using buyQuery_frame [OF q] claim by auto
  show ?thesis
  proof (cases rows)
    case Nil
    then have "reject_effect L ts c ''self_trade_prohibited'' ErrSelfTradeProhibited d t1 = (r, d') \<or>
        reject_effect L ts c ''offer_unavailable'' ErrOfferUnavailable d t1 = (r, d')"
      using run q by (simp add: buy_work_def Let_def split: if_splits)
    then obtain code err where "reject_effect L ts c code err d t1 = (r, d')" "operationErrorFromCode code = err"
      using code_round_trip(1,2) by blast
    from reject_stands [OF claim1 this(1) \<open>d' \<noteq> d\<close> this(2)] show ?thesis
      unfolding stands_for_purchase_def by force
  next
    case (Cons row rest)
    with run q \<open>d' \<noteq> d\<close> obtain p where p: "purchase_of_row L row = Inr p"
      and acc: "accept_effect L ts c offer p d t1 = (r, d')"
      by (cases "purchase_of_row L row") (simp_all add: buy_work_def)
    from accept_stands [OF claim1 acc \<open>d' \<noteq> d\<close>] obtain x where x:
      "settled_outcome op d' (claim_row_of op c) x" "outcome_of op (stored_row (claim_row_of op c) x) = Inr offer"
      "r = Inr p" "extends t1 d'" by blast
    from buyQuery_row [OF wf q [unfolded Cons]] obtain b o' where b: "b \<in> set (purchases t1)"
      "pc_offer b = offer" "offer_lookup t1 offer = Some o'"
      "row = (pc_uuid b, offer_out L o', pc_buyer b, pc_bought_at b)" by blast
    have "b \<in> set (purchases d')" "offer_lookup d' offer = Some o'"
      using b prefix_of_set [OF extends_prefix(3) [OF x(4)]] offer_lookup_extends [OF x(4)] by auto
    with x b scan_purchase_of_row [OF p] show ?thesis unfolding stands_for_purchase_def by force
  qed
qed

lemma buy_work_success:
  assumes "buy_work L op offer ts d c t = (Inr p, d')"
  shows "operation_claims d' = operation_claims t"
proof (cases "buyQuery L ts offer (p_ID (ac_Principal (mc_Access op))) t")
  case (Inr x)
  obtain rows t1 where x: "x = (rows, t1)" by (cases x)
  have "operation_claims t1 = operation_claims t" using buyQuery_frame [OF Inr [unfolded x]] by auto
  moreover have "operation_claims d' = operation_claims t1"
    using assms Inr x
    by (cases rows) (auto simp: buy_work_def reject_effect_def accept_effect_def
        dest!: insert_result_frame split: sum.splits if_splits)
  ultimately show ?thesis by simp
qed (use assms in \<open>simp add: buy_work_def\<close>)

lemma replay_success_stands:
  assumes wf: "wf_db d" and set: "settled d" and len: "length (ac_RequestDigest (mc_Access op)) = 32"
    and claimed: "list_ex (same_scope op) (operation_claims d)" and ok: "replay_purchase_result L op d = Inr p"
  shows "stands_for_purchase L op d (Inr p)"
proof -
  from settled_outcome_exists [OF set claimed] obtain c r where cr: "settled_outcome op d c r" by blast
  from ok obtain x where x: "replay_resource_result op d = Inr x"
    and query: "bind_r (first_row (purchaseByOfferQuery L x d)) (scanPurchase L) = Inr p"
    unfolding replay_purchase_result_def bind_r_Inr [of "replay_resource_result op d"] by blast
  then obtain row rows where rows: "purchaseByOfferQuery L x d = row # rows" and row: "scanPurchase L row = Inr p"
    by (cases "purchaseByOfferQuery L x d") (simp_all add: first_row_def)
  have "row \<in> set (purchaseByOfferQuery L x d)" by (simp add: rows)
  then obtain b o' where "b \<in> set (purchases d)" "pc_offer b = x" "o' \<in> set (offer_rows d)" "of_uuid (fst o') = x"
    and b: "row = (pc_uuid b, offer_out L o', pc_buyer b, pc_bought_at b)"
    by (auto simp: purchaseByOfferQuery_def split: if_splits)
  moreover from this have "o' \<in> set (filter (\<lambda>r. of_uuid (fst r) = x) (offer_rows d))" by simp
  then have "offer_lookup d x = Some o'"
    unfolding offer_rows_filter [OF wf] by (cases "offer_lookup d x") auto
  ultimately show ?thesis
    using cr x row replay_settled [OF wf cr len] unfolding stands_for_purchase_def by force
qed

lemma buy_effect_stands:
  assumes wf: "wf_db d" and set: "settled d" and len: "length (ac_RequestDigest (mc_Access op)) = 32"
    and run: "buy_effect L op offer ts d = (r, d')" and effect: "d' \<noteq> d \<or> (\<exists>p. r = Inr p)"
  shows "stands_for_purchase L op d' r"
proof -
  let ?buyer = "p_ID (ac_Principal (mc_Access op))"
  have "effective_permission d ?buyer PermissionBuy"
    using run effect by (auto simp: buy_effect_def mutation_effect_def split: if_splits)
  with run effect obtain rows d1 where ins: "insert_claim L op d = Inr (rows, d1)"
    by (auto simp: buy_effect_def mutation_effect_def split: sum.splits)
  show ?thesis
  proof (cases rows)
    case Nil
    with run ins \<open>effective_permission d ?buyer PermissionBuy\<close>
    have "r = replay_purchase_result L op d" "d' = d" by (auto simp: buy_effect_def mutation_effect_def)
    with effect replay_success_stands [OF wf set len classified_conflict [OF ins [unfolded Nil]]] show ?thesis
      by auto
  next
    case (Cons c cs)
    with run ins \<open>effective_permission d ?buyer PermissionBuy\<close>
    have work: "buy_work L op offer ts d c d1 = (r, d')" by (simp add: buy_effect_def mutation_effect_def)
    have claim: "claim_row_of op c \<in> set (operation_claims d1)" using insert_claim_frame [OF ins] Cons by auto
    have "d' \<noteq> d"
      using effect buy_work_success [of L op offer ts d c d1 _ d'] work insert_claim_frame [OF ins] Cons by auto
    with buy_work_stands [OF insert_claim_wf [OF wf ins] claim work] show ?thesis by blast
  qed
qed

lemma buy_effect_replays:
  assumes wf: "wf_db d" and stands: "stands_for_purchase L op d r"
    and checks: "claim_checks L (claim_row_of op '''') = None"
    and perm: "effective_permission d (p_ID (ac_Principal (mc_Access op))) PermissionBuy"
  shows "buy_effect L op offer ts d = (r, d)"
proof -
  have len: "length (ac_RequestDigest (mc_Access op)) = 32"
    using checks by (auto simp: claim_checks_def claim_row_of_def split: if_splits)
  have "claim_checks L (claim_row_of op (pg_uuidv7 L (next_uuid d))) = None"
    using checks by (simp add: claim_checks_def claim_row_of_def)
  moreover have "list_ex (same_scope op) (operation_claims d)"
    using stands by (auto simp: stands_for_purchase_def settled_outcome_def list_ex_iff)
  ultimately have "insert_claim L op d = Inr ([], d\<lparr>next_uuid := Suc (next_uuid d)\<rparr>)"
    by (simp add: insert_claim_def draw_uuid_def Let_def)
  with perm replay_purchase_stands [OF wf stands len] show ?thesis
    by (simp add: buy_effect_def mutation_effect_def)
qed

text \<open>The same request again: same scope and request digest; the assertion may be a fresh one.\<close>

definition same_request :: "MutationContext \<Rightarrow> MutationContext \<Rightarrow> bool" where
  "same_request op op' \<longleftrightarrow>
     ac_Principal (mc_Access op') = ac_Principal (mc_Access op) \<and>
     ac_Operation (mc_Access op') = ac_Operation (mc_Access op) \<and>
     mc_IdempotencyKey op' = mc_IdempotencyKey op \<and>
     ac_RequestDigest (mc_Access op') = ac_RequestDigest (mc_Access op)"

lemma stands_for_same_request:
  assumes "same_request op op'"
  shows "stands_for_purchase L op' d r = stands_for_purchase L op d r"
proof -
  have "same_scope op' = same_scope op" "outcome_of op' = outcome_of op"
    using assms by (auto simp: same_request_def same_scope_def outcome_of_def fun_eq_iff)
  then show ?thesis by (simp add: stands_for_purchase_def settled_outcome_def)
qed

end
