(* ===== verification/Demo_Lib.thy ===== *)
theory Demo_Lib
  imports Exchange
begin

text \<open>
  A concrete instance of the third-party operations, used only to apply the theorems at concrete
  inputs: decimals as a coefficient and a scale, UUIDs as their lower-case text. It satisfies
  every law the development assumes.
\<close>

section \<open>Decimal text\<close>

definition digit_char :: "nat \<Rightarrow> char" where
  "digit_char d = char_of (48 + d)"

definition char_digit :: "char \<Rightarrow> nat option" where
  "char_digit c = (if is_digit_byte c then Some (byte_of c - 48) else None)"

lemma char_digit_char [simp]: "d < 10 \<Longrightarrow> char_digit (digit_char d) = Some d"
  by (simp add: char_digit_def digit_char_def is_digit_byte_def byte_in_def byte_of_def)

lemma digit_char_neq [simp]:
  assumes "d < 10"
  shows "digit_char d \<noteq> CHR ''.''" and "digit_char d \<noteq> CHR ''-''"
proof -
  have "byte_of (digit_char d) = 48 + d" using assms by (simp add: digit_char_def byte_of_def)
  moreover have "byte_of (CHR ''.'') = 46" and "byte_of (CHR ''-'') = 45"
    by (simp_all add: byte_of_def)
  ultimately show "digit_char d \<noteq> CHR ''.''" and "digit_char d \<noteq> CHR ''-''" by auto
qed

fun show_nat :: "nat \<Rightarrow> nat list" where
  "show_nat n = (if n < 10 then [n] else show_nat (n div 10) @ [n mod 10])"

declare show_nat.simps [simp del]

fun fixed_digits :: "nat \<Rightarrow> nat \<Rightarrow> nat list" where
  "fixed_digits 0 n = []"
| "fixed_digits (Suc k) n = fixed_digits k (n div 10) @ [n mod 10]"

definition of_digits :: "nat list \<Rightarrow> nat" where
  "of_digits ds = foldl (\<lambda>a d. a * 10 + d) 0 ds"

lemma of_digits_snoc [simp]: "of_digits (ds @ [d]) = of_digits ds * 10 + d"
  by (simp add: of_digits_def)

lemma of_digits_show: "of_digits (show_nat n) = n \<and> (\<forall>d\<in>set (show_nat n). d < 10) \<and> show_nat n \<noteq> []"
proof (induction n rule: show_nat.induct)
  case (1 n)
  show ?case
  proof (cases "n < 10")
    case True
    then show ?thesis by (simp add: show_nat.simps [of n] of_digits_def)
  next
    case False
    with 1 show ?thesis by (auto simp: show_nat.simps [of n])
  qed
qed

lemma fixed_digits_props [simp]:
  "length (fixed_digits k n) = k" "\<forall>d\<in>set (fixed_digits k n). d < 10"
  by (induction k arbitrary: n) auto

lemma of_digits_append: "of_digits (xs @ ys) = of_digits xs * 10 ^ length ys + of_digits ys"
proof (induction ys rule: rev_induct)
  case Nil
  then show ?case by (simp add: of_digits_def)
next
  case (snoc y ys)
  have "of_digits (xs @ ys @ [y]) = of_digits ((xs @ ys) @ [y])" by simp
  also have "\<dots> = of_digits (xs @ ys) * 10 + y" by (rule of_digits_snoc)
  finally show ?case using snoc by (simp add: algebra_simps)
qed

lemma of_fixed_digits: "of_digits (fixed_digits k n) = n mod 10 ^ k"
proof (induction k arbitrary: n)
  case 0
  then show ?case by (simp add: of_digits_def)
next
  case (Suc k)
  have "n mod 10 ^ Suc k = n mod (10 * 10 ^ k)" by simp
  also have "\<dots> = 10 * (n div 10 mod 10 ^ k) + n mod 10" by (rule mod_mult2_eq)
  finally show ?case using Suc by simp
qed

fun all_digits :: "string \<Rightarrow> nat list option" where
  "all_digits [] = Some []"
| "all_digits (c # cs) =
     (case char_digit c of None \<Rightarrow> None | Some d \<Rightarrow> map_option (Cons d) (all_digits cs))"

lemma all_digits_map: "\<forall>d\<in>set ds. d < 10 \<Longrightarrow> all_digits (map digit_char ds) = Some ds"
  by (induction ds) auto

definition parse_unsigned :: "string \<Rightarrow> (nat \<times> nat) option" where
  "parse_unsigned s =
     (case strings_Cut (CHR ''.'') s of
        None \<Rightarrow> (case all_digits s of Some (d # ds) \<Rightarrow> Some (of_digits (d # ds), 0) | _ \<Rightarrow> None)
      | Some (a, b) \<Rightarrow>
          (case (all_digits a, all_digits b) of
             (Some (d # ds), Some es) \<Rightarrow> Some (of_digits (d # ds @ es), length es)
           | _ \<Rightarrow> None))"

definition parse_dec :: "string \<Rightarrow> (int \<times> nat) option" where
  "parse_dec s =
     (case s of
        c # cs \<Rightarrow> if c = CHR ''-'' then map_option (\<lambda>(n, k). (- int n, k)) (parse_unsigned cs)
                  else map_option (\<lambda>(n, k). (int n, k)) (parse_unsigned s)
      | [] \<Rightarrow> None)"

definition print_unsigned :: "nat \<Rightarrow> nat \<Rightarrow> string" where
  "print_unsigned n k =
     map digit_char (show_nat (n div 10 ^ k)) @
     (if k = 0 then [] else CHR ''.'' # map digit_char (fixed_digits k n))"

definition print_dec :: "int \<times> nat \<Rightarrow> string" where
  "print_dec d = (case d of (c, k) \<Rightarrow> (if c < 0 then [CHR ''-''] else []) @ print_unsigned (nat \<bar>c\<bar>) k)"

lemma parse_print_unsigned: "parse_unsigned (print_unsigned n k) = Some (n, k)"
proof -
  let ?a = "show_nat (n div 10 ^ k)" and ?b = "fixed_digits k n"
  have a: "of_digits ?a = n div 10 ^ k" "\<forall>d\<in>set ?a. d < 10" "?a \<noteq> []"
    using of_digits_show by auto
  then obtain d ds where ads: "?a = d # ds" by (cases ?a) auto
  have all_a: "all_digits (map digit_char ?a) = Some ?a" using a(2) by (rule all_digits_map)
  have dot: "CHR ''.'' \<notin> set (map digit_char ?a)" using a(2) by (auto, metis digit_char_neq(1))
  show ?thesis
  proof (cases "k = 0")
    case True
    with dot all_a a ads show ?thesis
      by (simp add: print_unsigned_def parse_unsigned_def strings_Cut_None [THEN iffD2])
  next
    case False
    have all_b: "all_digits (map digit_char ?b) = Some ?b" by (rule all_digits_map) simp
    have "strings_Cut (CHR ''.'') (print_unsigned n k) = Some (map digit_char ?a, map digit_char ?b)"
      using False dot by (simp add: print_unsigned_def strings_Cut_Some)
    then have "parse_unsigned (print_unsigned n k) = Some (of_digits (?a @ ?b), k)"
      using all_a all_b ads by (simp add: parse_unsigned_def)
    also have "of_digits (?a @ ?b) = n"
      unfolding of_digits_append of_fixed_digits a(1) by (simp add: div_mult_mod_eq)
    finally show ?thesis .
  qed
qed

lemma print_unsigned_head: "\<exists>d cs. d < 10 \<and> print_unsigned n k = digit_char d # cs"
proof -
  have "show_nat (n div 10 ^ k) \<noteq> []" "\<forall>d\<in>set (show_nat (n div 10 ^ k)). d < 10"
    using of_digits_show by auto
  then show ?thesis by (cases "show_nat (n div 10 ^ k)") (auto simp: print_unsigned_def)
qed

lemma parse_print_dec: "parse_dec (print_dec d) = Some d"
proof (cases d)
  case (Pair c k)
  obtain e cs where e: "e < 10" "print_unsigned (nat \<bar>c\<bar>) k = digit_char e # cs"
    using print_unsigned_head by blast
  show ?thesis
  proof (cases "c < 0")
    case True
    then show ?thesis
      by (simp add: Pair print_dec_def parse_dec_def parse_print_unsigned)
  next
    case False
    have "parse_unsigned (digit_char e # cs) = Some (nat \<bar>c\<bar>, k)"
      using e(2) parse_print_unsigned by metis
    with False e show ?thesis by (simp add: Pair print_dec_def parse_dec_def)
  qed
qed

section \<open>Decimal values\<close>

definition dec_val :: "int \<times> nat \<Rightarrow> rat" where
  "dec_val d = of_int (fst d) / 10 ^ snd d"

definition demo_Round :: "int \<times> nat \<Rightarrow> nat \<Rightarrow> int \<times> nat" where
  "demo_Round d n = (sgn (fst d) * \<lfloor>\<bar>dec_val d\<bar> * 10 ^ n + 1 / 2\<rfloor>, n)"

definition demo_RoundBank :: "int \<times> nat \<Rightarrow> nat \<Rightarrow> int \<times> nat" where
  "demo_RoundBank d n = (half_even (dec_val d * 10 ^ n), n)"

definition demo_New :: "int \<Rightarrow> int \<Rightarrow> int \<times> nat" where
  "demo_New c e = (if 0 \<le> e then (c * 10 ^ nat e, 0) else (c, nat (- e)))"

fun first_scale :: "nat \<Rightarrow> nat \<Rightarrow> rat \<Rightarrow> nat" where
  "first_scale 0 n r = n"
| "first_scale (Suc fuel) n r = (if has_scale n r then n else first_scale fuel (Suc n) r)"

definition demo_numeric_out :: "rat \<Rightarrow> string" where
  "demo_numeric_out r =
     (let n = first_scale numeric_scale_limit 0 r in print_dec (\<lfloor>r * 10 ^ n\<rfloor>, n))"

lemma first_scale_has: "has_scale (fuel + n) r \<Longrightarrow> has_scale (first_scale fuel n r) r"
  by (induction fuel n r rule: first_scale.induct) auto

lemma sgn_dec_val: "sgn (dec_val d) = of_int (sgn (fst d))"
  by (auto simp: dec_val_def sgn_if field_simps)

section \<open>UUID text\<close>

definition hex_lower :: "char \<Rightarrow> char" where
  "hex_lower c = (if byte_in (CHR ''A'') (CHR ''F'') c then char_of (byte_of c + 32) else c)"

definition is_hex :: "char \<Rightarrow> bool" where
  "is_hex c \<longleftrightarrow> is_digit_byte c \<or> byte_in (CHR ''a'') (CHR ''f'') c \<or> byte_in (CHR ''A'') (CHR ''F'') c"

fun uuid_shape :: "nat list \<Rightarrow> string \<Rightarrow> bool" where
  "uuid_shape [] s \<longleftrightarrow> s = []"
| "uuid_shape [n] s \<longleftrightarrow> length s = n \<and> list_all is_hex s"
| "uuid_shape (n # ns) s \<longleftrightarrow> list_all is_hex (take n s) \<and>
     (case drop n s of c # cs \<Rightarrow> c = CHR ''-'' \<and> uuid_shape ns cs | [] \<Rightarrow> False)"

definition demo_Parse :: "string \<Rightarrow> string option" where
  "demo_Parse s = (if uuid_shape [8, 4, 4, 4, 12] s then Some (map hex_lower s) else None)"

definition hex_value :: "char \<Rightarrow> nat" where
  "hex_value c = (if is_digit_byte c then byte_of c - 48 else byte_of c - 87)"

definition demo_Version :: "string \<Rightarrow> nat" where
  "demo_Version u = (case drop 14 u of c # _ \<Rightarrow> hex_value c | [] \<Rightarrow> 0)"

definition demo_uuidv7 :: "nat \<Rightarrow> string" where
  "demo_uuidv7 n = ''00000000-0000-7000-8000-'' @ map digit_char (fixed_digits 12 n)"

lemma is_hex_lower [simp]: "is_hex (hex_lower c) = is_hex c" "hex_lower (hex_lower c) = hex_lower c"
  by (auto simp: is_hex_def hex_lower_def byte_class_defs)

lemma hex_lower_dash [simp]: "hex_lower (CHR ''-'') = CHR ''-''"
  by (simp add: hex_lower_def byte_class_defs)

lemma uuid_shape_lower: "uuid_shape ns s \<Longrightarrow> uuid_shape ns (map hex_lower s)"
  by (induction ns s rule: uuid_shape.induct)
    (auto simp: list_all_iff take_map drop_map split: list.splits)

lemma digit_is_hex: "d < 10 \<Longrightarrow> is_hex (digit_char d)" "d < 10 \<Longrightarrow> hex_lower (digit_char d) = digit_char d"
  by (auto simp: is_hex_def hex_lower_def digit_char_def byte_class_defs)

section \<open>The instance\<close>

definition demo_lib :: "(string, int \<times> nat) lib" where
  "demo_lib = \<lparr>uuid_Parse = demo_Parse, uuid_Version = demo_Version, uuid_String = (\<lambda>u. u),
     dec_NewFromString = parse_dec, dec_String = print_dec, dec_New = demo_New,
     dec_IsPositive = (\<lambda>d. 0 < fst d), dec_Equal = (\<lambda>a b. dec_val a = dec_val b),
     dec_GreaterThan = (\<lambda>a b. dec_val b < dec_val a), dec_Round = demo_Round,
     dec_RoundBank = demo_RoundBank,
     dec_Mul = (\<lambda>a b. (fst a * fst b, snd a + snd b)),
     pg_numeric_in = (\<lambda>s. map_option dec_val (parse_dec s)),
     pg_numeric_out = demo_numeric_out, pg_uuidv7 = demo_uuidv7,
     unicode_ToUpper = (\<lambda>r. if r = 305 then 73 else if r = 383 then 83 else r)\<rparr>"

lemma demo_lib_sel [simp]:
  "uuid_Parse demo_lib = demo_Parse" "uuid_Version demo_lib = demo_Version"
  "uuid_String demo_lib u = u" "dec_NewFromString demo_lib = parse_dec"
  "dec_String demo_lib = print_dec" "dec_New demo_lib = demo_New"
  "dec_IsPositive demo_lib d \<longleftrightarrow> 0 < fst d" "dec_Equal demo_lib a b \<longleftrightarrow> dec_val a = dec_val b"
  "dec_GreaterThan demo_lib a b \<longleftrightarrow> dec_val b < dec_val a" "dec_Round demo_lib = demo_Round"
  "dec_RoundBank demo_lib = demo_RoundBank"
  "dec_Mul demo_lib a b = (fst a * fst b, snd a + snd b)"
  "pg_numeric_in demo_lib s = map_option dec_val (parse_dec s)"
  "pg_numeric_out demo_lib = demo_numeric_out" "pg_uuidv7 demo_lib = demo_uuidv7"
  "unicode_ToUpper demo_lib r = (if r = 305 then 73 else if r = 383 then 83 else r)"
  by (simp_all add: demo_lib_def)

lemma demo_decimal_laws: "decimal_laws demo_lib dec_val"
  unfolding decimal_laws_def
proof (intro conjI allI)
  fix a b d :: "int \<times> nat" and c e :: int and n :: nat
  show "dec_IsPositive demo_lib d = (0 < dec_val d)"
    by (simp add: dec_val_def zero_less_divide_iff)
  show "dec_Equal demo_lib a b = (dec_val a = dec_val b)" by simp
  show "dec_GreaterThan demo_lib a b = (dec_val b < dec_val a)" by simp
  show "dec_val (dec_New demo_lib c e) = of_int c * 10 powi e"
    by (simp add: demo_New_def dec_val_def power_int_def power_divide)
  show "dec_val (dec_Round demo_lib d n) = round_half_away n (dec_val d)"
    unfolding round_half_away_def sgn_dec_val by (simp add: demo_Round_def dec_val_def)
  show "dec_val (dec_RoundBank demo_lib d n) = round_half_even n (dec_val d)"
    by (simp add: demo_RoundBank_def round_half_even_def dec_val_def)
  show "dec_val (dec_Mul demo_lib a b) = dec_val a * dec_val b"
    by (simp add: dec_val_def power_add)
  show "\<exists>d'. dec_NewFromString demo_lib (dec_String demo_lib d) = Some d' \<and> dec_val d' = dec_val d"
    by (simp add: parse_print_dec)
qed

lemma demo_numeric_laws: "numeric_laws demo_lib dec_val"
proof -
  have "\<exists>d. parse_dec (demo_numeric_out r) = Some d \<and> dec_val d = r"
    if "in_numeric_range r" for r
  proof -
    let ?n = "first_scale numeric_scale_limit 0 r"
    have "has_scale ?n r"
      using that first_scale_has [of numeric_scale_limit 0 r] by (simp add: in_numeric_range_def)
    then have "dec_val (\<lfloor>r * 10 ^ ?n\<rfloor>, ?n) = r" by (simp add: has_scale_floor dec_val_def)
    then show ?thesis by (simp add: demo_numeric_out_def Let_def parse_print_dec)
  qed
  then show ?thesis by (simp add: numeric_laws_def parse_print_dec)
qed

lemma demo_uuidv7_shape: "uuid_shape [8, 4, 4, 4, 12] (demo_uuidv7 n)"
proof -
  have "list_all is_hex (map digit_char (fixed_digits 12 n))"
    by (simp add: list_all_iff digit_is_hex(1))
  then show ?thesis
    by (simp add: demo_uuidv7_def is_hex_def byte_class_defs del: fixed_digits.simps)
qed

lemma demo_uuidv7_lower: "map hex_lower (demo_uuidv7 n) = demo_uuidv7 n"
proof -
  have "map hex_lower (map digit_char (fixed_digits 12 n)) = map digit_char (fixed_digits 12 n)"
    by (simp add: digit_is_hex(2))
  then show ?thesis by (simp add: demo_uuidv7_def hex_lower_def byte_class_defs)
qed

lemma demo_uuid_laws: "uuid_laws demo_lib"
  unfolding uuid_laws_def
proof (intro conjI allI impI)
  fix v u :: string
  assume "uuid_Parse demo_lib v = Some u"
  then have u: "u = map hex_lower v" and sh: "uuid_shape [8, 4, 4, 4, 12] v"
    by (simp_all add: demo_Parse_def split: if_splits)
  have "uuid_shape [8, 4, 4, 4, 12] u" using uuid_shape_lower [OF sh] u by simp
  then show "uuid_Parse demo_lib (uuid_String demo_lib u) = Some u"
    by (simp add: demo_Parse_def u)
  show "uuid_String demo_lib u \<noteq> []" using sh u by auto
next
  fix n
  show "\<exists>u. uuid_Parse demo_lib (pg_uuidv7 demo_lib n) = Some u \<and> uuid_Version demo_lib u = 7 \<and>
    uuid_String demo_lib u = pg_uuidv7 demo_lib n"
    using demo_uuidv7_shape [of n] demo_uuidv7_lower [of n]
    by (simp add: demo_Parse_def demo_Version_def)
      (simp add: demo_uuidv7_def hex_value_def byte_class_defs)
qed

lemmas demo_laws = demo_decimal_laws demo_numeric_laws demo_uuid_laws

lemmas demo_eval = demo_lib_sel demo_Parse_def demo_Version_def hex_value_def hex_lower_def is_hex_def
  byte_class_defs dec_val_def

end
