(* ===== verification/Demo_Db.thy ===== *)
theory Demo_Db
  imports Market_Spec Demo_Lib
begin

text \<open>
  A concrete database over the concrete library instance: a seller, a buyer, one bond, the
  permissions of a trader, two offers of the seller, one of them sold. It shows that the
  hypotheses of the market theorems can hold.
\<close>

definition seller_id :: string where "seller_id = ''11111111-1111-7111-8111-111111111111''"
definition buyer_id :: string where "buyer_id = ''22222222-2222-7222-8222-222222222222''"
definition bond_id :: string where "bond_id = ''33333333-3333-7333-8333-333333333333''"
definition offer_id :: string where "offer_id = ''44444444-4444-7444-8444-444444444444''"
definition sold_id :: string where "sold_id = ''55555555-5555-7555-8555-555555555555''"
definition key_id :: string where "key_id = ''66666666-6666-4666-8666-666666666666''"

definition demo_db :: database where
  "demo_db =
     \<lparr>principals = [\<lparr>pr_uuid = seller_id, pr_issuer = ''https://issuer'', pr_subject = ''seller'',
                     pr_client_class = ''human''\<rparr>,
                    \<lparr>pr_uuid = buyer_id, pr_issuer = ''https://issuer'', pr_subject = ''buyer'',
                     pr_client_class = ''human''\<rparr>],
      principal_suspensions = [], principal_reinstatements = [],
      permissions = [\<lparr>pm_uuid = ''pm-buy'', pm_code = ''purchases.buy''\<rparr>,
                     \<lparr>pm_uuid = ''pm-create'', pm_code = ''offers.create''\<rparr>,
                     \<lparr>pm_uuid = ''pm-list'', pm_code = ''offers.list''\<rparr>,
                     \<lparr>pm_uuid = ''pm-quote'', pm_code = ''offers.quote''\<rparr>],
      role_permission_grants = map (\<lambda>p. \<lparr>rpg_uuid = p, rpg_role = ''trader'', rpg_permission = p\<rparr>)
        [''pm-buy'', ''pm-create'', ''pm-list'', ''pm-quote''],
      role_permission_revocations = [],
      principal_role_grants =
        [\<lparr>prg_uuid = ''g1'', prg_principal = seller_id, prg_role = ''trader''\<rparr>,
         \<lparr>prg_uuid = ''g2'', prg_principal = buyer_id, prg_role = ''trader''\<rparr>],
      principal_role_revocations = [],
      bonds = [\<lparr>bo_uuid = bond_id, bo_series = ''BOND1''\<rparr>],
      sale_offers =
        [\<lparr>of_uuid = offer_id, of_seller = seller_id, of_bond = bond_id, of_price = 201 / 2,
          of_currency = ''MXN''\<rparr>,
         \<lparr>of_uuid = sold_id, of_seller = seller_id, of_bond = bond_id, of_price = 7,
          of_currency = ''MXN''\<rparr>],
      canonical_terms =
        [\<lparr>ct_offer = offer_id, ct_price = 201 / 2, ct_currency = ''MXN''\<rparr>,
         \<lparr>ct_offer = sold_id, ct_price = 7, ct_currency = ''MXN''\<rparr>],
      submissions =
        [\<lparr>sb_offer = offer_id, sb_price = 201 / 2, sb_currency = ''MXN'', sb_quote = None\<rparr>,
         \<lparr>sb_offer = sold_id, sb_price = 7, sb_currency = ''MXN'', sb_quote = None\<rparr>],
      conversion_quotes = [],
      purchases = [\<lparr>pc_uuid = ''77777777-7777-7777-8777-777777777777'', pc_offer = sold_id,
                    pc_buyer = buyer_id, pc_bought_at = 5\<rparr>],
      operation_claims = [], operation_results = [], integration_events = [], deliveries = [],
      rate_limits = [], rate_imports = [], observations = [], coordination = [],
      provider_blocked_until = None, next_uuid = 1, next_revision = 1\<rparr>"

definition demo_principal :: "string \<Rightarrow> Principal" where
  "demo_principal i = \<lparr>p_ID = i, p_Issuer = ''https://issuer'', p_Subject = ''subject'',
     p_ClientID = ''client'', p_ClientClass = ''human''\<rparr>"

definition demo_access :: "string \<Rightarrow> string \<Rightarrow> AccessContext" where
  "demo_access i operation = \<lparr>ac_Principal = demo_principal i, ac_Operation = operation,
     ac_AssertionID = ''assertion'', ac_AssertionDigest = replicate 32 7,
     ac_RequestDigest = replicate 32 9\<rparr>"

definition demo_request :: "string \<Rightarrow> string \<Rightarrow> MutationContext" where
  "demo_request i operation = \<lparr>mc_Access = demo_access i operation, mc_IdempotencyKey = key_id\<rparr>"

definition demo_world :: "database \<Rightarrow> round_trip list \<Rightarrow> world" where
  "demo_world d faults = \<lparr>db = d, txdb = d, tx_open = False, tx_aborted = False, savepoint = None,
     tx_time = 0, stmt_time = 1000, script = faults, waits = [], slept_ms = 0, nonces = [], metrics = []\<rparr>"

lemma demo_request_sel [simp]:
  "mc_Access (demo_request i operation) = demo_access i operation"
  "mc_IdempotencyKey (demo_request i operation) = key_id"
  "ac_Principal (demo_access i operation) = demo_principal i"
  "ac_Operation (demo_access i operation) = operation"
  "ac_RequestDigest (demo_access i operation) = replicate 32 9"
  "ac_AssertionDigest (demo_access i operation) = replicate 32 7"
  "p_ID (demo_principal i) = i" "p_ClientID (demo_principal i) = ''client''"
  by (simp_all add: demo_request_def demo_access_def demo_principal_def)

lemma demo_world_sel [simp]: "db (demo_world d faults) = d" "script (demo_world d faults) = faults"
  by (simp_all add: demo_world_def)

lemmas demo_ids = seller_id_def buyer_id_def bond_id_def offer_id_def sold_id_def key_id_def

lemma demo_wf_catalog: "wf_catalog demo_db"
  by (simp add: wf_catalog_def demo_db_def demo_ids)

lemma demo_prices: "valid_price (201 / 2)" "valid_price 7"
  by (simp_all add: valid_price_def has_scale_def MonetaryAmountScale_def)

lemma demo_wf: "wf_db demo_db"
  by (simp add: wf_db_def wf_parts demo_db_def demo_ids demo_prices MXN_def)

lemma demo_settled: "settled demo_db"
  by (simp add: settled_def demo_db_def)

lemma demo_fresh: "fresh_ids demo_lib demo_db"
  by (simp add: fresh_ids_def demo_db_def demo_ids demo_uuidv7_def digit_char_def)

lemma demo_permissions:
  "effective_permission demo_db buyer_id PermissionBuy"
  "effective_permission demo_db seller_id PermissionCreateSaleOffer"
  by (simp_all add: effective_permission_def suspended_def demo_db_def demo_ids PermissionBuy_def
      PermissionCreateSaleOffer_def)

lemma demo_key: "isCanonicalUUIDVersion demo_lib key_id 4"
  by (simp add: isCanonicalUUIDVersion_def key_id_def demo_eval)

lemma demo_operations: "operation_canonical OperationBuy" "operation_canonical OperationCreateSaleOffer"
  by (simp_all add: operation_defs byte_class_defs)

lemma demo_checks:
  "operation_canonical operation \<Longrightarrow> claim_checks demo_lib (claim_row_of (demo_request i operation) u) = None"
  by (simp add: claim_checks_def claim_row_of_def demo_key)

lemma demo_valid:
  "valid_request demo_lib (demo_request buyer_id OperationBuy) demo_db"
  "valid_request demo_lib (demo_request seller_id OperationCreateSaleOffer) demo_db"
  by (simp_all add: valid_request_def demo_checks demo_operations principal_exists_def demo_db_def)

lemma demo_first:
  "first_request demo_lib (demo_request buyer_id OperationBuy) PermissionBuy demo_db"
  "first_request demo_lib (demo_request seller_id OperationCreateSaleOffer) PermissionCreateSaleOffer demo_db"
  using demo_permissions
  by (simp_all add: first_request_def demo_wf demo_valid demo_fresh) (simp_all add: demo_db_def)

end
