(* ===== verification/Market_Props.thy ===== *)
theory Market_Props
  imports Replay Demo_Db
begin

text \<open>
  The properties of the two marketplace mutations, stated of the programs \<open>Buy\<close> and
  \<open>CreateSaleOffer\<close> themselves, with witnesses on the concrete database.
\<close>

section \<open>Buying\<close>

text \<open>
  C1. Without faults, a first authorized request to buy does to the market exactly what the
  specification says: it sells an available offer of somebody else to the caller at its listed
  MXN price, and refuses the caller's own offers and unavailable ones, in this order of reasons.
\<close>

theorem Buy_refines_market:
  assumes "decimal_laws L val" and "numeric_laws L val"
    and "first_request L op PermissionBuy (db w)" and "ac_Operation (mc_Access op) = OperationBuy"
    and "script w = []"
  shows "\<exists>ts. buy_implements val (p_ID (ac_Principal (mc_Access op))) offer ts (db w)
    (fst (Buy L op offer w), db (snd (Buy L op offer w)))"
  using buy_op.fault_free [OF assms(5), of L op offer] buy_effect_refines [OF assms(1-4)] by metis

theorem Buy_refines_market_witness:
  "\<exists>ts. buy_implements dec_val buyer_id offer_id ts demo_db
     (fst (Buy demo_lib (demo_request buyer_id OperationBuy) offer_id (demo_world demo_db [])),
      db (snd (Buy demo_lib (demo_request buyer_id OperationBuy) offer_id (demo_world demo_db []))))"
  using Buy_refines_market [OF demo_decimal_laws demo_numeric_laws,
      of "demo_request buyer_id OperationBuy" "demo_world demo_db []" offer_id] demo_first(1)
  by simp

text \<open>
  C2. Whatever faults the environment injects, a call to buy either finishes with the reply and the
  database of its effect, or reports an error of the environment, and then the database is
  unchanged or is exactly the one of the effect (the reply to the commit was lost).
\<close>

theorem Buy_all_or_nothing:
  assumes "Buy L op offer w = (r, w')"
  shows "\<exists>ts. buy_effect L op offer ts (db w) = (r, db w')
    \<or> (\<exists>e. r = Inl e \<and> is_fault e \<and> (db w' = db w \<or> db w' = snd (buy_effect L op offer ts (db w))))"
  using assms by (cases rule: buy_op.run_cases) blast+

theorem Buy_all_or_nothing_witness:
  "\<exists>ts. buy_effect demo_lib (demo_request buyer_id OperationBuy) offer_id ts demo_db =
      (fst (Buy demo_lib (demo_request buyer_id OperationBuy) offer_id
              (demo_world demo_db [\<lparr>rt_time = 1, rt_fault = ServerFailed ''40001''\<rparr>])),
       db (snd (Buy demo_lib (demo_request buyer_id OperationBuy) offer_id
              (demo_world demo_db [\<lparr>rt_time = 1, rt_fault = ServerFailed ''40001''\<rparr>]))))
    \<or> (\<exists>e. fst (Buy demo_lib (demo_request buyer_id OperationBuy) offer_id
              (demo_world demo_db [\<lparr>rt_time = 1, rt_fault = ServerFailed ''40001''\<rparr>])) = Inl e \<and> is_fault e \<and>
        (db (snd (Buy demo_lib (demo_request buyer_id OperationBuy) offer_id
              (demo_world demo_db [\<lparr>rt_time = 1, rt_fault = ServerFailed ''40001''\<rparr>]))) = demo_db
       \<or> db (snd (Buy demo_lib (demo_request buyer_id OperationBuy) offer_id
              (demo_world demo_db [\<lparr>rt_time = 1, rt_fault = ServerFailed ''40001''\<rparr>])))
          = snd (buy_effect demo_lib (demo_request buyer_id OperationBuy) offer_id ts demo_db)))"
  using Buy_all_or_nothing [of demo_lib "demo_request buyer_id OperationBuy" offer_id
      "demo_world demo_db [\<lparr>rt_time = 1, rt_fault = ServerFailed ''40001''\<rparr>]"]
  by (metis demo_world_sel(1) prod.collapse)

text \<open>
  C3. A request to buy takes effect at most once, also when its reply was lost: whatever the first
  call replied, either it committed nothing and did not succeed, or sending the request again with
  the same principal, client, operation, idempotency key and request digest, at any later state of
  the database, returns the reply of the committed effect and changes nothing; a successful first
  reply is returned again verbatim.
\<close>

theorem Buy_exactly_once:
  assumes first: "Buy L op offer w = (r, w1)" and wf: "wf_db (db w)" and sett: "settled (db w)"
    and later: "extends (db w1) (db w2)" "wf_db (db w2)" "script w2 = []"
    and again: "same_request op op'" "claim_checks L (claim_row_of op' '''') = None"
      "effective_permission (db w2) (p_ID (ac_Principal (mc_Access op'))) PermissionBuy"
  shows "db w1 = db w \<and> \<not> is_ok r
    \<or> (\<exists>ts. snd (buy_effect L op offer ts (db w)) = db w1
        \<and> fst (Buy L op' offer' w2) = fst (buy_effect L op offer ts (db w))
        \<and> (is_ok r \<longrightarrow> fst (Buy L op' offer' w2) = r)
        \<and> db (snd (Buy L op' offer' w2)) = db w2)"
proof (cases "db w1 = db w \<and> \<not> is_ok r")
  case False
  from first have "\<exists>ts. snd (buy_effect L op offer ts (db w)) = db w1 \<and>
      (is_ok r \<longrightarrow> fst (buy_effect L op offer ts (db w)) = r)"
  proof (cases rule: buy_op.run_cases)
    case (effect ts)
    then show ?thesis by (intro exI [of _ ts]) simp
  qed (use False in auto)
  then obtain ts where eff: "snd (buy_effect L op offer ts (db w)) = db w1"
    and ok: "is_ok r \<Longrightarrow> fst (buy_effect L op offer ts (db w)) = r" by blast
  obtain r0 where run: "buy_effect L op offer ts (db w) = (r0, db w1)" using eff by (metis prod.collapse)
  have "length (ac_RequestDigest (mc_Access op)) = 32"
    using again(1,2) by (auto simp: same_request_def claim_checks_def claim_row_of_def split: if_splits)
  moreover have "db w1 \<noteq> db w \<or> (\<exists>p. r0 = Inr p)"
    using False ok run by (cases r) auto
  ultimately have "stands_for_purchase L op (db w1) r0" by (rule buy_effect_stands [OF wf sett _ run])
  then have "stands_for_purchase L op' (db w2) r0"
    using stands_for_purchase_extends [OF later(1)] stands_for_same_request [OF again(1)] by blast
  from buy_effect_replays [OF later(2) this again(2,3)]
  have "buy_effect L op' offer' ts' (db w2) = (r0, db w2)" for ts' by blast
  with buy_op.fault_free [OF later(3), of L op' offer']
  have "fst (Buy L op' offer' w2) = r0" "db (snd (Buy L op' offer' w2)) = db w2" by auto
  with eff ok run show ?thesis by (intro disjI2 exI [of _ ts]) auto
qed simp

lemma buy_keeps:
  "wf_db (db w) \<Longrightarrow> wf_db (db (snd (Buy L op offer w)))"
  "settled (db w) \<Longrightarrow> settled (db (snd (Buy L op offer w)))"
  "auth_of (db (snd (Buy L op offer w))) = auth_of (db w)"
proof -
  show "wf_db (db w) \<Longrightarrow> wf_db (db (snd (Buy L op offer w)))"
    by (rule buy_op.keeps_predicate) (auto intro: buy_effect_wf)
  show "settled (db w) \<Longrightarrow> settled (db (snd (Buy L op offer w)))"
    by (rule buy_op.keeps_predicate) (auto intro: buy_effect_grows)
  show "auth_of (db (snd (Buy L op offer w))) = auth_of (db w)"
    by (rule buy_op.keeps_predicate [where I = "\<lambda>d. auth_of d = auth_of (db w)"])
      (auto intro: buy_effect_auth)
qed

definition lost_commit :: "round_trip list" where
  "lost_commit = replicate 5 \<lparr>rt_time = 1, rt_fault = NoFault\<rparr> @
     [\<lparr>rt_time = 2, rt_fault = LostReply LinkCanceled\<rparr>]"

abbreviation demo_lost :: "(int \<times> nat) Purchase result \<times> world" where
  "demo_lost \<equiv> Buy demo_lib (demo_request buyer_id OperationBuy) offer_id (demo_world demo_db lost_commit)"

theorem Buy_exactly_once_witness:
  "db (snd demo_lost) = demo_db \<and> \<not> is_ok (fst demo_lost)
    \<or> (\<exists>ts. snd (buy_effect demo_lib (demo_request buyer_id OperationBuy) offer_id ts demo_db) = db (snd demo_lost)
        \<and> fst (Buy demo_lib (demo_request buyer_id OperationBuy) offer_id ((snd demo_lost)\<lparr>script := []\<rparr>))
          = fst (buy_effect demo_lib (demo_request buyer_id OperationBuy) offer_id ts demo_db)
        \<and> (is_ok (fst demo_lost) \<longrightarrow>
             fst (Buy demo_lib (demo_request buyer_id OperationBuy) offer_id ((snd demo_lost)\<lparr>script := []\<rparr>))
             = fst demo_lost)
        \<and> db (snd (Buy demo_lib (demo_request buyer_id OperationBuy) offer_id ((snd demo_lost)\<lparr>script := []\<rparr>)))
          = db (snd demo_lost))"
proof -
  let ?w1 = "snd demo_lost"
  have "wf_db (db ?w1)" by (rule buy_keeps) (simp add: demo_wf)
  moreover have "effective_permission (db ?w1) buyer_id PermissionBuy"
    using demo_permissions(1) by (subst effective_permission_auth [OF buy_keeps(3)]) simp
  ultimately show ?thesis
    using Buy_exactly_once [of demo_lib "demo_request buyer_id OperationBuy" offer_id "demo_world demo_db lost_commit"
        "fst demo_lost" ?w1 "?w1\<lparr>script := []\<rparr>" "demo_request buyer_id OperationBuy" offer_id]
    by (simp add: demo_wf demo_settled demo_checks demo_operations same_request_def)
qed

end
