(* ===== verification/Rate_Limit.thy ===== *)
theory Rate_Limit
  imports Pg_World Store_Sql
begin

text \<open>
  Request admission: \<^verbatim>\<open>ratelimit/ratelimit.go\<close> and its PostgreSQL coordination in
  \<^verbatim>\<open>postgres/rate_limit.go\<close>. One row per principal holds the current minute and its count; a single
  upsert admits a request or reports how long the caller has to wait.
\<close>

section \<open>ratelimit.go\<close>

definition RequestsPerMinute :: int where "RequestsPerMinute = 100"

text \<open>\<^verbatim>\<open>errors.As\<close> with an \<^verbatim>\<open>*ExceededError\<close> target. Durations are nanoseconds.\<close>

fun as_ExceededError :: "go_error \<Rightarrow> int option"
  and as_ExceededError_list :: "go_error list \<Rightarrow> int option" where
  "as_ExceededError (ExceededError r) = Some r"
| "as_ExceededError (Errorf m es) = as_ExceededError_list es"
| "as_ExceededError _ = None"
| "as_ExceededError_list [] = None"
| "as_ExceededError_list (e # es) =
     (case as_ExceededError e of Some r \<Rightarrow> Some r | None \<Rightarrow> as_ExceededError_list es)"

definition RetryAfter :: "go_error \<Rightarrow> int option" where
  "RetryAfter err = (case as_ExceededError err of
     None \<Rightarrow> None
   | Some retryAfter \<Rightarrow> if retryAfter \<le> 0 then None else Some retryAfter)"

section \<open>rate_limit.go\<close>

definition minute_us :: int where "minute_us = 60000000"

definition date_trunc_minute :: "int \<Rightarrow> int" where
  "date_trunc_minute t = t - t mod minute_us"

text \<open>\<^verbatim>\<open>GREATEST(1, CEIL(EXTRACT(EPOCH FROM ...)))::bigint\<close>, in seconds\<close>

definition retry_seconds :: "int \<Rightarrow> int" where
  "retry_seconds t = max 1 (- ((- (date_trunc_minute t + minute_us - t)) div 1000000))"

text \<open>
  The upsert: a first request inserts the row; a later one updates it when its window is over or
  the count is below the limit; otherwise the conflict clause skips it and nothing is admitted.
\<close>

definition admitRequestQuery :: "string \<Rightarrow> int \<Rightarrow> int \<Rightarrow> database \<Rightarrow> ((bool \<times> int) list \<times> database) result" where
  "admitRequestQuery principalID limit t d =
     (let start = date_trunc_minute t; retry = retry_seconds t
      in case find (\<lambda>r. rl_principal r = principalID) (rate_limits d) of
           None \<Rightarrow>
             if \<not> principal_exists d principalID then
               Inl (foreign_key_violation ''principal_rate_limits_principal_uuid_fkey'')
             else Inr ([(True, retry)], d\<lparr>rate_limits := rate_limits d @
               [\<lparr>rl_principal = principalID, rl_window = start, rl_count = 1, rl_updated = t\<rparr>]\<rparr>)
         | Some r \<Rightarrow>
             if rl_window r \<noteq> start \<or> rl_count r < limit then
               (let count = (if rl_window r = start then rl_count r + 1 else 1)
                in if \<not> (1 \<le> count \<and> count \<le> 100) then
                     Inl (check_violation ''principal_rate_limits_request_count'')
                   else Inr ([(True, retry)], d\<lparr>rate_limits := map (\<lambda>x. if rl_principal x = principalID
                     then x\<lparr>rl_window := start, rl_count := count, rl_updated := t\<rparr> else x) (rate_limits d)\<rparr>))
             else Inr ([(False, retry)], d))"

definition AdmitRequest :: "string \<Rightarrow> unit m" where
  "AdmitRequest principalID =
     bind_m (try_m (bind_m (exec_pool (admitRequestQuery principalID RequestsPerMinute)) scan_row)) (\<lambda>r.
     case r of
       Inl err \<Rightarrow> fail_m (Errorf ''%w: %w'' [ErrRateLimitUnavailable, err])
     | Inr (admitted, retrySeconds) \<Rightarrow>
         if \<not> admitted then fail_m (ExceededError (retrySeconds * 1000000000))
         else return_m ())"

section \<open>Windows\<close>

lemma date_trunc_bounds: "date_trunc_minute t \<le> t" "t < date_trunc_minute t + minute_us"
  by (simp_all add: date_trunc_minute_def minute_us_def)

lemma retry_seconds_bounds: "1 \<le> retry_seconds t" "retry_seconds t \<le> 60"
proof -
  show "1 \<le> retry_seconds t" by (simp add: retry_seconds_def)
  have "- (60000000 :: int) \<le> - (date_trunc_minute t + minute_us - t)"
    using date_trunc_bounds [of t] by (simp add: minute_us_def)
  then have "- 60 \<le> (- (date_trunc_minute t + minute_us - t)) div 1000000"
    using zdiv_mono1 [of "- 60000000" "- (date_trunc_minute t + minute_us - t)" 1000000] by simp
  then show "retry_seconds t \<le> 60" by (simp add: retry_seconds_def)
qed

text \<open>After the advertised delay the next window has begun.\<close>

lemma ceiling_div_ge: "x \<le> - ((- x) div 1000000) * (1000000 :: int)"
  using minus_mod_eq_div_mult [of "- x" "1000000 :: int"] pos_mod_sign [of 1000000 "- x"] by linarith

lemma retry_seconds_suffices: "date_trunc_minute t + minute_us \<le> t + retry_seconds t * 1000000"
proof -
  define x where "x = date_trunc_minute t + minute_us - t"
  have "retry_seconds t = max 1 (- ((- x) div 1000000))" unfolding retry_seconds_def x_def ..
  then have "- ((- x) div 1000000) \<le> retry_seconds t" by (simp only: max.cobounded2)
  then show ?thesis using ceiling_div_ge [of x] unfolding x_def by linarith
qed

section \<open>The counter\<close>

definition wf_limits :: "database \<Rightarrow> bool" where
  "wf_limits d \<longleftrightarrow> distinct (map rl_principal (rate_limits d))
     \<and> (\<forall>r\<in>set (rate_limits d). 1 \<le> rl_count r \<and> rl_count r \<le> 100)"

text \<open>Requests of the given principals at the given statement times, one after the other.\<close>

fun admissions :: "(string \<times> int) list \<Rightarrow> database \<Rightarrow> bool list \<times> database" where
  "admissions [] d = ([], d)"
| "admissions ((p, t) # reqs) d =
     (case admitRequestQuery p RequestsPerMinute t d of
        Inr ((admitted, _) # _, d1) \<Rightarrow>
          (case admissions reqs d1 of (rest, d2) \<Rightarrow> (admitted # rest, d2))
      | _ \<Rightarrow> (case admissions reqs d of (rest, d2) \<Rightarrow> (False # rest, d2)))"

text \<open>How many requests of a principal were admitted in a window.\<close>

definition admitted_in :: "string \<Rightarrow> int \<Rightarrow> (string \<times> int) list \<Rightarrow> bool list \<Rightarrow> nat" where
  "admitted_in p win reqs oks =
     length (filter (\<lambda>((q, t), ok). ok \<and> q = p \<and> date_trunc_minute t = win) (zip reqs oks))"

definition spent :: "string \<Rightarrow> int \<Rightarrow> database \<Rightarrow> int" where
  "spent p win d = (case find (\<lambda>r. rl_principal r = p) (rate_limits d) of
     None \<Rightarrow> 0 | Some r \<Rightarrow> if rl_window r = win then rl_count r else 0)"

definition window_of :: "string \<Rightarrow> database \<Rightarrow> int option" where
  "window_of p d = map_option rl_window (find (\<lambda>r. rl_principal r = p) (rate_limits d))"

lemma find_map_key:
  assumes "\<And>x. k (f x) = k x"
  shows "find (\<lambda>x. k x = i) (map f xs) = map_option f (find (\<lambda>x. k x = i) xs)"
  by (induction xs) (auto simp: assms)

lemma find_map_other:
  assumes "q \<noteq> p" and "\<And>x. k (g x) = k x"
  shows "find (\<lambda>x. k x = q) (map (\<lambda>x. if k x = p then g x else x) xs) = find (\<lambda>x. k x = q) xs"
  using assms by (induction xs) auto

lemma find_snoc: "find P (xs @ [x]) = (case find P xs of None \<Rightarrow> if P x then Some x else None | Some y \<Rightarrow> Some y)"
  by (induction xs) auto

lemma admit_step:
  assumes "wf_limits d" and "principal_exists d p"
  obtains (admit) d' where
      "admitRequestQuery p RequestsPerMinute t d = Inr ([(True, retry_seconds t)], d')"
      "spent p (date_trunc_minute t) d < 100"
      "wf_limits d'" "principals d' = principals d"
      "spent p (date_trunc_minute t) d' = spent p (date_trunc_minute t) d + 1"
      "window_of p d' = Some (date_trunc_minute t)"
      "\<And>q. q \<noteq> p \<Longrightarrow> find (\<lambda>r. rl_principal r = q) (rate_limits d') = find (\<lambda>r. rl_principal r = q) (rate_limits d)"
  | (refuse) "admitRequestQuery p RequestsPerMinute t d = Inr ([(False, retry_seconds t)], d)"
      "spent p (date_trunc_minute t) d = 100" "window_of p d = Some (date_trunc_minute t)"
proof (cases "find (\<lambda>r. rl_principal r = p) (rate_limits d)")
  case None
  let ?d = "d\<lparr>rate_limits := rate_limits d @
      [\<lparr>rl_principal = p, rl_window = date_trunc_minute t, rl_count = 1, rl_updated = t\<rparr>]\<rparr>"
  have "p \<notin> rl_principal ` set (rate_limits d)" using None by (auto simp: find_None_iff)
  then show thesis
    using None assms
    by (intro admit [of ?d])
      (auto simp: admitRequestQuery_def Let_def spent_def window_of_def find_snoc wf_limits_def
        split: option.splits)
next
  case (Some r)
  have r: "r \<in> set (rate_limits d)" "rl_principal r = p" using Some by (auto simp: find_Some_iff)
  have count: "1 \<le> rl_count r" "rl_count r \<le> 100" using assms(1) r(1) by (auto simp: wf_limits_def)
  show thesis
  proof (cases "rl_window r \<noteq> date_trunc_minute t \<or> rl_count r < 100")
    case True
    define n where "n = (if rl_window r = date_trunc_minute t then rl_count r + 1 else 1)"
    let ?f = "\<lambda>x. if rl_principal x = p
       then x\<lparr>rl_window := date_trunc_minute t, rl_count := n, rl_updated := t\<rparr> else x"
    have n: "1 \<le> n" "n \<le> 100" using True count by (auto simp: n_def)
    have key: "rl_principal (?f x) = rl_principal x" for x by simp
    have wf: "wf_limits (d\<lparr>rate_limits := map ?f (rate_limits d)\<rparr>)"
      using assms(1) n by (auto simp: wf_limits_def comp_def key)
    have found: "find (\<lambda>x. rl_principal x = p) (map ?f (rate_limits d)) = Some (?f r)"
      unfolding find_map_key [of rl_principal ?f p, OF key] Some by simp
    show thesis
    proof (rule admit)
      show "admitRequestQuery p RequestsPerMinute t d =
          Inr ([(True, retry_seconds t)], d\<lparr>rate_limits := map ?f (rate_limits d)\<rparr>)"
        using Some True n by (simp add: admitRequestQuery_def RequestsPerMinute_def flip: n_def)
      show "find (\<lambda>x. rl_principal x = q) (rate_limits (d\<lparr>rate_limits := map ?f (rate_limits d)\<rparr>)) =
          find (\<lambda>x. rl_principal x = q) (rate_limits d)" if "q \<noteq> p" for q
        using find_map_other [where k = rl_principal and xs = "rate_limits d" and
            g = "\<lambda>x. x\<lparr>rl_window := date_trunc_minute t, rl_count := n, rl_updated := t\<rparr>", OF that]
        by simp
      show "spent p (date_trunc_minute t) (d\<lparr>rate_limits := map ?f (rate_limits d)\<rparr>) =
          spent p (date_trunc_minute t) d + 1"
        using found Some r(2) by (simp add: spent_def n_def)
      show "window_of p (d\<lparr>rate_limits := map ?f (rate_limits d)\<rparr>) = Some (date_trunc_minute t)"
        using found r(2) by (simp add: window_of_def)
    qed (use wf Some True in \<open>auto simp: spent_def\<close>)
  next
    case False
    then show thesis
      using Some count
      by (intro refuse) (auto simp: admitRequestQuery_def Let_def RequestsPerMinute_def spent_def window_of_def)
  qed
qed

definition requested_in :: "string \<Rightarrow> int \<Rightarrow> (string \<times> int) list \<Rightarrow> nat" where
  "requested_in p win reqs = length (filter (\<lambda>(q, t). q = p \<and> date_trunc_minute t = win) reqs)"

lemma requested_in_simps [simp]:
  "requested_in p win [] = 0"
  "requested_in p win ((q, t) # reqs) =
     (if q = p \<and> date_trunc_minute t = win then 1 else 0) + requested_in p win reqs"
  by (simp_all add: requested_in_def)

lemma admitted_in_simps [simp]:
  "admitted_in p win [] oks = 0"
  "admitted_in p win ((q, t) # reqs) (ok # oks) =
     (if ok \<and> q = p \<and> date_trunc_minute t = win then 1 else 0) + admitted_in p win reqs oks"
  by (simp_all add: admitted_in_def)

lemma date_trunc_mono: "s \<le> t \<Longrightarrow> date_trunc_minute s \<le> date_trunc_minute t"
  using zdiv_mono1 [of s t minute_us]
  by (simp add: date_trunc_minute_def minus_mod_eq_div_mult minute_us_def)

text \<open>No stored window lies after a request still to come: the clock does not go back.\<close>

definition windows_before :: "(string \<times> int) list \<Rightarrow> database \<Rightarrow> bool" where
  "windows_before reqs d \<longleftrightarrow>
     (\<forall>(q, t)\<in>set reqs. \<forall>w. window_of q d = Some w \<longrightarrow> w \<le> date_trunc_minute t)"

lemma spent_window: "spent p win d \<noteq> 0 \<Longrightarrow> window_of p d = Some win"
  by (auto simp: spent_def window_of_def split: option.splits if_splits)

lemma requested_none: "(\<And>t. (p, t) \<in> set reqs \<Longrightarrow> win < date_trunc_minute t) \<Longrightarrow> requested_in p win reqs = 0"
  by (auto simp: requested_in_def filter_empty_conv dest!: less_imp_neq)

lemma spent_bounds: "wf_limits d \<Longrightarrow> 0 \<le> spent p win d \<and> spent p win d \<le> 100"
  by (auto simp: wf_limits_def spent_def find_Some_iff split: option.splits) (metis nth_mem order.trans zero_le_one)+

lemma admissions_count:
  assumes "wf_limits d" and "sorted (map snd reqs)" and "windows_before reqs d"
    and "\<forall>q\<in>fst ` set reqs. principal_exists d q"
  shows "int (admitted_in p win reqs (fst (admissions reqs d)))
    = min (100 - spent p win d) (int (requested_in p win reqs))"
  using assms
proof (induction reqs arbitrary: d)
  case Nil
  then show ?case using spent_bounds [of d p win] by simp
next
  case (Cons qt reqs)
  obtain q t where qt: "qt = (q, t)" by (cases qt)
  have later: "date_trunc_minute t \<le> date_trunc_minute t'" if "(q', t') \<in> set reqs" for q' t'
    using Cons.prems(2) that by (force simp: qt intro: date_trunc_mono)
  have sorted: "sorted (map snd reqs)" using Cons.prems(2) by simp
  have exists: "principal_exists d q" "\<forall>q'\<in>fst ` set reqs. principal_exists d q'"
    using Cons.prems(4) by (auto simp: qt)
  have bounds: "0 \<le> spent p win d" "spent p win d \<le> 100" using spent_bounds [OF Cons.prems(1)] by auto
  show ?case
  proof (rule admit_step [OF Cons.prems(1) exists(1), of t])
    fix d'
    assume run: "admitRequestQuery q RequestsPerMinute t d = Inr ([(True, retry_seconds t)], d')"
      and below: "spent q (date_trunc_minute t) d < 100" and wf: "wf_limits d'"
      and pr: "principals d' = principals d"
      and more: "spent q (date_trunc_minute t) d' = spent q (date_trunc_minute t) d + 1"
      and win: "window_of q d' = Some (date_trunc_minute t)"
      and others: "\<And>q'. q' \<noteq> q \<Longrightarrow> find (\<lambda>r. rl_principal r = q') (rate_limits d')
        = find (\<lambda>r. rl_principal r = q') (rate_limits d)"
    have other: "window_of q' d' = window_of q' d" "spent q' v d' = spent q' v d" if "q' \<noteq> q" for q' v
      using others [OF that] by (simp_all add: window_of_def spent_def)
    have "windows_before reqs d'"
      unfolding windows_before_def
    proof (clarify)
      fix q' t' w assume "(q', t') \<in> set reqs" "window_of q' d' = Some w"
      then show "w \<le> date_trunc_minute t'"
        using later win other(1) Cons.prems(3) by (cases "q' = q") (auto simp: windows_before_def qt)
    qed
    then have IH: "int (admitted_in p win reqs (fst (admissions reqs d')))
        = min (100 - spent p win d') (int (requested_in p win reqs))"
      by (intro Cons.IH wf sorted) (use exists(2) pr in \<open>simp_all add: principal_exists_def\<close>)
    have step: "admitted_in p win (qt # reqs) (fst (admissions (qt # reqs) d))
        = (if q = p \<and> date_trunc_minute t = win then 1 else 0) + admitted_in p win reqs (fst (admissions reqs d'))"
      by (simp add: qt run split: prod.splits)
    consider (other) "q \<noteq> p" | (same) "q = p" "date_trunc_minute t = win" | (away) "q = p" "date_trunc_minute t \<noteq> win"
      by blast
    then show ?thesis
    proof cases
      case other
      then show ?thesis using step IH \<open>\<And>v q'. q' \<noteq> q \<Longrightarrow> spent q' v d' = spent q' v d\<close> by (simp add: qt)
    next
      case same
      then show ?thesis using step IH more below by (simp add: qt)
    next
      case away
      have "spent p win d' = 0" using win away spent_window [of p win d'] by auto
      moreover have "spent p win d = 0 \<or> requested_in p win reqs = 0"
      proof (cases "spent p win d = 0")
        case False
        then have "win \<le> date_trunc_minute t"
          using spent_window [of p win d] Cons.prems(3) away by (auto simp: windows_before_def qt)
        then have "requested_in p win reqs = 0"
          using away(2) later by (intro requested_none) force
        then show ?thesis ..
      qed simp
      ultimately show ?thesis using step IH away bounds by (auto simp: qt)
    qed
  next
    assume run: "admitRequestQuery q RequestsPerMinute t d = Inr ([(False, retry_seconds t)], d)"
      and full: "spent q (date_trunc_minute t) d = 100"
    have "windows_before reqs d" using Cons.prems(3) by (simp add: windows_before_def)
    then have "int (admitted_in p win reqs (fst (admissions reqs d)))
        = min (100 - spent p win d) (int (requested_in p win reqs))"
      by (intro Cons.IH Cons.prems(1) sorted exists(2))
    then show ?thesis using full by (auto simp: qt run split: prod.splits)
  qed
qed

end
