(* ===== verification/Admission_Props.thy ===== *)
theory Admission_Props
  imports Rate_Limit Demo_Db
begin

text \<open>
  What admission guarantees a principal: the limit per minute is exact, a refusal names a delay
  that suffices, and a failing database never admits.
\<close>

text \<open>
  C4. Admission is exact: over any sequence of requests at non-decreasing times, of the requests
  of a principal in one calendar minute precisely the first ones are admitted, up to 100 minus
  what the minute had already used, whatever other principals do in between.
\<close>

theorem admission_exact:
  assumes "wf_limits d" and "sorted (map snd reqs)" and "windows_before reqs d"
    and "\<forall>q\<in>fst ` set reqs. principal_exists d q"
  shows "int (admitted_in p win reqs (fst (admissions reqs d)))
    = min (100 - spent p win d) (int (requested_in p win reqs))"
  using assms by (rule admissions_count)

theorem admission_exact_witness:
  "int (admitted_in buyer_id 0 (replicate 120 (buyer_id, 5)) (fst (admissions (replicate 120 (buyer_id, 5)) demo_db)))
    = 100"
proof -
  have reqs: "requested_in buyer_id 0 (replicate 120 (buyer_id, 5)) = 120"
    by (simp add: requested_in_def date_trunc_minute_def minute_us_def)
  have "sorted (map snd (replicate 120 (buyer_id, 5 :: int)))" by simp
  then show ?thesis
    using admission_exact [of demo_db "replicate 120 (buyer_id, 5)" buyer_id 0] reqs
    by (simp add: wf_limits_def windows_before_def window_of_def spent_def principal_exists_def demo_db_def)
qed

text \<open>
  C5. Every outcome of an admission check: admitted, with one more request counted; refused only
  when the minute is used up, with nothing counted and a delay between one and sixty seconds
  after which the next minute has begun; or an unavailable limiter, which never carries a delay.
\<close>

theorem AdmitRequest_outcomes:
  fixes p :: string and w :: world
  defines "now \<equiv> stmt_time (snd (trip w))"
  assumes "wf_limits (db w)" and "principal_exists (db w) p" and "AdmitRequest p w = (r, w')"
  shows "r = Inr () \<and> spent p (date_trunc_minute now) (db w) < 100
        \<and> spent p (date_trunc_minute now) (db w') = spent p (date_trunc_minute now) (db w) + 1
    \<or> (\<exists>s. r = Inl (ExceededError (s * 1000000000)) \<and> RetryAfter (ExceededError (s * 1000000000)) = Some (s * 1000000000)
        \<and> 1 \<le> s \<and> s \<le> 60 \<and> date_trunc_minute now + minute_us \<le> now + s * 1000000
        \<and> spent p (date_trunc_minute now) (db w) = 100 \<and> db w' = db w)
    \<or> (\<exists>e. r = Inl e \<and> errors_Is e ErrRateLimitUnavailable \<and> RetryAfter e = None)"
proof -
  obtain f w1 where trip: "trip w = (f, w1)" by (cases "trip w")
  have now: "stmt_time w1 = now" "db w1 = db w" using trip trip_frame [OF trip] by (simp_all add: now_def)
  show ?thesis
  proof (cases "fault_err f")
    case (Some e)
    have "as_ExceededError e = None" using Some fault_err_is_fault [OF Some] by (cases e) (auto simp: is_fault_def)
    then have "RetryAfter (Errorf ''%w: %w'' [ErrRateLimitUnavailable, e]) = None"
      by (simp add: RetryAfter_def)
    moreover have "r = Inl (Errorf ''%w: %w'' [ErrRateLimitUnavailable, e])"
      using assms(4) Some
      by (auto simp: AdmitRequest_def bind_m_def try_m_def exec_pool_def trip fail_m_def split: sum.splits)
    ultimately show ?thesis by auto
  next
    case None
    show ?thesis
    proof (rule admit_step [OF assms(2,3), of now])
      fix d' assume "admitRequestQuery p RequestsPerMinute now (db w) = Inr ([(True, retry_seconds now)], d')"
        "spent p (date_trunc_minute now) (db w) < 100"
        "spent p (date_trunc_minute now) d' = spent p (date_trunc_minute now) (db w) + 1"
      then show ?thesis
        using assms(4) None
        by (auto simp: AdmitRequest_def bind_m_def try_m_def exec_pool_def trip now scan_row_def return_m_def)
    next
      assume "admitRequestQuery p RequestsPerMinute now (db w) = Inr ([(False, retry_seconds now)], db w)"
        "spent p (date_trunc_minute now) (db w) = 100"
      then show ?thesis
        using assms(4) None retry_seconds_bounds [of now] retry_seconds_suffices [of now]
        by (auto simp: AdmitRequest_def bind_m_def try_m_def exec_pool_def trip now scan_row_def return_m_def
            fail_m_def RetryAfter_def intro!: exI [of _ "retry_seconds now"])
    qed
  qed
qed

theorem AdmitRequest_outcomes_witness:
  "fst (AdmitRequest buyer_id (demo_world demo_db [])) = Inr ()
    \<and> spent buyer_id 0 (db (snd (AdmitRequest buyer_id (demo_world demo_db [])))) = 1"
proof -
  obtain r w' where run: "AdmitRequest buyer_id (demo_world demo_db []) = (r, w')" by force
  have now: "stmt_time (snd (trip (demo_world demo_db []))) = 1000" by (simp add: trip_def demo_world_def)
  have none: "spent buyer_id 0 demo_db = 0" by (simp add: spent_def demo_db_def)
  have hyps: "wf_limits demo_db" "principal_exists demo_db buyer_id"
    by (simp_all add: wf_limits_def principal_exists_def demo_db_def)
  have "r = Inr ()"
    using run by (simp add: AdmitRequest_def bind_m_def try_m_def exec_pool_def trip_def demo_world_def scan_row_def
        return_m_def admitRequestQuery_def demo_db_def principal_exists_def Let_def)
  with AdmitRequest_outcomes [of "demo_world demo_db []" buyer_id r w'] run none show ?thesis
    by (simp add: now date_trunc_minute_def minute_us_def hyps)
qed

end
