(* ===== verification/Go_Time.thy ===== *)
theory Go_Time
  imports Go_Strings
begin

text \<open>
  The parts of package \<^verbatim>\<open>time\<close> the sources use. An instant is a number of nanoseconds since the Unix
  epoch, a duration a number of nanoseconds held in 64 bits, a calendar date (an instant at midnight
  UTC) a number of days. The calendar is the proleptic Gregorian one, counted in months:
  \<open>month_start k\<close> is the first day of month \<open>k = 12 * year + month - 1\<close>.
\<close>

section \<open>Instants and durations\<close>

definition ns_second :: int where "ns_second = 1000000000"
definition ns_minute :: int where "ns_minute = 60 * ns_second"
definition ns_hour :: int where "ns_hour = 60 * ns_minute"
definition ns_day :: int where "ns_day = 24 * ns_hour"

lemmas ns_defs = ns_second_def ns_minute_def ns_hour_def ns_day_def

definition min_duration :: int where "min_duration = - (2 ^ 63)"
definition max_duration :: int where "max_duration = 2 ^ 63 - 1"

text \<open>\<^verbatim>\<open>t.Sub(u)\<close> saturates; \<^verbatim>\<open>d.Microseconds()\<close> truncates toward zero.\<close>

definition time_Sub :: "int \<Rightarrow> int \<Rightarrow> int" where
  "time_Sub t u = max min_duration (min max_duration (t - u))"

definition Microseconds :: "int \<Rightarrow> int" where
  "Microseconds d = (if 0 \<le> d then d div 1000 else - ((- d) div 1000))"

text \<open>The zero \<^verbatim>\<open>time.Time\<close>, 1 January of year 1, as a day and as an instant.\<close>

definition zero_day :: int where "zero_day = - 719162"
definition zero_time :: int where "zero_time = zero_day * ns_day"

text \<open>A clock reading: the instant and the offset of its location from UTC.\<close>

record clock_time =
  tm_instant :: int
  tm_offset :: int

definition day_of_instant :: "int \<Rightarrow> int" where
  "day_of_instant t = t div ns_day"

definition local_day :: "clock_time \<Rightarrow> int" where
  "local_day t = day_of_instant (tm_instant t + tm_offset t)"

section \<open>Calendar\<close>

definition month_start :: "int \<Rightarrow> int" where
  "month_start k = (let y = (k - 2) div 12; m = (k - 2) mod 12
     in 365 * y + y div 4 - y div 100 + y div 400 + (153 * m + 2) div 5 - 719468)"

lemma div_succ:
  fixes y n :: int
  assumes "0 < n"
  shows "(y + 1) div n = y div n + (if n dvd y + 1 then 1 else 0)"
proof -
  define r where "r = y mod n"
  have y: "y = y div n * n + r" and r: "0 \<le> r" "r < n"
    using assms by (simp_all add: r_def)
  have "(y + 1) div n = y div n + (r + 1) div n"
    using assms by (subst y) (simp add: div_mult_self3 add.assoc del: div_mult_mod_eq)
  moreover have "n dvd y + 1 \<longleftrightarrow> n dvd r + 1"
    by (subst y) (simp add: add.assoc)
  moreover have "(r + 1) div n = (if n dvd r + 1 then 1 else 0)"
  proof (cases "r + 1 = n")
    case False
    then have "0 < r + 1" "r + 1 < n" using r by auto
    then show ?thesis using zdvd_not_zless by (simp add: div_pos_pos_trivial)
  qed (use assms in auto)
  ultimately show ?thesis by simp
qed

lemma month_start_step: "28 \<le> month_start (k + 1) - month_start k \<and> month_start (k + 1) - month_start k \<le> 31"
proof -
  define y m where "y = (k - 2) div 12" and "m = (k - 2) mod 12"
  have m: "0 \<le> m" "m < 12" and k: "k - 2 = 12 * y + m"
    by (simp_all add: m_def y_def)
  show ?thesis
  proof (cases "m = 11")
    case True
    then have "k + 1 - 2 = 12 * (y + 1)" using k by simp
    then have next_month: "(k + 1 - 2) div 12 = y + 1" "(k + 1 - 2) mod 12 = 0" by simp_all
    define a b where "a = (y + 1) div 4 - (y + 1) div 100 + (y + 1) div 400"
      and "b = y div 4 - y div 100 + y div 400"
    have "a - b \<in> {0, 1}"
      using dvd_trans [of 4 100 "y + 1"] dvd_trans [of 100 400 "y + 1"] by (simp add: a_def b_def div_succ)
    moreover have "month_start (k + 1) = 365 * (y + 1) + a - 719468"
      unfolding month_start_def Let_def next_month a_def by simp
    moreover have "month_start k = 365 * y + b + 337 - 719468"
      using True unfolding month_start_def Let_def y_def [symmetric] m_def [symmetric] b_def by simp
    ultimately show ?thesis by auto
  next
    case False
    then have "k + 1 - 2 = (m + 1) + 12 * y" and "0 \<le> m + 1" "m + 1 < 12" using k m by simp_all
    then have next_month: "(k + 1 - 2) div 12 = y" "(k + 1 - 2) mod 12 = m + 1"
      by (simp_all only: div_mult_self2 mod_mult_self2 div_pos_pos_trivial mod_pos_pos_trivial)
    define q q' where "q = (153 * m + 2) div 5" and "q' = (153 * (m + 1) + 2) div 5"
    have "5 * q \<le> 153 * m + 2 \<and> 153 * m + 2 < 5 * q + 5"
      "5 * q' \<le> 153 * (m + 1) + 2 \<and> 153 * (m + 1) + 2 < 5 * q' + 5"
      unfolding q_def q'_def by linarith+
    then have "30 \<le> q' - q \<and> q' - q \<le> 31" by auto
    then show ?thesis
      unfolding month_start_def Let_def next_month y_def [symmetric] m_def [symmetric] q_def q'_def by auto
  qed
qed

lemma month_start_less: "month_start k < month_start (k + 1)"
  using month_start_step [of k] by linarith

lemma month_start_mono_strict: "j < k \<Longrightarrow> month_start j < month_start k"
proof (induction k rule: int_gr_induct [of j])
  case base then show ?case by (rule month_start_less)
next
  case (step i) then show ?case using month_start_less [of i] by simp
qed

lemma month_start_le_iff: "month_start j \<le> month_start k \<longleftrightarrow> j \<le> k"
  using month_start_mono_strict [of j k] month_start_mono_strict [of k j] by (cases "j = k") force+

text \<open>The month a day lies in, searched from an estimate (a month has 30.436875 days on average).\<close>

function find_month :: "int \<Rightarrow> int \<Rightarrow> int" where
  "find_month d k =
     (if d < month_start k then find_month d (k - 1)
      else if month_start (k + 1) \<le> d then find_month d (k + 1)
      else k)"
  by auto
termination
proof (relation "measure (\<lambda>(d, k). nat (if d < month_start k then month_start k - d + 31 else d - month_start k))",
    goal_cases)
  case 1 then show ?case by simp
next
  case (2 d k)
  then show ?case using month_start_step [of "k - 1"] by auto
next
  case (3 d k)
  then show ?case using month_start_step [of k] by auto
qed

declare find_month.simps [simp del]

definition month_of :: "int \<Rightarrow> int" where
  "month_of d = find_month d ((d + 719468) * 4800 div 146097 + 2)"

lemma find_month_spec: "month_start (find_month d k) \<le> d \<and> d < month_start (find_month d k + 1)"
proof (induction d k rule: find_month.induct)
  case (1 d k)
  then show ?case by (subst (1 2) find_month.simps) auto
qed

lemma month_of_spec: "month_start (month_of d) \<le> d" "d < month_start (month_of d + 1)"
  using find_month_spec by (simp_all add: month_of_def)

lemma month_of_unique: "month_start k \<le> d \<Longrightarrow> d < month_start (k + 1) \<Longrightarrow> month_of d = k"
proof -
  assume "month_start k \<le> d" "d < month_start (k + 1)"
  then have "month_start k < month_start (month_of d + 1)" "month_start (month_of d) < month_start (k + 1)"
    using month_of_spec [of d] by linarith+
  then show ?thesis
    using month_start_le_iff [of "month_of d + 1" k] month_start_le_iff [of "k + 1" "month_of d"] by linarith
qed

lemma month_of_start [simp]: "month_of (month_start k) = k"
  by (rule month_of_unique) (simp_all add: month_start_less)

text \<open>\<^verbatim>\<open>time.Date\<close> and \<^verbatim>\<open>AddDate\<close>, which normalise months and days out of range.\<close>

definition time_Year :: "int \<Rightarrow> int" where "time_Year d = month_of d div 12"
definition time_Month :: "int \<Rightarrow> int" where "time_Month d = month_of d mod 12 + 1"
definition time_Day :: "int \<Rightarrow> int" where "time_Day d = d - month_start (month_of d) + 1"

definition time_Date :: "int \<Rightarrow> int \<Rightarrow> int \<Rightarrow> int" where
  "time_Date y m d = month_start (12 * y + m - 1) + d - 1"

definition AddDate :: "int \<Rightarrow> int \<Rightarrow> int \<Rightarrow> int \<Rightarrow> int" where
  "AddDate t y m d = time_Date (time_Year t + y) (time_Month t + m) (time_Day t + d)"

lemma time_Date_first [simp]: "time_Date (time_Year d) (time_Month d) 1 = month_start (month_of d)"
  by (simp add: time_Date_def time_Year_def time_Month_def)

lemma AddDate_first [simp]: "AddDate (month_start k) 0 n d = month_start (k + n) + d"
  by (simp add: AddDate_def time_Date_def time_Year_def time_Month_def time_Day_def algebra_simps)

lemma AddDate_month_greater: "t < AddDate t 0 1 0"
  using month_start_less [of "month_of t"]
  by (simp add: AddDate_def time_Date_def time_Year_def time_Month_def time_Day_def algebra_simps)

text \<open>\<^verbatim>\<open>Format(time.DateOnly)\<close>: the year in at least four digits, the month and the day in two.\<close>

definition digit :: "nat \<Rightarrow> char" where "digit n = char_of (48 + n)"

fun append_digits :: "nat \<Rightarrow> nat \<Rightarrow> string" where
  "append_digits width n =
     (if n < 10 then replicate (width - 1) (CHR ''0'') @ [digit n]
      else append_digits (width - 1) (n div 10) @ [digit (n mod 10)])"

declare append_digits.simps [simp del]

definition append_int :: "int \<Rightarrow> nat \<Rightarrow> string" where
  "append_int n width = (if n < 0 then CHR ''-'' # append_digits width (nat (- n)) else append_digits width (nat n))"

definition Format_DateOnly :: "int \<Rightarrow> string" where
  "Format_DateOnly d = append_int (time_Year d) 4 @ ''-'' @ append_int (time_Month d) 2 @ ''-'' @
     append_int (time_Day d) 2"

end
