(* ===== verification/Rates_Model.thy ===== *)
theory Rates_Model
  imports Pg_World Go_Time "HOL-Library.List_Lexorder" "HOL-Library.Char_ord" "HOL-Library.Product_Lexorder"
begin

text \<open>
  \<^verbatim>\<open>exchangerates/model.go\<close> and the pure parts of \<^verbatim>\<open>exchangerates/service.go\<close>: series and their
  validation, work units and their keys, the split of a date range into months, and the grouping
  of claimed units into provider requests. Dates are days (see \<open>Go_Time\<close>).
\<close>

section \<open>model.go\<close>

definition MaxSeriesPerRequest :: nat where "MaxSeriesPerRequest = 20"

text \<open>\<^verbatim>\<open>^[A-Z]{2}[0-9]{1,20}$\<close>\<close>

definition SeriesID_Validate :: "string \<Rightarrow> unit result" where
  "SeriesID_Validate i =
     (if list_all is_upper_byte (take 2 i) \<and> list_all is_digit_byte (drop 2 i)
         \<and> 3 \<le> length i \<and> length i \<le> 22
      then Inr () else Inl ErrInvalidSeries)"

record Series =
  se_ID :: string
  se_Base :: string
  se_Quote :: string

definition isCurrency :: "string \<Rightarrow> bool" where
  "isCurrency v = (if length v \<noteq> 3 then False else list_all is_upper_byte v)"

definition Series_Validate :: "Series \<Rightarrow> unit result" where
  "Series_Validate s =
     (if \<not> is_ok (SeriesID_Validate (se_ID s)) \<or> \<not> isCurrency (se_Base s) \<or> \<not> isCurrency (se_Quote s)
         \<or> se_Base s = se_Quote s
      then Inl ErrInvalidSeries else Inr ())"

record 'd Observation =
  on_RevisionID :: string
  on_SeriesID :: string
  on_Base :: string
  on_Quote :: string
  on_Date :: int
  on_Value :: 'd
  on_RecordedAt :: int
  on_Stale :: bool

definition FetchLatest :: string where "FetchLatest = ''latest''"
definition FetchRange :: string where "FetchRange = ''range''"

record FetchRequest =
  fr_Kind :: string
  fr_SeriesIDs :: "string list"
  fr_From :: int
  fr_To :: int

record 'd ProviderObservation =
  po_SeriesID :: string
  po_Date :: int
  po_Value :: 'd

record 'd FetchResult =
  fe_Response :: string
  fe_Observations :: "'d ProviderObservation list"

text \<open>
  \<^verbatim>\<open>normalizeSeries\<close>: the loop fills a map by identifier; the map's values are then sorted by
  identifier, so the map's iteration order does not show.
\<close>

fun normalize_loop :: "Series list \<Rightarrow> (string \<times> Series) list \<Rightarrow> (string \<times> Series) list result" where
  "normalize_loop [] byID = Inr byID"
| "normalize_loop (s # ss) byID =
     (case Series_Validate s of
        Inl e \<Rightarrow> Inl e
      | Inr _ \<Rightarrow>
          (case map_of byID (se_ID s) of
             Some previous \<Rightarrow> if previous \<noteq> s then Inl ErrInvalidSeries else normalize_loop ss byID
           | None \<Rightarrow> normalize_loop ss (byID @ [(se_ID s, s)])))"

definition normalizeSeries :: "Series list \<Rightarrow> Series list result" where
  "normalizeSeries input =
     bind_r (normalize_loop input []) (\<lambda>byID.
       if byID = [] then Inl ErrInvalidSeries else Inr (sort_key se_ID (map snd byID)))"

definition dateOnly :: "clock_time \<Rightarrow> int" where
  "dateOnly t = time_Date (time_Year (local_day t)) (time_Month (local_day t)) (time_Day (local_day t))"

lemma dateOnly_eq [simp]: "dateOnly t = local_day t"
  by (simp add: dateOnly_def time_Date_def time_Year_def time_Month_def time_Day_def)

section \<open>Work units\<close>

record WorkUnit =
  wu_Key :: string
  wu_Kind :: string
  wu_Series :: Series
  wu_From :: int
  wu_To :: int
  wu_FetchTo :: int
  wu_Permanent :: bool

record WorkState =
  ws_Ready :: bool
  ws_LeaseUntil :: int
  ws_CompletedAt :: int

definition zero_state :: WorkState where
  "zero_state = \<lparr>ws_Ready = False, ws_LeaseUntil = zero_time, ws_CompletedAt = zero_time\<rparr>"

definition latestWorkKey :: "Series \<Rightarrow> string" where
  "latestWorkKey s = ''latest:'' @ se_ID s @ '':'' @ se_Base s @ '':'' @ se_Quote s"

definition rangeWorkKey :: "Series \<Rightarrow> int \<Rightarrow> string" where
  "rangeWorkKey s month =
     ''range:'' @ se_ID s @ '':'' @ se_Base s @ '':'' @ se_Quote s @ '':'' @ Format_DateOnly month"

definition latest_unit :: "Series \<Rightarrow> WorkUnit" where
  "latest_unit s = \<lparr>wu_Key = latestWorkKey s, wu_Kind = FetchLatest, wu_Series = s,
     wu_From = zero_day, wu_To = zero_day, wu_FetchTo = zero_day, wu_Permanent = False\<rparr>"

text \<open>
  \<^verbatim>\<open>rangeUnits\<close>: the loop over the months from that of \<open>from\<close> to that of \<open>to\<close>; \<open>today\<close> is the date of
  the service's clock. The loop variable is always the first day of a month.
\<close>

function month_loop :: "Series list \<Rightarrow> int \<Rightarrow> int \<Rightarrow> int \<Rightarrow> int \<Rightarrow> WorkUnit list" where
  "month_loop series today currentMonth lastMonth month =
     (if lastMonth < month then []
      else
        (let monthEnd = AddDate month 0 1 (- 1);
             fetchTo = (if today < monthEnd then today else monthEnd)
         in (if fetchTo < month then []
             else map (\<lambda>item. \<lparr>wu_Key = rangeWorkKey item month, wu_Kind = FetchRange, wu_Series = item,
                               wu_From = month, wu_To = monthEnd, wu_FetchTo = fetchTo,
                               wu_Permanent = month < currentMonth\<rparr>) series)
            @ month_loop series today currentMonth lastMonth (AddDate month 0 1 0)))"
  by auto
termination
proof (relation "measure (\<lambda>(_, _, _, lastMonth, month). nat (lastMonth + 1 - month))", goal_cases)
  case (2 series today currentMonth lastMonth month)
  then show ?case using AddDate_month_greater [of month] by auto
qed simp

declare month_loop.simps [simp del]

definition rangeUnits :: "clock_time \<Rightarrow> Series list \<Rightarrow> int \<Rightarrow> int \<Rightarrow> WorkUnit list" where
  "rangeUnits now series from to =
     (let today = dateOnly now;
          currentMonth = time_Date (time_Year today) (time_Month today) 1;
          firstMonth = time_Date (time_Year from) (time_Month from) 1;
          lastMonth = time_Date (time_Year to) (time_Month to) 1
      in month_loop series today currentMonth lastMonth firstMonth)"

definition pendingUnits :: "WorkUnit list \<Rightarrow> (string \<Rightarrow> WorkState option) \<Rightarrow> WorkUnit list" where
  "pendingUnits units states =
     filter (\<lambda>u. \<not> ws_Ready (case states (wu_Key u) of Some s \<Rightarrow> s | None \<Rightarrow> zero_state)) units"

definition allLatest :: "WorkUnit list \<Rightarrow> bool" where
  "allLatest units = list_all (\<lambda>u. wu_Kind u = FetchLatest) units"

definition fetchKindName :: "WorkUnit list \<Rightarrow> string" where
  "fetchKindName units = (if allLatest units then ''latest'' else ''range'')"

section \<open>Batches\<close>

definition samePeriod :: "WorkUnit \<Rightarrow> WorkUnit \<Rightarrow> bool" where
  "samePeriod l r \<longleftrightarrow> wu_Kind l = wu_Kind r \<and> wu_From l = wu_From r \<and> wu_FetchTo l = wu_FetchTo r"

text \<open>
  \<^verbatim>\<open>makeBatches\<close>. The comparison orders by kind, start, end and identifier; \<open>cut_batch\<close> counts how far
  \<^verbatim>\<open>end\<close> advances past the first unit.
\<close>

definition batch_key :: "WorkUnit \<Rightarrow> string \<times> int \<times> int \<times> string" where
  "batch_key u = (wu_Kind u, wu_From u, wu_FetchTo u, se_ID (wu_Series u))"

definition cut_batch :: "WorkUnit \<Rightarrow> WorkUnit list \<Rightarrow> nat" where
  "cut_batch u us = length (takeWhile (samePeriod u) (take (MaxSeriesPerRequest - 1) us))"

function split_batches :: "WorkUnit list \<Rightarrow> WorkUnit list list" where
  "split_batches [] = []"
| "split_batches (u # us) = (u # take (cut_batch u us) us) # split_batches (drop (cut_batch u us) us)"
  by pat_completeness auto
termination
  by (relation "measure length") auto

definition makeBatches :: "WorkUnit list \<Rightarrow> WorkUnit list list" where
  "makeBatches units = split_batches (sort_key batch_key units)"

text \<open>Called on non-empty batches only.\<close>

definition requestForBatch :: "WorkUnit list \<Rightarrow> FetchRequest" where
  "requestForBatch batch =
     \<lparr>fr_Kind = wu_Kind (hd batch), fr_SeriesIDs = map (se_ID \<circ> wu_Series) batch,
      fr_From = wu_From (hd batch), fr_To = wu_FetchTo (hd batch)\<rparr>"

definition remainingUnits :: "WorkUnit list list \<Rightarrow> WorkUnit list" where
  "remainingUnits batches = concat batches"

definition requireLatestObservations :: "FetchRequest \<Rightarrow> 'd FetchResult \<Rightarrow> unit result" where
  "requireLatestObservations request r =
     (let seen = map po_SeriesID (fe_Observations r)
      in if list_all (\<lambda>i. i \<in> set seen) (fr_SeriesIDs request) then Inr () else Inl ErrIncompleteResponse)"

fun as_RateLimitError :: "go_error \<Rightarrow> int option"
  and as_RateLimitError_list :: "go_error list \<Rightarrow> int option" where
  "as_RateLimitError (RateLimitError t) = Some t"
| "as_RateLimitError (Errorf m es) = as_RateLimitError_list es"
| "as_RateLimitError _ = None"
| "as_RateLimitError_list [] = None"
| "as_RateLimitError_list (e # es) =
     (case as_RateLimitError e of Some t \<Rightarrow> Some t | None \<Rightarrow> as_RateLimitError_list es)"

definition providerOutcome :: "go_error \<Rightarrow> string" where
  "providerOutcome err =
     (if as_RateLimitError err \<noteq> None then ''rate_limited''
      else if errors_Is err ErrProviderAuthentication then ''authentication_failed''
      else if errors_Is err ErrProviderInvalidResponse \<or> errors_Is err ErrInvalidObservation
        \<or> errors_Is err ErrIncompleteResponse then ''invalid_response''
      else ''unavailable'')"

end
