(* ===== verification/Go_Sha256.thy ===== *)
theory Go_Sha256
  imports Exchange
begin

text \<open>
  \<^verbatim>\<open>crypto/sha256.Sum256\<close>: the digest of FIPS 180-4 over the bytes of a string. Padding, message
  schedule and compression follow the standard; words are 32 bits and addition wraps.
\<close>

unbundle bit_operations_syntax

type_synonym w32 = "32 word"

definition rotr :: "nat \<Rightarrow> w32 \<Rightarrow> w32" where
  "rotr n x = drop_bit n x OR push_bit (32 - n) x"

text \<open>
  The constants: the first 32 fractional bits of the cube roots of the first 64 primes and of the
  square roots of the first 8.
\<close>

fun iroot :: "nat \<Rightarrow> nat \<Rightarrow> int \<Rightarrow> int \<Rightarrow> int" where
  "iroot e 0 acc n = acc"
| "iroot e (Suc b) acc n = (if (acc + 2 ^ b) ^ e \<le> n then iroot e b (acc + 2 ^ b) n else iroot e b acc n)"

definition small_primes :: "nat list" where
  "small_primes = filter (\<lambda>n. \<not> list_ex (\<lambda>k. k dvd n) [2..<n]) [2..<312]"

definition sha_k :: "w32 list" where
  "sha_k = map (\<lambda>p. of_int (iroot 3 36 0 (int p * 2 ^ 96))) small_primes"

definition sha_init :: "w32 list" where
  "sha_init = map (\<lambda>p. of_int (iroot 2 37 0 (int p * 2 ^ 64))) [2, 3, 5, 7, 11, 13, 17, 19]"

definition bytes_of :: "string \<Rightarrow> byte list" where
  "bytes_of s = map (\<lambda>c. of_nat (byte_of c)) s"

definition be_bytes :: "nat \<Rightarrow> nat \<Rightarrow> byte list" where
  "be_bytes k n = map (\<lambda>i. of_nat (n div 256 ^ (k - 1 - i))) [0..<k]"

definition sha_pad :: "byte list \<Rightarrow> byte list" where
  "sha_pad m = m @ [0x80] @ replicate ((119 - length m mod 64) mod 64) 0 @ be_bytes 8 (8 * length m)"

definition word_of_bytes :: "byte list \<Rightarrow> w32" where
  "word_of_bytes bs = foldl (\<lambda>acc b. push_bit 8 acc OR ucast b) 0 bs"

definition schedule_step :: "w32 list \<Rightarrow> w32 list" where
  "schedule_step ws =
     (let t = length ws; a = ws ! (t - 15); b = ws ! (t - 2);
          s0 = rotr 7 a XOR rotr 18 a XOR drop_bit 3 a;
          s1 = rotr 17 b XOR rotr 19 b XOR drop_bit 10 b
      in ws @ [ws ! (t - 16) + s0 + ws ! (t - 7) + s1])"

definition schedule :: "byte list \<Rightarrow> w32 list" where
  "schedule block =
     (schedule_step ^^ 48) (map (\<lambda>i. word_of_bytes (take 4 (drop (4 * i) block))) [0..<16])"

type_synonym sha_state = "w32 \<times> w32 \<times> w32 \<times> w32 \<times> w32 \<times> w32 \<times> w32 \<times> w32"

fun sha_round :: "sha_state \<Rightarrow> w32 \<times> w32 \<Rightarrow> sha_state" where
  "sha_round (a, b, c, d, e, f, g, h) (k, w) =
     (let s1 = rotr 6 e XOR rotr 11 e XOR rotr 25 e;
          ch = (e AND f) XOR (NOT e AND g);
          t1 = h + s1 + ch + k + w;
          s0 = rotr 2 a XOR rotr 13 a XOR rotr 22 a;
          maj = (a AND b) XOR (a AND c) XOR (b AND c)
      in (t1 + s0 + maj, a, b, c, d + t1, e, f, g))"

fun sha_state_list :: "sha_state \<Rightarrow> w32 list" where
  "sha_state_list (a, b, c, d, e, f, g, h) = [a, b, c, d, e, f, g, h]"

definition sha_compress :: "w32 list \<Rightarrow> byte list \<Rightarrow> w32 list" where
  "sha_compress hs block =
     map2 (+) hs (sha_state_list (foldl sha_round
       (hs ! 0, hs ! 1, hs ! 2, hs ! 3, hs ! 4, hs ! 5, hs ! 6, hs ! 7) (zip sha_k (schedule block))))"

definition sha_blocks :: "byte list \<Rightarrow> byte list list" where
  "sha_blocks m = map (\<lambda>i. take 64 (drop (64 * i) m)) [0..<length m div 64]"

definition word_bytes :: "w32 \<Rightarrow> byte list" where
  "word_bytes w = map (\<lambda>i. ucast (drop_bit (8 * (3 - i)) w)) [0..<4]"

definition Sum256 :: "string \<Rightarrow> byte list" where
  "Sum256 s = concat (map word_bytes (foldl sha_compress sha_init (sha_blocks (sha_pad (bytes_of s)))))"

lemma length_sha_compress: "length hs = 8 \<Longrightarrow> length (sha_compress hs block) = 8"
proof -
  have "length (sha_state_list st) = 8" for st by (cases st rule: sha_state_list.cases) simp
  then show "length hs = 8 \<Longrightarrow> length (sha_compress hs block) = 8" by (simp add: sha_compress_def)
qed

lemma length_sha_fold: "length hs = 8 \<Longrightarrow> length (foldl sha_compress hs blocks) = 8"
  by (induction blocks arbitrary: hs) (auto simp: length_sha_compress)

lemma length_Sum256 [simp]: "length (Sum256 s) = 32"
proof -
  let ?hs = "foldl sha_compress sha_init (sha_blocks (sha_pad (bytes_of s)))"
  have hs: "length ?hs = 8" by (rule length_sha_fold) (simp add: sha_init_def)
  have "length (concat (map word_bytes ws)) = 4 * length ws" for ws
    by (induction ws) (simp_all add: word_bytes_def)
  with hs show ?thesis by (simp add: Sum256_def)
qed

end
