(* ===== verification/Rates_Store.thy ===== *)
theory Rates_Store
  imports Rates_Model Go_Sha256
begin

text \<open>
  \<^verbatim>\<open>postgres/exchange_rates.go\<close>: the durable cache of exchange rates. Coordination rows carry the
  lease, the coverage and the freshness of one work unit; imports and observations are append-only
  facts, and \<open>current_rates\<close> is the view that keeps the newest revision of every observation. The
  clock of the server is in microseconds, Go's in nanoseconds.
\<close>

definition go_instant :: "int \<Rightarrow> int" where "go_instant us = us * 1000"
definition pg_instant :: "int \<Rightarrow> int" where "pg_instant ns = ns div 1000"

definition lease_lost :: go_error where
  "lease_lost = ErrorString ''SIE exchange-rate fetch lease was lost''"

section \<open>States\<close>

text \<open>A condition that is SQL \<^verbatim>\<open>NULL\<close> counts as false: by \<^verbatim>\<open>COALESCE\<close> here, in a \<^verbatim>\<open>WHERE\<close> below.\<close>

definition fresh_at :: "int \<Rightarrow> coordination_row \<Rightarrow> bool" where
  "fresh_at t r = (case fc_fresh_until r of None \<Rightarrow> False | Some f \<Rightarrow> t < f)"

definition expired_at :: "int \<Rightarrow> coordination_row \<Rightarrow> bool" where
  "expired_at t r = (case fc_fresh_until r of None \<Rightarrow> False | Some f \<Rightarrow> f \<le> t)"

definition ready_at :: "WorkUnit \<Rightarrow> int \<Rightarrow> coordination_row \<Rightarrow> bool" where
  "ready_at u t r =
     (if fc_kind r = ''latest'' then fc_completed_at r \<noteq> None \<and> fresh_at t r
      else (case fc_covered_until r of None \<Rightarrow> False | Some c \<Rightarrow> wu_FetchTo u \<le> c)
           \<and> (wu_Permanent u \<or> fresh_at t r))"

definition stateQuery :: "WorkUnit \<Rightarrow> int \<Rightarrow> database \<Rightarrow> (bool \<times> int option \<times> int option) list" where
  "stateQuery u t d =
     [(ready_at u t r, fc_lease_until r, fc_completed_at r). r \<leftarrow> coordination d, fc_key r = wu_Key u]"

definition scan_state :: "bool \<times> int option \<times> int option \<Rightarrow> WorkState" where
  "scan_state = (\<lambda>(ready, leaseUntil, completedAt).
     \<lparr>ws_Ready = ready,
      ws_LeaseUntil = (case leaseUntil of Some t \<Rightarrow> go_instant t | None \<Rightarrow> zero_time),
      ws_CompletedAt = (case completedAt of Some t \<Rightarrow> go_instant t | None \<Rightarrow> zero_time)\<rparr>)"

fun states_loop :: "WorkUnit list \<Rightarrow> (string \<Rightarrow> WorkState option) \<Rightarrow> (string \<Rightarrow> WorkState option) m" where
  "states_loop [] states = return_m states"
| "states_loop (u # us) states =
     bind_m (try_m (bind_m (query_pool (stateQuery u)) scan_row)) (\<lambda>r.
     case r of
       Inl e \<Rightarrow> if errors_Is e ErrNoRows then states_loop us (states(wu_Key u \<mapsto> zero_state)) else fail_m e
     | Inr row \<Rightarrow> states_loop us (states(wu_Key u \<mapsto> scan_state row)))"

definition States :: "WorkUnit list \<Rightarrow> (string \<Rightarrow> WorkState option) m" where
  "States units = states_loop units Map.empty"

section \<open>Claim\<close>

definition series_canonical :: "string \<Rightarrow> bool" where
  "series_canonical i \<longleftrightarrow> list_all is_upper_byte (take 2 i) \<and> list_all is_digit_byte (drop 2 i)
     \<and> 3 \<le> length i \<and> length i \<le> 22"

definition currency_shape :: "string \<Rightarrow> bool" where
  "currency_shape c \<longleftrightarrow> length c = 3 \<and> list_all is_upper_byte c"

definition coordination_checks :: "coordination_row \<Rightarrow> go_error option" where
  "coordination_checks r = first_violation
     [(\<not> currency_shape (fc_base r), check_violation ''sie_exchange_rate_fetch_base_currency''),
      (fc_completed_at r = None \<and> fc_fresh_until r \<noteq> None,
        check_violation ''sie_exchange_rate_fetch_completion_shape''),
      (fc_base r = fc_quote r, check_violation ''sie_exchange_rate_fetch_distinct_currencies''),
      (fc_kind r \<noteq> ''latest'' \<and> fc_kind r \<noteq> ''range'', check_violation ''sie_exchange_rate_fetch_kind_known''),
      (\<not> (if fc_kind r = ''latest'' then fc_period r = None \<and> fc_covered_until r = None
          else case fc_period r of
                 None \<Rightarrow> False
               | Some (s, e) \<Rightarrow> s \<le> e \<and> (case fc_covered_until r of None \<Rightarrow> True | Some c \<Rightarrow> s \<le> c \<and> c \<le> e)),
        check_violation ''sie_exchange_rate_fetch_period_shape''),
      (\<not> currency_shape (fc_quote r), check_violation ''sie_exchange_rate_fetch_quote_currency''),
      (\<not> series_canonical (fc_series r), check_violation ''sie_exchange_rate_fetch_series_canonical''),
      (length (fc_key r) < 1 \<or> 128 < length (fc_key r), check_violation ''sie_exchange_rate_fetch_work_key_size'')]"

definition insert_coordination :: "WorkUnit \<Rightarrow> int \<Rightarrow> database \<Rightarrow> (unit \<times> database) result" where
  "insert_coordination u ts d =
     (let r = \<lparr>fc_key = wu_Key u, fc_series = se_ID (wu_Series u), fc_base = se_Base (wu_Series u),
               fc_quote = se_Quote (wu_Series u), fc_kind = wu_Kind u,
               fc_period = (if wu_Kind u = FetchRange then Some (wu_From u, wu_To u) else None),
               fc_covered_until = None, fc_completed_at = None, fc_fresh_until = None,
               fc_lease_nonce = None, fc_lease_until = None, fc_next_attempt = ts,
               fc_error_class = None\<rparr>
      in case coordination_checks r of
           Some e \<Rightarrow> Inl e
         | None \<Rightarrow>
             if list_ex (\<lambda>x. fc_key x = wu_Key u) (coordination d) then Inr ((), d)
             else Inr ((), d\<lparr>coordination := coordination d @ [r]\<rparr>))"

definition claimable :: "WorkUnit \<Rightarrow> bool \<Rightarrow> int \<Rightarrow> coordination_row \<Rightarrow> bool" where
  "claimable u force ts r \<longleftrightarrow>
     fc_key r = wu_Key u \<and> fc_series r = se_ID (wu_Series u) \<and> fc_base r = se_Base (wu_Series u)
     \<and> fc_quote r = se_Quote (wu_Series u) \<and> fc_kind r = wu_Kind u
     \<and> (case fc_lease_until r of None \<Rightarrow> True | Some t \<Rightarrow> t \<le> ts)
     \<and> fc_next_attempt r \<le> ts
     \<and> (force
        \<or> fc_kind r = ''latest'' \<and> (fc_completed_at r = None \<or> expired_at ts r)
        \<or> fc_kind r = ''range'' \<and>
            (case fc_covered_until r of None \<Rightarrow> True
             | Some c \<Rightarrow> c < wu_FetchTo u \<or> \<not> wu_Permanent u \<and> expired_at ts r))"

definition is_nonce_v4 :: "('u, 'd) lib \<Rightarrow> string \<Rightarrow> bool" where
  "is_nonce_v4 L n = (case uuid_Parse L n of None \<Rightarrow> False | Some u \<Rightarrow> uuid_Version L u = 4)"

definition lease_query ::
  "('u, 'd) lib \<Rightarrow> WorkUnit \<Rightarrow> string \<Rightarrow> int \<Rightarrow> bool \<Rightarrow> int \<Rightarrow> database \<Rightarrow> (string list \<times> database) result" where
  "lease_query L u nonce micros force ts d =
     (let hit = claimable u force ts;
          rows = filter hit (coordination d)
      in if rows \<noteq> [] \<and> \<not> is_nonce_v4 L nonce then
           Inl (check_violation ''sie_exchange_rate_fetch_lease_nonce_v4'')
         else Inr (map fc_key rows, d\<lparr>coordination :=
           map (\<lambda>r. if hit r then r\<lparr>fc_lease_nonce := Some nonce, fc_lease_until := Some (ts + micros)\<rparr> else r)
             (coordination d)\<rparr>))"

fun claim_loop ::
  "('u, 'd) lib \<Rightarrow> string \<Rightarrow> int \<Rightarrow> bool \<Rightarrow> WorkUnit list \<Rightarrow> WorkUnit list \<Rightarrow> WorkUnit list m" where
  "claim_loop L nonce micros force [] claimed = return_m claimed"
| "claim_loop L nonce micros force (u # us) claimed =
     bind_m (exec_tx (\<lambda>ts _. insert_coordination u ts)) (\<lambda>_.
     bind_m (try_m (bind_m (exec_tx (\<lambda>ts _. lease_query L u nonce micros force ts)) scan_row)) (\<lambda>r.
     case r of
       Inl e \<Rightarrow> if errors_Is e ErrNoRows then claim_loop L nonce micros force us claimed else fail_m e
     | Inr _ \<Rightarrow> claim_loop L nonce micros force us (claimed @ [u])))"

definition Claim ::
  "('u, 'd) lib \<Rightarrow> WorkUnit list \<Rightarrow> string \<Rightarrow> int \<Rightarrow> bool \<Rightarrow> WorkUnit list m" where
  "Claim L units nonce leaseDuration force =
     bind_m begin_tx (\<lambda>_.
     defer_m
       (bind_m (claim_loop L nonce (Microseconds leaseDuration) force units []) (\<lambda>claimed.
        bind_m commit_tx (\<lambda>_. return_m claimed)))
       rollback_tx)"

section \<open>Observations\<close>

definition same_observation :: "observation_row \<Rightarrow> observation_row \<Rightarrow> bool" where
  "same_observation x y \<longleftrightarrow> ob_series x = ob_series y \<and> ob_base x = ob_base y
     \<and> ob_quote x = ob_quote y \<and> ob_observed_on x = ob_observed_on y"

text \<open>The view \<^verbatim>\<open>current_sie_exchange_rates\<close>: \<^verbatim>\<open>DISTINCT ON\<close> the key, newest revision first.\<close>

definition current_rates :: "database \<Rightarrow> observation_row list" where
  "current_rates d =
     filter (\<lambda>x. \<not> list_ex (\<lambda>y. same_observation x y \<and> ob_revision x < ob_revision y) (observations d))
       (observations d)"

definition observation_checks :: "database \<Rightarrow> observation_row \<Rightarrow> go_error option" where
  "observation_checks d x = first_violation
     [(\<not> currency_shape (ob_base x), check_violation ''sie_exchange_rate_observations_base_currency''),
      (ob_base x = ob_quote x, check_violation ''sie_exchange_rate_observations_distinct_currencies''),
      (\<not> currency_shape (ob_quote x), check_violation ''sie_exchange_rate_observations_quote_currency''),
      (\<not> series_canonical (ob_series x), check_violation ''sie_exchange_rate_observations_series_canonical''),
      (\<not> 0 < ob_value x, check_violation ''sie_exchange_rate_observations_value_positive''),
      (list_ex (\<lambda>y. ob_uuid y = ob_uuid x) (observations d), unique_violation ''sie_exchange_rate_observations_pkey''),
      (list_ex (\<lambda>y. ob_import y = ob_import x \<and> same_observation y x) (observations d),
        unique_violation ''sie_exchange_rate_observations_uuid_revision_unique''),
      (\<not> list_ex (\<lambda>i. im_uuid i = ob_import x) (rate_imports d),
        foreign_key_violation ''sie_exchange_rate_observations_import_uuid_fkey'')]"

definition insert_observation ::
  "('u, 'd) lib \<Rightarrow> string \<Rightarrow> Series \<Rightarrow> int \<Rightarrow> string \<Rightarrow> int \<Rightarrow> database \<Rightarrow> (unit \<times> database) result" where
  "insert_observation L importID s date valueText ts d =
     bind_r (numeric_param L valueText) (\<lambda>value.
     if list_ex (\<lambda>x. ob_series x = se_ID s \<and> ob_base x = se_Base s \<and> ob_quote x = se_Quote s
          \<and> ob_observed_on x = date \<and> ob_value x = value) (current_rates d)
     then Inr ((), d)
     else case draw_uuid L d of (u, d1) \<Rightarrow>
       let x = \<lparr>ob_uuid = u, ob_import = importID, ob_series = se_ID s, ob_base = se_Base s,
                ob_quote = se_Quote s, ob_observed_on = date, ob_value = value, ob_recorded_at = ts,
                ob_revision = next_revision d\<rparr>
       in case observation_checks d x of
            Some e \<Rightarrow> Inl e
          | None \<Rightarrow> Inr ((), d1\<lparr>observations := observations d1 @ [x], next_revision := Suc (next_revision d1)\<rparr>))"

section \<open>Complete\<close>

text \<open>
  \<open>jsonb\<close> is PostgreSQL's cast of text to \<^verbatim>\<open>jsonb\<close>: the size of the stored value's text, or \<open>None\<close> when
  the cast fails. \<open>json_Valid\<close> is \<^verbatim>\<open>json.Valid\<close>.
\<close>

definition insert_import ::
  "('u, 'd) lib \<Rightarrow> (string \<Rightarrow> nat option) \<Rightarrow> FetchRequest \<Rightarrow> 'd FetchResult \<Rightarrow> database
     \<Rightarrow> (string list \<times> database) result" where
  "insert_import L jsonb request r d =
     (case jsonb (fe_Response r) of
        None \<Rightarrow> Inl (PgError ''22P02'' '''')
      | Some bytes \<Rightarrow>
          (case draw_uuid L d of (u, d1) \<Rightarrow>
           let i = \<lparr>im_uuid = u, im_kind = fr_Kind request, im_series = fr_SeriesIDs request,
                    im_period = (if fr_Kind request = FetchRange then Some (fr_From request, fr_To request) else None),
                    im_response = fe_Response r, im_digest = Sum256 (fe_Response r)\<rparr>
           in case first_violation
                [(im_kind i \<noteq> ''latest'' \<and> im_kind i \<noteq> ''range'', check_violation ''sie_exchange_rate_imports_kind_known''),
                 (\<not> (case im_period i of None \<Rightarrow> im_kind i = ''latest''
                     | Some (s, e) \<Rightarrow> im_kind i = ''range'' \<and> s \<le> e),
                   check_violation ''sie_exchange_rate_imports_period_shape''),
                 (length (im_digest i) \<noteq> 32, check_violation ''sie_exchange_rate_imports_response_sha256''),
                 (1048576 < bytes, check_violation ''sie_exchange_rate_imports_response_size''),
                 (im_series i = [] \<or> \<not> list_all series_canonical (im_series i),
                   check_violation ''sie_exchange_rate_imports_series_canonical''),
                 (20 < length (im_series i), check_violation ''sie_exchange_rate_imports_series_count''),
                 (list_ex (\<lambda>x. im_uuid x = u) (rate_imports d), unique_violation ''sie_exchange_rate_imports_pkey'')] of
                Some e \<Rightarrow> Inl e
              | None \<Rightarrow> Inr ([u], d1\<lparr>rate_imports := rate_imports d1 @ [i]\<rparr>)))"

text \<open>\<^verbatim>\<open>SELECT lease_nonce = $2\<close>: \<open>None\<close> for \<^verbatim>\<open>NULL\<close>, which does not scan into a \<^verbatim>\<open>bool\<close>.\<close>

definition ownedQuery :: "string \<Rightarrow> string \<Rightarrow> database \<Rightarrow> bool option list" where
  "ownedQuery key nonce d =
     [map_option (\<lambda>n. n = nonce) (fc_lease_nonce r). r \<leftarrow> coordination d, fc_key r = key]"

fun check_owned :: "string \<Rightarrow> WorkUnit list \<Rightarrow> unit m" where
  "check_owned nonce [] = return_m ()"
| "check_owned nonce (u # us) =
     bind_m (query_tx (\<lambda>_ _. ownedQuery (wu_Key u) nonce)) (\<lambda>rows.
     bind_m (scan_row rows) (\<lambda>owned.
     case owned of
       None \<Rightarrow> fail_m (ErrorString ''cannot scan NULL into *bool'')
     | Some b \<Rightarrow> if \<not> b then fail_m lease_lost else check_owned nonce us))"

definition seriesByID :: "WorkUnit list \<Rightarrow> string \<Rightarrow> Series option" where
  "seriesByID units = map_of (rev (map (\<lambda>u. (se_ID (wu_Series u), wu_Series u)) units))"

definition observation_ok ::
  "('u, 'd) lib \<Rightarrow> FetchRequest \<Rightarrow> WorkUnit list \<Rightarrow> 'd ProviderObservation \<Rightarrow> Series result" where
  "observation_ok L request units x =
     (case seriesByID units (po_SeriesID x) of
        None \<Rightarrow> Inl ErrInvalidObservation
      | Some s \<Rightarrow>
          if \<not> dec_IsPositive L (po_Value x) \<or> po_Date x = zero_day then Inl ErrInvalidObservation
          else if fr_Kind request = FetchRange \<and> (po_Date x < fr_From request \<or> fr_To request < po_Date x) then
            Inl ErrInvalidObservation
          else Inr s)"

fun store_observations ::
  "('u, 'd) lib \<Rightarrow> string \<Rightarrow> FetchRequest \<Rightarrow> WorkUnit list \<Rightarrow> 'd ProviderObservation list \<Rightarrow> unit m" where
  "store_observations L importID request units [] = return_m ()"
| "store_observations L importID request units (x # xs) =
     bind_m (lift_r (observation_ok L request units x)) (\<lambda>s.
     bind_m (exec_tx (\<lambda>_ _ d. Inr ((), d))) (\<lambda>_.
     bind_m (exec_tx (\<lambda>ts _. insert_observation L importID s (po_Date x) (dec_String L (po_Value x)) ts)) (\<lambda>_.
     store_observations L importID request units xs)))"

definition complete_row :: "int option \<Rightarrow> int \<Rightarrow> int \<Rightarrow> coordination_row \<Rightarrow> coordination_row" where
  "complete_row coveredUntil freshMicros ts r = r\<lparr>
     fc_covered_until := (case coveredUntil of
        None \<Rightarrow> fc_covered_until r
      | Some c \<Rightarrow> (case fc_covered_until r of
          None \<Rightarrow> Some c | Some old \<Rightarrow> if old < c then Some c else Some old)),
     fc_completed_at := Some ts,
     fc_fresh_until := (if 0 < freshMicros then Some (ts + freshMicros) else None),
     fc_lease_nonce := None, fc_lease_until := None, fc_next_attempt := ts, fc_error_class := None\<rparr>"

text \<open>
  \<^verbatim>\<open>UPDATE ... WHERE work_key = $1 AND lease_nonce = $2\<close>: the number of rows and the new table.
\<close>

definition update_leased ::
  "string \<Rightarrow> string \<Rightarrow> (coordination_row \<Rightarrow> coordination_row) \<Rightarrow> database \<Rightarrow> (nat \<times> database) result" where
  "update_leased key nonce f d =
     (let hit = (\<lambda>r. fc_key r = key \<and> fc_lease_nonce r = Some nonce);
          table = map (\<lambda>r. if hit r then f r else r) (coordination d)
      in case List.map_filter (\<lambda>r. if hit r then coordination_checks (f r) else None) (coordination d) of
           e # _ \<Rightarrow> Inl e
         | [] \<Rightarrow> Inr (length (filter hit (coordination d)), d\<lparr>coordination := table\<rparr>))"

fun complete_units :: "string \<Rightarrow> FetchRequest \<Rightarrow> int \<Rightarrow> WorkUnit list \<Rightarrow> unit m" where
  "complete_units nonce request freshFor [] = return_m ()"
| "complete_units nonce request freshFor (u # us) =
     (let coveredUntil = (if wu_Kind u = FetchRange then Some (fr_To request) else None);
          freshMicros = (if wu_Kind u = FetchLatest \<or> \<not> wu_Permanent u then Microseconds freshFor else 0)
      in bind_m (exec_tx (\<lambda>ts _. update_leased (wu_Key u) nonce (complete_row coveredUntil freshMicros ts))) (\<lambda>n.
         if n \<noteq> 1 then fail_m lease_lost else complete_units nonce request freshFor us))"

definition Complete ::
  "('u, 'd) lib \<Rightarrow> (string \<Rightarrow> bool) \<Rightarrow> (string \<Rightarrow> nat option) \<Rightarrow> string \<Rightarrow> WorkUnit list \<Rightarrow> FetchRequest
     \<Rightarrow> 'd FetchResult \<Rightarrow> int \<Rightarrow> unit m" where
  "Complete L json_Valid jsonb nonce units request r freshFor =
     (if units = [] \<or> \<not> json_Valid (fe_Response r) then fail_m ErrInvalidObservation
      else
        bind_m begin_tx (\<lambda>_.
        defer_m
          (bind_m (check_owned nonce units) (\<lambda>_.
           bind_m (exec_tx (\<lambda>_ _. insert_import L jsonb request r)) (\<lambda>rows.
           bind_m (scan_row rows) (\<lambda>importID.
           bind_m (store_observations L importID request units (fe_Observations r)) (\<lambda>_.
           bind_m (complete_units nonce request freshFor units) (\<lambda>_. commit_tx))))))
          rollback_tx))"

section \<open>Fail\<close>

fun Fail :: "string \<Rightarrow> WorkUnit list \<Rightarrow> string \<Rightarrow> int \<Rightarrow> unit m" where
  "Fail nonce [] errorClass retryAfter = return_m ()"
| "Fail nonce (u # us) errorClass retryAfter =
     bind_m (exec_pool (\<lambda>ts. update_leased (wu_Key u) nonce (\<lambda>r. r\<lparr>fc_lease_nonce := None,
       fc_lease_until := None, fc_next_attempt := ts + Microseconds retryAfter,
       fc_error_class := Some errorClass\<rparr>))) (\<lambda>n.
     if n \<noteq> 1 then fail_m lease_lost else Fail nonce us errorClass retryAfter)"

section \<open>Reading observations\<close>

type_synonym rate_out = "string \<times> string \<times> string \<times> string \<times> int \<times> string \<times> int"

definition rate_out :: "('u, 'd) lib \<Rightarrow> observation_row \<Rightarrow> rate_out" where
  "rate_out L x = (ob_uuid x, ob_series x, ob_base x, ob_quote x, ob_observed_on x,
     pg_numeric_out L (ob_value x), ob_recorded_at x)"

definition exchangeRateDecimal :: "('u, 'd) lib \<Rightarrow> string \<Rightarrow> 'd result" where
  "exchangeRateDecimal L v =
     (case dec_NewFromString L v of
        None \<Rightarrow> Inl ErrInvalidObservation
      | Some parsed \<Rightarrow> if \<not> dec_IsPositive L parsed then Inl ErrInvalidObservation else Inr parsed)"

definition scanRate :: "('u, 'd) lib \<Rightarrow> rate_out \<Rightarrow> 'd Observation result" where
  "scanRate L = (\<lambda>(rev_id, series, base, quote, date, value, recorded).
     bind_r (exchangeRateDecimal L value) (\<lambda>parsed.
     Inr \<lparr>on_RevisionID = rev_id, on_SeriesID = series, on_Base = base, on_Quote = quote,
          on_Date = date, on_Value = parsed, on_RecordedAt = go_instant recorded, on_Stale = False\<rparr>))"

text \<open>The view has one row per date, so \<^verbatim>\<open>ORDER BY observed_on DESC LIMIT 1\<close> is unambiguous.\<close>

definition latestRateQuery :: "('u, 'd) lib \<Rightarrow> Series \<Rightarrow> database \<Rightarrow> rate_out list" where
  "latestRateQuery L s d =
     take 1 (map (rate_out L) (rev (sort_key ob_observed_on
       [x. x \<leftarrow> current_rates d, ob_series x = se_ID s, ob_base x = se_Base s, ob_quote x = se_Quote s])))"

fun latest_loop :: "('u, 'd) lib \<Rightarrow> Series list \<Rightarrow> 'd Observation list \<Rightarrow> 'd Observation list m" where
  "latest_loop L [] acc = return_m acc"
| "latest_loop L (s # ss) acc =
     bind_m (try_m (bind_m (query_pool (\<lambda>_. latestRateQuery L s)) (\<lambda>rows.
                    bind_m (scan_row rows) (\<lambda>row. lift_r (scanRate L row))))) (\<lambda>r.
     case r of
       Inl e \<Rightarrow> if errors_Is e ErrNoRows then latest_loop L ss acc else fail_m e
     | Inr x \<Rightarrow> latest_loop L ss (acc @ [x]))"

definition LatestObservations :: "('u, 'd) lib \<Rightarrow> Series list \<Rightarrow> 'd Observation list m" where
  "LatestObservations L series = latest_loop L series []"

definition rangeRateQuery :: "('u, 'd) lib \<Rightarrow> Series list \<Rightarrow> int \<Rightarrow> int \<Rightarrow> database \<Rightarrow> rate_out list" where
  "rangeRateQuery L series from to d =
     map (rate_out L) (sort_key (\<lambda>x. (ob_series x, ob_observed_on x))
       [x. x \<leftarrow> current_rates d, s \<leftarrow> series, ob_series x = se_ID s, ob_base x = se_Base s,
           ob_quote x = se_Quote s, from \<le> ob_observed_on x \<and> ob_observed_on x \<le> to])"

fun scan_rates :: "('u, 'd) lib \<Rightarrow> rate_out list \<Rightarrow> 'd Observation list \<Rightarrow> 'd Observation list m" where
  "scan_rates L [] acc = bind_m (exec_pool (\<lambda>_ d. Inr ((), d))) (\<lambda>_. return_m acc)"
| "scan_rates L (row # rows) acc =
     bind_m (exec_pool (\<lambda>_ d. Inr ((), d))) (\<lambda>_.
     bind_m (lift_r (scanRate L row)) (\<lambda>x. scan_rates L rows (acc @ [x])))"

definition RangeObservations ::
  "('u, 'd) lib \<Rightarrow> Series list \<Rightarrow> int \<Rightarrow> int \<Rightarrow> 'd Observation list m" where
  "RangeObservations L series from to =
     bind_m (query_pool (\<lambda>_. rangeRateQuery L series from to)) (\<lambda>rows. scan_rates L rows [])"

section \<open>Provider state\<close>

definition ProviderBlockedUntil :: "int m" where
  "ProviderBlockedUntil =
     bind_m (query_pool (\<lambda>_ d. [provider_blocked_until d])) (\<lambda>rows.
     bind_m (scan_row rows) (\<lambda>blockedUntil.
     return_m (case blockedUntil of None \<Rightarrow> zero_time | Some t \<Rightarrow> go_instant t)))"

definition BlockProviderUntil :: "int \<Rightarrow> unit m" where
  "BlockProviderUntil blockedUntil =
     exec_pool (\<lambda>_ d. Inr ((), d\<lparr>provider_blocked_until :=
       (case provider_blocked_until d of
          None \<Rightarrow> Some (pg_instant blockedUntil)
        | Some t \<Rightarrow> if t < pg_instant blockedUntil then Some (pg_instant blockedUntil) else Some t)\<rparr>))"

end
