(* ===== verification/Event_Store.thy ===== *)
theory Event_Store
  imports Store Rates_Store
begin

text \<open>
  \<^verbatim>\<open>eventing/model.go\<close> and \<^verbatim>\<open>postgres/events.go\<close>: integration events are references to committed facts;
  their envelopes are rebuilt from the facts, and a delivery row per destination carries the lease,
  the attempts and the delivery mark.
\<close>

section \<open>model.go\<close>

definition TableSaleOffers :: string where "TableSaleOffers = ''sale_offers''"
definition TablePurchases :: string where "TablePurchases = ''purchases''"
definition TypeSaleOfferCreated :: string where "TypeSaleOfferCreated = ''bond_exchange.sale_offer.created''"
definition TypePurchaseRecorded :: string where "TypePurchaseRecorded = ''bond_exchange.purchase.recorded''"

record SourceRef =
  sr_TableName :: string
  sr_ID :: string

record SaleOfferCreated =
  sc_ID :: string
  sc_BondSeries :: string
  sc_Price :: string
  sc_CurrencyCode :: string

record PurchaseRecorded =
  pd_SaleOfferID :: string
  pd_BondSeries :: string
  pd_Price :: string
  pd_CurrencyCode :: string
  pd_BoughtAt :: int

datatype event_data = OfferData SaleOfferCreated | PurchaseData PurchaseRecorded

record Envelope =
  en_ID :: string
  en_Source :: SourceRef
  en_Type :: string
  en_SchemaVersion :: nat
  en_CompletedAt :: int
  en_Data :: event_data

record Summary =
  su_Attempted :: nat
  su_Delivered :: nat
  su_Failed :: nat
  su_Remaining :: nat

section \<open>LoadEvent\<close>

definition eventQuery :: "SourceRef \<Rightarrow> database \<Rightarrow> (string \<times> nat \<times> int) list" where
  "eventQuery ref d =
     [(ev_uuid e, ev_version e, ev_completed_at e). e \<leftarrow> integration_events d,
        ev_table e = sr_TableName ref, ev_source e = sr_ID ref]"

text \<open>Version 1 reads the offer's own terms, version 2 its canonical terms.\<close>

definition offerTerms :: "nat \<Rightarrow> database \<Rightarrow> sale_offer_row \<Rightarrow> (rat \<times> string) list" where
  "offerTerms version d s =
     (if version = 2 then [(ct_price c, ct_currency c). c \<leftarrow> canonical_terms d, ct_offer c = of_uuid s]
      else [(of_price s, of_currency s)])"

definition offerPayloadQuery ::
  "('u, 'd) lib \<Rightarrow> nat \<Rightarrow> string \<Rightarrow> database \<Rightarrow> (string \<times> string \<times> string \<times> string) list" where
  "offerPayloadQuery L version i d =
     [(of_uuid s, bo_series b, pg_numeric_out L price, currency).
        s \<leftarrow> sale_offers d, of_uuid s = i, (price, currency) \<leftarrow> offerTerms version d s,
        b \<leftarrow> bonds d, bo_uuid b = of_bond s]"

definition purchasePayloadQuery ::
  "('u, 'd) lib \<Rightarrow> nat \<Rightarrow> string \<Rightarrow> database \<Rightarrow> (string \<times> string \<times> string \<times> string \<times> int) list" where
  "purchasePayloadQuery L version i d =
     [(pc_offer p, bo_series b, pg_numeric_out L price, currency, pc_bought_at p).
        p \<leftarrow> purchases d, pc_uuid p = i, s \<leftarrow> sale_offers d, of_uuid s = pc_offer p,
        (price, currency) \<leftarrow> offerTerms version d s, b \<leftarrow> bonds d, bo_uuid b = of_bond s]"

text \<open>\<^verbatim>\<open>errors.Is(err, pgx.ErrNoRows)\<close> after the payload query: the source fact is missing.\<close>

definition payload_row :: "'a result \<Rightarrow> 'a m" where
  "payload_row r = (case r of
     Inl e \<Rightarrow> fail_m (if errors_Is e ErrNoRows then Errorf ''%w: source fact is missing'' [ErrUnsupportedEvent] else e)
   | Inr row \<Rightarrow> return_m row)"

definition LoadEvent :: "('u, 'd) lib \<Rightarrow> SourceRef \<Rightarrow> Envelope m" where
  "LoadEvent L ref =
     bind_m (query_pool (\<lambda>_. eventQuery ref)) (\<lambda>rows.
     bind_m (scan_row rows) (\<lambda>(envelopeID, version, completedAt).
     if version \<noteq> 1 \<and> version \<noteq> 2 then fail_m ErrUnsupportedEvent
     else if sr_TableName ref = TableSaleOffers then
       bind_m (try_m (bind_m (query_pool (\<lambda>_. offerPayloadQuery L version (sr_ID ref))) scan_row)) (\<lambda>r.
       bind_m (payload_row r) (\<lambda>(i, series, priceText, currency).
       bind_m (lift_r (ParsePrice L priceText)) (\<lambda>price.
       return_m \<lparr>en_ID = envelopeID, en_Source = ref, en_Type = TypeSaleOfferCreated,
                 en_SchemaVersion = version, en_CompletedAt = go_instant completedAt,
                 en_Data = OfferData \<lparr>sc_ID = i, sc_BondSeries = series, sc_Price = dec_String L price,
                                      sc_CurrencyCode = currency\<rparr>\<rparr>)))
     else if sr_TableName ref = TablePurchases then
       bind_m (try_m (bind_m (query_pool (\<lambda>_. purchasePayloadQuery L version (sr_ID ref))) scan_row)) (\<lambda>r.
       bind_m (payload_row r) (\<lambda>(offer, series, priceText, currency, boughtAt).
       bind_m (lift_r (ParsePrice L priceText)) (\<lambda>price.
       return_m \<lparr>en_ID = envelopeID, en_Source = ref, en_Type = TypePurchaseRecorded,
                 en_SchemaVersion = version, en_CompletedAt = go_instant completedAt,
                 en_Data = PurchaseData \<lparr>pd_SaleOfferID = offer, pd_BondSeries = series,
                    pd_Price = dec_String L price, pd_CurrencyCode = currency,
                    pd_BoughtAt = go_instant boughtAt\<rparr>\<rparr>)))
     else fail_m ErrUnsupportedEvent))"

section \<open>Leases\<close>

definition event_ids :: "SourceRef \<Rightarrow> database \<Rightarrow> string list" where
  "event_ids ref d = [ev_uuid e. e \<leftarrow> integration_events d, ev_table e = sr_TableName ref, ev_source e = sr_ID ref]"

text \<open>
  The upsert for one event: a new row, or a conflicting row that is undelivered, not leased and due
  (or forced). \<open>None\<close> when the conflict clause skipped it.
\<close>

definition leasable :: "bool \<Rightarrow> int \<Rightarrow> delivery_row \<Rightarrow> bool" where
  "leasable force ts r \<longleftrightarrow> dl_delivered_at r = None
     \<and> (case dl_lease_until r of None \<Rightarrow> True | Some t \<Rightarrow> t \<le> ts)
     \<and> (force \<or> dl_next_attempt r \<le> ts)"

definition same_delivery :: "string \<Rightarrow> string \<Rightarrow> delivery_row \<Rightarrow> bool" where
  "same_delivery destination event r \<longleftrightarrow> dl_destination r = destination \<and> dl_event r = event"

definition lease_event ::
  "('u, 'd) lib \<Rightarrow> string \<Rightarrow> string \<Rightarrow> int \<Rightarrow> bool \<Rightarrow> int \<Rightarrow> string \<Rightarrow> database \<Rightarrow> (nat option \<times> database) result" where
  "lease_event L destination nonce micros force ts event d =
     (if destination = '''' then Inl (check_violation ''integration_event_deliveries_destination_not_empty'')
      else if \<not> is_nonce_v4 L nonce then Inl (check_violation ''integration_event_deliveries_lease_nonce_v4'')
      else case find (same_delivery destination event) (deliveries d) of
        None \<Rightarrow> Inr (Some 1, d\<lparr>deliveries := deliveries d @
          [\<lparr>dl_destination = destination, dl_event = event, dl_attempts = 1, dl_lease_nonce = Some nonce,
            dl_lease_until = Some (ts + micros), dl_next_attempt = ts, dl_delivered_at = None,
            dl_error_class = None\<rparr>]\<rparr>)
      | Some r \<Rightarrow>
          if leasable force ts r then
            Inr (Some (dl_attempts r + 1), d\<lparr>deliveries := map (\<lambda>x. if same_delivery destination event x
              then x\<lparr>dl_attempts := dl_attempts r + 1, dl_lease_nonce := Some nonce,
                     dl_lease_until := Some (ts + micros)\<rparr> else x) (deliveries d)\<rparr>)
          else Inr (None, d))"

fun lease_events ::
  "('u, 'd) lib \<Rightarrow> string \<Rightarrow> string \<Rightarrow> int \<Rightarrow> bool \<Rightarrow> int \<Rightarrow> string list \<Rightarrow> database
     \<Rightarrow> (nat list \<times> database) result" where
  "lease_events L destination nonce micros force ts [] d = Inr ([], d)"
| "lease_events L destination nonce micros force ts (event # events) d =
     (case lease_event L destination nonce micros force ts event d of
        Inl e \<Rightarrow> Inl e
      | Inr (n, d1) \<Rightarrow>
          (case lease_events L destination nonce micros force ts events d1 of
             Inl e \<Rightarrow> Inl e
           | Inr (ns, d2) \<Rightarrow> Inr (case n of None \<Rightarrow> ns | Some k \<Rightarrow> k # ns, d2)))"

definition ClaimEvent ::
  "('u, 'd) lib \<Rightarrow> string \<Rightarrow> SourceRef \<Rightarrow> string \<Rightarrow> int \<Rightarrow> bool \<Rightarrow> (nat \<times> bool) m" where
  "ClaimEvent L destination ref nonce leaseDuration force =
     bind_m (try_m (bind_m (exec_pool (\<lambda>ts d.
               lease_events L destination nonce (Microseconds leaseDuration) force ts (event_ids ref d) d))
             scan_row)) (\<lambda>r.
     case r of
       Inl e \<Rightarrow> if errors_Is e ErrNoRows then return_m (0, False) else fail_m e
     | Inr attempt \<Rightarrow> return_m (attempt, True))"

definition event_lease_lost :: go_error where
  "event_lease_lost = ErrorString ''integration event delivery lease was lost''"

text \<open>
  The updates of a delivery under its lease. \<^verbatim>\<open>event_uuid = (SELECT ...)\<close> compares with the one event of
  the source; with none it is \<^verbatim>\<open>NULL\<close>, with several the statement fails.
\<close>

definition update_delivery ::
  "string \<Rightarrow> SourceRef \<Rightarrow> string \<Rightarrow> (delivery_row \<Rightarrow> delivery_row) \<Rightarrow> database \<Rightarrow> (nat \<times> database) result" where
  "update_delivery destination ref nonce f d =
     (case event_ids ref d of
        [] \<Rightarrow> Inr (0, d)
      | [event] \<Rightarrow>
          (let hit = (\<lambda>r. same_delivery destination event r \<and> dl_lease_nonce r = Some nonce
                        \<and> dl_delivered_at r = None)
           in Inr (length (filter hit (deliveries d)),
                   d\<lparr>deliveries := map (\<lambda>r. if hit r then f r else r) (deliveries d)\<rparr>))
      | _ \<Rightarrow> Inl (PgError ''21000'' ''''))"

definition MarkEventDelivered :: "string \<Rightarrow> SourceRef \<Rightarrow> string \<Rightarrow> unit m" where
  "MarkEventDelivered destination ref nonce =
     bind_m (exec_pool (\<lambda>ts. update_delivery destination ref nonce (\<lambda>r. r\<lparr>dl_delivered_at := Some ts,
       dl_lease_nonce := None, dl_lease_until := None, dl_error_class := None\<rparr>))) (\<lambda>n.
     if n \<noteq> 1 then fail_m event_lease_lost else return_m ())"

definition MarkEventFailed :: "string \<Rightarrow> SourceRef \<Rightarrow> string \<Rightarrow> string \<Rightarrow> int \<Rightarrow> unit m" where
  "MarkEventFailed destination ref nonce errorClass retryAfter =
     bind_m (exec_pool (\<lambda>ts. update_delivery destination ref nonce (\<lambda>r. r\<lparr>dl_lease_nonce := None,
       dl_lease_until := None, dl_next_attempt := ts + Microseconds retryAfter,
       dl_error_class := Some errorClass\<rparr>))) (\<lambda>n.
     if n \<noteq> 1 then fail_m event_lease_lost else return_m ())"

section \<open>Pending events\<close>

definition delivery_of :: "string \<Rightarrow> event_row \<Rightarrow> database \<Rightarrow> delivery_row option" where
  "delivery_of destination e d = find (same_delivery destination (ev_uuid e)) (deliveries d)"

definition undelivered :: "string \<Rightarrow> event_row \<Rightarrow> database \<Rightarrow> bool" where
  "undelivered destination e d =
     (case delivery_of destination e d of None \<Rightarrow> True | Some r \<Rightarrow> dl_delivered_at r = None)"

definition unleased :: "string \<Rightarrow> int \<Rightarrow> event_row \<Rightarrow> database \<Rightarrow> bool" where
  "unleased destination ts e d =
     (case delivery_of destination e d of
        None \<Rightarrow> True
      | Some r \<Rightarrow> (case dl_lease_until r of None \<Rightarrow> True | Some t \<Rightarrow> t \<le> ts))"

definition nil_uuid :: string where "nil_uuid = ''00000000-0000-0000-0000-000000000000''"

text \<open>
  Rows after the cursor in the order of table name and source. \<^verbatim>\<open>NULLIF($3, '')\<close> turns the empty
  identifier of the first page into the nil UUID.
\<close>

definition pendingQuery :: "string \<Rightarrow> SourceRef \<Rightarrow> nat \<Rightarrow> int \<Rightarrow> database \<Rightarrow> SourceRef list" where
  "pendingQuery destination after limit ts d =
     map (\<lambda>e. \<lparr>sr_TableName = ev_table e, sr_ID = ev_source e\<rparr>)
       (take limit (sort_key (\<lambda>e. (ev_table e, ev_source e))
         (filter (\<lambda>e. undelivered destination e d \<and> unleased destination ts e d
            \<and> (sr_TableName after, if sr_ID after = '''' then nil_uuid else sr_ID after) < (ev_table e, ev_source e))
          (integration_events d))))"

fun scan_refs :: "SourceRef list \<Rightarrow> SourceRef list \<Rightarrow> SourceRef list m" where
  "scan_refs [] acc = bind_m (exec_pool (\<lambda>_ d. Inr ((), d))) (\<lambda>_. return_m acc)"
| "scan_refs (ref # refs) acc =
     bind_m (exec_pool (\<lambda>_ d. Inr ((), d))) (\<lambda>_. scan_refs refs (acc @ [ref]))"

definition PendingEvents :: "string \<Rightarrow> SourceRef \<Rightarrow> nat \<Rightarrow> SourceRef list m" where
  "PendingEvents destination after limit =
     bind_m (query_pool (pendingQuery destination after limit)) (\<lambda>rows. scan_refs rows [])"

definition CountPendingEvents :: "string \<Rightarrow> nat m" where
  "CountPendingEvents destination =
     bind_m (query_pool (\<lambda>_ d. [length (filter (\<lambda>e. undelivered destination e d) (integration_events d))])) scan_row"

end
