(* ===== verification/Offer_Intake.thy ===== *)
theory Offer_Intake
  imports Rates_Model
begin

text \<open>
  Package \<^verbatim>\<open>offerintake\<close>: conversion quotes and submissions (\<^verbatim>\<open>model.go\<close>) and the service in front of
  the exchange (\<^verbatim>\<open>service.go\<close>). The exchange, the rates and the repository are interfaces of the code
  and records of operations here; a rates call that never returns is \<open>None\<close>.
\<close>

section \<open>model.go\<close>

definition USD :: CurrencyCode where "USD = ''USD''"
definition FIXSeriesID :: string where "FIXSeriesID = ''SF43718''"
definition RoundingPolicy :: string where "RoundingPolicy = ''half_even_4''"

type_synonym QuoteID = string

definition ParseQuoteID :: "('u, 'd) lib \<Rightarrow> string \<Rightarrow> QuoteID result" where
  "ParseQuoteID L v = (case uuid_Parse L v of
     None \<Rightarrow> Inl ErrInvalidConversionQuote
   | Some u \<Rightarrow> if uuid_Version L u \<noteq> 7 \<or> uuid_String L u \<noteq> v then Inl ErrInvalidConversionQuote else Inr v)"

record 'd Quote =
  qt_ID :: QuoteID
  qt_SellerID :: PrincipalID
  qt_BondSeries :: BondSeries
  qt_SubmittedPrice :: 'd
  qt_MXNPrice :: 'd
  qt_Rate :: 'd
  qt_RateRevisionID :: string
  qt_RateObservedOn :: int
  qt_ExpiresAt :: int

record 'd QuoteDraft =
  qd_BondSeries :: BondSeries
  qd_SubmittedPrice :: 'd
  qd_MXNPrice :: 'd
  qd_RateRevisionID :: string
  qd_RateObservedOn :: int
  qd_ExpiresAt :: int

record 'd Submission =
  sm_BondSeries :: BondSeries
  sm_Price :: 'd
  sm_Currency :: CurrencyCode
  sm_QuoteID :: QuoteID

section \<open>service.go\<close>

record 'd ExchangeApi =
  ex_Buy :: "AccessContext \<Rightarrow> string \<Rightarrow> string \<Rightarrow> 'd Purchase m"
  ex_StreamActiveOffers :: "AccessContext \<Rightarrow> string \<Rightarrow> ('d SaleOffer \<Rightarrow> unit m) option \<Rightarrow> unit m"
  ex_ActiveBondSeries :: "AccessContext \<Rightarrow> BondSeries list m"

text \<open>\<^verbatim>\<open>ReplayConversionQuote\<close> returns a quote and whether it was found: an option.\<close>

record 'd Repository =
  rp_ReplayConversionQuote :: "MutationContext \<Rightarrow> 'd Quote option m"
  rp_CreateConversionQuote :: "MutationContext \<Rightarrow> 'd QuoteDraft \<Rightarrow> 'd Quote m"
  rp_CreateSaleOfferFromSubmission :: "MutationContext \<Rightarrow> 'd Submission \<Rightarrow> 'd SaleOffer m"

type_synonym 'd Rates = "Series list \<Rightarrow> world \<Rightarrow> ('d Observation list result \<times> world) option"

record IntakeConfig =
  ic_QuoteTTL :: int
  ic_MaxObservationAge :: int
  ic_Now :: "(world \<Rightarrow> clock_time \<times> world) option"

record 'd IntakeService =
  is_exchange :: "'d ExchangeApi"
  is_rates :: "'d Rates"
  is_repository :: "'d Repository"
  is_ttl :: int
  is_max_age :: int
  is_now :: "world \<Rightarrow> clock_time \<times> world"

definition NewIntakeService ::
  "(world \<Rightarrow> clock_time \<times> world) \<Rightarrow> 'd ExchangeApi option \<Rightarrow> 'd Rates option \<Rightarrow> 'd Repository option
     \<Rightarrow> IntakeConfig \<Rightarrow> 'd IntakeService result" where
  "NewIntakeService wall exchangeService rates repository config =
     (case (exchangeService, rates, repository) of
        (Some ex, Some ra, Some re) \<Rightarrow>
          Inr \<lparr>is_exchange = ex, is_rates = ra, is_repository = re,
               is_ttl = (if ic_QuoteTTL config \<le> 0 then 5 * ns_minute else ic_QuoteTTL config),
               is_max_age = (if ic_MaxObservationAge config \<le> 0 then 7 * 24 * ns_hour
                             else ic_MaxObservationAge config),
               is_now = (case ic_Now config of None \<Rightarrow> wall | Some now \<Rightarrow> now)\<rparr>
      | _ \<Rightarrow> Inl (ErrorString ''exchange, rate, and offer-intake dependencies are required''))"

definition observationValidationOutcome ::
  "('u, 'd) lib \<Rightarrow> 'd Observation \<Rightarrow> int \<Rightarrow> int \<Rightarrow> string" where
  "observationValidationOutcome L x today maximumAge =
     (if on_SeriesID x \<noteq> FIXSeriesID \<or> on_Base x \<noteq> USD \<or> on_Quote x \<noteq> MXN
         \<or> \<not> dec_IsPositive L (on_Value x) \<or> on_RevisionID x = '''' \<or> on_Date x = zero_day then ''invalid''
      else if on_Stale x then ''stale''
      else if today < on_Date x then ''future''
      else if maximumAge < time_Sub (today * ns_day) (on_Date x * ns_day) then ''over_age''
      else ''accepted'')"

definition fix_series :: Series where
  "fix_series = \<lparr>se_ID = FIXSeriesID, se_Base = USD, se_Quote = MXN\<rparr>"

text \<open>The checks of \<^verbatim>\<open>QuoteSaleOffer\<close> before it calls anything.\<close>

definition quote_request ::
  "('u, 'd) lib \<Rightarrow> AccessContext \<Rightarrow> string \<Rightarrow> string \<Rightarrow> string \<Rightarrow> string \<Rightarrow> (BondSeries \<times> 'd) result" where
  "quote_request L access key bond price currency =
     (if ac_Operation access \<noteq> OperationQuoteSaleOffer \<or> p_ID (ac_Principal access) = '''' then
        Inl ErrInvalidOperation
      else if \<not> IsValidIdempotencyKey L key then Inl ErrInvalidIdempotencyKey
      else bind_r (ParseBondSeries L bond) (\<lambda>series.
           bind_r (ParsePrice L price) (\<lambda>submitted.
           case ParseCurrencyCode currency of
             Inl _ \<Rightarrow> Inl ErrUnsupportedSubmissionCurrency
           | Inr code \<Rightarrow> if code \<noteq> USD then Inl ErrUnsupportedSubmissionCurrency else Inr (series, submitted))))"

text \<open>From the observations to the draft of a quote.\<close>

definition quote_draft ::
  "('u, 'd) lib \<Rightarrow> 'd IntakeService \<Rightarrow> BondSeries \<Rightarrow> 'd \<Rightarrow> 'd Observation list result \<Rightarrow> 'd QuoteDraft m" where
  "quote_draft L sv series submitted loaded =
     (case loaded of
        Inr [x] \<Rightarrow> (\<lambda>w. case is_now sv w of (now, w1) \<Rightarrow>
          (let today = day_of_instant (tm_instant now);
               validation = observationValidationOutcome L x today (is_max_age sv)
           in bind_m (metric_m ''observation_validation'' [validation]) (\<lambda>_.
              if validation \<noteq> ''accepted'' then fail_m ErrExchangeRateUnavailable
              else
                bind_m (metric_m ''observation_age'' []) (\<lambda>_.
                bind_m (lift_r (ParsePrice L (dec_String L
                  (dec_RoundBank L (dec_Mul L submitted (on_Value x)) MonetaryAmountScale)))) (\<lambda>mxnPrice.
                return_m \<lparr>qd_BondSeries = series, qd_SubmittedPrice = submitted, qd_MXNPrice = mxnPrice,
                          qd_RateRevisionID = on_RevisionID x, qd_RateObservedOn = on_Date x,
                          qd_ExpiresAt = tm_instant now + is_ttl sv\<rparr>))) w1))
      | _ \<Rightarrow> fail_m ErrExchangeRateUnavailable)"

definition QuoteSaleOffer ::
  "('u, 'd) lib \<Rightarrow> 'd IntakeService \<Rightarrow> AccessContext \<Rightarrow> string \<Rightarrow> string \<Rightarrow> string \<Rightarrow> string
     \<Rightarrow> world \<Rightarrow> ('d Quote result \<times> world) option" where
  "QuoteSaleOffer L sv access key bond price currency w =
     (case quote_request L access key bond price currency of
        Inl e \<Rightarrow> Some (Inl e, w)
      | Inr (series, submitted) \<Rightarrow>
          (let operation = \<lparr>mc_Access = access, mc_IdempotencyKey = key\<rparr>
           in case rp_ReplayConversionQuote (is_repository sv) operation w of
                (Inl e, w1) \<Rightarrow> Some (Inl e, w1)
              | (Inr (Some replayed), w1) \<Rightarrow> Some (Inr replayed, w1)
              | (Inr None, w1) \<Rightarrow>
                  (case is_rates sv [fix_series] w1 of
                     None \<Rightarrow> None
                   | Some (loaded, w2) \<Rightarrow>
                       Some (bind_m (quote_draft L sv series submitted loaded) (\<lambda>draft.
                         rp_CreateConversionQuote (is_repository sv) operation draft) w2))))"

definition submission_of ::
  "('u, 'd) lib \<Rightarrow> AccessContext \<Rightarrow> string \<Rightarrow> string \<Rightarrow> string \<Rightarrow> string \<Rightarrow> string \<Rightarrow> 'd Submission result" where
  "submission_of L access key bond price currency quoteID =
     (if ac_Operation access \<noteq> OperationCreateSaleOffer \<or> p_ID (ac_Principal access) = '''' then
        Inl ErrInvalidOperation
      else if \<not> IsValidIdempotencyKey L key then Inl ErrInvalidIdempotencyKey
      else bind_r (ParseBondSeries L bond) (\<lambda>series.
           bind_r (ParsePrice L price) (\<lambda>submitted.
           bind_r (ParseCurrencyCode currency) (\<lambda>code.
           bind_r (if code = MXN then if quoteID \<noteq> '''' then Inl ErrConversionQuoteUnavailable else Inr ''''
                   else if code = USD then
                     if quoteID = '''' then Inl ErrConversionQuoteRequired else ParseQuoteID L quoteID
                   else Inl ErrUnsupportedSubmissionCurrency) (\<lambda>parsed.
           Inr \<lparr>sm_BondSeries = series, sm_Price = submitted, sm_Currency = code, sm_QuoteID = parsed\<rparr>)))))"

definition Intake_CreateSaleOffer ::
  "('u, 'd) lib \<Rightarrow> 'd IntakeService \<Rightarrow> AccessContext \<Rightarrow> string \<Rightarrow> string \<Rightarrow> string \<Rightarrow> string \<Rightarrow> string
     \<Rightarrow> 'd SaleOffer m" where
  "Intake_CreateSaleOffer L sv access key bond price currency quoteID =
     bind_m (lift_r (submission_of L access key bond price currency quoteID)) (\<lambda>submission.
     rp_CreateSaleOfferFromSubmission (is_repository sv) \<lparr>mc_Access = access, mc_IdempotencyKey = key\<rparr> submission)"

definition Intake_Buy :: "'d IntakeService \<Rightarrow> AccessContext \<Rightarrow> string \<Rightarrow> string \<Rightarrow> 'd Purchase m" where
  "Intake_Buy sv access key offer = ex_Buy (is_exchange sv) access key offer"

definition Intake_StreamActiveOffers ::
  "'d IntakeService \<Rightarrow> AccessContext \<Rightarrow> string \<Rightarrow> ('d SaleOffer \<Rightarrow> unit m) option \<Rightarrow> unit m" where
  "Intake_StreamActiveOffers sv access bond yield = ex_StreamActiveOffers (is_exchange sv) access bond yield"

definition Intake_ActiveBondSeries :: "'d IntakeService \<Rightarrow> AccessContext \<Rightarrow> BondSeries list m" where
  "Intake_ActiveBondSeries sv access = ex_ActiveBondSeries (is_exchange sv) access"

end
