(* ===== verification/Eventing.thy ===== *)
theory Eventing
  imports Event_Store Offer_Intake
begin

text \<open>
  \<^verbatim>\<open>eventing/dispatcher.go\<close> and \<^verbatim>\<open>eventing/application.go\<close>: delivery of integration events to the
  configured destinations, at once after a mutation and later for what is still pending, and the
  application facade that publishes what the exchange commits.
\<close>

unbundle bit_operations_syntax

section \<open>Publishers and dispatcher\<close>

text \<open>A publisher is code outside the program; it may return, fail or panic.\<close>

datatype publish_reply = Returned "unit result" | Panicked string

type_synonym Publisher = "Envelope \<Rightarrow> world \<Rightarrow> publish_reply \<times> world"

record EventStore =
  es_LoadEvent :: "SourceRef \<Rightarrow> Envelope m"
  es_ClaimEvent :: "string \<Rightarrow> SourceRef \<Rightarrow> string \<Rightarrow> int \<Rightarrow> bool \<Rightarrow> (nat \<times> bool) m"
  es_MarkEventDelivered :: "string \<Rightarrow> SourceRef \<Rightarrow> string \<Rightarrow> unit m"
  es_MarkEventFailed :: "string \<Rightarrow> SourceRef \<Rightarrow> string \<Rightarrow> string \<Rightarrow> int \<Rightarrow> unit m"
  es_PendingEvents :: "string \<Rightarrow> SourceRef \<Rightarrow> nat \<Rightarrow> SourceRef list m"
  es_CountPendingEvents :: "string \<Rightarrow> nat m"

definition postgres_event_store :: "('u, 'd) lib \<Rightarrow> EventStore" where
  "postgres_event_store L =
     \<lparr>es_LoadEvent = LoadEvent L, es_ClaimEvent = ClaimEvent L, es_MarkEventDelivered = MarkEventDelivered,
      es_MarkEventFailed = MarkEventFailed, es_PendingEvents = PendingEvents,
      es_CountPendingEvents = CountPendingEvents\<rparr>"

text \<open>\<open>ds_canceled\<close> is \<^verbatim>\<open>ctx.Err() != nil\<close> of the caller's context.\<close>

record Dispatcher =
  ds_store :: EventStore
  ds_destinations :: "(string \<times> Publisher) list"
  ds_publishLimit :: int
  ds_leasePeriod :: int
  ds_canceled :: "world \<Rightarrow> bool"

definition pendingBatchSize :: nat where "pendingBatchSize = 100"

definition errorsForConfiguration :: "string \<Rightarrow> go_error" where
  "errorsForConfiguration msg = Errorf (''event publisher configuration: '' @ msg) []"

fun register ::
  "(string \<times> Publisher option) list \<Rightarrow> (string \<times> Publisher) list \<Rightarrow> (string \<times> Publisher) list result" where
  "register [] registered = Inr registered"
| "register ((i, publisher) # rest) registered =
     (case publisher of
        None \<Rightarrow> Inl (errorsForConfiguration ''destination ID and publisher are required'')
      | Some p \<Rightarrow>
          if i = '''' then Inl (errorsForConfiguration ''destination ID and publisher are required'')
          else if i \<in> fst ` set registered then Inl (errorsForConfiguration ''destination IDs must be unique'')
          else register rest (registered @ [(i, p)]))"

definition NewDispatcher ::
  "EventStore \<Rightarrow> (string \<times> Publisher option) list \<Rightarrow> int \<Rightarrow> (world \<Rightarrow> bool) \<Rightarrow> Dispatcher result" where
  "NewDispatcher store destinations publishLimit canceled =
     (let limit = (if publishLimit \<le> 0 then 5 * ns_second else publishLimit)
      in bind_r (register destinations []) (\<lambda>registered.
         Inr \<lparr>ds_store = store, ds_destinations = registered, ds_publishLimit = limit,
              ds_leasePeriod = limit + 5 * ns_second, ds_canceled = canceled\<rparr>))"

definition safelyPublish :: "Publisher \<Rightarrow> Envelope \<Rightarrow> unit m" where
  "safelyPublish publisher event w = (case publisher event w of
     (Returned r, w') \<Rightarrow> (r, w')
   | (Panicked t, w') \<Rightarrow> (Inl (Errorf (''event publisher panic: '' @ t) []), w'))"

text \<open>FNV-1a over the source reference, in 32 bits.\<close>

definition fnv_step :: "32 word \<Rightarrow> char \<Rightarrow> 32 word" where
  "fnv_step hash c = (hash XOR of_nat (byte_of c)) * 16777619"

definition retryDelay :: "int \<Rightarrow> SourceRef \<Rightarrow> int" where
  "retryDelay attempt ref =
     (let attempt = (if attempt < 1 then 1 else attempt);
          attempt = (if 10 < attempt then 10 else attempt);
          base = ns_second * 2 ^ nat (attempt - 1);
          base = (if 5 * ns_minute < base then 5 * ns_minute else base);
          hash = foldl fnv_step 2166136261 (sr_TableName ref @ [CHR 0x00] @ sr_ID ref);
          jitter = int (unat hash mod 501) * base div 1000;
          delay = base * 3 div 4 + jitter
      in if 5 * ns_minute < delay then 5 * ns_minute else delay)"

section \<open>Publishing one event\<close>

definition stage_m :: "string \<Rightarrow> string \<Rightarrow> unit m" where
  "stage_m stage outcome = metric_m ''event_stage'' [stage, outcome]"

definition failed_stage :: "string \<Rightarrow> go_error \<Rightarrow> 'a m" where
  "failed_stage stage e = bind_m (stage_m stage ''error'') (\<lambda>_. fail_m e)"

definition newEventNonce :: "string m" where
  "newEventNonce = uuid_NewRandom"

text \<open>
  The load and the publication, with the flag \<^verbatim>\<open>loadFailed\<close> and the error, if any.
\<close>

definition deliver :: "Dispatcher \<Rightarrow> string \<Rightarrow> SourceRef \<Rightarrow> (bool \<times> unit result) m" where
  "deliver ds destination ref =
     bind_m (try_m (es_LoadEvent (ds_store ds) ref)) (\<lambda>loaded.
     case loaded of
       Inl e \<Rightarrow> bind_m (stage_m ''load'' ''error'') (\<lambda>_. return_m (True, Inl e))
     | Inr event \<Rightarrow>
         bind_m (stage_m ''load'' ''succeeded'') (\<lambda>_.
         case map_of (ds_destinations ds) destination of
           None \<Rightarrow> return_m (False, Inl (Errorf ''event publisher panic: runtime.errorString'' []))
         | Some publisher \<Rightarrow>
             bind_m (try_m (safelyPublish publisher event)) (\<lambda>r.
             bind_m (stage_m ''publish'' (if is_ok r then ''succeeded'' else ''error'')) (\<lambda>_.
             return_m (False, r)))))"

definition error_class :: "Dispatcher \<Rightarrow> bool \<Rightarrow> go_error \<Rightarrow> world \<Rightarrow> string" where
  "error_class ds loadFailed err w =
     (if loadFailed then ''event_load_error''
      else if ds_canceled ds w then ''context_canceled''
      else if errors_Is err ContextDeadlineExceeded then ''publisher_timeout''
      else ''publisher_error'')"

text \<open>The result carries \<^verbatim>\<open>delivered\<close>, \<^verbatim>\<open>attempted\<close> and the error together, as the code returns them.\<close>

definition publish_claimed ::
  "Dispatcher \<Rightarrow> string \<Rightarrow> SourceRef \<Rightarrow> string \<Rightarrow> int \<Rightarrow> (bool \<times> bool \<times> go_error option) m" where
  "publish_claimed ds destination ref nonce attempt =
     bind_m (deliver ds destination ref) (\<lambda>(loadFailed, r).
     case r of
       Inr _ \<Rightarrow>
         bind_m (try_m (es_MarkEventDelivered (ds_store ds) destination ref nonce)) (\<lambda>marked.
         case marked of
           Inl e \<Rightarrow>
             bind_m (stage_m ''mark_delivered'' ''error'') (\<lambda>_.
             bind_m (metric_m ''event_delivery'' [''failed'', ''mark_delivery_error'']) (\<lambda>_.
             return_m (False, True, Some e)))
         | Inr _ \<Rightarrow>
             bind_m (stage_m ''mark_delivered'' ''succeeded'') (\<lambda>_.
             bind_m (metric_m ''event_delivery'' [''delivered'', '''']) (\<lambda>_.
             return_m (True, True, None))))
     | Inl err \<Rightarrow> (\<lambda>w.
         let errorClass = error_class ds loadFailed err w
         in bind_m (try_m (es_MarkEventFailed (ds_store ds) destination ref nonce errorClass
                      (retryDelay attempt ref))) (\<lambda>marked.
            case marked of
              Inl e \<Rightarrow>
                bind_m (stage_m ''mark_failed'' ''error'') (\<lambda>_.
                bind_m (metric_m ''event_delivery'' [''failed'', ''mark_failure_error'']) (\<lambda>_.
                return_m (False, True, Some e)))
            | Inr _ \<Rightarrow>
                bind_m (stage_m ''mark_failed'' ''succeeded'') (\<lambda>_.
                bind_m (metric_m ''event_delivery'' [''failed'', errorClass]) (\<lambda>_.
                return_m (False, True, Some err)))) w))"

definition publishOne ::
  "Dispatcher \<Rightarrow> string \<Rightarrow> SourceRef \<Rightarrow> bool \<Rightarrow> (bool \<times> bool \<times> go_error option) m" where
  "publishOne ds destination ref force =
     bind_m (try_m newEventNonce) (\<lambda>drawn.
     case drawn of
       Inl e \<Rightarrow> bind_m (stage_m ''claim'' ''error'') (\<lambda>_. return_m (False, False, Some e))
     | Inr nonce \<Rightarrow>
         bind_m (try_m (es_ClaimEvent (ds_store ds) destination ref nonce (ds_leasePeriod ds) force)) (\<lambda>r.
         case r of
           Inl e \<Rightarrow> bind_m (stage_m ''claim'' ''error'') (\<lambda>_. return_m (False, False, Some e))
         | Inr (attempt, claimed) \<Rightarrow>
             if \<not> claimed then bind_m (stage_m ''claim'' ''skipped'') (\<lambda>_. return_m (False, False, None))
             else
               bind_m (stage_m ''claim'' ''succeeded'') (\<lambda>_.
               publish_claimed ds destination ref nonce (int attempt))))"

definition destinationIDs :: "Dispatcher \<Rightarrow> string list" where
  "destinationIDs ds = sort (map fst (ds_destinations ds))"

definition selectedDestinationIDs :: "Dispatcher \<Rightarrow> string \<Rightarrow> string list result" where
  "selectedDestinationIDs ds destination =
     (if destination = '''' then Inr (destinationIDs ds)
      else if destination \<notin> fst ` set (ds_destinations ds) then Inl ErrUnknownDestination
      else Inr [destination])"

text \<open>\<^verbatim>\<open>Dispatcher.Publish\<close> logs an error and goes on with the next destination.\<close>

fun publish_all :: "Dispatcher \<Rightarrow> SourceRef \<Rightarrow> string list \<Rightarrow> unit m" where
  "publish_all ds ref [] = return_m ()"
| "publish_all ds ref (destination # rest) =
     bind_m (publishOne ds destination ref False) (\<lambda>_. publish_all ds ref rest)"

definition Publish :: "Dispatcher \<Rightarrow> SourceRef \<Rightarrow> unit m" where
  "Publish ds ref = publish_all ds ref (destinationIDs ds)"

section \<open>Publishing what is pending\<close>

text \<open>
  The loop over one page: \<^verbatim>\<open>summary\<close>, \<^verbatim>\<open>after\<close> and \<^verbatim>\<open>claimedAny\<close> after the last reference. A failure
  before an attempt returns from the whole call; \<^verbatim>\<open>summary\<close> is then returned beside the error.
\<close>

type_synonym summary_result = "Summary \<times> go_error option"

fun page_loop ::
  "Dispatcher \<Rightarrow> string \<Rightarrow> SourceRef list \<Rightarrow> Summary \<Rightarrow> SourceRef \<Rightarrow> bool
     \<Rightarrow> (Summary \<times> SourceRef \<times> bool \<times> go_error option) m" where
  "page_loop ds destination [] summary after claimedAny = return_m (summary, after, claimedAny, None)"
| "page_loop ds destination (ref # refs) summary after claimedAny =
     bind_m (publishOne ds destination ref True) (\<lambda>(delivered, attempted, err).
     case err of
       Some e \<Rightarrow>
         if \<not> attempted then return_m (summary, ref, claimedAny, Some e)
         else page_loop ds destination refs
                (summary\<lparr>su_Attempted := su_Attempted summary + 1, su_Failed := su_Failed summary + 1\<rparr>) ref True
     | None \<Rightarrow>
         if delivered then page_loop ds destination refs
                (summary\<lparr>su_Attempted := su_Attempted summary + 1, su_Delivered := su_Delivered summary + 1\<rparr>) ref True
         else page_loop ds destination refs summary ref claimedAny)"

partial_function (option) pages ::
  "Dispatcher \<Rightarrow> string \<Rightarrow> Summary \<Rightarrow> SourceRef \<Rightarrow> world \<Rightarrow> (summary_result \<times> world) option" where
  "pages ds destination summary after w =
     (case es_PendingEvents (ds_store ds) destination after pendingBatchSize w of
        (Inl e, w1) \<Rightarrow> Some ((summary, Some e), snd (stage_m ''scan'' ''error'' w1))
      | (Inr refs, w1) \<Rightarrow>
          (let w2 = snd (stage_m ''scan'' ''succeeded'' w1)
           in if refs = [] then Some ((summary, None), w2)
              else (case page_loop ds destination refs summary after False w2 of
                      (Inl e, w3) \<Rightarrow> Some ((summary, Some e), w3)
                    | (Inr (summary', after', claimedAny, Some e), w3) \<Rightarrow> Some ((summary', Some e), w3)
                    | (Inr (summary', after', claimedAny, None), w3) \<Rightarrow>
                        if \<not> claimedAny \<or> length refs < pendingBatchSize then Some ((summary', None), w3)
                        else pages ds destination summary' after' w3)))"

definition no_ref :: SourceRef where "no_ref = \<lparr>sr_TableName = '''', sr_ID = ''''\<rparr>"

fun publish_destinations ::
  "Dispatcher \<Rightarrow> string list \<Rightarrow> Summary \<Rightarrow> world \<Rightarrow> (summary_result \<times> world) option" where
  "publish_destinations ds [] summary w = Some ((summary, None), w)"
| "publish_destinations ds (selected # rest) summary w =
     (case pages ds selected summary no_ref w of
        None \<Rightarrow> None
      | Some ((summary1, Some e), w1) \<Rightarrow> Some ((summary1, Some e), w1)
      | Some ((summary1, None), w1) \<Rightarrow>
          (case es_CountPendingEvents (ds_store ds) selected w1 of
             (Inl e, w2) \<Rightarrow> Some ((summary1, Some e), snd (stage_m ''count_pending'' ''error'' w2))
           | (Inr remaining, w2) \<Rightarrow>
               publish_destinations ds rest (summary1\<lparr>su_Remaining := su_Remaining summary1 + remaining\<rparr>)
                 (snd (stage_m ''count_pending'' ''succeeded'' w2))))"

definition empty_summary :: Summary where
  "empty_summary = \<lparr>su_Attempted = 0, su_Delivered = 0, su_Failed = 0, su_Remaining = 0\<rparr>"

definition PublishPending :: "Dispatcher \<Rightarrow> string \<Rightarrow> world \<Rightarrow> (summary_result \<times> world) option" where
  "PublishPending ds destination w =
     (if ds_destinations ds = [] then Some ((empty_summary, Some ErrNoPublishers), w)
      else case selectedDestinationIDs ds destination of
        Inl e \<Rightarrow> Some ((empty_summary, Some e), w)
      | Inr selected \<Rightarrow> publish_destinations ds selected empty_summary w)"

section \<open>application.go\<close>

record 'd AppExchange =
  ax_Buy :: "AccessContext \<Rightarrow> string \<Rightarrow> string \<Rightarrow> 'd Purchase m"
  ax_QuoteSaleOffer :: "AccessContext \<Rightarrow> string \<Rightarrow> string \<Rightarrow> string \<Rightarrow> string \<Rightarrow> world \<Rightarrow> ('d Quote result \<times> world) option"
  ax_CreateSaleOffer :: "AccessContext \<Rightarrow> string \<Rightarrow> string \<Rightarrow> string \<Rightarrow> string \<Rightarrow> string \<Rightarrow> 'd SaleOffer m"
  ax_StreamActiveOffers :: "AccessContext \<Rightarrow> string \<Rightarrow> ('d SaleOffer \<Rightarrow> unit m) option \<Rightarrow> unit m"
  ax_ActiveBondSeries :: "AccessContext \<Rightarrow> BondSeries list m"

record 'd Application =
  ap_exchange :: "'d AppExchange"
  ap_authorize :: "AccessContext \<Rightarrow> string \<Rightarrow> unit m"
  ap_dispatcher :: Dispatcher

definition App_QuoteSaleOffer ::
  "'d Application \<Rightarrow> AccessContext \<Rightarrow> string \<Rightarrow> string \<Rightarrow> string \<Rightarrow> string \<Rightarrow> world \<Rightarrow> ('d Quote result \<times> world) option" where
  "App_QuoteSaleOffer app = ax_QuoteSaleOffer (ap_exchange app)"

definition App_Buy :: "'d Application \<Rightarrow> AccessContext \<Rightarrow> string \<Rightarrow> string \<Rightarrow> 'd Purchase m" where
  "App_Buy app access key offer =
     bind_m (ax_Buy (ap_exchange app) access key offer) (\<lambda>purchase.
     bind_m (Publish (ap_dispatcher app) \<lparr>sr_TableName = TablePurchases, sr_ID = pu_ID purchase\<rparr>) (\<lambda>_.
     return_m purchase))"

definition App_CreateSaleOffer ::
  "'d Application \<Rightarrow> AccessContext \<Rightarrow> string \<Rightarrow> string \<Rightarrow> string \<Rightarrow> string \<Rightarrow> string \<Rightarrow> 'd SaleOffer m" where
  "App_CreateSaleOffer app access key bond price currency quoteID =
     bind_m (ax_CreateSaleOffer (ap_exchange app) access key bond price currency quoteID) (\<lambda>offer.
     bind_m (Publish (ap_dispatcher app) \<lparr>sr_TableName = TableSaleOffers, sr_ID = so_ID offer\<rparr>) (\<lambda>_.
     return_m offer))"

definition App_StreamActiveOffers ::
  "'d Application \<Rightarrow> AccessContext \<Rightarrow> string \<Rightarrow> ('d SaleOffer \<Rightarrow> unit m) option \<Rightarrow> unit m" where
  "App_StreamActiveOffers app = ax_StreamActiveOffers (ap_exchange app)"

definition App_ActiveBondSeries :: "'d Application \<Rightarrow> AccessContext \<Rightarrow> BondSeries list m" where
  "App_ActiveBondSeries app = ax_ActiveBondSeries (ap_exchange app)"

definition App_PublishPendingEvents ::
  "'d Application \<Rightarrow> AccessContext \<Rightarrow> string \<Rightarrow> world \<Rightarrow> (summary_result \<times> world) option" where
  "App_PublishPendingEvents app access destination w =
     (if ac_Operation access \<noteq> OperationPublishPendingEvents \<or> p_ID (ac_Principal access) = '''' then
        Some ((empty_summary, Some ErrInvalidOperation), w)
      else (case ap_authorize app access PermissionPublishEvents w of
              (Inl e, w1) \<Rightarrow> Some ((empty_summary, Some e), w1)
            | (Inr _, w1) \<Rightarrow> PublishPending (ap_dispatcher app) destination w1))"

end
