(* ===== verification/Event_Delivery.thy ===== *)
theory Event_Delivery
  imports Eventing Tx_Logic
begin

text \<open>
  Facts about event delivery shared by its properties: what the statements do to the delivery
  table, which parts of the database a dispatcher leaves alone, and how the cursor over pending
  events moves.
\<close>

section \<open>Relations kept by pool statements\<close>

context db_relation
begin

lemma keeps_pool:
  assumes "\<And>t d a d'. q t d = Inr (a, d') \<Longrightarrow> R d d'"
  shows "keeps R (exec_pool q)"
  unfolding keeps_def
proof
  fix w
  obtain f w1 where trip: "trip w = (f, w1)" by (cases "trip w")
  have db: "db w1 = db w" using trip_frame [OF trip] by simp
  show "R (db w) (db (snd (exec_pool q w)))"
  proof (cases "q (stmt_time w1) (db w1)")
    case (Inl e)
    then show ?thesis by (simp add: exec_pool_def trip db rel_refl)
  next
    case (Inr x)
    then obtain a d where x: "q (stmt_time w1) (db w1) = Inr (a, d)" by (cases x) auto
    with assms db have "R (db w) d" by metis
    then show ?thesis using x by (cases "applied f") (simp_all add: exec_pool_def trip db rel_refl)
  qed
qed

lemma keeps_query: "keeps R (query_pool q)"
  unfolding query_pool_def by (rule keeps_pool) (simp add: rel_refl)

lemma keeps_scan: "keeps R (scan_row rows)"
  by (cases rows) (simp_all add: scan_row_def keeps_fail keeps_return)

lemma keeps_lift: "keeps R (lift_r r)"
  by (simp add: keeps_def lift_r_def rel_refl)

lemma keeps_random: "keeps R uuid_NewRandom"
  by (simp add: keeps_def uuid_NewRandom_def rel_refl split: list.splits)

lemmas keeps_basic = keeps_return keeps_fail keeps_metric keeps_scan keeps_lift keeps_query keeps_random

end

section \<open>The delivery table\<close>

definition delivery_key :: "delivery_row \<Rightarrow> string \<times> string" where
  "delivery_key r = (dl_destination r, dl_event r)"

text \<open>One row per destination and event, and a delivered row holds no lease.\<close>

definition wf_deliveries :: "database \<Rightarrow> bool" where
  "wf_deliveries d \<longleftrightarrow> distinct (map delivery_key (deliveries d))
     \<and> (\<forall>r\<in>set (deliveries d). dl_delivered_at r \<noteq> None \<longrightarrow> dl_lease_nonce r = None)"

text \<open>
  How delivery rows change: none disappears, a delivered row never changes again, and attempts are
  only added.
\<close>

definition delivery_grows :: "database \<Rightarrow> database \<Rightarrow> bool" where
  "delivery_grows d d' \<longleftrightarrow> (\<forall>r\<in>set (deliveries d). \<exists>r'\<in>set (deliveries d').
     delivery_key r' = delivery_key r \<and> dl_attempts r \<le> dl_attempts r'
     \<and> (dl_delivered_at r \<noteq> None \<longrightarrow> r' = r))"

lemma delivery_grows_refl [simp]: "delivery_grows d d"
  by (auto simp: delivery_grows_def)

lemma delivery_grows_trans: "delivery_grows a b \<Longrightarrow> delivery_grows b c \<Longrightarrow> delivery_grows a c"
  unfolding delivery_grows_def by (metis (no_types) order_trans)

lemma delivery_grows_map:
  assumes "\<And>r. r \<in> set (deliveries d) \<Longrightarrow> delivery_key (f r) = delivery_key r \<and> dl_attempts r \<le> dl_attempts (f r)
    \<and> (dl_delivered_at r \<noteq> None \<longrightarrow> f r = r)"
  shows "delivery_grows d (d\<lparr>deliveries := map f (deliveries d)\<rparr>)"
  using assms by (auto simp: delivery_grows_def)

lemma wf_deliveries_map:
  assumes "wf_deliveries d" and "\<And>r. r \<in> set (deliveries d) \<Longrightarrow> delivery_key (f r) = delivery_key r
    \<and> (dl_delivered_at (f r) \<noteq> None \<longrightarrow> dl_lease_nonce (f r) = None)"
  shows "wf_deliveries (d\<lparr>deliveries := map f (deliveries d)\<rparr>)"
proof -
  have "map delivery_key (map f (deliveries d)) = map delivery_key (deliveries d)"
    using assms(2) by auto
  then have "distinct (map delivery_key (map f (deliveries d)))"
    using assms(1) by (simp only: wf_deliveries_def)
  with assms(2) show ?thesis by (auto simp: wf_deliveries_def)
qed

lemma same_delivery_key: "same_delivery i e r \<longleftrightarrow> delivery_key r = (i, e)"
  by (auto simp: same_delivery_def delivery_key_def)

lemma find_delivery:
  assumes "wf_deliveries d" and "find (same_delivery i e) (deliveries d) = Some r"
    and "x \<in> set (deliveries d)" and "same_delivery i e x"
  shows "x = r"
proof -
  have "r \<in> set (deliveries d)" "same_delivery i e r"
    using assms(2) by (auto simp: find_Some_iff)
  then show ?thesis
    using assms by (auto simp: wf_deliveries_def same_delivery_key intro: distinct_map_eq [of delivery_key])
qed

lemma lease_event_cases:
  assumes "lease_event L i n us force ts e d = Inr (k, d')"
  obtains (skip) r where "k = None" "d' = d" "find (same_delivery i e) (deliveries d) = Some r" "\<not> leasable force ts r"
  | (insert) "k = Some 1" "find (same_delivery i e) (deliveries d) = None"
      "d' = d\<lparr>deliveries := deliveries d @ [\<lparr>dl_destination = i, dl_event = e, dl_attempts = 1,
         dl_lease_nonce = Some n, dl_lease_until = Some (ts + us), dl_next_attempt = ts,
         dl_delivered_at = None, dl_error_class = None\<rparr>]\<rparr>"
  | (update) r where "k = Some (dl_attempts r + 1)" "find (same_delivery i e) (deliveries d) = Some r"
      "leasable force ts r" "d' = d\<lparr>deliveries := map (\<lambda>x. if same_delivery i e x
         then x\<lparr>dl_attempts := dl_attempts r + 1, dl_lease_nonce := Some n, dl_lease_until := Some (ts + us)\<rparr>
         else x) (deliveries d)\<rparr>"
  using assms unfolding lease_event_def by (auto split: if_splits option.splits)

lemma lease_event_keeps:
  assumes "lease_event L i n us force ts e d = Inr (k, d')"
  shows "integration_events d' = integration_events d" "wf_deliveries d \<Longrightarrow> delivery_grows d d' \<and> wf_deliveries d'"
proof -
  show "integration_events d' = integration_events d"
    using assms by (cases rule: lease_event_cases) auto
  assume wf: "wf_deliveries d"
  from assms show "delivery_grows d d' \<and> wf_deliveries d'"
  proof (cases rule: lease_event_cases)
    case (skip r)
    with wf show ?thesis by simp
  next
    case insert
    have "(i, e) \<notin> delivery_key ` set (deliveries d)"
      using insert(2) by (auto simp: find_None_iff same_delivery_key)
    with insert wf show ?thesis
      by (auto simp: delivery_grows_def wf_deliveries_def delivery_key_def)
  next
    case (update r)
    have r: "dl_delivered_at r = None" using update(3) by (simp add: leasable_def)
    have same: "x = r" if "x \<in> set (deliveries d)" "same_delivery i e x" for x
      using find_delivery [OF wf update(2) that] .
    show ?thesis
      unfolding update(4)
      using wf r same
      by (intro conjI delivery_grows_map wf_deliveries_map)
        (auto simp: delivery_key_def wf_deliveries_def split: if_splits)
  qed
qed

lemma lease_events_keeps:
  assumes "lease_events L i n us force ts es d = Inr (ks, d')"
  shows "integration_events d' = integration_events d" "wf_deliveries d \<Longrightarrow> delivery_grows d d' \<and> wf_deliveries d'"
proof -
  have "integration_events d' = integration_events d
      \<and> (wf_deliveries d \<longrightarrow> delivery_grows d d' \<and> wf_deliveries d')"
    using assms
  proof (induction es arbitrary: d ks)
    case Nil
    then show ?case by simp
  next
    case (Cons e es)
    then obtain k d1 ks1 where step: "lease_event L i n us force ts e d = Inr (k, d1)"
        "lease_events L i n us force ts es d1 = Inr (ks1, d')"
      by (auto split: sum.splits prod.splits)
    with Cons.IH [OF step(2)] lease_event_keeps [OF step(1)] show ?case
      by (auto intro: delivery_grows_trans)
  qed
  then show "integration_events d' = integration_events d"
    "wf_deliveries d \<Longrightarrow> delivery_grows d d' \<and> wf_deliveries d'" by auto
qed

lemma update_delivery_cases:
  assumes "update_delivery i ref n f d = Inr (k, d')"
  obtains (none) "event_ids ref d = []" "k = 0" "d' = d"
  | (one) e where "event_ids ref d = [e]"
      "k = length (filter (\<lambda>r. same_delivery i e r \<and> dl_lease_nonce r = Some n \<and> dl_delivered_at r = None) (deliveries d))"
      "d' = d\<lparr>deliveries := map (\<lambda>r. if same_delivery i e r \<and> dl_lease_nonce r = Some n \<and> dl_delivered_at r = None
         then f r else r) (deliveries d)\<rparr>"
  using assms unfolding update_delivery_def Let_def by (auto split: list.splits)

lemma update_delivery_keeps:
  assumes "update_delivery i ref n f d = Inr (k, d')"
    and "\<And>r. delivery_key (f r) = delivery_key r \<and> dl_attempts (f r) = dl_attempts r \<and> dl_lease_nonce (f r) = None"
  shows "integration_events d' = integration_events d" "delivery_grows d d'" "wf_deliveries d \<Longrightarrow> wf_deliveries d'"
proof -
  from assms(1) have "integration_events d' = integration_events d \<and> delivery_grows d d'
      \<and> (wf_deliveries d \<longrightarrow> wf_deliveries d')"
  proof (cases rule: update_delivery_cases)
    case none
    then show ?thesis by simp
  next
    case (one e)
    show ?thesis
      unfolding one(3)
    proof (intro conjI impI)
      assume wf: "wf_deliveries d"
      show "wf_deliveries (d\<lparr>deliveries := map (\<lambda>r. if same_delivery i e r \<and> dl_lease_nonce r = Some n
          \<and> dl_delivered_at r = None then f r else r) (deliveries d)\<rparr>)"
        by (rule wf_deliveries_map [OF wf]) (use wf assms(2) in \<open>auto simp: wf_deliveries_def\<close>)
    next
      show "delivery_grows d (d\<lparr>deliveries := map (\<lambda>r. if same_delivery i e r \<and> dl_lease_nonce r = Some n
          \<and> dl_delivered_at r = None then f r else r) (deliveries d)\<rparr>)"
        by (rule delivery_grows_map) (use assms(2) in auto)
    qed simp
  qed
  then show "integration_events d' = integration_events d" "delivery_grows d d'"
    "wf_deliveries d \<Longrightarrow> wf_deliveries d'" by auto
qed


section \<open>What delivery keeps\<close>

text \<open>
  Delivery reads the events and never writes them; a well-formed delivery table stays well formed
  and only grows.
\<close>

definition delivery_step :: "database \<Rightarrow> database \<Rightarrow> bool" where
  "delivery_step d d' \<longleftrightarrow> integration_events d' = integration_events d
     \<and> (wf_deliveries d \<longrightarrow> wf_deliveries d' \<and> delivery_grows d d')"

interpretation delivery: db_relation delivery_step
  by unfold_locales (auto simp: delivery_step_def intro: delivery_grows_trans)

lemma update_delivery_step:
  assumes "update_delivery i ref n f d = Inr (k, d')"
    and "\<And>r. delivery_key (f r) = delivery_key r \<and> dl_attempts (f r) = dl_attempts r \<and> dl_lease_nonce (f r) = None"
  shows "delivery_step d d'"
  unfolding delivery_step_def using update_delivery_keeps [OF assms] by blast

lemma ClaimEvent_keeps: "keeps delivery_step (ClaimEvent L i ref n lease force)"
  unfolding ClaimEvent_def
proof (rule delivery.keeps_bind [OF delivery.keeps_try [OF delivery.keeps_bind]])
  show "keeps delivery_step (exec_pool (\<lambda>ts d. lease_events L i n (Microseconds lease) force ts (event_ids ref d) d))"
    by (rule delivery.keeps_pool) (auto simp: delivery_step_def dest: lease_events_keeps)
qed (auto simp: delivery.keeps_basic split: sum.splits)

lemma MarkEventDelivered_keeps: "keeps delivery_step (MarkEventDelivered i ref n)"
  unfolding MarkEventDelivered_def
  by (rule delivery.keeps_bind [OF delivery.keeps_pool])
    (auto simp: delivery_key_def delivery.keeps_basic elim!: update_delivery_step)

lemma MarkEventFailed_keeps: "keeps delivery_step (MarkEventFailed i ref n c delay)"
  unfolding MarkEventFailed_def
  by (rule delivery.keeps_bind [OF delivery.keeps_pool])
    (auto simp: delivery_key_def delivery.keeps_basic elim!: update_delivery_step)

lemma payload_row_keeps: "keeps delivery_step (payload_row r)"
  by (auto simp: payload_row_def delivery.keeps_basic split: sum.splits)

lemma LoadEvent_keeps: "keeps delivery_step (LoadEvent L ref)"
  unfolding LoadEvent_def
  by (auto simp: delivery.keeps_basic payload_row_keeps
      intro!: delivery.keeps_bind delivery.keeps_try split: prod.splits)

lemma scan_refs_keeps: "keeps delivery_step (scan_refs refs acc)"
  by (induction refs arbitrary: acc)
    (auto simp: delivery.keeps_basic delivery.rel_refl intro!: delivery.keeps_bind delivery.keeps_pool)

lemma PendingEvents_keeps: "keeps delivery_step (PendingEvents i after limit)"
  unfolding PendingEvents_def by (auto intro!: delivery.keeps_bind simp: delivery.keeps_basic scan_refs_keeps)

lemma CountPendingEvents_keeps: "keeps delivery_step (CountPendingEvents i)"
  unfolding CountPendingEvents_def by (auto intro!: delivery.keeps_bind simp: delivery.keeps_basic)

text \<open>A publisher is outside the program; it does not write the program's database.\<close>

definition quiet_publisher :: "Publisher \<Rightarrow> bool" where
  "quiet_publisher p \<longleftrightarrow> (\<forall>event w. db (snd (p event w)) = db w)"

definition quiet_dispatcher :: "('u, 'd) lib \<Rightarrow> Dispatcher \<Rightarrow> bool" where
  "quiet_dispatcher L ds \<longleftrightarrow> ds_store ds = postgres_event_store L
     \<and> (\<forall>(i, p)\<in>set (ds_destinations ds). quiet_publisher p)"

lemma safelyPublish_keeps: "quiet_publisher p \<Longrightarrow> keeps delivery_step (safelyPublish p event)"
  unfolding keeps_def safelyPublish_def quiet_publisher_def
  by (auto split: prod.splits publish_reply.splits) (metis delivery.rel_refl snd_conv)+

lemma stage_keeps: "keeps delivery_step (stage_m stage outcome)"
  by (simp add: stage_m_def delivery.keeps_metric)

lemmas delivery_keeps = delivery.keeps_basic stage_keeps ClaimEvent_keeps MarkEventDelivered_keeps
  MarkEventFailed_keeps LoadEvent_keeps PendingEvents_keeps CountPendingEvents_keeps safelyPublish_keeps

lemma deliver_keeps:
  assumes "quiet_dispatcher L ds"
  shows "keeps delivery_step (deliver ds i ref)"
proof -
  have "quiet_publisher p" if "map_of (ds_destinations ds) i = Some p" for p
    using assms map_of_SomeD [OF that] by (auto simp: quiet_dispatcher_def)
  moreover have "es_LoadEvent (ds_store ds) = LoadEvent L"
    using assms by (simp add: quiet_dispatcher_def postgres_event_store_def)
  ultimately show ?thesis
    unfolding deliver_def
    by (auto simp: delivery_keeps intro!: delivery.keeps_bind delivery.keeps_try split: sum.splits option.splits)
qed

lemma keeps_read: "(\<And>w0. keeps R (\<lambda>w. f w0 w)) \<Longrightarrow> keeps R (\<lambda>w. f w w)"
  by (simp add: keeps_def)

lemma publish_claimed_keeps:
  assumes "quiet_dispatcher L ds"
  shows "keeps delivery_step (publish_claimed ds i ref n k)"
proof -
  have ops: "es_MarkEventDelivered (ds_store ds) = MarkEventDelivered" "es_MarkEventFailed (ds_store ds) = MarkEventFailed"
    using assms by (simp_all add: quiet_dispatcher_def postgres_event_store_def)
  show ?thesis
    unfolding publish_claimed_def ops Let_def
    by (rule delivery.keeps_bind [OF deliver_keeps [OF assms]], clarsimp split: sum.splits, intro conjI allI impI;
        (rule keeps_read)?)
      (auto simp: delivery_keeps intro!: delivery.keeps_bind delivery.keeps_try split: sum.splits)
qed

lemma publishOne_keeps:
  assumes "quiet_dispatcher L ds"
  shows "keeps delivery_step (publishOne ds i ref force)"
proof -
  have ops: "es_ClaimEvent (ds_store ds) = ClaimEvent L"
    using assms by (simp add: quiet_dispatcher_def postgres_event_store_def)
  show ?thesis
    unfolding publishOne_def ops newEventNonce_def
    by (auto simp: delivery_keeps publish_claimed_keeps [OF assms]
        intro!: delivery.keeps_bind delivery.keeps_try split: sum.splits)
qed

lemma publish_all_keeps: "quiet_dispatcher L ds \<Longrightarrow> keeps delivery_step (publish_all ds ref is)"
  by (induction "is") (auto simp: delivery_keeps publishOne_keeps intro!: delivery.keeps_bind)

lemma page_loop_keeps: "quiet_dispatcher L ds \<Longrightarrow> keeps delivery_step (page_loop ds i refs s after c)"
  by (induction refs arbitrary: s after c)
    (auto simp: delivery_keeps intro!: delivery.keeps_bind intro: publishOne_keeps split: option.splits)

section \<open>The cursor over pending events\<close>

lemma exec_pool_Inr:
  assumes "exec_pool q w = (Inr a, w')"
  obtains d where "q (stmt_time (snd (trip w))) (db w) = Inr (a, d)" "db w' = d" "stmt_time w' = stmt_time (snd (trip w))"
proof -
  obtain f w1 where trip: "trip w = (f, w1)" by (cases "trip w")
  then have db: "db w1 = db w" using trip_frame [OF trip] by simp
  show thesis
    using assms that unfolding exec_pool_def trip
    by (auto simp: db trip split: sum.splits option.splits if_splits)
qed

lemma scan_refs_result:
  "scan_refs refs acc w = (Inr rs, w') \<Longrightarrow> rs = acc @ refs \<and> db w' = db w"
proof (induction refs arbitrary: acc w)
  case Nil
  then show ?case
    by (auto simp: bind_m_def return_m_def split: prod.splits sum.splits elim!: exec_pool_Inr)
next
  case (Cons r refs)
  then obtain w1 where "exec_pool (\<lambda>_ d. Inr ((), d)) w = (Inr (), w1)" "scan_refs refs (acc @ [r]) w1 = (Inr rs, w')"
    by (auto simp: bind_m_def split: prod.splits sum.splits)
  with Cons.IH [of "acc @ [r]" w1] show ?case by (auto elim!: exec_pool_Inr)
qed

lemma PendingEvents_result:
  assumes "PendingEvents i after limit w = (Inr refs, w')"
  obtains ts where "refs = pendingQuery i after limit ts (db w)" "db w' = db w"
  using assms unfolding PendingEvents_def query_pool_def
  by (auto simp: bind_m_def split: prod.splits sum.splits elim!: exec_pool_Inr dest!: scan_refs_result)

definition cursor :: "SourceRef \<Rightarrow> string \<times> string" where
  "cursor after = (sr_TableName after, if sr_ID after = '''' then nil_uuid else sr_ID after)"

definition beyond :: "SourceRef \<Rightarrow> database \<Rightarrow> event_row set" where
  "beyond after d = {e \<in> set (integration_events d). cursor after < (ev_table e, ev_source e)}"

lemma beyond_finite [simp]: "finite (beyond after d)"
  by (simp add: beyond_def)

lemma pendingQuery_member:
  assumes "ref \<in> set (pendingQuery i after limit ts d)"
  obtains e where "e \<in> beyond after d" "ref = \<lparr>sr_TableName = ev_table e, sr_ID = ev_source e\<rparr>"
    "undelivered i e d" "unleased i ts e d"
proof -
  obtain e where "e \<in> set (integration_events d)" "undelivered i e d" "unleased i ts e d"
      "cursor after < (ev_table e, ev_source e)" "ref = \<lparr>sr_TableName = ev_table e, sr_ID = ev_source e\<rparr>"
    using assms unfolding pendingQuery_def cursor_def [symmetric] by (auto dest!: in_set_takeD)
  then show thesis using that [of e] by (simp add: beyond_def)
qed

lemma cursor_le: "(ev_table e, ev_source e) \<le> cursor \<lparr>sr_TableName = ev_table e, sr_ID = ev_source e\<rparr>"
  by (simp add: cursor_def nil_uuid_def)

lemma beyond_decreases:
  assumes "ref \<in> set (pendingQuery i after limit ts d)"
  shows "card (beyond ref d) < card (beyond after d)"
proof -
  from assms obtain e where e: "e \<in> beyond after d" "ref = \<lparr>sr_TableName = ev_table e, sr_ID = ev_source e\<rparr>"
    by (rule pendingQuery_member)
  have "cursor after < cursor ref"
    using e cursor_le [of e] by (auto simp: beyond_def)
  then have "beyond ref d \<subseteq> beyond after d" by (auto simp: beyond_def)
  moreover have "e \<notin> beyond ref d" using cursor_le [of e] e(2) by (auto simp: beyond_def)
  ultimately have "beyond ref d \<subset> beyond after d" using e(1) by blast
  then show ?thesis by (simp add: psubset_card_mono)
qed

lemma beyond_events: "integration_events d' = integration_events d \<Longrightarrow> beyond after d' = beyond after d"
  by (simp add: beyond_def)

lemma page_loop_cursor:
  "page_loop ds i refs s after c w = (Inr (s', after', c', None), w') \<Longrightarrow> after' = last (after # refs)"
proof (induction refs arbitrary: s after c w)
  case Nil
  then show ?case by (simp add: return_m_def)
next
  case (Cons ref refs)
  from Cons.prems show ?case
    by (auto simp: bind_m_def return_m_def split: prod.splits sum.splits option.splits if_splits dest!: Cons.IH)
qed

lemma keepsD: "keeps R p \<Longrightarrow> p w = (r, w') \<Longrightarrow> R (db w) (db w')"
  unfolding keeps_def by (metis snd_conv)

section \<open>Summaries\<close>

definition balanced :: "Summary \<Rightarrow> bool" where
  "balanced s \<longleftrightarrow> su_Attempted s = su_Delivered s + su_Failed s"

lemma page_loop_balanced:
  "page_loop ds i refs s after c w = (Inr (s', after', c', e), w') \<Longrightarrow>
     su_Remaining s' = su_Remaining s \<and> (balanced s \<longrightarrow> balanced s')"
proof (induction refs arbitrary: s after c w)
  case Nil
  then show ?case by (simp add: return_m_def)
next
  case (Cons ref refs)
  from Cons.prems show ?case
    by (auto simp: bind_m_def return_m_def balanced_def
        split: prod.splits sum.splits option.splits if_splits dest!: Cons.IH)
qed


text \<open>
  The loop over pages ends because the cursor moves forward over finitely many events; the summary
  stays balanced and the database only takes delivery steps.
\<close>

definition page_result :: "Summary \<Rightarrow> world \<Rightarrow> (summary_result \<times> world) option \<Rightarrow> bool" where
  "page_result s w r \<longleftrightarrow> (\<exists>s' e w'. r = Some ((s', e), w') \<and> su_Remaining s' = su_Remaining s
     \<and> (balanced s \<longrightarrow> balanced s') \<and> delivery_step (db w) (db w'))"

lemma page_result_trans:
  assumes "page_result s1 w1 r" and "su_Remaining s1 = su_Remaining s" and "balanced s \<longrightarrow> balanced s1"
    and "delivery_step (db w) (db w1)"
  shows "page_result s w r"
proof -
  from assms(1) obtain s' e w' where r: "r = Some ((s', e), w')" "su_Remaining s' = su_Remaining s1"
      "balanced s1 \<longrightarrow> balanced s'" "delivery_step (db w1) (db w')"
    unfolding page_result_def by blast
  moreover have "delivery_step (db w) (db w')" using assms(4) r(4) by (rule delivery.rel_trans)
  ultimately show ?thesis unfolding page_result_def using assms(2,3) by auto
qed

lemma stage_db [simp]: "db (snd (stage_m a b w)) = db w"
  by (simp add: stage_m_def metric_m_def)

lemma pages_result:
  assumes ds: "quiet_dispatcher L ds"
  shows "page_result s w (pages ds i s after w)"
proof (induction "card (beyond after (db w))" arbitrary: s after w rule: less_induct)
  case less
  have op: "es_PendingEvents (ds_store ds) = PendingEvents"
    using ds by (simp add: quiet_dispatcher_def postgres_event_store_def)
  obtain q w1 where q: "PendingEvents i after pendingBatchSize w = (q, w1)" by fastforce
  have step1: "delivery_step (db w) (db w1)" using keepsD [OF PendingEvents_keeps q] .
  show ?case
  proof (cases q)
    case (Inl e)
    then show ?thesis using q step1 by (subst pages.simps) (simp add: op page_result_def)
  next
    case (Inr refs)
    obtain ts where refs: "refs = pendingQuery i after pendingBatchSize ts (db w)" "db w1 = db w"
      using q Inr by (auto elim: PendingEvents_result)
    define w2 where "w2 = snd (stage_m ''scan'' ''succeeded'' w1)"
    have db2: "db w2 = db w" using refs(2) by (simp add: w2_def)
    obtain res w3 where loop: "page_loop ds i refs s after False w2 = (res, w3)" by fastforce
    have step3: "delivery_step (db w) (db w3)"
      using keepsD [OF page_loop_keeps [OF ds] loop] db2 by simp
    have again: "page_result s w (pages ds i s' after' w3)"
      if res: "res = Inr (s', after', c', None)" and "refs \<noteq> []" for s' after' c'
    proof -
      have "after' = last refs" using page_loop_cursor loop that by fastforce
      then have "after' \<in> set refs" using that(2) by simp
      then have "card (beyond after' (db w)) < card (beyond after (db w))"
        unfolding refs(1) by (rule beyond_decreases)
      moreover have "beyond after' (db w3) = beyond after' (db w)"
        using step3 by (intro beyond_events) (simp add: delivery_step_def)
      ultimately have "page_result s' w3 (pages ds i s' after' w3)" using less by metis
      then show ?thesis
        using page_loop_balanced [OF loop [unfolded res]] step3 by (blast intro: page_result_trans)
    qed
    have stop: "page_result s w (Some ((s', e), w3))" if "res = Inr (s', after', c', e')" for s' after' c' e e'
      using page_loop_balanced [OF loop [unfolded that]] step3 unfolding page_result_def by blast
    have unfold: "pages ds i s after w = (if refs = [] then Some ((s, None), w2)
        else case res of Inl e \<Rightarrow> Some ((s, Some e), w3)
          | Inr (s', after', c', Some e) \<Rightarrow> Some ((s', Some e), w3)
          | Inr (s', after', c', None) \<Rightarrow> if \<not> c' \<or> length refs < pendingBatchSize then Some ((s', None), w3)
              else pages ds i s' after' w3)"
      by (subst pages.simps) (simp add: op q Inr Let_def w2_def [symmetric] loop split: sum.split)
    show ?thesis
    proof (cases "refs = []")
      case True
      then show ?thesis by (simp add: unfold page_result_def db2 delivery.rel_refl)
    next
      case False
      show ?thesis
      proof (cases res)
        case (Inl e)
        then show ?thesis using False step3 by (simp add: unfold page_result_def)
      next
        case (Inr x)
        then obtain s' after' c' e' where "res = Inr (s', after', c', e')" by (cases x) auto
        then show ?thesis using False again stop by (cases e') (auto simp: unfold)
      qed
    qed
  qed
qed

lemma publish_destinations_result:
  assumes "quiet_dispatcher L ds"
  shows "\<exists>s' e w'. publish_destinations ds is s w = Some ((s', e), w') \<and> (balanced s \<longrightarrow> balanced s')
    \<and> delivery_step (db w) (db w')"
proof (induction "is" arbitrary: s w)
  case Nil
  then show ?case by (auto simp: delivery.rel_refl)
next
  case (Cons i "is")
  have op: "es_CountPendingEvents (ds_store ds) = CountPendingEvents"
    using assms by (simp add: quiet_dispatcher_def postgres_event_store_def)
  obtain s1 e1 w1 where p: "pages ds i s no_ref w = Some ((s1, e1), w1)" "balanced s \<longrightarrow> balanced s1"
      "delivery_step (db w) (db w1)"
    using pages_result [OF assms, of s w i no_ref] unfolding page_result_def by blast
  obtain c w2 where c: "CountPendingEvents i w1 = (c, w2)" by fastforce
  have step2: "delivery_step (db w) (db w2)"
    using p(3) keepsD [OF CountPendingEvents_keeps c] by (rule delivery.rel_trans)
  show ?case
  proof (cases "\<exists>n. c = Inr n \<and> e1 = None")
    case True
    then obtain n where n: "c = Inr n" "e1 = None" by blast
    define s2 where "s2 = s1\<lparr>su_Remaining := su_Remaining s1 + n\<rparr>"
    have s2: "balanced s1 \<longrightarrow> balanced s2" by (simp add: s2_def balanced_def)
    obtain s' e w' where "publish_destinations ds is s2 (snd (stage_m ''count_pending'' ''succeeded'' w2)) = Some ((s', e), w')"
        "balanced s2 \<longrightarrow> balanced s'" "delivery_step (db w2) (db w')"
      using Cons.IH [of s2 "snd (stage_m ''count_pending'' ''succeeded'' w2)"] by auto
    moreover have "delivery_step (db w) (db w')"
      using step2 calculation(3) by (rule delivery.rel_trans)
    ultimately show ?thesis using n p(1,2) c s2 by (auto simp: op s2_def)
  next
    case False
    then show ?thesis using p step2 c by (cases c; cases e1) (auto simp: op)
  qed
qed

lemma CountPendingEvents_result:
  assumes "CountPendingEvents i w = (Inr n, w')"
  shows "db w' = db w" "n = length (filter (\<lambda>e. undelivered i e (db w)) (integration_events (db w)))"
  using assms unfolding CountPendingEvents_def query_pool_def
  by (auto simp: bind_m_def scan_row_def return_m_def split: prod.splits sum.splits elim!: exec_pool_Inr)

end
