(* ===== verification/Event_Lease.thy ===== *)
theory Event_Lease
  imports Event_Delivery
begin

text \<open>
  Leases of event deliveries as a state machine: while one worker holds the lease of a delivery,
  any number of other workers claim events and mark deliveries, in any order, each statement taking
  the server's time and possibly failing; other components work beside them.
\<close>

inductive lease_step :: "('u, 'd) lib \<Rightarrow> SourceRef \<Rightarrow> string \<Rightarrow> int \<Rightarrow> world \<Rightarrow> world \<Rightarrow> bool"
  for L ref nonce until where
  claim: "n \<noteq> nonce \<Longrightarrow> stmt_time (snd (trip w)) < until
    \<Longrightarrow> lease_step L ref nonce until w (snd (ClaimEvent L i ref' n lease force w))"
| delivered: "n \<noteq> nonce \<Longrightarrow> lease_step L ref nonce until w (snd (MarkEventDelivered i ref' n w))"
| failed: "n \<noteq> nonce \<Longrightarrow> lease_step L ref nonce until w (snd (MarkEventFailed i ref' n c delay w))"
| other: "deliveries (db w') = deliveries (db w) \<Longrightarrow> event_ids ref (db w') = event_ids ref (db w)
    \<Longrightarrow> lease_step L ref nonce until w w'"

text \<open>The delivery of event \<open>e\<close> to \<open>i\<close> is leased under \<open>n\<close> until the given time.\<close>

definition held :: "string \<Rightarrow> string \<Rightarrow> string \<Rightarrow> int \<Rightarrow> database \<Rightarrow> bool" where
  "held i e n until d \<longleftrightarrow> wf_deliveries d \<and> (\<exists>r\<in>set (deliveries d). delivery_key r = (i, e)
     \<and> dl_lease_nonce r = Some n \<and> dl_lease_until r = Some until \<and> dl_delivered_at r = None)"

lemma held_row:
  assumes "held i e n until d"
  obtains r where "r \<in> set (deliveries d)" "same_delivery i e r" "dl_lease_nonce r = Some n"
    "dl_lease_until r = Some until" "dl_delivered_at r = None" "find (same_delivery i e) (deliveries d) = Some r"
proof -
  obtain r where r: "r \<in> set (deliveries d)" "delivery_key r = (i, e)" "dl_lease_nonce r = Some n"
      "dl_lease_until r = Some until" "dl_delivered_at r = None" and wf: "wf_deliveries d"
    using assms unfolding held_def by blast
  have same: "same_delivery i e r" using r(2) by (simp add: same_delivery_key)
  then obtain x where x: "find (same_delivery i e) (deliveries d) = Some x"
    using r(1) by (cases "find (same_delivery i e) (deliveries d)") (auto simp: find_None_iff)
  then have "x = r" using find_delivery [OF wf x r(1) same] by simp
  with r same x that show thesis by simp
qed

lemma held_same: "deliveries d' = deliveries d \<Longrightarrow> held i e n until d' = held i e n until d"
  by (simp add: held_def wf_deliveries_def)

lemma lease_event_held:
  assumes "held i e n until d" and "lease_event L i' n' us force ts e' d = Inr (k, d')" and "ts < until"
  shows "held i e n until d'" and "i' = i \<Longrightarrow> e' = e \<Longrightarrow> k = None \<and> d' = d"
proof -
  obtain r where r: "r \<in> set (deliveries d)" "same_delivery i e r" "dl_lease_nonce r = Some n"
      "dl_lease_until r = Some until" "dl_delivered_at r = None" "find (same_delivery i e) (deliveries d) = Some r"
    using assms(1) by (rule held_row)
  have wf: "wf_deliveries d'"
    using assms(1) lease_event_keeps(2) [OF assms(2)] by (simp add: held_def)
  have not: "\<not> leasable force ts r" using r(4) assms(3) by (simp add: leasable_def)
  from assms(2) show own: "k = None \<and> d' = d" if "i' = i" "e' = e"
    using that r(6) not by (cases rule: lease_event_cases) auto
  show "held i e n until d'"
  proof (cases "i' = i \<and> e' = e")
    case True
    then show ?thesis using own assms(1) by simp
  next
    case False
    from assms(2) have "r \<in> set (deliveries d')"
      using False r(1,2) by (cases rule: lease_event_cases) (auto simp: same_delivery_def intro!: image_eqI)
    then show ?thesis using r wf by (auto simp: held_def same_delivery_key)
  qed
qed

lemma lease_events_held:
  assumes "held i e n until d" and "lease_events L i' n' us force ts es d = Inr (ks, d')" and "ts < until"
  shows "held i e n until d'"
  using assms
proof (induction es arbitrary: d ks)
  case (Cons e' es)
  then obtain k d1 ks1 where step: "lease_event L i' n' us force ts e' d = Inr (k, d1)"
      "lease_events L i' n' us force ts es d1 = Inr (ks1, d')"
    by (auto split: sum.splits prod.splits)
  from lease_event_held(1) [OF Cons.prems(1) step(1) Cons.prems(3)] show ?case
    using Cons.IH step(2) Cons.prems(3) by blast
qed simp

lemma update_delivery_held:
  assumes "held i e n until d" and "update_delivery i' ref n' f d = Inr (k, d')" and "n' \<noteq> n"
    and "\<And>r. delivery_key (f r) = delivery_key r \<and> dl_attempts (f r) = dl_attempts r \<and> dl_lease_nonce (f r) = None"
  shows "held i e n until d'"
proof -
  obtain r where r: "r \<in> set (deliveries d)" "same_delivery i e r" "dl_lease_nonce r = Some n"
      "dl_lease_until r = Some until" "dl_delivered_at r = None"
    using assms(1) by (rule held_row)
  have "wf_deliveries d'" using update_delivery_keeps(3) [OF assms(2,4)] assms(1) by (simp add: held_def)
  moreover from assms(2) have "r \<in> set (deliveries d')"
    using r(1,3) assms(3) by (cases rule: update_delivery_cases) (auto intro!: image_eqI)
  ultimately show ?thesis using r by (auto simp: held_def same_delivery_key)
qed

text \<open>A statement of the pool either leaves the database alone or writes what its query computes.\<close>

lemma exec_pool_inv:
  assumes "P (db w)" and "\<And>a d. q (stmt_time (snd (trip w))) (db w) = Inr (a, d) \<Longrightarrow> P d"
  shows "P (db (snd (exec_pool q w)))"
proof -
  obtain f w1 where trip: "trip w = (f, w1)" by (cases "trip w")
  then have "db w1 = db w" using trip_frame [OF trip] by simp
  with assms show ?thesis unfolding exec_pool_def trip
    by (cases "q (stmt_time w1) (db w)"; cases "applied f") (auto simp: trip split: prod.splits)
qed

lemma bind_return_db:
  assumes "\<And>a. keeps (=) (f a)"
  shows "db (snd (bind_m p f w)) = db (snd (p w))"
  using assms unfolding bind_m_def keeps_def by (auto split: prod.splits sum.splits)

lemma ClaimEvent_world:
  "snd (ClaimEvent L i ref n lease force w) =
     snd (exec_pool (\<lambda>ts d. lease_events L i n (Microseconds lease) force ts (event_ids ref d) d) w)"
    (is "_ = snd (?q w)")
proof (cases "?q w")
  case (Pair r w1)
  then show ?thesis
    unfolding ClaimEvent_def
    by (cases r; cases "projr r")
      (simp_all add: bind_m_def try_m_def scan_row_def fail_m_def return_m_def)
qed

lemma exec_pool_calm: "script w = [] \<Longrightarrow> script (snd (exec_pool q w)) = [] \<and> stmt_time (snd (exec_pool q w)) = stmt_time w"
  by (cases "q (stmt_time w) (db w)") (auto simp: exec_pool_def trip_def split: prod.splits)

lemma Mark_db:
  "db (snd (bind_m (exec_pool q) (\<lambda>n. if n \<noteq> 1 then fail_m err else return_m ()) w)) = db (snd (exec_pool q w))"
  by (rule bind_return_db) (simp add: same_db.keeps_basic)

lemma lease_step_held:
  assumes "lease_step L ref n until w w'" and "held i e n until (db w)" and "event_ids ref (db w) = [e]"
  shows "held i e n until (db w') \<and> event_ids ref (db w') = [e]"
proof -
  have ids: "event_ids ref (db w') = [e]" if "delivery_step (db w) (db w')"
    using that assms(3) by (simp add: delivery_step_def event_ids_def)
  from assms(1) show ?thesis
  proof (cases rule: lease_step.cases)
    case (claim n' i' ref' lease force)
    have "held i e n until (db w')"
      unfolding claim(1) ClaimEvent_world
      by (rule exec_pool_inv) (use assms(2) claim(3) in \<open>auto elim: lease_events_held\<close>)
    moreover have "delivery_step (db w) (db w')"
      using ClaimEvent_keeps unfolding claim(1) keeps_def by blast
    ultimately show ?thesis using ids by blast
  next
    case (delivered n' i' ref')
    have "held i e n until (db w')"
      unfolding delivered(1) MarkEventDelivered_def Mark_db
      by (rule exec_pool_inv [where P = "held i e n until", OF assms(2)],
          erule update_delivery_held [OF assms(2) _ delivered(2)]) (simp add: delivery_key_def)
    moreover have "delivery_step (db w) (db w')"
      using MarkEventDelivered_keeps unfolding delivered(1) keeps_def by blast
    ultimately show ?thesis using ids by blast
  next
    case (failed n' i' ref' c delay)
    have "held i e n until (db w')"
      unfolding failed(1) MarkEventFailed_def Mark_db
      by (rule exec_pool_inv [where P = "held i e n until", OF assms(2)],
          erule update_delivery_held [OF assms(2) _ failed(2)]) (simp add: delivery_key_def)
    moreover have "delivery_step (db w) (db w')"
      using MarkEventFailed_keeps unfolding failed(1) keeps_def by blast
    ultimately show ?thesis using ids by blast
  next
    case other
    then show ?thesis using assms(2,3) held_same by metis
  qed
qed

lemma lease_steps_held:
  assumes "(lease_step L ref n until)\<^sup>*\<^sup>* w w'" and "held i e n until (db w)" and "event_ids ref (db w) = [e]"
  shows "held i e n until (db w') \<and> event_ids ref (db w') = [e]"
  using assms by (induction rule: rtranclp_induct) (auto dest: lease_step_held)

text \<open>A successful claim holds the lease.\<close>

lemma ClaimEvent_holds:
  assumes "ClaimEvent L i ref n lease force w = (Inr (k, True), w')" and wf: "wf_deliveries (db w)"
    and ids: "event_ids ref (db w) = [e]"
  shows "held i e n (stmt_time w' + Microseconds lease) (db w')" "event_ids ref (db w') = [e]"
proof -
  obtain ks w1 where q: "exec_pool (\<lambda>ts d. lease_events L i n (Microseconds lease) force ts (event_ids ref d) d) w
      = (Inr (k # ks), w1)" "w' = w1"
    using assms(1) unfolding ClaimEvent_def
    by (auto simp: bind_m_def try_m_def scan_row_def fail_m_def return_m_def split: prod.splits sum.splits list.splits if_splits)
  obtain d where d: "lease_events L i n (Microseconds lease) force (stmt_time w') (event_ids ref (db w)) (db w)
      = Inr (k # ks, d)" "db w' = d"
    using q by (auto elim!: exec_pool_Inr)
  then have "lease_event L i n (Microseconds lease) force (stmt_time w') e (db w) = Inr (Some k, d)"
    by (auto simp: ids split: sum.splits prod.splits option.splits)
  then have "\<exists>r\<in>set (deliveries d). delivery_key r = (i, e) \<and> dl_lease_nonce r = Some n
      \<and> dl_lease_until r = Some (stmt_time w' + Microseconds lease) \<and> dl_delivered_at r = None"
  proof (cases rule: lease_event_cases)
    case (update r)
    let ?r = "r\<lparr>dl_attempts := dl_attempts r + 1, dl_lease_nonce := Some n,
        dl_lease_until := Some (stmt_time w' + Microseconds lease)\<rparr>"
    have r: "r \<in> set (deliveries (db w))" "same_delivery i e r" using update(2) by (auto simp: find_Some_iff)
    have "?r \<in> set (deliveries d)" unfolding update(4) using r by (auto intro!: image_eqI [of _ _ r])
    moreover have "delivery_key ?r = (i, e)" using r(2) by (simp add: delivery_key_def same_delivery_def)
    moreover have "dl_delivered_at ?r = None" using update(3) by (simp add: leasable_def)
    ultimately show ?thesis by (intro bexI [of _ ?r]) simp_all
  qed (auto simp: delivery_key_def)
  moreover have "wf_deliveries d" using lease_events_keeps [OF d(1)] wf by simp
  ultimately show "held i e n (stmt_time w' + Microseconds lease) (db w')" by (simp add: held_def d(2))
  show "event_ids ref (db w') = [e]"
    using lease_events_keeps(1) [OF d(1)] ids by (simp add: event_ids_def d(2))
qed

lemma ClaimEvent_refused:
  assumes "held i e n until (db w)" and "event_ids ref (db w) = [e]" and "stmt_time (snd (trip w)) < until"
  shows "fst (ClaimEvent L i ref n' lease force w) \<noteq> Inr (k, True)"
    and "db (snd (ClaimEvent L i ref n' lease force w)) = db w"
proof -
  have none: "ks = [] \<and> d = db w"
    if l: "lease_events L i n' us force (stmt_time (snd (trip w))) (event_ids ref (db w)) (db w) = Inr (ks, d)" for us ks d
  proof -
    obtain k where k: "lease_event L i n' us force (stmt_time (snd (trip w))) e (db w) = Inr (k, d)"
        "ks = (case k of None \<Rightarrow> [] | Some k \<Rightarrow> [k])"
      using l by (cases "lease_event L i n' us force (stmt_time (snd (trip w))) e (db w)")
        (auto simp: assms(2) split: prod.splits)
    with lease_event_held(2) [OF assms(1) k(1) assms(3)] show ?thesis by auto
  qed
  show "db (snd (ClaimEvent L i ref n' lease force w)) = db w"
    unfolding ClaimEvent_world by (rule exec_pool_inv) (use none in auto)
  show "fst (ClaimEvent L i ref n' lease force w) \<noteq> Inr (k, True)"
    unfolding ClaimEvent_def
    by (auto simp: bind_m_def try_m_def scan_row_def fail_m_def return_m_def
        split: prod.splits sum.splits list.splits if_splits elim!: exec_pool_Inr dest!: none)
qed

lemma update_delivery_fenced:
  assumes "held i e n until d" and "event_ids ref d = [e]" and "n' \<noteq> n"
  shows "update_delivery i ref n' f d = Inr (0, d)"
proof -
  obtain r where r: "find (same_delivery i e) (deliveries d) = Some r" "dl_lease_nonce r = Some n"
    using assms(1) by (rule held_row)
  have miss: "\<not> (same_delivery i e x \<and> dl_lease_nonce x = Some n' \<and> dl_delivered_at x = None)"
    if "x \<in> set (deliveries d)" for x
    using find_delivery [OF _ r(1) that] assms(1,3) r(2) by (auto simp: held_def)
  have "map (\<lambda>r. if same_delivery i e r \<and> dl_lease_nonce r = Some n' \<and> dl_delivered_at r = None then f r else r)
      (deliveries d) = deliveries d"
    by (rule map_idI) (use miss in metis)
  moreover have "filter (\<lambda>r. same_delivery i e r \<and> dl_lease_nonce r = Some n' \<and> dl_delivered_at r = None)
      (deliveries d) = []"
    using miss by (simp add: filter_empty_conv)
  ultimately show ?thesis by (simp add: update_delivery_def assms(2))
qed

lemma update_delivery_owner:
  assumes "held i e n until d" and "event_ids ref d = [e]"
  obtains d' where "update_delivery i ref n f d = Inr (1, d')"
proof -
  obtain r where r: "r \<in> set (deliveries d)" "same_delivery i e r" "dl_lease_nonce r = Some n"
      "dl_delivered_at r = None" "find (same_delivery i e) (deliveries d) = Some r"
    using assms(1) by (rule held_row)
  have wf: "wf_deliveries d" using assms(1) by (simp add: held_def)
  let ?hit = "\<lambda>r. same_delivery i e r \<and> dl_lease_nonce r = Some n \<and> dl_delivered_at r = None"
  have "filter ?hit (deliveries d) = [r]"
  proof -
    have "?hit x \<longleftrightarrow> x = r" if "x \<in> set (deliveries d)" for x
      using find_delivery [OF wf r(5) that] r by auto
    then have "filter ?hit (deliveries d) = filter (\<lambda>x. x = r) (deliveries d)" by (auto intro: filter_cong)
    also have "\<dots> = [r]"
      using wf r(1) filter_singleton_if_distinct [of "\<lambda>x. x" "deliveries d" r] by (simp add: wf_deliveries_def distinct_map)
    finally show ?thesis .
  qed
  then show thesis using that by (simp add: update_delivery_def assms(2))
qed

text \<open>What the marks do under a held lease.\<close>

lemma Mark_fenced:
  assumes h: "held i e n until (db w)" "event_ids ref (db w) = [e]" and "n' \<noteq> n"
  shows "\<not> is_ok (fst (bind_m (exec_pool (\<lambda>ts. update_delivery i ref n' (f ts)))
      (\<lambda>n. if n \<noteq> 1 then fail_m err else return_m ()) w))" (is "\<not> is_ok (fst ?m)")
    and "db (snd (bind_m (exec_pool (\<lambda>ts. update_delivery i ref n' (f ts)))
      (\<lambda>n. if n \<noteq> 1 then fail_m err else return_m ()) w)) = db w"
proof -
  show "\<not> is_ok (fst ?m)"
    by (cases "exec_pool (\<lambda>ts. update_delivery i ref n' (f ts)) w")
      (auto simp: bind_m_def fail_m_def return_m_def update_delivery_fenced [OF assms]
        split: sum.splits elim!: exec_pool_Inr)
  show "db (snd ?m) = db w"
    unfolding Mark_db by (rule exec_pool_inv) (auto simp: update_delivery_fenced [OF assms])
qed

lemma MarkEventDelivered_owner:
  assumes "held i e n until (db w)" "event_ids ref (db w) = [e]" "script w = []"
  shows "fst (MarkEventDelivered i ref n w) = Inr ()"
proof -
  obtain d where "update_delivery i ref n (\<lambda>r. r\<lparr>dl_delivered_at := Some (stmt_time w),
      dl_lease_nonce := None, dl_lease_until := None, dl_error_class := None\<rparr>) (db w) = Inr (1, d)"
    using update_delivery_owner [OF assms(1,2)] by blast
  then show ?thesis using assms(3)
    by (simp add: MarkEventDelivered_def bind_m_def exec_pool_def trip_def return_m_def)
qed

end
