(* ===== verification/Event_Props.thy ===== *)
theory Event_Props
  imports Event_Lease Demo_Db
begin

text \<open>
  Properties of event delivery: bounded and growing delays, exclusive and fenced leases, and the
  end of the loop over pending events.
\<close>

section \<open>Delays\<close>

definition base_delay :: "int \<Rightarrow> int" where
  "base_delay attempt =
     min (5 * ns_minute) (ns_second * 2 ^ nat ((if attempt < 1 then 1 else if 10 < attempt then 10 else attempt) - 1))"

lemma base_delay_bounds: "ns_second \<le> base_delay attempt" "base_delay attempt \<le> 5 * ns_minute"
  by (simp_all add: base_delay_def Let_def ns_defs)

lemma jitter_bounds:
  fixes b :: int
  assumes "0 \<le> b"
  shows "0 \<le> int (n mod 501) * b div 1000" "int (n mod 501) * b div 1000 \<le> b div 2"
proof -
  have n: "int (n mod 501) \<le> 500" by simp
  have "0 \<le> int (n mod 501) * b" using assms by (intro mult_nonneg_nonneg) auto
  then show "0 \<le> int (n mod 501) * b div 1000" by (simp only: pos_imp_zdiv_nonneg_iff zero_less_numeral)
  have "int (n mod 501) * b \<le> 500 * b" using n assms by (rule mult_right_mono)
  then have "int (n mod 501) * b div 1000 \<le> 500 * b div 1000" by (rule zdiv_mono1) simp
  also have "500 * b div 1000 = b div 2" using div_mult_mult1 [of 500 b 2] by simp
  finally show "int (n mod 501) * b div 1000 \<le> b div 2" .
qed

lemma clamp_attempt:
  "min 10 (if a < 1 then 1 else a) = (if a < 1 then 1 else if 10 < a then 10 else (a :: int))"
  by simp

lemma if_min: "(if (a :: int) < b then a else b) = min a b"
  by simp

lemma retryDelay_base:
  "\<exists>j. 0 \<le> j \<and> j \<le> base_delay attempt div 2 \<and>
     retryDelay attempt ref = min (5 * ns_minute) (base_delay attempt * 3 div 4 + j)"
proof -
  define hash where "hash = foldl fnv_step 2166136261 (sr_TableName ref @ [CHR 0x00] @ sr_ID ref)"
  have b: "0 \<le> base_delay attempt" using base_delay_bounds(1) [of attempt] by (simp add: ns_defs)
  have "retryDelay attempt ref = min (5 * ns_minute)
      (base_delay attempt * 3 div 4 + int (unat hash mod 501) * base_delay attempt div 1000)"
    unfolding base_delay_def clamp_attempt [symmetric] retryDelay_def Let_def hash_def
    unfolding if_min ..
  with jitter_bounds [OF b, of "unat hash"] show ?thesis by blast
qed

text \<open>
  C6. The delay before the next delivery attempt lies between 0.75 seconds and five minutes, for
  every attempt count and source, and within a quarter of the exponential base in either direction.
\<close>

theorem retryDelay_bounds:
  "750000000 \<le> retryDelay attempt ref \<and> retryDelay attempt ref \<le> 5 * ns_minute
    \<and> base_delay attempt * 3 div 4 \<le> retryDelay attempt ref
    \<and> retryDelay attempt ref \<le> base_delay attempt * 5 div 4"
proof -
  define b where "b = base_delay attempt"
  obtain j where j: "0 \<le> j" "j \<le> b div 2"
      "retryDelay attempt ref = min (5 * ns_minute) (b * 3 div 4 + j)"
    using retryDelay_base [of attempt ref] unfolding b_def by blast
  have b: "1000000000 \<le> b" "b \<le> 300000000000"
    using base_delay_bounds [of attempt] by (simp_all add: ns_defs b_def)
  have "750000000 \<le> b * 3 div 4" "b * 3 div 4 \<le> 300000000000" "b * 3 div 4 + b div 2 \<le> b * 5 div 4"
    using b by linarith+
  with j b show ?thesis unfolding b_def [symmetric] by (auto simp: ns_defs min_def)
qed

section \<open>Publishing what is pending\<close>

text \<open>A database with one event, a delivery made long ago, and a publisher that always succeeds.\<close>

definition event_id :: string where "event_id = ''88888888-8888-7888-8888-888888888888''"
definition nonce_a :: string where "nonce_a = ''aaaaaaaa-aaaa-4aaa-8aaa-aaaaaaaaaaaa''"
definition nonce_b :: string where "nonce_b = ''bbbbbbbb-bbbb-4bbb-8bbb-bbbbbbbbbbbb''"

definition demo_ref :: SourceRef where
  "demo_ref = \<lparr>sr_TableName = TableSaleOffers, sr_ID = offer_id\<rparr>"

definition old_delivery :: delivery_row where
  "old_delivery = \<lparr>dl_destination = ''audit'', dl_event = event_id, dl_attempts = 1, dl_lease_nonce = None,
     dl_lease_until = None, dl_next_attempt = 3, dl_delivered_at = Some 4, dl_error_class = None\<rparr>"

definition event_db :: database where
  "event_db = demo_db\<lparr>integration_events := [\<lparr>ev_uuid = event_id, ev_table = TableSaleOffers,
     ev_source = offer_id, ev_version = 2, ev_completed_at = 3\<rparr>], deliveries := [old_delivery]\<rparr>"

definition calm_publisher :: Publisher where
  "calm_publisher event w = (Returned (Inr ()), w)"

definition demo_dispatcher :: Dispatcher where
  "demo_dispatcher = \<lparr>ds_store = postgres_event_store demo_lib,
     ds_destinations = [(''audit'', calm_publisher), (''ledger'', calm_publisher)],
     ds_publishLimit = ns_second, ds_leasePeriod = 6 * ns_second, ds_canceled = (\<lambda>_. False)\<rparr>"

lemma demo_quiet: "quiet_dispatcher demo_lib demo_dispatcher"
  by (simp add: quiet_dispatcher_def demo_dispatcher_def quiet_publisher_def calm_publisher_def)

lemma event_db_wf: "wf_deliveries event_db" "event_ids demo_ref event_db = [event_id]"
  by (simp_all add: wf_deliveries_def event_db_def old_delivery_def event_ids_def demo_ref_def)

text \<open>
  C7. Publishing the pending events always returns: over the database's own store and publishers
  that do not write that database, the loop over pages ends for every destination, fault and panic.
  What it returns is balanced (every attempt was delivered or failed), the events are untouched, and
  for a single destination without an error the reported rest is the number of events still
  undelivered.
\<close>

theorem PublishPending_returns:
  assumes "quiet_dispatcher L ds"
  shows "\<exists>s e w'. PublishPending ds i w = Some ((s, e), w')
    \<and> su_Attempted s = su_Delivered s + su_Failed s
    \<and> integration_events (db w') = integration_events (db w)
    \<and> (e = None \<and> i \<noteq> '''' \<longrightarrow>
        su_Remaining s = length (filter (\<lambda>v. undelivered i v (db w')) (integration_events (db w'))))"
proof -
  have empty: "balanced empty_summary" by (simp add: balanced_def empty_summary_def)
  show ?thesis
  proof (cases "ds_destinations ds = [] \<or> (\<exists>e. selectedDestinationIDs ds i = Inl e)")
    case True
    then show ?thesis by (auto simp: PublishPending_def empty_summary_def)
  next
    case False
    then obtain sel where sel: "selectedDestinationIDs ds i = Inr sel"
      by (cases "selectedDestinationIDs ds i") auto
    obtain s e w' where run: "publish_destinations ds sel empty_summary w = Some ((s, e), w')"
        "balanced empty_summary \<longrightarrow> balanced s" "delivery_step (db w) (db w')"
      using publish_destinations_result [OF assms] by blast
    have "su_Remaining s = length (filter (\<lambda>v. undelivered i v (db w')) (integration_events (db w')))"
      if ok: "e = None" "i \<noteq> ''''"
    proof -
      have one: "sel = [i]" using sel ok(2) by (auto simp: selectedDestinationIDs_def split: if_splits)
      have op: "es_CountPendingEvents (ds_store ds) = CountPendingEvents"
        using assms by (simp add: quiet_dispatcher_def postgres_event_store_def)
      obtain s1 e1 w1 where p: "pages ds i empty_summary no_ref w = Some ((s1, e1), w1)"
          "su_Remaining s1 = su_Remaining empty_summary"
        using pages_result [OF assms, of empty_summary w i no_ref] unfolding page_result_def by blast
      obtain n w2 where c: "CountPendingEvents i w1 = (Inr n, w2)"
          "s = s1\<lparr>su_Remaining := su_Remaining s1 + n\<rparr>" "db w' = db w2"
        using run(1) p(1) ok(1) by (auto simp: one op split: option.splits prod.splits sum.splits)
      show ?thesis using CountPendingEvents_result [OF c(1)] c p(2) by (simp add: empty_summary_def)
    qed
    then show ?thesis
      using run empty False sel by (auto simp: PublishPending_def balanced_def delivery_step_def)
  qed
qed

theorem PublishPending_returns_witness:
  "\<exists>s e w'. PublishPending demo_dispatcher ''ledger'' (demo_world event_db []) = Some ((s, e), w')
    \<and> su_Attempted s = su_Delivered s + su_Failed s
    \<and> integration_events (db w') = integration_events event_db
    \<and> (e = None \<and> ''ledger'' \<noteq> '''' \<longrightarrow>
        su_Remaining s = length (filter (\<lambda>v. undelivered ''ledger'' v (db w')) (integration_events (db w'))))"
  using PublishPending_returns [OF demo_quiet, of "''ledger''" "demo_world event_db []"]
  by (simp only: demo_world_sel)

section \<open>Leases\<close>

text \<open>
  C8. A delivery lease is exclusive and fenced. After a worker's successful claim, while the server's
  clock has not reached the end of the lease and whatever other workers claim and mark in between,
  no other claim of the same delivery succeeds, forced or not; marks under another nonce fail and
  change nothing; and, unless the connection fails, the holder's own mark succeeds.
\<close>

theorem lease_exclusive:
  assumes "wf_deliveries (db w0)" and "event_ids ref (db w0) = [e]"
    and claimed: "ClaimEvent L i ref n lease force w0 = (Inr (k, True), w1)"
    and others: "(lease_step L ref n (stmt_time w1 + Microseconds lease))\<^sup>*\<^sup>* w1 w2"
    and time: "stmt_time (snd (trip w2)) < stmt_time w1 + Microseconds lease" and "n' \<noteq> n"
  shows "(\<forall>k'. fst (ClaimEvent L i ref n' lease' force' w2) \<noteq> Inr (k', True))
    \<and> db (snd (ClaimEvent L i ref n' lease' force' w2)) = db w2
    \<and> \<not> is_ok (fst (MarkEventDelivered i ref n' w2)) \<and> db (snd (MarkEventDelivered i ref n' w2)) = db w2
    \<and> \<not> is_ok (fst (MarkEventFailed i ref n' c delay w2)) \<and> db (snd (MarkEventFailed i ref n' c delay w2)) = db w2
    \<and> (script w2 = [] \<longrightarrow> fst (MarkEventDelivered i ref n w2) = Inr ())"
proof -
  define until where "until = stmt_time w1 + Microseconds lease"
  have h: "held i e n until (db w2)" "event_ids ref (db w2) = [e]"
    using lease_steps_held [OF others ClaimEvent_holds [OF claimed assms(1,2)]] by (simp_all add: until_def)
  show ?thesis
    using ClaimEvent_refused [OF h time [folded until_def]] MarkEventDelivered_owner [OF h]
    unfolding MarkEventDelivered_def MarkEventFailed_def
    by (intro conjI allI impI Mark_fenced [OF h assms(6)]) assumption+
qed

lemma demo_nonces: "is_nonce_v4 demo_lib nonce_a" "is_nonce_v4 demo_lib nonce_b"
  by (simp_all add: is_nonce_v4_def demo_eval nonce_a_def nonce_b_def)

definition demo_claimed :: "(nat \<times> bool) result \<times> world" where
  "demo_claimed = ClaimEvent demo_lib ''ledger'' demo_ref nonce_a (6 * ns_second) False (demo_world event_db [])"

lemma demo_claim: "fst demo_claimed = Inr (1, True)" "stmt_time (snd demo_claimed) = 1000"
  "script (snd demo_claimed) = []" "trip (snd demo_claimed) = (NoFault, snd demo_claimed)"
proof -
  have none: "find (same_delivery ''ledger'' event_id) (deliveries event_db) = None"
    by (simp add: event_db_def old_delivery_def same_delivery_def)
  show "fst demo_claimed = Inr (1, True)" "stmt_time (snd demo_claimed) = 1000"
    "script (snd demo_claimed) = []" "trip (snd demo_claimed) = (NoFault, snd demo_claimed)"
    by (simp_all add: demo_claimed_def ClaimEvent_def bind_m_def try_m_def exec_pool_def trip_def
        event_db_wf lease_event_def demo_nonces none scan_row_def return_m_def)
      (simp_all add: demo_world_def)
qed

text \<open>Here another worker tries the other destination in between.\<close>

definition demo_between :: world where
  "demo_between = snd (ClaimEvent demo_lib ''audit'' demo_ref nonce_b (6 * ns_second) True (snd demo_claimed))"

theorem lease_exclusive_witness:
  "(\<forall>k'. fst (ClaimEvent demo_lib ''ledger'' demo_ref nonce_b ns_second True demo_between) \<noteq> Inr (k', True))
    \<and> \<not> is_ok (fst (MarkEventDelivered ''ledger'' demo_ref nonce_b demo_between))
    \<and> fst (MarkEventDelivered ''ledger'' demo_ref nonce_a demo_between) = Inr ()"
proof -
  have time: "stmt_time (snd (trip (snd demo_claimed))) < stmt_time (snd demo_claimed) + Microseconds (6 * ns_second)"
    by (simp add: demo_claim Microseconds_def ns_defs)
  have neq: "nonce_b \<noteq> nonce_a" by (simp add: nonce_a_def nonce_b_def)
  have between: "script demo_between = []" "stmt_time demo_between = 1000"
    by (simp_all add: demo_between_def ClaimEvent_world exec_pool_calm demo_claim(2,3))
  have "(lease_step demo_lib demo_ref nonce_a (stmt_time (snd demo_claimed) + Microseconds (6 * ns_second)))\<^sup>*\<^sup>*
      (snd demo_claimed) demo_between"
    unfolding demo_between_def by (rule r_into_rtranclp, rule lease_step.claim [OF neq time])
  moreover have "ClaimEvent demo_lib ''ledger'' demo_ref nonce_a (6 * ns_second) False (demo_world event_db [])
      = (Inr (1, True), snd demo_claimed)"
    using demo_claim(1) by (simp add: demo_claimed_def prod_eq_iff)
  moreover have "stmt_time (snd (trip demo_between)) < stmt_time (snd demo_claimed) + Microseconds (6 * ns_second)"
    using time between demo_claim by (simp add: trip_def)
  ultimately show ?thesis
    using lease_exclusive [OF _ _ _ _ _ neq, where ?w0.0 = "demo_world event_db []" and e = event_id] between event_db_wf
    by (metis demo_world_sel(1))
qed

text \<open>
  C9. Once delivered, an event is settled for its destination: it is never claimed again, not even
  by force, it is not listed as pending, and its row stays as it is whatever publishing follows.
\<close>

theorem delivered_settled:
  assumes wf: "wf_deliveries (db w)" and r: "r \<in> set (deliveries (db w))" "delivery_key r = (i, e)"
      "dl_delivered_at r = Some t" and ids: "event_ids ref (db w) = [e]" and ds: "quiet_dispatcher L ds"
  shows "(\<forall>k. fst (ClaimEvent L i ref n lease force w) \<noteq> Inr (k, True))
    \<and> ref \<notin> set (pendingQuery i after limit ts (db w))
    \<and> (\<forall>res w'. PublishPending ds j w = Some (res, w') \<longrightarrow> r \<in> set (deliveries (db w')))
    \<and> r \<in> set (deliveries (db (snd (Publish ds src w))))"
proof -
  have find: "find (same_delivery i e) (deliveries (db w)) = Some r"
  proof (cases "find (same_delivery i e) (deliveries (db w))")
    case None
    then show ?thesis using r(1,2) by (auto simp: find_None_iff same_delivery_key)
  next
    case (Some x)
    then show ?thesis using find_delivery [OF wf Some r(1)] r(2) by (simp add: same_delivery_key)
  qed
  have stays: "r \<in> set (deliveries d')" if step: "delivery_step (db w) d'" for d'
  proof -
    obtain r' where "r' \<in> set (deliveries d')" "dl_delivered_at r \<noteq> None \<longrightarrow> r' = r"
      using step wf r(1) unfolding delivery_step_def delivery_grows_def by blast
    then show ?thesis using r(3) by simp
  qed
  have "lease_event L i n us force st e (db w) = Inr (k, d) \<Longrightarrow> k = None" for us st k d
    using find r(3) by (auto simp: lease_event_def leasable_def split: if_splits)
  then have "lease_events L i n us force st (event_ids ref (db w)) (db w) = Inr (ks, d) \<Longrightarrow> ks = []" for us st ks d
    by (auto simp: ids split: sum.splits prod.splits option.splits)
  then have "\<forall>k. fst (ClaimEvent L i ref n lease force w) \<noteq> Inr (k, True)"
    by (auto simp: ClaimEvent_def bind_m_def try_m_def scan_row_def fail_m_def return_m_def
        split: prod.splits sum.splits list.splits if_splits elim!: exec_pool_Inr)
  moreover have "ref \<notin> set (pendingQuery i after limit ts (db w))"
  proof
    assume "ref \<in> set (pendingQuery i after limit ts (db w))"
    then obtain v where v: "v \<in> beyond after (db w)" "ref = \<lparr>sr_TableName = ev_table v, sr_ID = ev_source v\<rparr>"
        "undelivered i v (db w)" by (rule pendingQuery_member)
    then have "ev_uuid v \<in> set (event_ids ref (db w))" by (auto simp: event_ids_def beyond_def)
    then have "ev_uuid v = e" by (simp add: ids)
    with v(3) find r(3) show False by (simp add: undelivered_def delivery_of_def)
  qed
  moreover have "r \<in> set (deliveries (db w'))" if "PublishPending ds j w = Some (res, w')" for res w'
    using that publish_destinations_result [OF ds, of _ empty_summary w] r(1) stays
    by (auto simp: PublishPending_def split: if_splits sum.splits) (metis Pair_inject option.inject)
  moreover have "r \<in> set (deliveries (db (snd (Publish ds src w))))"
    using stays publish_all_keeps [OF ds] by (simp add: Publish_def keeps_def)
  ultimately show ?thesis by blast
qed

theorem delivered_settled_witness:
  "(\<forall>k. fst (ClaimEvent demo_lib ''audit'' demo_ref nonce_a ns_second True (demo_world event_db [])) \<noteq> Inr (k, True))
    \<and> demo_ref \<notin> set (pendingQuery ''audit'' no_ref 100 9 event_db)"
  using delivered_settled [of "demo_world event_db []" old_delivery "''audit''" event_id 4 demo_ref demo_lib
      demo_dispatcher nonce_a ns_second True no_ref 100 9]
  by (simp add: event_db_wf demo_quiet) (simp add: event_db_def old_delivery_def delivery_key_def)

end
