(* ===== verification/Authn.thy ===== *)
theory Authn
  imports Pg_World Go_Time Go_Sha256
begin

text \<open>
  Package \<^verbatim>\<open>authn\<close>: operation assertions. go-jose is a parameter: parsing a compact token with the
  allowed algorithms, its headers, the verification of its signature together with the decoding of
  its claims, and the validation of the registered claims with a leeway. The laws state what its
  documentation promises of a validation that succeeds.
\<close>

section \<open>Types\<close>

definition AuthorizationMetadata :: string where "AuthorizationMetadata = ''authorization''"
definition IdempotencyMetadata :: string where "IdempotencyMetadata = ''idempotency-key''"
definition AuthorizationType :: string where "AuthorizationType = ''urn:bond-exchange:operation:v1''"

definition errInvalidAssertion :: go_error where
  "errInvalidAssertion = ErrorString ''invalid operation assertion''"

record AuthResult =
  ar_Access :: AccessContext
  ar_IdempotencyKey :: string

record 'k jwk =
  jk_KeyID :: string
  jk_Algorithm :: string
  jk_Use :: string
  jk_IsPublic :: bool
  jk_Key :: 'k

text \<open>The registered claims; dates are instants, a missing date is \<open>None\<close>.\<close>

record jwt_claims =
  jc_Issuer :: string
  jc_Subject :: string
  jc_Audience :: "string list"
  jc_ID :: string
  jc_IssuedAt :: "int option"
  jc_NotBefore :: "int option"
  jc_Expiry :: "int option"

record authorizationDetails =
  ad_Type :: string
  ad_Actions :: "string list"
  ad_RequestSHA256 :: string
  ad_IdempotencyKey :: string

record operationClaims =
  oc_ClientID :: string
  oc_Details :: "authorizationDetails list"

record ('t, 'k) jose =
  jo_ParseSigned :: "string \<Rightarrow> string list \<Rightarrow> 't option"
  jo_Headers :: "'t \<Rightarrow> (string \<times> string) list"
  jo_Key :: "'k jwk list \<Rightarrow> string \<Rightarrow> 'k jwk list"
  jo_Claims :: "'t \<Rightarrow> 'k \<Rightarrow> (jwt_claims \<times> operationClaims) option"
  jo_ValidateWithLeeway :: "jwt_claims \<Rightarrow> string \<Rightarrow> string list \<Rightarrow> int \<Rightarrow> int \<Rightarrow> bool"

definition jose_laws :: "('t, 'k) jose \<Rightarrow> bool" where
  "jose_laws J \<longleftrightarrow>
     (\<forall>ks i. set (jo_Key J ks i) = {k \<in> set ks. jk_KeyID k = i}) \<and>
     (\<forall>c issuer audiences now leeway. jo_ValidateWithLeeway J c issuer audiences now leeway \<longrightarrow>
        jc_Issuer c = issuer \<and> (\<exists>a\<in>set audiences. a \<in> set (jc_Audience c))
        \<and> (\<forall>t. jc_Expiry c = Some t \<longrightarrow> now \<le> t + leeway)
        \<and> (\<forall>t. jc_NotBefore c = Some t \<longrightarrow> t \<le> now + leeway))"

record 'k JWTConfig =
  jw_Issuer :: string
  jw_Audience :: string
  jw_Keys :: "'k jwk list"
  jw_Algorithms :: "string list"
  jw_MaximumAge :: int
  jw_ClockSkew :: int
  jw_Now :: "(world \<Rightarrow> clock_time \<times> world) option"

type_synonym PrincipalResolver = "string \<Rightarrow> string \<Rightarrow> Principal m"

record 'k JWTAuthenticator =
  ja_config :: "'k JWTConfig"
  ja_now :: "world \<Rightarrow> clock_time \<times> world"
  ja_resolver :: PrincipalResolver

section \<open>Text checks\<close>

definition validClaimText :: "string \<Rightarrow> nat \<Rightarrow> bool" where
  "validClaimText v maximumBytes =
     (if v = '''' \<or> maximumBytes < length v then False
      else list_all (\<lambda>r. \<not> r < 32 \<and> r \<noteq> 127) (range_runes (map byte_of v)))"

definition singleBearerToken :: "string list \<Rightarrow> string result" where
  "singleBearerToken values = (case values of
     [v] \<Rightarrow>
       (case strings_Cut (CHR '' '') v of
          None \<Rightarrow> Inl errInvalidAssertion
        | Some (scheme, token) \<Rightarrow>
            if scheme \<noteq> ''Bearer'' \<or> token = ''''
               \<or> strings_ContainsAny token [CHR '' '', CHR 0x09, CHR 0x0D, CHR 0x0A]
            then Inl errInvalidAssertion else Inr token)
   | _ \<Rightarrow> Inl errInvalidAssertion)"

definition requestIdempotencyKey :: "('u, 'd) lib \<Rightarrow> string list \<Rightarrow> bool \<Rightarrow> string result" where
  "requestIdempotencyKey L values required =
     (if \<not> required then
        if values \<noteq> [] then Inl (Errorf ''%w: not allowed for read operations'' [ErrInvalidIdempotencyKey])
        else Inr ''''
      else (case values of
              [v] \<Rightarrow> if IsValidIdempotencyKey L v then Inr v else Inl ErrInvalidIdempotencyKey
            | _ \<Rightarrow> Inl ErrInvalidIdempotencyKey))"

definition hex_digit :: "nat \<Rightarrow> char" where
  "hex_digit n = (if n < 10 then char_of (48 + n) else char_of (87 + n))"

definition hex_EncodeToString :: "byte list \<Rightarrow> string" where
  "hex_EncodeToString bs = concat (map (\<lambda>b. [hex_digit (unat b div 16), hex_digit (unat b mod 16)]) bs)"

text \<open>\<^verbatim>\<open>subtle.ConstantTimeCompare\<close>: 1 for equal slices of equal length, otherwise 0.\<close>

unbundle bit_operations_syntax

definition ConstantTimeCompare :: "string \<Rightarrow> string \<Rightarrow> nat" where
  "ConstantTimeCompare x y =
     (if length x \<noteq> length y then 0
      else if foldl (\<lambda>v (a, b). v OR (a XOR b)) (0 :: byte) (zip (bytes_of x) (bytes_of y)) = 0 then 1 else 0)"

section \<open>NewJWTAuthenticator\<close>

fun check_keys :: "string list \<Rightarrow> string list \<Rightarrow> 'k jwk list \<Rightarrow> unit result" where
  "check_keys algorithms seen [] = Inr ()"
| "check_keys algorithms seen (k # ks) =
     (if \<not> validClaimText (jk_KeyID k) 128 \<or> jk_KeyID k \<in> set seen \<or> \<not> jk_IsPublic k
         \<or> jk_Use k \<noteq> ''sig'' \<or> jk_Algorithm k \<notin> set algorithms
      then Inl (ErrorString ''every verification key must be public, have a key ID, and have use sig'')
      else check_keys algorithms (jk_KeyID k # seen) ks)"

definition NewJWTAuthenticator ::
  "(world \<Rightarrow> clock_time \<times> world) \<Rightarrow> 'k JWTConfig \<Rightarrow> PrincipalResolver option \<Rightarrow> 'k JWTAuthenticator result" where
  "NewJWTAuthenticator wall config resolver =
     (case resolver of
        None \<Rightarrow> Inl (ErrorString ''issuer, audience, verification keys, and principal resolver are required'')
      | Some res \<Rightarrow>
          if \<not> validClaimText (jw_Issuer config) 1024 \<or> \<not> validClaimText (jw_Audience config) 1024
             \<or> jw_Keys config = []
          then Inl (ErrorString ''issuer, audience, verification keys, and principal resolver are required'')
          else
            (let c1 = (if jw_Algorithms config = [] then config\<lparr>jw_Algorithms := [''EdDSA'', ''ES256'']\<rparr> else config);
                 c2 = (if jw_MaximumAge c1 \<le> 0 then c1\<lparr>jw_MaximumAge := 5 * ns_minute\<rparr> else c1)
             in if jw_ClockSkew c2 < 0 \<or> ns_minute < jw_ClockSkew c2 then
                  Inl (ErrorString ''clock skew must be between zero and one minute'')
                else
                  (let c3 = (if jw_ClockSkew c2 = 0 then c2\<lparr>jw_ClockSkew := 30 * ns_second\<rparr> else c2)
                   in bind_r (check_keys (jw_Algorithms c3) [] (jw_Keys c3)) (\<lambda>_.
                      Inr \<lparr>ja_config = c3, ja_now = (case jw_Now c3 of None \<Rightarrow> wall | Some now \<Rightarrow> now),
                           ja_resolver = res\<rparr>))))"

section \<open>Claims\<close>

definition validateClaims ::
  "('u, 'd) lib \<Rightarrow> ('t, 'k) jose \<Rightarrow> 'k JWTConfig \<Rightarrow> int \<Rightarrow> jwt_claims \<Rightarrow> operationClaims \<Rightarrow> string \<Rightarrow> string
     \<Rightarrow> string \<Rightarrow> unit result" where
  "validateClaims L J config now standard claim operation canonicalRequest idempotencyKey =
     (case (jc_IssuedAt standard, jc_Expiry standard) of
        (Some issuedAt, Some expiresAt) \<Rightarrow>
          if \<not> validClaimText (jc_Subject standard) 256 \<or> \<not> IsValidIdempotencyKey L (jc_ID standard) then
            Inl errInvalidAssertion
          else if \<not> jo_ValidateWithLeeway J standard (jw_Issuer config) [jw_Audience config] now (jw_ClockSkew config) then
            Inl errInvalidAssertion
          else if now + jw_ClockSkew config < issuedAt \<or> time_Sub expiresAt issuedAt \<le> 0
             \<or> jw_MaximumAge config < time_Sub expiresAt issuedAt then
            Inl errInvalidAssertion
          else if \<not> validClaimText (oc_ClientID claim) 256 then Inl errInvalidAssertion
          else (case oc_Details claim of
                  [detail] \<Rightarrow>
                    if ad_Type detail \<noteq> AuthorizationType \<or> ad_Actions detail \<noteq> [operation] then
                      Inl errInvalidAssertion
                    else
                      (let wantDigest = hex_EncodeToString (Sum256 canonicalRequest)
                       in if length (ad_RequestSHA256 detail) \<noteq> length wantDigest
                             \<or> ConstantTimeCompare (ad_RequestSHA256 detail) wantDigest \<noteq> 1 then
                            Inl errInvalidAssertion
                          else if ad_IdempotencyKey detail \<noteq> idempotencyKey then Inl errInvalidAssertion
                          else Inr ())
                | _ \<Rightarrow> Inl errInvalidAssertion)
      | _ \<Rightarrow> Inl errInvalidAssertion)"

section \<open>Authenticate\<close>

text \<open>The verification of the token: its claims, checked against the one key its header names.\<close>

definition verified_claims ::
  "('t, 'k) jose \<Rightarrow> 'k JWTConfig \<Rightarrow> string \<Rightarrow> (jwt_claims \<times> operationClaims) result" where
  "verified_claims J config rawAssertion =
     (case jo_ParseSigned J rawAssertion (jw_Algorithms config) of
        None \<Rightarrow> Inl ErrUnauthenticated
      | Some token \<Rightarrow>
          if 16 * 1024 < length rawAssertion then Inl ErrUnauthenticated
          else (case jo_Headers J token of
                  [(keyID, algorithm)] \<Rightarrow>
                    if keyID = '''' then Inl ErrUnauthenticated
                    else (case jo_Key J (jw_Keys config) keyID of
                            [k] \<Rightarrow>
                              if jk_Algorithm k \<noteq> algorithm then Inl ErrUnauthenticated
                              else (case jo_Claims J token (jk_Key k) of
                                      None \<Rightarrow> Inl ErrUnauthenticated
                                    | Some claims \<Rightarrow> Inr claims)
                          | _ \<Rightarrow> Inl ErrUnauthenticated)
                | _ \<Rightarrow> Inl ErrUnauthenticated))"

text \<open>
  \<open>md\<close> is the incoming metadata. The stage reached is recorded with the outcome, whatever path
  returns.
\<close>

definition authenticate_stages ::
  "('u, 'd) lib \<Rightarrow> ('t, 'k) jose \<Rightarrow> 'k JWTAuthenticator \<Rightarrow> (string \<Rightarrow> string list) \<Rightarrow> string \<Rightarrow> string \<Rightarrow> bool
     \<Rightarrow> world \<Rightarrow> (string \<times> AuthResult result) \<times> world" where
  "authenticate_stages L J ja md operation canonicalRequest idempotent w =
     (case singleBearerToken (md AuthorizationMetadata) of
        Inl _ \<Rightarrow> ((''metadata'', Inl ErrUnauthenticated), w)
      | Inr rawAssertion \<Rightarrow>
          (case requestIdempotencyKey L (md IdempotencyMetadata) idempotent of
             Inl e \<Rightarrow> ((''metadata'', Inl e), w)
           | Inr idempotencyKey \<Rightarrow>
               (case verified_claims J (ja_config ja) rawAssertion of
                  Inl e \<Rightarrow> ((''assertion'', Inl e), w)
                | Inr (standard, claim) \<Rightarrow>
                    (case ja_now ja w of (now, w1) \<Rightarrow>
                     (case validateClaims L J (ja_config ja) (tm_instant now) standard claim operation
                             canonicalRequest idempotencyKey of
                        Inl _ \<Rightarrow> ((''assertion'', Inl ErrUnauthenticated), w1)
                      | Inr _ \<Rightarrow>
                          (case ja_resolver ja (jc_Issuer standard) (jc_Subject standard) w1 of
                             (Inl _, w2) \<Rightarrow> ((''principal_resolution'', Inl ErrUnauthenticated), w2)
                           | (Inr resolved, w2) \<Rightarrow>
                               ((''complete'', Inr
                                  \<lparr>ar_Access = \<lparr>ac_Principal = resolved\<lparr>p_Issuer := jc_Issuer standard,
                                       p_Subject := jc_Subject standard, p_ClientID := oc_ClientID claim\<rparr>,
                                     ac_Operation = operation, ac_AssertionID = jc_ID standard,
                                     ac_AssertionDigest = Sum256 rawAssertion,
                                     ac_RequestDigest = Sum256 canonicalRequest\<rparr>,
                                   ar_IdempotencyKey = idempotencyKey\<rparr>), w2)))))))"

definition Authenticate ::
  "('u, 'd) lib \<Rightarrow> ('t, 'k) jose \<Rightarrow> 'k JWTAuthenticator \<Rightarrow> (string \<Rightarrow> string list) \<Rightarrow> string \<Rightarrow> string \<Rightarrow> bool
     \<Rightarrow> AuthResult m" where
  "Authenticate L J ja md operation canonicalRequest idempotent w =
     (case authenticate_stages L J ja md operation canonicalRequest idempotent w of
        ((stage, r), w1) \<Rightarrow>
          (r, snd (metric_m ''authentication''
                [operation, if is_ok r then ''succeeded'' else ''rejected'', stage] w1)))"

end
