(* ===== verification/Rpc_Api.thy ===== *)
theory Rpc_Api
  imports Authn Eventing Rate_Limit
begin

text \<open>
  Package \<^verbatim>\<open>rpcapi\<close>: the gRPC service. Every handler authenticates the request, admits it, calls the
  application and translates its error into a status. Deterministic protobuf encoding and the
  text of driver errors are parameters; \<^verbatim>\<open>status.FromContextError\<close> is one too. Log records and
  operation metrics go to \<open>metrics\<close>.
\<close>

section \<open>Error texts\<close>

text \<open>\<^verbatim>\<open>fmt.Errorf\<close> with \<^verbatim>\<open>%w\<close> verbs: each verb takes the text of the next wrapped error.\<close>

fun fill_verbs :: "string \<Rightarrow> string list \<Rightarrow> string" where
  "fill_verbs [] texts = []"
| "fill_verbs [c] texts = [c]"
| "fill_verbs (c # c' # cs) texts =
     (if c = CHR ''%'' \<and> c' = CHR ''w'' then
        (case texts of [] \<Rightarrow> ''%!w(MISSING)'' @ fill_verbs cs [] | t # ts \<Rightarrow> t @ fill_verbs cs ts)
      else c # fill_verbs (c' # cs) texts)"

text \<open>The texts of the errors the packages declare.\<close>

definition sentinel_text :: "(go_error \<Rightarrow> string) \<Rightarrow> go_error \<Rightarrow> string" where
  "sentinel_text driver e = (case e of
     ErrorString m \<Rightarrow> m
   | ContextCanceled \<Rightarrow> ''context canceled''
   | ContextDeadlineExceeded \<Rightarrow> ''context deadline exceeded''
   | ErrInvalidOfferID \<Rightarrow> ''sale-offer ID must be a canonical UUIDv7''
   | ErrInvalidBondSeries \<Rightarrow> ''bond series must be 3-40 uppercase ASCII alphanumeric characters''
   | ErrInvalidPrice \<Rightarrow> ''price must be a positive decimal with at most 10 integer and 4 fractional digits''
   | ErrInvalidCurrencyCode \<Rightarrow> ''currency code must contain exactly three uppercase ASCII letters''
   | ErrSellerNotFound \<Rightarrow> ''seller is not a known principal''
   | ErrBondNotFound \<Rightarrow> ''bond series does not exist''
   | ErrOfferAlreadyExists \<Rightarrow> ''sale-offer ID already exists''
   | ErrOfferUnavailable \<Rightarrow> ''sale offer does not exist or has already been bought''
   | ErrSelfTradeProhibited \<Rightarrow> ''a buyer cannot reserve their own sale offer''
   | ErrUnauthenticated \<Rightarrow> ''authentication required''
   | ErrPermissionDenied \<Rightarrow> ''operation not permitted''
   | ErrInvalidOperation \<Rightarrow> ''invalid operation authorization''
   | ErrInvalidIdempotencyKey \<Rightarrow> ''idempotency key must be a canonical UUIDv4 nonce''
   | ErrIdempotencyConflict \<Rightarrow> ''idempotency key was already used for another operation''
   | ErrUnsupportedSubmissionCurrency \<Rightarrow> ''sale offers may be submitted only in MXN or USD''
   | ErrConversionQuoteRequired \<Rightarrow> ''an accepted USD-to-MXN conversion quote is required''
   | ErrInvalidConversionQuote \<Rightarrow> ''conversion quote must be a canonical UUIDv7''
   | ErrConversionQuoteUnavailable \<Rightarrow> ''conversion quote is missing, expired, mismatched, or already used''
   | ErrExchangeRateUnavailable \<Rightarrow> ''an acceptable Banxico FIX exchange rate is unavailable''
   | ErrExceeded \<Rightarrow> ''request rate limit exceeded''
   | ExceededError _ \<Rightarrow> ''request rate limit exceeded''
   | ErrUnknownDestination \<Rightarrow> ''unknown event publisher destination''
   | ErrNoPublishers \<Rightarrow> ''no event publishers are configured''
   | _ \<Rightarrow> driver e)"

fun Error_text :: "(go_error \<Rightarrow> string) \<Rightarrow> go_error \<Rightarrow> string" where
  "Error_text driver (Errorf m es) = fill_verbs m (map (Error_text driver) es)"
| "Error_text driver e = sentinel_text driver e"

section \<open>Statuses\<close>

datatype code = Canceled | Unknown | InvalidArgument | DeadlineExceeded | NotFound | AlreadyExists
  | PermissionDenied | ResourceExhausted | FailedPrecondition | Unimplemented | Internal | Unavailable | Unauthenticated

record grpc_status =
  gs_code :: code
  gs_message :: string
  gs_retry :: "int option"

definition status_Error :: "code \<Rightarrow> string \<Rightarrow> grpc_status" where
  "status_Error c m = \<lparr>gs_code = c, gs_message = m, gs_retry = None\<rparr>"

record rpc_env =
  re_driver_text :: "go_error \<Rightarrow> string"
  re_FromContextError :: "go_error \<Rightarrow> grpc_status"

definition transportError :: "rpc_env \<Rightarrow> go_error \<Rightarrow> grpc_status" where
  "transportError E err =
     (let is = errors_Is err; text = Error_text (re_driver_text E) err
      in if is ContextCanceled \<or> is ContextDeadlineExceeded then re_FromContextError E err
         else if is ErrUnauthenticated then status_Error Unauthenticated ''authentication required''
         else if is ErrPermissionDenied then status_Error PermissionDenied ''operation not permitted''
         else if is ErrExceeded then
           (status_Error ResourceExhausted ''request rate limit exceeded'')\<lparr>gs_retry := RetryAfter err\<rparr>
         else if is ErrRateLimitUnavailable then status_Error Unavailable ''request admission unavailable''
         else if is ErrInvalidOfferID \<or> is ErrInvalidBondSeries \<or> is ErrInvalidPrice \<or> is ErrInvalidCurrencyCode
           \<or> is ErrInvalidIdempotencyKey \<or> is ErrInvalidOperation \<or> is ErrUnsupportedSubmissionCurrency
           \<or> is ErrInvalidConversionQuote then status_Error InvalidArgument text
         else if is ErrConversionQuoteRequired \<or> is ErrConversionQuoteUnavailable \<or> is ErrSelfTradeProhibited then
           status_Error FailedPrecondition text
         else if is ErrExchangeRateUnavailable then status_Error Unavailable text
         else if is ErrOfferUnavailable \<or> is ErrBondNotFound then status_Error NotFound text
         else if is ErrSellerNotFound then status_Error Internal ''internal identity consistency error''
         else if is ErrOfferAlreadyExists then status_Error AlreadyExists text
         else if is ErrIdempotencyConflict then status_Error AlreadyExists text
         else if is ErrUnknownDestination then status_Error InvalidArgument text
         else if is ErrNoPublishers then status_Error FailedPrecondition text
         else status_Error Internal ''internal server error'')"

definition code_String :: "code \<Rightarrow> string" where
  "code_String c = (case c of
     Canceled \<Rightarrow> ''Canceled'' | Unknown \<Rightarrow> ''Unknown'' | InvalidArgument \<Rightarrow> ''InvalidArgument''
   | DeadlineExceeded \<Rightarrow> ''DeadlineExceeded'' | NotFound \<Rightarrow> ''NotFound'' | AlreadyExists \<Rightarrow> ''AlreadyExists''
   | PermissionDenied \<Rightarrow> ''PermissionDenied'' | ResourceExhausted \<Rightarrow> ''ResourceExhausted''
   | FailedPrecondition \<Rightarrow> ''FailedPrecondition'' | Unimplemented \<Rightarrow> ''Unimplemented'' | Internal \<Rightarrow> ''Internal'' | Unavailable \<Rightarrow> ''Unavailable''
   | Unauthenticated \<Rightarrow> ''Unauthenticated'')"

section \<open>Messages\<close>

datatype proto_request =
    QuoteSaleOfferRequest string string string
  | CreateSaleOfferRequest string string string string
  | BuyRequest string
  | ListActiveOffersRequest string
  | ListActiveBondSeriesRequest
  | CheckHealthRequest
  | PublishPendingEventsRequest string

record proto_offer =
  pf_Id :: string
  pf_BondSeries :: string
  pf_Price :: string
  pf_CurrencyCode :: string

record proto_quote =
  pq_QuoteId :: string
  pq_BondSeries :: string
  pq_SubmittedPrice :: string
  pq_SubmittedCurrencyCode :: string
  pq_MxnPrice :: string
  pq_CurrencyCode :: string
  pq_Rate :: string
  pq_RateSeries :: string
  pq_RateObservedOn :: int
  pq_ExpiresAt :: int

datatype proto_response =
    QuoteSaleOfferResponse proto_quote
  | CreateSaleOfferResponse proto_offer
  | BuyResponse proto_offer int
  | ListActiveBondSeriesResponse "string list"
  | CheckHealthResponse string
  | PublishPendingEventsResponse nat nat nat nat

datatype stream_event = OfferEvent proto_offer | CompleteEvent nat

definition saleOfferToProto :: "('u, 'd) lib \<Rightarrow> 'd SaleOffer \<Rightarrow> proto_offer" where
  "saleOfferToProto L offer =
     \<lparr>pf_Id = so_ID offer, pf_BondSeries = so_BondSeries offer, pf_Price = dec_String L (so_Price offer),
      pf_CurrencyCode = so_Currency offer\<rparr>"

definition purchaseToProto :: "('u, 'd) lib \<Rightarrow> 'd Purchase \<Rightarrow> proto_response" where
  "purchaseToProto L purchase =
     BuyResponse (saleOfferToProto L (pu_Offer purchase)) (go_instant (pu_BoughtAt purchase))"

section \<open>The server\<close>

record 'd RpcApplication =
  ra_Buy :: "AccessContext \<Rightarrow> string \<Rightarrow> string \<Rightarrow> 'd Purchase m"
  ra_CreateSaleOffer :: "AccessContext \<Rightarrow> string \<Rightarrow> string \<Rightarrow> string \<Rightarrow> string \<Rightarrow> string \<Rightarrow> 'd SaleOffer m"
  ra_QuoteSaleOffer :: "AccessContext \<Rightarrow> string \<Rightarrow> string \<Rightarrow> string \<Rightarrow> string \<Rightarrow> world \<Rightarrow> ('d Quote result \<times> world) option"
  ra_StreamActiveOffers :: "AccessContext \<Rightarrow> string \<Rightarrow> ('d SaleOffer \<Rightarrow> unit m) option \<Rightarrow> unit m"
  ra_ActiveBondSeries :: "AccessContext \<Rightarrow> BondSeries list m"
  ra_PublishPendingEvents :: "AccessContext \<Rightarrow> string \<Rightarrow> world \<Rightarrow> (summary_result \<times> world) option"

type_synonym Authenticator = "(string \<Rightarrow> string list) \<Rightarrow> string \<Rightarrow> string \<Rightarrow> bool \<Rightarrow> AuthResult m"

record 'd Server =
  sr_application :: "'d RpcApplication"
  sr_Ping :: "unit m"
  sr_Authorize :: "AccessContext \<Rightarrow> string \<Rightarrow> unit m"
  sr_authenticator :: "Authenticator option"
  sr_rateLimiter :: "(string \<Rightarrow> unit m) option"
  sr_marshal :: "proto_request \<Rightarrow> string option"
  sr_env :: rpc_env

text \<open>
  \<^verbatim>\<open>authenticate\<close> returns the authentication result also beside an admission error, so that the
  handler can log who was refused.
\<close>

definition server_authenticate ::
  "'d Server \<Rightarrow> (string \<Rightarrow> string list) \<Rightarrow> string \<Rightarrow> proto_request \<Rightarrow> bool \<Rightarrow> (AuthResult option \<times> go_error option) m" where
  "server_authenticate sv md operation request idempotent =
     (case sr_authenticator sv of
        None \<Rightarrow> return_m (None, Some ErrUnauthenticated)
      | Some authenticator \<Rightarrow>
          (case sr_marshal sv request of
             None \<Rightarrow> return_m (None, Some ErrInvalidOperation)
           | Some canonical \<Rightarrow>
               bind_m (try_m (authenticator md operation canonical idempotent)) (\<lambda>r.
               case r of
                 Inl e \<Rightarrow> return_m (None, Some e)
               | Inr authenticated \<Rightarrow>
                   (case sr_rateLimiter sv of
                      None \<Rightarrow>
                        bind_m (metric_m ''rate_limit'' [operation, ''error'']) (\<lambda>_.
                        return_m (Some authenticated, Some ErrRateLimitUnavailable))
                    | Some admit \<Rightarrow>
                        bind_m (try_m (admit (p_ID (ac_Principal (ar_Access authenticated))))) (\<lambda>admitted.
                        case admitted of
                          Inl e \<Rightarrow>
                            bind_m (metric_m ''rate_limit''
                              [operation, if errors_Is e ErrExceeded then ''rejected'' else ''error'']) (\<lambda>_.
                            return_m (Some authenticated, Some e))
                        | Inr _ \<Rightarrow>
                            bind_m (metric_m ''rate_limit'' [operation, ''allowed'']) (\<lambda>_.
                            return_m (Some authenticated, None)))))))"

definition authenticatedAccess :: "AuthResult option \<Rightarrow> AccessContext option" where
  "authenticatedAccess authenticated = (case authenticated of
     None \<Rightarrow> None
   | Some a \<Rightarrow> if p_ID (ac_Principal (ar_Access a)) = '''' then None else Some (ar_Access a))"

definition retry_after_seconds :: "int \<Rightarrow> int" where
  "retry_after_seconds d = d div ns_second + (if d mod ns_second \<noteq> 0 then 1 else 0)"

definition logSecurityOperation ::
  "'d Server \<Rightarrow> string \<Rightarrow> AccessContext option \<Rightarrow> go_error option \<Rightarrow> nat option \<Rightarrow> unit m" where
  "logSecurityOperation sv operation access err offerCount =
     (let code = (case err of None \<Rightarrow> '''' | Some e \<Rightarrow> code_String (gs_code (transportError (sr_env sv) e)));
          outcome = (if err = None then ''succeeded'' else ''rejected'');
          who = (case access of
                   None \<Rightarrow> []
                 | Some a \<Rightarrow> [p_ID (ac_Principal a), p_ClientID (ac_Principal a), p_ClientClass (ac_Principal a),
                              ac_AssertionID a, hex_EncodeToString (ac_RequestDigest a)]);
          retry = (case err of
                     None \<Rightarrow> []
                   | Some e \<Rightarrow> (case RetryAfter e of None \<Rightarrow> []
                       | Some d \<Rightarrow> [append_int (retry_after_seconds d) 1]));
          count = (case offerCount of None \<Rightarrow> [] | Some n \<Rightarrow> [append_digits 1 n])
      in bind_m (metric_m ''operation'' ([operation, outcome, code] @ count)) (\<lambda>_.
         metric_m ''security.operation'' ([operation, outcome, code] @ who @ retry)))"

text \<open>A handler fails with a status, or in one place with the error of the stream itself.\<close>

datatype rpc_error = StatusError grpc_status | StreamError go_error

type_synonym 'a reply = "rpc_error + 'a"

text \<open>
  What the handlers share: authenticate, log and refuse on an error, otherwise run the body with the
  access context and the idempotency key. The body's world is that after admission.
\<close>

definition with_access ::
  "'d Server \<Rightarrow> (string \<Rightarrow> string list) \<Rightarrow> string \<Rightarrow> proto_request \<Rightarrow> bool
     \<Rightarrow> (AuthResult \<Rightarrow> world \<Rightarrow> ('a reply \<times> world) option) \<Rightarrow> world \<Rightarrow> ('a reply \<times> world) option" where
  "with_access sv md operation request idempotent body w =
     (case server_authenticate sv md operation request idempotent w of
        (Inr (Some authenticated, None), w1) \<Rightarrow> body authenticated w1
      | (Inr (authenticated, err), w1) \<Rightarrow>
          (let e = (case err of Some e \<Rightarrow> e | None \<Rightarrow> ErrUnauthenticated)
           in Some (Inl (StatusError (transportError (sr_env sv) e)),
                    snd (logSecurityOperation sv operation (authenticatedAccess authenticated) (Some e) None w1)))
      | (Inl e, w1) \<Rightarrow> Some (Inl (StatusError (transportError (sr_env sv) e)), w1))"

text \<open>The end of a unary handler: log, and translate the result.\<close>

definition conclude ::
  "'d Server \<Rightarrow> string \<Rightarrow> AccessContext \<Rightarrow> ('a \<Rightarrow> proto_response) \<Rightarrow> 'a result \<times> world \<Rightarrow> proto_response reply \<times> world" where
  "conclude sv operation access render = (\<lambda>(r, w).
     case r of
       Inl e \<Rightarrow> (Inl (StatusError (transportError (sr_env sv) e)),
                 snd (logSecurityOperation sv operation (Some access) (Some e) None w))
     | Inr a \<Rightarrow> (Inr (render a), snd (logSecurityOperation sv operation (Some access) None None w)))"

definition Rpc_QuoteSaleOffer ::
  "('u, 'd) lib \<Rightarrow> 'd Server \<Rightarrow> (string \<Rightarrow> string list) \<Rightarrow> string \<Rightarrow> string \<Rightarrow> string \<Rightarrow> world
     \<Rightarrow> (proto_response reply \<times> world) option" where
  "Rpc_QuoteSaleOffer L sv md bond price currency =
     with_access sv md OperationQuoteSaleOffer (QuoteSaleOfferRequest bond price currency) True (\<lambda>a w.
       map_option (conclude sv OperationQuoteSaleOffer (ar_Access a) (\<lambda>quote. QuoteSaleOfferResponse
         \<lparr>pq_QuoteId = qt_ID quote, pq_BondSeries = qt_BondSeries quote,
          pq_SubmittedPrice = dec_String L (qt_SubmittedPrice quote), pq_SubmittedCurrencyCode = USD,
          pq_MxnPrice = dec_String L (qt_MXNPrice quote), pq_CurrencyCode = MXN,
          pq_Rate = dec_String L (qt_Rate quote), pq_RateSeries = FIXSeriesID,
          pq_RateObservedOn = qt_RateObservedOn quote * ns_day, pq_ExpiresAt = qt_ExpiresAt quote\<rparr>))
         (ra_QuoteSaleOffer (sr_application sv) (ar_Access a) (ar_IdempotencyKey a) bond price currency w))"

definition Rpc_CreateSaleOffer ::
  "('u, 'd) lib \<Rightarrow> 'd Server \<Rightarrow> (string \<Rightarrow> string list) \<Rightarrow> string \<Rightarrow> string \<Rightarrow> string \<Rightarrow> string \<Rightarrow> world
     \<Rightarrow> (proto_response reply \<times> world) option" where
  "Rpc_CreateSaleOffer L sv md bond price currency quoteID =
     with_access sv md OperationCreateSaleOffer (CreateSaleOfferRequest bond price currency quoteID) True (\<lambda>a w.
       Some (conclude sv OperationCreateSaleOffer (ar_Access a) (\<lambda>offer. CreateSaleOfferResponse (saleOfferToProto L offer))
         (ra_CreateSaleOffer (sr_application sv) (ar_Access a) (ar_IdempotencyKey a) bond price currency quoteID w)))"

definition Rpc_Buy ::
  "('u, 'd) lib \<Rightarrow> 'd Server \<Rightarrow> (string \<Rightarrow> string list) \<Rightarrow> string \<Rightarrow> world \<Rightarrow> (proto_response reply \<times> world) option" where
  "Rpc_Buy L sv md offer =
     with_access sv md OperationBuy (BuyRequest offer) True (\<lambda>a w.
       case ra_Buy (sr_application sv) (ar_Access a) (ar_IdempotencyKey a) offer w of (r, w1) \<Rightarrow>
         let w2 = (case r of
                     Inl e \<Rightarrow> if errors_Is e ErrSelfTradeProhibited then snd (metric_m ''self_trade_rejection'' [] w1) else w1
                   | Inr _ \<Rightarrow> w1)
         in Some (conclude sv OperationBuy (ar_Access a) (purchaseToProto L) (r, w2)))"

text \<open>
  The stream: \<open>send\<close> writes one message. The counter of the closure is kept as marks in the metric
  log, one per offer sent.
\<close>

definition offer_mark :: metric where "offer_mark = Metric ''offer_count'' []"

definition send_counted :: "('u, 'd) lib \<Rightarrow> (stream_event \<Rightarrow> unit m) \<Rightarrow> 'd SaleOffer \<Rightarrow> unit m" where
  "send_counted L send offer =
     bind_m (send (OfferEvent (saleOfferToProto L offer))) (\<lambda>_. metric_m ''offer_count'' [])"

definition offers_sent :: "world \<Rightarrow> world \<Rightarrow> nat" where
  "offers_sent w w' = length (filter (\<lambda>x. x = offer_mark) (drop (length (metrics w)) (metrics w')))"

definition Rpc_ListActiveOffers ::
  "('u, 'd) lib \<Rightarrow> 'd Server \<Rightarrow> (string \<Rightarrow> string list) \<Rightarrow> (stream_event \<Rightarrow> unit m) \<Rightarrow> string
     \<Rightarrow> world \<Rightarrow> (unit reply \<times> world) option" where
  "Rpc_ListActiveOffers L sv md send bond =
     with_access sv md OperationListActiveOffers (ListActiveOffersRequest bond) False (\<lambda>a w.
       case ra_StreamActiveOffers (sr_application sv) (ar_Access a) bond (Some (send_counted L send)) w of
         (Inl e, w1) \<Rightarrow>
           Some (Inl (StatusError (transportError (sr_env sv) e)),
             snd (logSecurityOperation sv OperationListActiveOffers (Some (ar_Access a)) (Some e)
               (Some (offers_sent w w1)) w1))
       | (Inr _, w1) \<Rightarrow>
           (case send (CompleteEvent (offers_sent w w1)) w1 of (r, w2) \<Rightarrow>
              Some (case r of Inl e \<Rightarrow> Inl (StreamError e) | Inr _ \<Rightarrow> Inr (),
                snd (logSecurityOperation sv OperationListActiveOffers (Some (ar_Access a))
                  (case r of Inl e \<Rightarrow> Some e | Inr _ \<Rightarrow> None) (Some (offers_sent w w1)) w2))))"

definition Rpc_ListActiveBondSeries ::
  "'d Server \<Rightarrow> (string \<Rightarrow> string list) \<Rightarrow> world \<Rightarrow> (proto_response reply \<times> world) option" where
  "Rpc_ListActiveBondSeries sv md =
     with_access sv md OperationListBondSeries ListActiveBondSeriesRequest False (\<lambda>a w.
       Some (conclude sv OperationListBondSeries (ar_Access a) ListActiveBondSeriesResponse
         (ra_ActiveBondSeries (sr_application sv) (ar_Access a) w)))"

definition Rpc_CheckHealth ::
  "'d Server \<Rightarrow> (string \<Rightarrow> string list) \<Rightarrow> world \<Rightarrow> (proto_response reply \<times> world) option" where
  "Rpc_CheckHealth sv md =
     with_access sv md OperationCheckHealth CheckHealthRequest False (\<lambda>a w.
       case sr_Authorize sv (ar_Access a) PermissionCheckHealth w of
         (Inl e, w1) \<Rightarrow>
           Some (Inl (StatusError (transportError (sr_env sv) e)),
             snd (logSecurityOperation sv OperationCheckHealth (Some (ar_Access a)) (Some e) None w1))
       | (Inr _, w1) \<Rightarrow>
           (case sr_Ping sv w1 of
              (Inl _, w2) \<Rightarrow>
                Some (Inl (StatusError (status_Error Unavailable ''database unavailable'')),
                  snd (logSecurityOperation sv OperationCheckHealth (Some (ar_Access a))
                    (Some (ErrorString ''rpc error: code = Unavailable desc = database unavailable'')) None w2))
            | (Inr _, w2) \<Rightarrow>
                Some (Inr (CheckHealthResponse ''ok''),
                  snd (logSecurityOperation sv OperationCheckHealth (Some (ar_Access a)) None None w2))))"

definition Rpc_PublishPendingEvents ::
  "'d Server \<Rightarrow> (string \<Rightarrow> string list) \<Rightarrow> string \<Rightarrow> world \<Rightarrow> (proto_response reply \<times> world) option" where
  "Rpc_PublishPendingEvents sv md destination =
     with_access sv md OperationPublishPendingEvents (PublishPendingEventsRequest destination) True (\<lambda>a w.
       case ra_PublishPendingEvents (sr_application sv) (ar_Access a) destination w of
         None \<Rightarrow> None
       | Some ((summary, err), w1) \<Rightarrow>
           (let w2 = snd (logSecurityOperation sv OperationPublishPendingEvents (Some (ar_Access a)) err None w1)
            in case err of
                 Some e \<Rightarrow> Some (Inl (StatusError (transportError (sr_env sv) e)), w2)
               | None \<Rightarrow> Some (Inr (PublishPendingEventsResponse (su_Attempted summary) (su_Delivered summary)
                   (su_Failed summary) (su_Remaining summary)), w2)))"

end
