(* ===== verification/Authn_Facts.thy ===== *)
theory Authn_Facts
  imports Rpc_Api
begin

text \<open>
  Facts about assertions and the gate of the service: the comparison in constant time decides
  equality, the text check can be read on bytes, and what an accepted assertion proves.
\<close>

unbundle bit_operations_syntax

section \<open>Comparison in constant time\<close>

lemma word_or_xor_0:
  fixes v :: "'a :: len word"
  shows "v OR (a XOR b) = 0 \<longleftrightarrow> v = 0 \<and> a = b"
proof
  assume "v OR (a XOR b) = 0"
  then have "bit (v OR (a XOR b)) n = bit (0 :: 'a word) n" for n by simp
  then have none: "\<not> bit v n \<and> bit a n = bit b n" for n by (auto simp: bit_or_iff bit_xor_iff)
  then show "v = 0 \<and> a = b" by (auto intro: bit_word_eqI)
qed simp

lemma foldl_or_zero:
  "foldl (\<lambda>v (a, b). v OR (a XOR b)) v ps = (0 :: 'a :: len word) \<longleftrightarrow> v = 0 \<and> (\<forall>(a, b)\<in>set ps. a = b)"
  by (induction ps arbitrary: v) (auto simp: word_or_xor_0)

lemma byte_word_inject: "(of_nat (byte_of c) :: byte) = of_nat (byte_of c') \<longleftrightarrow> c = c'"
proof -
  have "unat (of_nat (byte_of c) :: byte) = byte_of c" for c
    using byte_of_less [of c] by (simp add: unat_of_nat)
  then show ?thesis by (metis byte_of_def char_of_char)
qed

lemma bytes_of_inject [simp]: "bytes_of x = bytes_of y \<longleftrightarrow> x = y"
  unfolding bytes_of_def by (rule inj_map_eq_map) (simp add: inj_def byte_word_inject)

lemma zip_all_eq: "length xs = length ys \<Longrightarrow> (\<forall>(a, b)\<in>set (zip xs ys). a = b) \<longleftrightarrow> xs = ys"
  by (induction xs ys rule: list_induct2) auto

lemma length_bytes_of [simp]: "length (bytes_of x) = length x"
  by (simp add: bytes_of_def)

lemma compare_decides: "ConstantTimeCompare x y = (if x = y then 1 else 0)"
proof (cases "length x = length y")
  case True
  then have "length (bytes_of x) = length (bytes_of y)" by simp
  from zip_all_eq [OF this] True show ?thesis by (simp add: ConstantTimeCompare_def foldl_or_zero)
qed (auto simp: ConstantTimeCompare_def)

section \<open>Text checks\<close>

lemma validClaimText_iff:
  "validClaimText v n \<longleftrightarrow> v \<noteq> '''' \<and> length v \<le> n \<and> (\<forall>c\<in>set v. 32 \<le> byte_of c \<and> byte_of c \<noteq> 127)"
proof -
  have small: "r \<in> set (range_runes (map byte_of v)) \<longleftrightarrow> r \<in> set (map byte_of v)" if "r < 32 \<or> r = 127" for r
    using that by (intro ascii_rune_iff) auto
  have "(\<forall>r\<in>set (range_runes (map byte_of v)). \<not> r < 32 \<and> r \<noteq> 127)
      \<longleftrightarrow> (\<forall>r\<in>set (map byte_of v). \<not> r < 32 \<and> r \<noteq> 127)"
    using small by blast
  then show ?thesis by (auto simp: validClaimText_def list_all_iff not_less)
qed

section \<open>What an accepted assertion proves\<close>

text \<open>
  The claims of a token, signed by a configured key, that authorise exactly this operation on this
  request under this idempotency key, at the given time.
\<close>

definition authorizes ::
  "('t, 'k) jose \<Rightarrow> 'k JWTConfig \<Rightarrow> string \<Rightarrow> int \<Rightarrow> string \<Rightarrow> string \<Rightarrow> string \<Rightarrow> jwt_claims \<Rightarrow> operationClaims \<Rightarrow> bool" where
  "authorizes J config raw now operation canonicalRequest key standard claim \<longleftrightarrow>
     (\<exists>token k detail issuedAt expiresAt.
        jo_ParseSigned J raw (jw_Algorithms config) = Some token
        \<and> k \<in> set (jw_Keys config) \<and> jo_Headers J token = [(jk_KeyID k, jk_Algorithm k)]
        \<and> jo_Claims J token (jk_Key k) = Some (standard, claim)
        \<and> jc_Issuer standard = jw_Issuer config \<and> jw_Audience config \<in> set (jc_Audience standard)
        \<and> jc_IssuedAt standard = Some issuedAt \<and> jc_Expiry standard = Some expiresAt
        \<and> issuedAt \<le> now + jw_ClockSkew config \<and> now \<le> expiresAt + jw_ClockSkew config
        \<and> 0 < time_Sub expiresAt issuedAt \<and> time_Sub expiresAt issuedAt \<le> jw_MaximumAge config
        \<and> oc_Details claim = [detail] \<and> ad_Type detail = AuthorizationType \<and> ad_Actions detail = [operation]
        \<and> ad_RequestSHA256 detail = hex_EncodeToString (Sum256 canonicalRequest)
        \<and> ad_IdempotencyKey detail = key)"

lemma verified_claims_Inr:
  assumes "jose_laws J" and "verified_claims J config raw = Inr (standard, claim)"
  obtains token k where "jo_ParseSigned J raw (jw_Algorithms config) = Some token" "k \<in> set (jw_Keys config)"
    "jo_Headers J token = [(jk_KeyID k, jk_Algorithm k)]" "jo_Claims J token (jk_Key k) = Some (standard, claim)"
proof -
  obtain token i k where *: "jo_ParseSigned J raw (jw_Algorithms config) = Some token"
      "jo_Headers J token = [(i, jk_Algorithm k)]" "jo_Key J (jw_Keys config) i = [k]"
      "jo_Claims J token (jk_Key k) = Some (standard, claim)"
    using assms(2) unfolding verified_claims_def
    by (auto split: option.splits if_splits list.splits prod.splits)
  have "set (jo_Key J (jw_Keys config) i) = {k \<in> set (jw_Keys config). jk_KeyID k = i}"
    using assms(1) unfolding jose_laws_def by blast
  with * have "k \<in> set (jw_Keys config)" "jk_KeyID k = i" by auto
  with * that show thesis by blast
qed

lemma validateClaims_Inr:
  assumes "jose_laws J" and "validateClaims L J config now standard claim operation canonicalRequest key = Inr ()"
  obtains detail issuedAt expiresAt where
    "jc_Issuer standard = jw_Issuer config" "jw_Audience config \<in> set (jc_Audience standard)"
    "jc_IssuedAt standard = Some issuedAt" "jc_Expiry standard = Some expiresAt"
    "issuedAt \<le> now + jw_ClockSkew config" "now \<le> expiresAt + jw_ClockSkew config"
    "0 < time_Sub expiresAt issuedAt" "time_Sub expiresAt issuedAt \<le> jw_MaximumAge config"
    "oc_Details claim = [detail]" "ad_Type detail = AuthorizationType" "ad_Actions detail = [operation]"
    "ad_RequestSHA256 detail = hex_EncodeToString (Sum256 canonicalRequest)" "ad_IdempotencyKey detail = key"
proof -
  from assms(2) obtain detail issuedAt expiresAt where *: "jc_IssuedAt standard = Some issuedAt"
      "jc_Expiry standard = Some expiresAt" "oc_Details claim = [detail]"
      "jo_ValidateWithLeeway J standard (jw_Issuer config) [jw_Audience config] now (jw_ClockSkew config)"
      "issuedAt \<le> now + jw_ClockSkew config" "0 < time_Sub expiresAt issuedAt"
      "time_Sub expiresAt issuedAt \<le> jw_MaximumAge config"
      "ad_Type detail = AuthorizationType" "ad_Actions detail = [operation]"
      "ad_RequestSHA256 detail = hex_EncodeToString (Sum256 canonicalRequest)" "ad_IdempotencyKey detail = key"
    unfolding validateClaims_def Let_def
    by (auto simp: compare_decides not_less not_le split: option.splits if_splits list.splits)
  have "jc_Issuer standard = jw_Issuer config \<and> (\<exists>a\<in>set [jw_Audience config]. a \<in> set (jc_Audience standard))
      \<and> (\<forall>t. jc_Expiry standard = Some t \<longrightarrow> now \<le> t + jw_ClockSkew config)"
    using assms(1) *(4) unfolding jose_laws_def by blast
  with * that show thesis by simp
qed

text \<open>The idempotency key of a request: present and valid exactly when the operation needs one.\<close>

lemma requestIdempotencyKey_Inr:
  "requestIdempotencyKey L values required = Inr key \<longleftrightarrow>
     (if required then values = [key] \<and> IsValidIdempotencyKey L key else values = [] \<and> key = '''')"
  by (auto simp: requestIdempotencyKey_def split: list.splits if_splits)

lemma Authenticate_Inr:
  assumes laws: "jose_laws J" and run: "Authenticate L J ja md operation canonicalRequest idempotent w = (Inr r, w')"
  obtains raw now w1 standard claim resolved w2 where
    "singleBearerToken (md AuthorizationMetadata) = Inr raw" "ja_now ja w = (now, w1)"
    "requestIdempotencyKey L (md IdempotencyMetadata) idempotent = Inr (ar_IdempotencyKey r)"
    "authorizes J (ja_config ja) raw (tm_instant now) operation canonicalRequest (ar_IdempotencyKey r) standard claim"
    "ja_resolver ja (jc_Issuer standard) (jc_Subject standard) w1 = (Inr resolved, w2)"
    "ar_Access r = \<lparr>ac_Principal = resolved\<lparr>p_Issuer := jc_Issuer standard, p_Subject := jc_Subject standard,
         p_ClientID := oc_ClientID claim\<rparr>, ac_Operation = operation, ac_AssertionID = jc_ID standard,
       ac_AssertionDigest = Sum256 raw, ac_RequestDigest = Sum256 canonicalRequest\<rparr>"
    "db w' = db w2"
proof -
  obtain stage w3 where st: "authenticate_stages L J ja md operation canonicalRequest idempotent w = ((stage, Inr r), w3)"
      "w' = snd (metric_m ''authentication'' [operation, ''succeeded'', stage] w3)"
    using run by (auto simp: Authenticate_def split: prod.splits)
  obtain raw key standard claim now w1 resolved w2 where *: "singleBearerToken (md AuthorizationMetadata) = Inr raw"
      "requestIdempotencyKey L (md IdempotencyMetadata) idempotent = Inr key"
      "verified_claims J (ja_config ja) raw = Inr (standard, claim)" "ja_now ja w = (now, w1)"
      "validateClaims L J (ja_config ja) (tm_instant now) standard claim operation canonicalRequest key = Inr ()"
      "ja_resolver ja (jc_Issuer standard) (jc_Subject standard) w1 = (Inr resolved, w2)" "w3 = w2"
      "r = \<lparr>ar_Access = \<lparr>ac_Principal = resolved\<lparr>p_Issuer := jc_Issuer standard, p_Subject := jc_Subject standard,
         p_ClientID := oc_ClientID claim\<rparr>, ac_Operation = operation, ac_AssertionID = jc_ID standard,
         ac_AssertionDigest = Sum256 raw, ac_RequestDigest = Sum256 canonicalRequest\<rparr>, ar_IdempotencyKey = key\<rparr>"
    using st(1) unfolding authenticate_stages_def by (auto split: sum.splits prod.splits)
  have "authorizes J (ja_config ja) raw (tm_instant now) operation canonicalRequest key standard claim"
    unfolding authorizes_def
    by (rule verified_claims_Inr [OF laws *(3)], rule validateClaims_Inr [OF laws *(5)]) blast
  then show thesis using that * st(2) by (simp add: metric_m_def)
qed

section \<open>The gate\<close>

lemma server_authenticate_Inr:
  assumes "server_authenticate sv md operation request idempotent w = (Inr (Some a, None), w')"
  obtains authenticator admit canonical w1 w2 where
    "sr_authenticator sv = Some authenticator" "sr_rateLimiter sv = Some admit"
    "sr_marshal sv request = Some canonical" "authenticator md operation canonical idempotent w = (Inr a, w1)"
    "admit (p_ID (ac_Principal (ar_Access a))) w1 = (Inr (), w2)" "db w' = db w2"
  using assms unfolding server_authenticate_def
  by (auto simp: bind_m_def try_m_def return_m_def metric_m_def
      split: option.splits sum.splits prod.splits)

lemma with_access_Inr:
  assumes "with_access sv md operation request idempotent body w = Some (Inr x, w')"
  obtains a w1 where "server_authenticate sv md operation request idempotent w = (Inr (Some a, None), w1)"
    "body a w1 = Some (Inr x, w')"
  using assms unfolding with_access_def Let_def
  by (auto split: prod.splits sum.splits option.splits)

lemma Rpc_Buy_gate:
  assumes "jose_laws J" and "sr_authenticator sv = Some (Authenticate L J ja)"
    and "Rpc_Buy L sv md offer w = Some (Inr response, w')"
  shows "\<exists>canonical raw now standard claim (a :: AuthResult) purchase admit w1 w2 w3 w4.
      sr_marshal sv (BuyRequest offer) = Some canonical
      \<and> authorizes J (ja_config ja) raw now OperationBuy canonical (ar_IdempotencyKey a) standard claim
      \<and> IsValidIdempotencyKey L (ar_IdempotencyKey a) \<and> ac_Operation (ar_Access a) = OperationBuy
      \<and> sr_rateLimiter sv = Some admit \<and> admit (p_ID (ac_Principal (ar_Access a))) w1 = (Inr (), w2)
      \<and> ra_Buy (sr_application sv) (ar_Access a) (ar_IdempotencyKey a) offer w3 = (Inr purchase, w4)
      \<and> db w3 = db w2 \<and> db w' = db w4 \<and> response = purchaseToProto L purchase"
proof -
  obtain a w3 where gate: "server_authenticate sv md OperationBuy (BuyRequest offer) True w = (Inr (Some a, None), w3)"
    and body: "(case ra_Buy (sr_application sv) (ar_Access a) (ar_IdempotencyKey a) offer w3 of (r, w1) \<Rightarrow>
         let w2 = (case r of
                     Inl e \<Rightarrow> if errors_Is e ErrSelfTradeProhibited then snd (metric_m ''self_trade_rejection'' [] w1) else w1
                   | Inr _ \<Rightarrow> w1)
         in Some (conclude sv OperationBuy (ar_Access a) (purchaseToProto L) (r, w2))) = Some (Inr response, w')"
    using assms(3) unfolding Rpc_Buy_def by (rule with_access_Inr)
  obtain admit canonical w1 w2 where g: "sr_rateLimiter sv = Some admit" "sr_marshal sv (BuyRequest offer) = Some canonical"
      "Authenticate L J ja md OperationBuy canonical True w = (Inr a, w1)"
      "admit (p_ID (ac_Principal (ar_Access a))) w1 = (Inr (), w2)" "db w3 = db w2"
    using gate by (rule server_authenticate_Inr) (use assms(2) in auto)
  obtain raw standard claim and now :: clock_time where auth:
      "authorizes J (ja_config ja) raw (tm_instant now) OperationBuy canonical (ar_IdempotencyKey a) standard claim"
      "IsValidIdempotencyKey L (ar_IdempotencyKey a)" "ac_Operation (ar_Access a) = OperationBuy"
    using g(3) by (rule Authenticate_Inr [OF assms(1)]) (auto simp: requestIdempotencyKey_Inr)
  obtain purchase w4 where "ra_Buy (sr_application sv) (ar_Access a) (ar_IdempotencyKey a) offer w3 = (Inr purchase, w4)"
      "db w' = db w4" "response = purchaseToProto L purchase"
    using body by (auto simp: conclude_def logSecurityOperation_def Let_def bind_m_def metric_m_def split: prod.splits sum.splits)
  with g auth show ?thesis by blast
qed

text \<open>A request is refused when the gate does not let it pass.\<close>

definition refused ::
  "'d Server \<Rightarrow> (string \<Rightarrow> string list) \<Rightarrow> string \<Rightarrow> proto_request \<Rightarrow> bool \<Rightarrow> world \<Rightarrow> bool" where
  "refused sv md operation request idempotent w \<longleftrightarrow>
     (\<forall>a. fst (server_authenticate sv md operation request idempotent w) \<noteq> Inr (Some a, None))"

text \<open>The server over another application, health check and authorisation.\<close>

definition over :: "'d RpcApplication \<Rightarrow> unit m \<Rightarrow> (AccessContext \<Rightarrow> string \<Rightarrow> unit m) \<Rightarrow> 'd Server \<Rightarrow> 'd Server" where
  "over app ping allow sv = sv\<lparr>sr_application := app, sr_Ping := ping, sr_Authorize := allow\<rparr>"

lemma over_sel [simp]:
  "sr_env (over app ping allow sv) = sr_env sv" "sr_authenticator (over app ping allow sv) = sr_authenticator sv"
  "sr_marshal (over app ping allow sv) = sr_marshal sv" "sr_rateLimiter (over app ping allow sv) = sr_rateLimiter sv"
  by (simp_all add: over_def)

lemma over_gate [simp]:
  "server_authenticate (over app ping allow sv) = server_authenticate sv"
  "logSecurityOperation (over app ping allow sv) = logSecurityOperation sv"
  unfolding fun_eq_iff server_authenticate_def logSecurityOperation_def over_sel by simp_all

lemma with_access_refused:
  assumes "refused sv md operation request idempotent w"
  shows "with_access (over app ping allow sv) md operation request idempotent body' w
      = with_access sv md operation request idempotent body w"
    and "\<exists>st w'. with_access sv md operation request idempotent body w = Some (Inl (StatusError st), w')"
  using assms unfolding with_access_def refused_def Let_def
  by (auto split: prod.splits sum.splits option.splits)

end
