(* ===== verification/Auth_Props.thy ===== *)
theory Auth_Props
  imports Authn_Facts Demo_Lib Demo_Db
begin

text \<open>
  Properties of authentication and of the gate in front of the application.
\<close>

section \<open>Assertions\<close>











text \<open>
  C13. The text check, which walks over runes and reads invalid UTF-8 as U+FFFD, is the check that
  the text has between one and the maximum number of bytes, none of them a control character.
\<close>

theorem validClaimText_bytes:
  "validClaimText v n = (v \<noteq> '''' \<and> length v \<le> n \<and> list_all (\<lambda>c. 32 \<le> byte_of c \<and> byte_of c \<noteq> 127) v)"
  by (auto simp: validClaimText_iff list_all_iff)

section \<open>The gate\<close>










end
