(* ===== verification/Offer_Store.thy ===== *)
theory Offer_Store
  imports Store Offer_Intake Rates_Store
begin

text \<open>
  \<^verbatim>\<open>postgres/offer_intake.go\<close>: conversion quotes and the offers created from submissions, on the claim
  and replay machinery of \<open>Store\<close>.
\<close>

section \<open>Quotes\<close>

type_synonym quote_out = "string \<times> string \<times> string \<times> string \<times> string \<times> string \<times> string \<times> int \<times> int"

definition conversionQuoteByIDQuery :: "('u, 'd) lib \<Rightarrow> string \<Rightarrow> database \<Rightarrow> quote_out list" where
  "conversionQuoteByIDQuery L i d =
     [(cq_uuid q, cq_principal q, bo_series b, pg_numeric_out L (cq_submitted_price q),
       pg_numeric_out L (cq_mxn_price q), pg_numeric_out L (ob_value x), cq_observation q,
       ob_observed_on x, cq_expires_at q).
        q \<leftarrow> conversion_quotes d, cq_uuid q = i, b \<leftarrow> bonds d, bo_uuid b = cq_bond q,
        x \<leftarrow> observations d, ob_uuid x = cq_observation q]"

text \<open>All three amounts, the rate included, go through \<^verbatim>\<open>exchange.ParsePrice\<close>.\<close>

definition scanConversionQuote :: "('u, 'd) lib \<Rightarrow> quote_out \<Rightarrow> 'd Quote result" where
  "scanConversionQuote L = (\<lambda>(i, seller, series, submittedPrice, mxnPrice, rate, revision, observedOn, expiresAt).
     bind_r (ParsePrice L submittedPrice) (\<lambda>submitted.
     bind_r (ParsePrice L mxnPrice) (\<lambda>mxn.
     bind_r (ParsePrice L rate) (\<lambda>rate.
     Inr \<lparr>qt_ID = i, qt_SellerID = seller, qt_BondSeries = series, qt_SubmittedPrice = submitted,
          qt_MXNPrice = mxn, qt_Rate = rate, qt_RateRevisionID = revision, qt_RateObservedOn = observedOn,
          qt_ExpiresAt = go_instant expiresAt\<rparr>))))"

text \<open>The replay query of quotes: succeeded results only, with the digest of the claim.\<close>

definition replayQuoteQuery :: "MutationContext \<Rightarrow> database \<Rightarrow> (string option \<times> byte list) list" where
  "replayQuoteQuery op d =
     [(rs_resource r, cl_request_digest c). c \<leftarrow> operation_claims d, same_scope op c,
        r \<leftarrow> operation_results d, rs_claim r = cl_uuid c, rs_outcome r = ''succeeded'']"

definition RecordQuoteIdempotency :: "string \<Rightarrow> unit m" where
  "RecordQuoteIdempotency outcome = metric_m ''idempotency'' [OperationQuoteSaleOffer, outcome]"

definition quote_storage_error :: "go_error \<Rightarrow> 'a m" where
  "quote_storage_error e = bind_m (RecordQuoteIdempotency ''storage_error'') (\<lambda>_. fail_m e)"

definition ReplayConversionQuote :: "('u, 'd) lib \<Rightarrow> MutationContext \<Rightarrow> 'd Quote option m" where
  "ReplayConversionQuote L operation =
     bind_m begin_tx (\<lambda>_.
     defer_m
       (bind_m (authorize (mc_Access operation) PermissionQuoteSaleOffer) (\<lambda>_.
        bind_m (try_m (bind_m (query_tx (\<lambda>_ _. replayQuoteQuery operation)) scan_row)) (\<lambda>r.
        case r of
          Inl e \<Rightarrow>
            if errors_Is e ErrNoRows then
              bind_m (try_m commit_tx) (\<lambda>committed.
              case committed of Inl ce \<Rightarrow> quote_storage_error ce | Inr _ \<Rightarrow> return_m None)
            else quote_storage_error e
        | Inr (resourceID, requestDigest) \<Rightarrow>
            if length requestDigest \<noteq> 32
               \<or> \<not> equalDigest requestDigest (ac_RequestDigest (mc_Access operation)) then
              bind_m (RecordQuoteIdempotency ''conflict'') (\<lambda>_. fail_m ErrIdempotencyConflict)
            else
              (case resourceID of
                 None \<Rightarrow> quote_storage_error (ErrorString ''successful quote operation has no resource'')
               | Some i \<Rightarrow>
                   bind_m (try_m (bind_m (query_tx (\<lambda>_ _. conversionQuoteByIDQuery L i)) (\<lambda>rows.
                           bind_m (scan_row rows) (\<lambda>row. lift_r (scanConversionQuote L row))))) (\<lambda>scanned.
                   case scanned of
                     Inl e \<Rightarrow> quote_storage_error e
                   | Inr quote \<Rightarrow>
                       bind_m (try_m commit_tx) (\<lambda>committed.
                       case committed of
                         Inl ce \<Rightarrow> quote_storage_error ce
                       | Inr _ \<Rightarrow> bind_m (RecordQuoteIdempotency ''replayed'') (\<lambda>_. return_m (Some quote))))))))
       rollback_tx)"

definition quote_checks :: "database \<Rightarrow> quote_row \<Rightarrow> go_error option" where
  "quote_checks d q = first_violation
     [(\<not> 0 < cq_mxn_price q, check_violation ''sale_offer_conversion_quotes_canonical_price_positive''),
      (\<not> cq_created_at q < cq_expires_at q, check_violation ''sale_offer_conversion_quotes_expiry_after_creation''),
      (cq_rounding q \<noteq> ''half_even_4'', check_violation ''sale_offer_conversion_quotes_rounding_policy_known''),
      (cq_currency q \<noteq> ''USD'', check_violation ''sale_offer_conversion_quotes_submitted_currency_usd''),
      (\<not> 0 < cq_submitted_price q, check_violation ''sale_offer_conversion_quotes_submitted_price_positive''),
      (list_ex (\<lambda>x. cq_uuid x = cq_uuid q) (conversion_quotes d),
        unique_violation ''sale_offer_conversion_quotes_pkey''),
      (\<not> principal_exists d (cq_principal q),
        foreign_key_violation ''sale_offer_conversion_quotes_principal_uuid_fkey'')]"

definition insert_quote ::
  "('u, 'd) lib \<Rightarrow> string \<Rightarrow> string \<Rightarrow> rat \<Rightarrow> rat \<Rightarrow> string \<Rightarrow> int \<Rightarrow> int \<Rightarrow> database
     \<Rightarrow> (string \<times> database) result" where
  "insert_quote L principal_id bond submitted mxn observation expires ts d =
     bind_r (monetary_cast submitted) (\<lambda>submitted.
     bind_r (monetary_cast mxn) (\<lambda>mxn.
     case draw_uuid L d of (u, d1) \<Rightarrow>
       let q = \<lparr>cq_uuid = u, cq_principal = principal_id, cq_bond = bond, cq_submitted_price = submitted,
                cq_currency = ''USD'', cq_mxn_price = mxn, cq_observation = observation,
                cq_rounding = RoundingPolicy, cq_created_at = ts, cq_expires_at = expires\<rparr>
       in case quote_checks d q of
            Some e \<Rightarrow> Inl e
          | None \<Rightarrow> Inr (u, d1\<lparr>conversion_quotes := conversion_quotes d1 @ [q]\<rparr>)))"

fun insert_quotes ::
  "('u, 'd) lib \<Rightarrow> string \<Rightarrow> rat \<Rightarrow> rat \<Rightarrow> int \<Rightarrow> int \<Rightarrow> (string \<times> string) list \<Rightarrow> database
     \<Rightarrow> (string list \<times> database) result" where
  "insert_quotes L principal_id submitted mxn expires ts [] d = Inr ([], d)"
| "insert_quotes L principal_id submitted mxn expires ts ((bond, observation) # rest) d =
     (case insert_quote L principal_id bond submitted mxn observation expires ts d of
        Inl e \<Rightarrow> Inl e
      | Inr (u, d1) \<Rightarrow>
          (case insert_quotes L principal_id submitted mxn expires ts rest d1 of
             Inl e \<Rightarrow> Inl e | Inr (us, d2) \<Rightarrow> Inr (u # us, d2)))"

definition insertQuoteQuery ::
  "('u, 'd) lib \<Rightarrow> string \<Rightarrow> 'd QuoteDraft \<Rightarrow> int \<Rightarrow> database \<Rightarrow> (string list \<times> database) result" where
  "insertQuoteQuery L principal_id draft ts d =
     bind_r (numeric_param L (dec_String L (qd_SubmittedPrice draft))) (\<lambda>submitted.
     bind_r (numeric_param L (dec_String L (qd_MXNPrice draft))) (\<lambda>mxn.
     insert_quotes L principal_id submitted mxn (pg_instant (qd_ExpiresAt draft)) ts
       [(bo_uuid b, ob_uuid x). b \<leftarrow> bonds d, bo_series b = qd_BondSeries draft,
          x \<leftarrow> observations d, ob_uuid x = qd_RateRevisionID draft, ob_series x = ''SF43718'',
          ob_base x = ''USD'', ob_quote x = ''MXN'', ob_observed_on x = qd_RateObservedOn draft] d))"

definition read_quote :: "('u, 'd) lib \<Rightarrow> string \<Rightarrow> 'd Quote m" where
  "read_quote L i =
     bind_m (query_pool (\<lambda>_. conversionQuoteByIDQuery L i)) (\<lambda>rows.
     bind_m (scan_row rows) (\<lambda>row. lift_r (scanConversionQuote L row)))"

definition createQuoteOnce :: "('u, 'd) lib \<Rightarrow> MutationContext \<Rightarrow> 'd QuoteDraft \<Rightarrow> 'd Quote m" where
  "createQuoteOnce L operation draft =
     bind_m (beginAuthorizedMutation operation PermissionQuoteSaleOffer) (\<lambda>_.
     defer_m
       (bind_m (claimOperation L operation) (\<lambda>(claimID, claimed).
        if \<not> claimed then rollback_then (bind_m (replayResource operation) (read_quote L))
        else
          bind_m (try_m (bind_m (exec_tx (\<lambda>ts _.
                    insertQuoteQuery L (p_ID (ac_Principal (mc_Access operation))) draft ts)) scan_row)) (\<lambda>r.
          case r of
            Inl e \<Rightarrow>
              if errors_Is e ErrNoRows then
                bind_m (query_tx (\<lambda>_ _ d. [list_ex (\<lambda>b. bo_series b = qd_BondSeries draft) (bonds d)])) (\<lambda>rows.
                bind_m (scan_row rows) (\<lambda>bondExists.
                if \<not> bondExists then
                  bind_m (recordOperationRejection L claimID ''bond_not_found'') (\<lambda>_.
                  bind_m commit_tx (\<lambda>_. fail_m ErrBondNotFound))
                else fail_m ErrExchangeRateUnavailable))
              else fail_m e
          | Inr quoteID \<Rightarrow>
              bind_m (recordOperationSuccess L claimID quoteID) (\<lambda>_.
              bind_m commit_tx (\<lambda>_. read_quote L quoteID)))))
       rollback_tx)"

definition CreateConversionQuote :: "('u, 'd) lib \<Rightarrow> MutationContext \<Rightarrow> 'd QuoteDraft \<Rightarrow> 'd Quote m" where
  "CreateConversionQuote L operation draft =
     retryTransaction OperationQuoteSaleOffer (createQuoteOnce L operation draft)"

section \<open>Offers from submissions\<close>

definition quotePriceQuery ::
  "('u, 'd) lib \<Rightarrow> string \<Rightarrow> string \<Rightarrow> string \<Rightarrow> string \<Rightarrow> int \<Rightarrow> database \<Rightarrow> (string list \<times> database) result" where
  "quotePriceQuery L quote principal_id series priceText st d =
     bind_r (numeric_param L priceText) (\<lambda>price.
     Inr ([pg_numeric_out L (cq_mxn_price q). q \<leftarrow> conversion_quotes d, cq_uuid q = quote,
             cq_principal q = principal_id, b \<leftarrow> bonds d, bo_uuid b = cq_bond q, bo_series b = series,
             cq_submitted_price q = price, cq_currency q = ''USD'', st < cq_expires_at q,
             \<not> list_ex (\<lambda>u. sb_quote u = Some (cq_uuid q)) (submissions d)], d))"

fun insert_submitted ::
  "('u, 'd) lib \<Rightarrow> string \<Rightarrow> rat \<Rightarrow> rat \<Rightarrow> string \<Rightarrow> string option \<Rightarrow> bond_row list \<Rightarrow> database
     \<Rightarrow> ((sale_offer_row \<times> bond_row) list \<times> database) result" where
  "insert_submitted L seller canonical submitted currency quote [] d = Inr ([], d)"
| "insert_submitted L seller canonical submitted currency quote (b # bs) d =
     (case insert_offer L seller (bo_uuid b) canonical ''MXN'' submitted currency quote d of
        Inl e \<Rightarrow> Inl e
      | Inr (s, d1) \<Rightarrow>
          (case insert_submitted L seller canonical submitted currency quote bs d1 of
             Inl e \<Rightarrow> Inl e
           | Inr (rs, d2) \<Rightarrow> Inr ((s, b) # rs, d2)))"

definition submitQuery ::
  "('u, 'd) lib \<Rightarrow> string \<Rightarrow> string \<Rightarrow> string \<Rightarrow> string \<Rightarrow> string \<Rightarrow> string option \<Rightarrow> database
     \<Rightarrow> (offer_out list \<times> database) result" where
  "submitQuery L seller series canonicalText submittedText currency quote d =
     bind_r (numeric_param L canonicalText) (\<lambda>canonical.
     bind_r (numeric_param L submittedText) (\<lambda>submitted.
     (case filter (\<lambda>b. bo_series b = series) (bonds d) of
        [] \<Rightarrow> Inr ([], d)
      | b # bs \<Rightarrow>
          bind_r (monetary_cast canonical) (\<lambda>canonical.
          bind_r (monetary_cast submitted) (\<lambda>submitted.
          case insert_submitted L seller canonical submitted currency quote (b # bs) d of
            Inl e \<Rightarrow> Inl e
          | Inr (rows, d1) \<Rightarrow>
              Inr ([(of_uuid s, of_seller s, bo_series x, pg_numeric_out L (of_price s), of_currency s).
                      (s, x) \<leftarrow> rows], d1))))))"

text \<open>The insert of an offer at its canonical price, and what follows it.\<close>

definition submit_priced ::
  "('u, 'd) lib \<Rightarrow> MutationContext \<Rightarrow> 'd Submission \<Rightarrow> string \<Rightarrow> 'd \<Rightarrow> string option \<Rightarrow> 'd SaleOffer m" where
  "submit_priced L operation submission claimID canonicalPrice quoteID =
     bind_m (try_m (bind_m (exec_tx (\<lambda>_ _. submitQuery L (p_ID (ac_Principal (mc_Access operation)))
               (sm_BondSeries submission) (dec_String L canonicalPrice) (dec_String L (sm_Price submission))
               (sm_Currency submission) quoteID)) scan_row)) (\<lambda>r.
     case r of
       Inl e \<Rightarrow>
         if errors_Is e ErrNoRows then
           bind_m (recordOperationRejection L claimID ''bond_not_found'') (\<lambda>_.
           bind_m commit_tx (\<lambda>_. fail_m ErrBondNotFound))
         else fail_m (classifyCreateSaleOfferError e)
     | Inr row \<Rightarrow>
         bind_m (lift_r (scan_offer L row)) (\<lambda>created.
         bind_m (recordOperationSuccess L claimID (so_ID created)) (\<lambda>_.
         bind_m commit_tx (\<lambda>_. return_m created))))"

definition submitOnce :: "('u, 'd) lib \<Rightarrow> MutationContext \<Rightarrow> 'd Submission \<Rightarrow> 'd SaleOffer m" where
  "submitOnce L operation submission =
     bind_m (beginAuthorizedMutation operation PermissionCreateSaleOffer) (\<lambda>_.
     defer_m
       (bind_m (claimOperation L operation) (\<lambda>(claimID, claimed).
        if \<not> claimed then rollback_then (replayCreatedOffer L operation)
        else if sm_Currency submission = USD then
          bind_m (try_m (bind_m (exec_tx (\<lambda>_ st. quotePriceQuery L (sm_QuoteID submission)
                    (p_ID (ac_Principal (mc_Access operation))) (sm_BondSeries submission)
                    (dec_String L (sm_Price submission)) st)) scan_row)) (\<lambda>r.
          case r of
            Inl e \<Rightarrow>
              if errors_Is e ErrNoRows then
                bind_m (recordOperationRejection L claimID ''conversion_quote_unavailable'') (\<lambda>_.
                bind_m commit_tx (\<lambda>_. fail_m ErrConversionQuoteUnavailable))
              else fail_m e
          | Inr canonicalText \<Rightarrow>
              bind_m (lift_r (ParsePrice L canonicalText)) (\<lambda>canonicalPrice.
              submit_priced L operation submission claimID canonicalPrice (Some (sm_QuoteID submission))))
        else if sm_Currency submission \<noteq> MXN \<or> sm_QuoteID submission \<noteq> '''' then
          fail_m ErrUnsupportedSubmissionCurrency
        else submit_priced L operation submission claimID (sm_Price submission) None))
       rollback_tx)"

definition CreateSaleOfferFromSubmission ::
  "('u, 'd) lib \<Rightarrow> MutationContext \<Rightarrow> 'd Submission \<Rightarrow> 'd SaleOffer m" where
  "CreateSaleOfferFromSubmission L operation submission =
     retryTransaction OperationCreateSaleOffer (submitOnce L operation submission)"

text \<open>The PostgreSQL implementation of \<^verbatim>\<open>offerintake.Repository\<close>.\<close>

definition postgres_repository :: "('u, 'd) lib \<Rightarrow> 'd Repository" where
  "postgres_repository L =
     \<lparr>rp_ReplayConversionQuote = ReplayConversionQuote L,
      rp_CreateConversionQuote = CreateConversionQuote L,
      rp_CreateSaleOfferFromSubmission = CreateSaleOfferFromSubmission L\<rparr>"

end
