(* ===== verification/Offer_Effect.thy ===== *)
theory Offer_Effect
  imports Offer_Store Store_Contract Market_Spec Replay
begin

text \<open>
  Offers created from submissions satisfy the contract of a store operation. Their effect depends
  on two readings of the server's clock: the time of the transaction and that of the statement that
  checks the quote's expiry.
\<close>

section \<open>Fixing the statement's time\<close>

text \<open>
  \<open>resolves p p'\<close>: every run of \<open>p\<close> is a run of \<open>p' st\<close> for the time \<open>st\<close> its statement met.
\<close>

definition resolves :: "'a m \<Rightarrow> ('x \<Rightarrow> 'a m) \<Rightarrow> bool" where
  "resolves p p' \<longleftrightarrow> (\<forall>w. \<exists>st. p w = p' st w)"

lemma resolves_const: "resolves p (\<lambda>_. p)"
  by (simp add: resolves_def)

lemma resolves_bind:
  assumes "\<And>a. resolves (f a) (\<lambda>st. f' st a)"
  shows "resolves (bind_m p f) (\<lambda>st. bind_m p (f' st))"
  unfolding resolves_def
proof
  fix w
  show "\<exists>st. bind_m p f w = bind_m p (f' st) w"
  proof (cases "p w")
    case (Pair r w1)
    show ?thesis
    proof (cases r)
      case (Inr a)
      obtain st where "f a w1 = f' st a w1" using assms [of a] unfolding resolves_def by blast
      with Pair Inr show ?thesis by (auto simp: bind_m_def)
    qed (use Pair in \<open>simp add: bind_m_def\<close>)
  qed
qed

lemma resolves_defer:
  assumes "resolves p p'"
  shows "resolves (defer_m p c) (\<lambda>st. defer_m (p' st) c)"
  using assms unfolding resolves_def defer_m_def by metis

lemma resolves_if:
  "resolves p p' \<Longrightarrow> resolves q q' \<Longrightarrow> resolves (if b then p else q) (\<lambda>st. if b then p' st else q' st)"
  by simp

lemma resolves_row:
  "resolves (bind_m (try_m (bind_m (exec_tx (\<lambda>_ st. q st)) scan_row)) f)
     (\<lambda>st. bind_m (try_m (bind_m (exec_tx (\<lambda>_ _. q st)) scan_row)) f)"
  unfolding resolves_def
proof
  fix w
  show "\<exists>st. bind_m (try_m (bind_m (exec_tx (\<lambda>_ st. q st)) scan_row)) f w =
      bind_m (try_m (bind_m (exec_tx (\<lambda>_ _. q st)) scan_row)) f w"
    by (rule exI [of _ "stmt_time (snd (trip w))"])
      (cases "trip w", simp add: bind_m_def try_m_def exec_tx_def)
qed

lemma resolves_atomic:
  assumes "resolves p p'" and "\<And>st. atomic (p' st) (eff st)"
  shows "atomic p (\<lambda>(ts, st). eff st ts)"
  unfolding atomic_def
proof (intro allI impI)
  fix b d w
  assume w: "at_db b d w"
  obtain st where "p w = p' st w" using assms(1) unfolding resolves_def by blast
  moreover obtain ts where "finished b d (eff st ts d) (fst (p' st w)) (snd (p' st w))"
    using assms(2) [of st] w unfolding atomic_def by blast
  ultimately show "\<exists>c. finished b d ((case c of (ts, st) \<Rightarrow> eff st ts) d) (fst (p w)) (snd (p w))"
    by (intro exI [of _ "(ts, st)"]) simp
qed

section \<open>The effect of a submission\<close>

definition priced_effect ::
  "('u, 'd) lib \<Rightarrow> MutationContext \<Rightarrow> 'd Submission \<Rightarrow> int \<Rightarrow> database \<Rightarrow> string \<Rightarrow> 'd \<Rightarrow> string option \<Rightarrow> database
     \<Rightarrow> 'd SaleOffer result \<times> database" where
  "priced_effect L op sub ts d claim canonical quote t =
     (case submitQuery L (p_ID (ac_Principal (mc_Access op))) (sm_BondSeries sub) (dec_String L canonical)
             (dec_String L (sm_Price sub)) (sm_Currency sub) quote t of
        Inl e \<Rightarrow> (Inl (classifyCreateSaleOfferError e), d)
      | Inr ([], t1) \<Rightarrow> reject_effect L ts claim ''bond_not_found'' ErrBondNotFound d t1
      | Inr (row # _, t1) \<Rightarrow>
          (case scan_offer L row of
             Inl e \<Rightarrow> (Inl e, d)
           | Inr created \<Rightarrow> accept_effect L ts claim (so_ID created) created d t1))"

definition quote_price ::
  "('u, 'd) lib \<Rightarrow> MutationContext \<Rightarrow> 'd Submission \<Rightarrow> int \<Rightarrow> database \<Rightarrow> (string list \<times> database) result" where
  "quote_price L op sub st = quotePriceQuery L (sm_QuoteID sub) (p_ID (ac_Principal (mc_Access op)))
     (sm_BondSeries sub) (dec_String L (sm_Price sub)) st"

definition submit_work ::
  "('u, 'd) lib \<Rightarrow> MutationContext \<Rightarrow> 'd Submission \<Rightarrow> int \<Rightarrow> int \<Rightarrow> database \<Rightarrow> string \<Rightarrow> database
     \<Rightarrow> 'd SaleOffer result \<times> database" where
  "submit_work L op sub st ts d claim t =
     (if sm_Currency sub = USD then
        (case quote_price L op sub st t of
           Inl e \<Rightarrow> (Inl e, d)
         | Inr ([], t1) \<Rightarrow>
             reject_effect L ts claim ''conversion_quote_unavailable'' ErrConversionQuoteUnavailable d t1
         | Inr (amount # _, t1) \<Rightarrow>
             (case ParsePrice L amount of
                Inl e \<Rightarrow> (Inl e, d)
              | Inr canonical \<Rightarrow> priced_effect L op sub ts d claim canonical (Some (sm_QuoteID sub)) t1))
      else if sm_Currency sub \<noteq> MXN \<or> sm_QuoteID sub \<noteq> '''' then (Inl ErrUnsupportedSubmissionCurrency, d)
      else priced_effect L op sub ts d claim (sm_Price sub) None t)"

definition submit_effect ::
  "('u, 'd) lib \<Rightarrow> MutationContext \<Rightarrow> 'd Submission \<Rightarrow> int \<Rightarrow> int \<Rightarrow> database \<Rightarrow> 'd SaleOffer result \<times> database" where
  "submit_effect L op sub st ts d =
     mutation_effect L op PermissionCreateSaleOffer (replay_offer_result L op) (submit_work L op sub st ts d) d"

section \<open>The contract\<close>

lemma numeric_param_sql: "numeric_param L s = Inl e \<Longrightarrow> sql_error e" "monetary_cast r = Inl e \<Longrightarrow> sql_error e"
  by (fact numeric_sql)+

lemma insert_submitted_sql:
  "insert_submitted L seller canonical submitted currency quote bs d = Inl e \<Longrightarrow> sql_error e"
  by (induction L seller canonical submitted currency quote bs d rule: insert_submitted.induct)
    (auto split: sum.splits dest: insert_offer_sql)

lemma submitQuery_sql: "submitQuery L seller series ct st cur quote d = Inl e \<Longrightarrow> sql_error e"
  by (auto simp: submitQuery_def bind_r_def simp del: insert_submitted.simps
      dest: numeric_param_sql insert_submitted_sql split: sum.splits list.splits prod.splits)

lemma quotePriceQuery_sql: "quotePriceQuery L quote p series price st d = Inl e \<Longrightarrow> sql_error e"
  by (auto simp: quotePriceQuery_def bind_r_def dest: numeric_param_sql split: sum.splits)

lemma ends_submit_priced:
  "ends b d (in_tx b d ts t) (submit_priced L op sub claim canonical quote)
     (priced_effect L op sub ts d claim canonical quote t)"
  unfolding submit_priced_def
proof (rule ends_try_row [where q = "\<lambda>_. submitQuery L (p_ID (ac_Principal (mc_Access op))) (sm_BondSeries sub)
      (dec_String L canonical) (dec_String L (sm_Price sub)) (sm_Currency sub) quote"], goal_cases)
  case (1 rows t')
  show ?case
  proof (cases rows)
    case Nil
    with 1 show ?thesis by (auto simp: first_row_def priced_effect_def intro!: ends_reject)
  next
    case (Cons row rest)
    with 1 show ?thesis
      by (cases "scan_offer L row")
        (auto simp: first_row_def priced_effect_def intro!: ends_bind [OF steps_lift] ends_accept)
  qed
next
  case (2 e)
  with sql_error_props(1) [OF submitQuery_sql [OF 2]] show ?case
    by (auto simp: priced_effect_def intro!: ends_fail_at)
next
  case (3 e)
  with fault_unclassified [OF 3] show ?case by (simp add: ends_fail_fault)
qed

definition submit_at ::
  "('u, 'd) lib \<Rightarrow> MutationContext \<Rightarrow> 'd Submission \<Rightarrow> int \<Rightarrow> string \<Rightarrow> 'd SaleOffer m" where
  "submit_at L op sub st claim =
     (if sm_Currency sub = USD then
        bind_m (try_m (bind_m (exec_tx (\<lambda>_ _. quote_price L op sub st)) scan_row)) (\<lambda>r.
        case r of
          Inl e \<Rightarrow>
            if errors_Is e ErrNoRows then
              bind_m (recordOperationRejection L claim ''conversion_quote_unavailable'') (\<lambda>_.
              bind_m commit_tx (\<lambda>_. fail_m ErrConversionQuoteUnavailable))
            else fail_m e
        | Inr amount \<Rightarrow>
            bind_m (lift_r (ParsePrice L amount)) (\<lambda>canonical.
            submit_priced L op sub claim canonical (Some (sm_QuoteID sub))))
      else if sm_Currency sub \<noteq> MXN \<or> sm_QuoteID sub \<noteq> '''' then fail_m ErrUnsupportedSubmissionCurrency
      else submit_priced L op sub claim (sm_Price sub) None)"

lemma ends_submit_at:
  "ends b d (in_tx b d ts t) (submit_at L op sub st claim) (submit_work L op sub st ts d claim t)"
proof (cases "sm_Currency sub = USD")
  case True
  have "ends b d (in_tx b d ts t)
     (bind_m (try_m (bind_m (exec_tx (\<lambda>_ _. quote_price L op sub st)) scan_row)) (\<lambda>r.
        case r of
          Inl e \<Rightarrow>
            if errors_Is e ErrNoRows then
              bind_m (recordOperationRejection L claim ''conversion_quote_unavailable'') (\<lambda>_.
              bind_m commit_tx (\<lambda>_. fail_m ErrConversionQuoteUnavailable))
            else fail_m e
        | Inr amount \<Rightarrow>
            bind_m (lift_r (ParsePrice L amount)) (\<lambda>canonical.
            submit_priced L op sub claim canonical (Some (sm_QuoteID sub)))))
     (submit_work L op sub st ts d claim t)"
  proof (rule ends_try_row [where q = "\<lambda>_. quote_price L op sub st"], goal_cases)
    case (1 rows t')
    show ?case
    proof (cases rows)
      case Nil
      with 1 True show ?thesis by (auto simp: first_row_def submit_work_def intro!: ends_reject)
    next
      case (Cons amount rest)
      with 1 True show ?thesis
        by (cases "ParsePrice L amount")
          (auto simp: first_row_def submit_work_def intro!: ends_bind [OF steps_lift] ends_submit_priced)
    qed
  next
    case (2 e)
    with sql_error_props(1) [OF quotePriceQuery_sql [OF 2 [unfolded quote_price_def]]] True show ?case
      by (auto simp: submit_work_def intro!: ends_fail_at)
  next
    case (3 e)
    with fault_unclassified [OF 3] show ?case by (simp add: ends_fail_fault)
  qed
  with True show ?thesis by (simp add: submit_at_def)
next
  case False
  then show ?thesis
    by (auto simp: submit_at_def submit_work_def intro!: ends_fail ends_submit_priced)
qed

lemma submitOnce_atomic: "atomic (submitOnce L op sub) (\<lambda>(ts, st). submit_effect L op sub st ts)"
proof (rule resolves_atomic)
  show "atomic (bind_m (beginAuthorizedMutation op PermissionCreateSaleOffer) (\<lambda>_.
      defer_m (bind_m (claimOperation L op) (\<lambda>(claim, claimed).
        if \<not> claimed then rollback_then (replayCreatedOffer L op) else submit_at L op sub st claim)) rollback_tx))
      (submit_effect L op sub st)" for st
    unfolding submit_effect_def by (rule atomic_mutation [OF reads_replayCreatedOffer ends_submit_at])
  show "resolves (submitOnce L op sub) (\<lambda>st. bind_m (beginAuthorizedMutation op PermissionCreateSaleOffer) (\<lambda>_.
      defer_m (bind_m (claimOperation L op) (\<lambda>(claim, claimed).
        if \<not> claimed then rollback_then (replayCreatedOffer L op) else submit_at L op sub st claim)) rollback_tx))"
    unfolding submitOnce_def submit_at_def quote_price_def
    by (intro resolves_bind resolves_defer, clarsimp, intro conjI impI) (rule resolves_row resolves_const)+
qed

lemma priced_effect_not_retryable:
  "fst (priced_effect L op sub ts d c canonical quote t) = Inl e \<Longrightarrow> \<not> isRetryableTransactionError e"
  by (auto simp: priced_effect_def dest!: submitQuery_sql classify_not_retryable(2)
      dest: record_effects_not_retryable scan_offer_error split: sum.splits list.splits prod.splits)

lemma submit_effect_not_retryable:
  "fst (submit_effect L op sub st ts d) = Inl e \<Longrightarrow> \<not> isRetryableTransactionError e"
  unfolding submit_effect_def
proof (erule mutation_effect_not_retryable)
  show "fst (submit_work L op sub st ts d c t) = Inl e \<Longrightarrow> \<not> isRetryableTransactionError e" for c t e
    by (auto simp: submit_work_def quote_price_def isRetryableTransactionError_def [of ErrUnsupportedSubmissionCurrency]
        dest!: quotePriceQuery_sql sql_not_retryable ParsePrice_error
        dest: record_effects_not_retryable priced_effect_not_retryable
        split: if_splits sum.splits list.splits prod.splits)
qed (auto dest: replay_results_not_retryable)

interpretation submit_op: store_operation "CreateSaleOfferFromSubmission L op sub"
  "\<lambda>(ts, st). submit_effect L op sub st ts"
  unfolding CreateSaleOfferFromSubmission_def
  by unfold_locales (rule atomic_retry [OF submitOnce_atomic], auto dest: submit_effect_not_retryable)

section \<open>What a submission writes\<close>

lemma series_bond:
  assumes "wf_db d"
  shows "filter (\<lambda>b. bo_series b = series) (bonds d) = [] \<or> (\<exists>b\<in>set (bonds d). bo_series b = series
    \<and> filter (\<lambda>b. bo_series b = series) (bonds d) = [b])"
proof (cases "\<exists>b\<in>set (bonds d). bo_series b = series")
  case True
  then obtain b where "b \<in> set (bonds d)" "bo_series b = series" by blast
  with assms filter_singleton_if_distinct [of bo_series "bonds d" b] show ?thesis
    by (auto simp: wf_db_def wf_catalog_def)
qed (auto simp: filter_empty_conv)

lemma submitQuery_cases:
  assumes "submitQuery L seller series ct st currency quote d = Inr (rows, d')" and "wf_db d"
  obtains (none) "rows = []" "d' = d" "\<not> list_ex (\<lambda>b. bo_series b = series) (bonds d)"
  | (one) b s r canonical submitted v where "b \<in> set (bonds d)" "bo_series b = series"
      "numeric_param L ct = Inr r" "monetary_cast r = Inr canonical"
      "numeric_param L st = Inr v" "monetary_cast v = Inr submitted"
      "insert_offer L seller (bo_uuid b) canonical ''MXN'' submitted currency quote d = Inr (s, d')"
      "rows = [(of_uuid s, of_seller s, series, pg_numeric_out L (of_price s), of_currency s)]"
proof -
  consider "filter (\<lambda>b. bo_series b = series) (bonds d) = []"
    | b where "b \<in> set (bonds d)" "bo_series b = series" "filter (\<lambda>b. bo_series b = series) (bonds d) = [b]"
    using series_bond [OF assms(2)] by blast
  then show thesis
  proof cases
    case 1
    then show ?thesis
      using assms(1) none by (auto simp: submitQuery_def bind_r_def list_ex_iff filter_empty_conv split: sum.splits)
  next
    case (2 b)
    with assms(1) show ?thesis
      by (auto simp: submitQuery_def bind_r_def split: sum.splits prod.splits intro!: one)
  qed
qed

lemma submitQuery_wf:
  assumes "submitQuery L seller series ct st currency quote d = Inr (rows, d')" and "wf_db d"
  shows "wf_db d'"
  using assms
proof (cases rule: submitQuery_cases)
  case (one b s r canonical submitted v)
  then show ?thesis using insert_offer_wf [OF assms(2) one(7)] monetary_cast_range by blast
qed (use assms(2) in simp)

lemma insert_submitted_frame:
  "insert_submitted L seller canonical submitted currency quote bs d = Inr (rows, d') \<Longrightarrow>
     \<exists>ss cs subs. \<exists>n\<ge>next_uuid d. d' = d\<lparr>next_uuid := n, sale_offers := sale_offers d @ ss,
       canonical_terms := canonical_terms d @ cs, submissions := submissions d @ subs\<rparr>"
proof (induction bs arbitrary: rows d)
  case Nil
  then show ?case by (auto intro!: exI [of _ "[]"] exI [of _ "next_uuid d"])
next
  case (Cons b bs)
  then obtain s d1 rs where step:
    "insert_offer L seller (bo_uuid b) canonical ''MXN'' submitted currency quote d = Inr (s, d1)"
    "insert_submitted L seller canonical submitted currency quote bs d1 = Inr (rs, d')"
    by (auto split: sum.splits prod.splits)
  from Cons.IH [OF step(2)] obtain ss cs subs n where n: "next_uuid d1 \<le> n"
    "d' = d1\<lparr>next_uuid := n, sale_offers := sale_offers d1 @ ss,
       canonical_terms := canonical_terms d1 @ cs, submissions := submissions d1 @ subs\<rparr>" by blast
  from step(1) obtain c sub where "d1 = d\<lparr>next_uuid := Suc (next_uuid d), sale_offers := sale_offers d @ [s],
      canonical_terms := canonical_terms d @ [c], submissions := submissions d @ [sub]\<rparr>"
    by (elim insert_offer_cases) blast
  with n show ?case
    by (intro exI [of _ "s # ss"] exI [of _ "c # cs"] exI [of _ "sub # subs"] exI [of _ n]) simp
qed

lemma submitQuery_frame:
  assumes "submitQuery L seller series ct st currency quote d = Inr (rows, d')"
  shows "\<exists>ss cs subs. \<exists>n\<ge>next_uuid d. d' = d\<lparr>next_uuid := n, sale_offers := sale_offers d @ ss,
       canonical_terms := canonical_terms d @ cs, submissions := submissions d @ subs\<rparr>"
proof (cases "d' = d")
  case True
  then show ?thesis by (auto intro!: exI [of _ "[]"] exI [of _ "next_uuid d"])
next
  case False
  with assms obtain bs c v rs where "insert_submitted L seller c v currency quote bs d = Inr (rs, d')"
    by (auto simp: submitQuery_def bind_r_def simp del: insert_submitted.simps
        split: sum.splits prod.splits list.splits)
  then show ?thesis by (rule insert_submitted_frame)
qed

lemma submitQuery_rows:
  assumes "submitQuery L seller series ct st currency quote d = Inr (rows, d')" and "wf_db d"
  shows "fst ` set rows \<subseteq> of_uuid ` set (sale_offers d')"
  using assms
proof (cases rule: submitQuery_cases)
  case (one b s r canonical submitted v)
  from one(7) have "s \<in> set (sale_offers d')" by (cases rule: insert_offer_cases) simp
  then show ?thesis using one(8) by simp
qed simp

lemma quote_price_same: "quote_price L op sub st t = Inr (rows, t') \<Longrightarrow> t' = t"
  by (auto simp: quote_price_def quotePriceQuery_def bind_r_def split: sum.splits)

lemma priced_effect_wf:
  assumes "wf_db d" and "wf_db t"
  shows "wf_db (snd (priced_effect L op sub ts d c canonical quote t))"
  using assms
  by (auto simp: priced_effect_def dest!: scan_offer_ID
      dest: submitQuery_wf submitQuery_rows intro!: accept_effect_wf reject_effect_wf
      split: sum.splits prod.splits list.splits)

lemma submit_work_wf: "wf_db d \<Longrightarrow> wf_db t \<Longrightarrow> wf_db (snd (submit_work L op sub st ts d c t))"
  by (auto simp: submit_work_def dest!: quote_price_same intro: priced_effect_wf reject_effect_wf
      split: sum.splits prod.splits list.splits)

lemma submit_effect_wf: "wf_db d \<Longrightarrow> wf_db (snd (submit_effect L op sub st ts d))"
  unfolding submit_effect_def by (intro mutation_effect_wf submit_work_wf)

lemma priced_effect_grows:
  "snd (priced_effect L op sub ts d c canonical quote t) = d
    \<or> grows_settled c t (snd (priced_effect L op sub ts d c canonical quote t))"
proof (cases "submitQuery L (p_ID (ac_Principal (mc_Access op))) (sm_BondSeries sub) (dec_String L canonical)
             (dec_String L (sm_Price sub)) (sm_Currency sub) quote t")
  case (Inr x)
  obtain rows t1 where x: "x = (rows, t1)" by (cases x)
  have "extends t t1" "operation_claims t1 = operation_claims t" "operation_results t1 = operation_results t"
    using submitQuery_frame [OF Inr [unfolded x]] by (auto simp: extends_def)
  then have "grows_settled c t1 t2 \<Longrightarrow> grows_settled c t t2" for t2
    by (rule grows_settled_after)
  with Inr x show ?thesis
    using accept_effect_grows reject_effect_grows
    by (fastforce simp: priced_effect_def split: list.splits sum.splits)
qed (simp add: priced_effect_def)

lemma submit_work_grows:
  "snd (submit_work L op sub st ts d c t) = d \<or> grows_settled c t (snd (submit_work L op sub st ts d c t))"
  using priced_effect_grows [of L op sub ts d c _ _ t] reject_effect_grows [of L ts c _ _ d t]
  by (auto simp: submit_work_def dest!: quote_price_same split: sum.splits prod.splits list.splits)

lemma submit_effect_grows:
  "extends d (snd (submit_effect L op sub st ts d))"
  "settled d \<Longrightarrow> settled (snd (submit_effect L op sub st ts d))"
  unfolding submit_effect_def by (intro mutation_effect_grows submit_work_grows; assumption?)+

text \<open>The quote a successful submission in dollars stands on.\<close>

definition quote_covers ::
  "'d Submission \<Rightarrow> string \<Rightarrow> rat \<Rightarrow> int \<Rightarrow> database \<Rightarrow> quote_row \<Rightarrow> bool" where
  "quote_covers sub seller price st d q \<longleftrightarrow> q \<in> set (conversion_quotes d) \<and> cq_uuid q = sm_QuoteID sub
     \<and> cq_principal q = seller \<and> (\<exists>b\<in>set (bonds d). bo_uuid b = cq_bond q \<and> bo_series b = sm_BondSeries sub)
     \<and> cq_submitted_price q = price \<and> cq_currency q = ''USD'' \<and> st < cq_expires_at q
     \<and> Some (cq_uuid q) \<notin> sb_quote ` set (submissions d)"

lemma quote_price_row:
  assumes "quote_price L op sub st d = Inr (amount # rows, d')"
  obtains q price where "numeric_param L (dec_String L (sm_Price sub)) = Inr price"
    "quote_covers sub (p_ID (ac_Principal (mc_Access op))) price st d q" "amount = pg_numeric_out L (cq_mxn_price q)"
proof -
  obtain price where p: "numeric_param L (dec_String L (sm_Price sub)) = Inr price"
    using assms by (auto simp: quote_price_def quotePriceQuery_def bind_r_def split: sum.splits)
  let ?rows = "[pg_numeric_out L (cq_mxn_price q). q \<leftarrow> conversion_quotes d, cq_uuid q = sm_QuoteID sub,
             cq_principal q = p_ID (ac_Principal (mc_Access op)), b \<leftarrow> bonds d, bo_uuid b = cq_bond q,
             bo_series b = sm_BondSeries sub, cq_submitted_price q = price, cq_currency q = ''USD'', st < cq_expires_at q,
             \<not> list_ex (\<lambda>u. sb_quote u = Some (cq_uuid q)) (submissions d)]"
  have "?rows = amount # rows"
    using assms p by (auto simp: quote_price_def quotePriceQuery_def bind_r_def)
  then have "amount \<in> set ?rows" by (simp only: list.set_intros)
  then obtain q b where q: "q \<in> set (conversion_quotes d)" "cq_uuid q = sm_QuoteID sub"
      "cq_principal q = p_ID (ac_Principal (mc_Access op))" "b \<in> set (bonds d)" "bo_uuid b = cq_bond q"
      "bo_series b = sm_BondSeries sub" "cq_submitted_price q = price" "cq_currency q = ''USD''" "st < cq_expires_at q"
      "\<not> list_ex (\<lambda>u. sb_quote u = Some (cq_uuid q)) (submissions d)" "amount = pg_numeric_out L (cq_mxn_price q)"
    by (auto split: if_splits)
  then have "quote_covers sub (p_ID (ac_Principal (mc_Access op))) price st d q"
    unfolding quote_covers_def list_ex_image by blast
  with p q(11) that show thesis by blast
qed

section \<open>Listing refines the market\<close>

lemma find_listed: "f y \<notin> f ` set xs \<Longrightarrow> find (\<lambda>x. f x = i) (xs @ [y]) = (if f y = i then Some y else find (\<lambda>x. f x = i) xs)"
  by (auto simp: find_append find_None_image [symmetric] split: option.splits)

lemma insert_offer_listed:
  assumes "insert_offer L seller (bo_uuid b) price currency sp sc quote d = Inr (s, d')" and "wf_db d" and "b \<in> set (bonds d)"
  shows "market_of d' = market_list (of_uuid s) seller (bo_series b) price (market_of d)"
    and "listed (market_of d) (of_uuid s) = None"
proof -
  obtain u where 1: "u = pg_uuidv7 L (next_uuid d)"
    "s = \<lparr>of_uuid = u, of_seller = seller, of_bond = bo_uuid b, of_price = price, of_currency = currency\<rparr>"
    "u \<notin> of_uuid ` set (sale_offers d)" "u \<notin> ct_offer ` set (canonical_terms d)"
    "d' = d\<lparr>next_uuid := Suc (next_uuid d), sale_offers := sale_offers d @ [s],
        canonical_terms := canonical_terms d @ [\<lparr>ct_offer = u, ct_price = price, ct_currency = currency\<rparr>],
        submissions := submissions d @ [\<lparr>sb_offer = u, sb_price = sp, sb_currency = sc, sb_quote = quote\<rparr>]\<rparr>"
    using assms(1) by (rule insert_offer_cases)
  let ?s = "\<lparr>of_uuid = u, of_seller = seller, of_bond = bo_uuid b, of_price = price, of_currency = currency\<rparr>"
  let ?c = "\<lparr>ct_offer = u, ct_price = price, ct_currency = currency\<rparr>"
  have d': "sale_offers d' = sale_offers d @ [?s]" "canonical_terms d' = canonical_terms d @ [?c]"
    "bonds d' = bonds d" "purchases d' = purchases d"
    using 1(2,5) by simp_all
  have finds: "find (\<lambda>x. of_uuid x = i) (sale_offers d') = (if u = i then Some ?s else find (\<lambda>x. of_uuid x = i) (sale_offers d))"
    "find (\<lambda>x. ct_offer x = i) (canonical_terms d') = (if u = i then Some ?c else find (\<lambda>x. ct_offer x = i) (canonical_terms d))" for i
    unfolding d' using find_listed [of of_uuid ?s] find_listed [of ct_offer ?c] 1(3,4) by simp_all
  have bond: "find (\<lambda>x. bo_uuid x = bo_uuid b) (bonds d) = Some b"
    using assms(2,3) find_distinct [of bo_uuid "bonds d" b] by (simp add: wf_db_def wf_catalog_def)
  have "offer_lookup d' i = (if i = u then Some (?s, ?c, b) else offer_lookup d i)" for i
    by (cases "i = u") (simp_all add: offer_lookup_def finds d'(3) bond cong: option.case_cong)
  then show "market_of d' = market_list (of_uuid s) seller (bo_series b) price (market_of d)"
    by (auto simp: market_of_def market_list_def fun_eq_iff 1(2) d'(4))
  have "find (\<lambda>x. of_uuid x = u) (sale_offers d) = None" using 1(3) by (simp add: find_None_image)
  then show "listed (market_of d) (of_uuid s) = None" by (simp add: market_of_def offer_lookup_def 1(2))
qed

lemma accept_effect_Inr:
  assumes "accept_effect L ts c resource v d t = (Inr v', d')"
  shows "v' = v" "market_of d' = market_of t" "submissions d' = submissions t" "sale_offers d' = sale_offers t"
  using assms by (auto simp: accept_effect_def market_of_def offer_lookup_def split: sum.splits dest!: insert_result_frame
      cong: option.case_cong)

lemma claim_work:
  assumes "mutation_effect L op perm replay work d = (Inr a, d')" and "\<not> list_ex (same_scope op) (operation_claims d)"
  obtains c where "insert_claim L op d = Inr ([c], d\<lparr>next_uuid := Suc (next_uuid d), operation_claims := operation_claims d @ [claim_row_of op c]\<rparr>)"
    "work c (d\<lparr>next_uuid := Suc (next_uuid d), operation_claims := operation_claims d @ [claim_row_of op c]\<rparr>) = (Inr a, d')"
    "effective_permission d (p_ID (ac_Principal (mc_Access op))) perm"
  using assms
  by (auto simp: mutation_effect_def split: if_splits sum.splits list.splits prod.splits elim!: insert_claim_cases)

definition offer_shown :: "('d \<Rightarrow> rat) \<Rightarrow> string \<Rightarrow> string \<Rightarrow> rat \<Rightarrow> 'd SaleOffer \<Rightarrow> bool" where
  "offer_shown val seller series price offer \<longleftrightarrow> so_SellerID offer = seller \<and> so_BondSeries offer = series
     \<and> val (so_Price offer) = price \<and> so_Currency offer = MXN"

lemma scan_offer_shown:
  assumes "decimal_laws L val" "numeric_laws L val" "valid_price price"
    and "scan_offer L (i, seller, series, pg_numeric_out L price, ''MXN'') = Inr offer"
  shows "offer_shown val seller series price offer" "so_ID offer = i"
  using assms(4) ParsePrice_numeric_out [OF assms(1-3)]
  by (auto simp: scan_offer_def bind_r_def offer_shown_def MXN_def split: sum.splits)

lemma priced_effect_Inr:
  assumes laws: "decimal_laws L val" "numeric_laws L val" and wf: "wf_db t"
    and price: "valid_price (val canonical)"
    and run: "priced_effect L op sub ts d c canonical quote t = (Inr offer, d')"
  shows "offer_shown val (p_ID (ac_Principal (mc_Access op))) (sm_BondSeries sub) (val canonical) offer
    \<and> market_of d' = market_list (so_ID offer) (p_ID (ac_Principal (mc_Access op))) (sm_BondSeries sub) (val canonical) (market_of t)
    \<and> listed (market_of t) (so_ID offer) = None
    \<and> (\<exists>p. submissions d' = submissions t @
         [\<lparr>sb_offer = so_ID offer, sb_price = p, sb_currency = sm_Currency sub, sb_quote = quote\<rparr>])"
proof -
  let ?seller = "p_ID (ac_Principal (mc_Access op))"
  obtain row rows t1 where q: "submitQuery L ?seller (sm_BondSeries sub) (dec_String L canonical)
      (dec_String L (sm_Price sub)) (sm_Currency sub) quote t = Inr (row # rows, t1)"
    and scan: "scan_offer L row = Inr offer" and acc: "accept_effect L ts c (so_ID offer) offer d t1 = (Inr offer, d')"
    using run by (auto simp: priced_effect_def reject_effect_def split: sum.splits list.splits prod.splits
        dest: accept_effect_Inr(1))
  from q wf show ?thesis
  proof (cases rule: submitQuery_cases)
    case (one b s r amount submitted v)
    have amount: "amount = val canonical"
      using one(3,4) numeric_param_price [OF laws(2) price] monetary_cast_valid [OF price] by simp
    from one(7) obtain u where s: "s = \<lparr>of_uuid = u, of_seller = ?seller, of_bond = bo_uuid b, of_price = amount, of_currency = ''MXN''\<rparr>"
      and subs: "submissions t1 = submissions t @ [\<lparr>sb_offer = u, sb_price = submitted, sb_currency = sm_Currency sub, sb_quote = quote\<rparr>]"
      by (cases rule: insert_offer_cases) simp
    have shown: "offer_shown val ?seller (sm_BondSeries sub) (val canonical) offer" "so_ID offer = u"
      using scan_offer_shown [OF laws price, of u ?seller "sm_BondSeries sub" offer] scan one(8) s amount by simp_all
    with accept_effect_Inr [OF acc] insert_offer_listed [OF one(7) wf one(1)] one(2) subs s amount show ?thesis
      by auto
  qed simp
qed

section \<open>A peso submission succeeds\<close>

lemma insert_offer_succeeds:
  assumes "u = pg_uuidv7 L (next_uuid t)" "u \<notin> of_uuid ` set (sale_offers t)" "u \<notin> ct_offer ` set (canonical_terms t)"
    "u \<notin> sb_offer ` set (submissions t)" "principal_exists t seller" "b \<in> set (bonds t)" "0 < p"
  shows "insert_offer L seller (bo_uuid b) p ''MXN'' p ''MXN'' None t =
    Inr (\<lparr>of_uuid = u, of_seller = seller, of_bond = bo_uuid b, of_price = p, of_currency = ''MXN''\<rparr>,
      t\<lparr>next_uuid := Suc (next_uuid t),
        sale_offers := sale_offers t @ [\<lparr>of_uuid = u, of_seller = seller, of_bond = bo_uuid b, of_price = p, of_currency = ''MXN''\<rparr>],
        canonical_terms := canonical_terms t @ [\<lparr>ct_offer = u, ct_price = p, ct_currency = ''MXN''\<rparr>],
        submissions := submissions t @ [\<lparr>sb_offer = u, sb_price = p, sb_currency = ''MXN'', sb_quote = None\<rparr>]\<rparr>)"
proof -
  have "list_ex (\<lambda>x. bo_uuid x = bo_uuid b) (bonds t)" using assms(6) by (auto simp: list_ex_iff)
  moreover have "currency_canonical ''MXN''" by (simp add: currency_canonical_def byte_class_defs byte_of_def)
  ultimately show ?thesis
    using assms unfolding list_ex_image [symmetric]
    by (simp add: insert_offer_def draw_uuid_def offer_checks_def Let_def)
qed

lemma peso_submission_succeeds:
  assumes laws: "decimal_laws L val" "numeric_laws L val"
    and first: "first_request L op PermissionCreateSaleOffer d" and oper: "ac_Operation (mc_Access op) = OperationCreateSaleOffer"
    and sub: "sm_Currency sub = MXN" "sm_QuoteID sub = ''''" "valid_price (val (sm_Price sub))"
    and bond: "list_ex (\<lambda>b. bo_series b = sm_BondSeries sub) (bonds d)"
  shows "\<exists>offer. fst (submit_effect L op sub st ts d) = Inr offer"
proof -
  let ?seller = "p_ID (ac_Principal (mc_Access op))"
  let ?t = "claimed_db L op d"
  let ?u = "pg_uuidv7 L (next_uuid ?t)"
  let ?p = "val (sm_Price sub)"
  note t = first_request_effect [OF first]
  have ids: "fresh_ids L d" using first by (auto simp: first_request_def)
  obtain b where b: "b \<in> set (bonds ?t)" "bo_series b = sm_BondSeries sub"
      "filter (\<lambda>b. bo_series b = sm_BondSeries sub) (bonds ?t) = [b]"
    using series_bond [OF t(2), of "sm_BondSeries sub"] bond by (auto simp: claimed_db_def list_ex_iff filter_empty_conv)
  have u: "?u \<notin> of_uuid ` set (sale_offers ?t)" "?u \<notin> ct_offer ` set (canonical_terms ?t)"
    "?u \<notin> sb_offer ` set (submissions ?t)"
    using fresh_idsD(2-4) [OF ids, of 1] by (simp_all add: claimed_db_def)
  have pos: "0 < ?p" using sub(3) by (simp add: valid_price_def)
  define s where "s = \<lparr>of_uuid = ?u, of_seller = ?seller, of_bond = bo_uuid b, of_price = ?p, of_currency = ''MXN''\<rparr>"
  define t1 where "t1 = ?t\<lparr>next_uuid := Suc (next_uuid ?t), sale_offers := sale_offers ?t @ [s],
        canonical_terms := canonical_terms ?t @ [\<lparr>ct_offer = ?u, ct_price = ?p, ct_currency = ''MXN''\<rparr>],
        submissions := submissions ?t @ [\<lparr>sb_offer = ?u, sb_price = ?p, sb_currency = ''MXN'', sb_quote = None\<rparr>]\<rparr>"
  have ins: "insert_offer L ?seller (bo_uuid b) ?p ''MXN'' ?p ''MXN'' None ?t = Inr (s, t1)"
    unfolding s_def t1_def by (rule insert_offer_succeeds [OF refl u t(5) b(1) pos])
  have query: "submitQuery L ?seller (sm_BondSeries sub) (dec_String L (sm_Price sub)) (dec_String L (sm_Price sub))
      ''MXN'' None ?t = Inr ([(?u, ?seller, sm_BondSeries sub, pg_numeric_out L ?p, ''MXN'')], t1)"
    using ins b(2) numeric_param_price [OF laws(2) sub(3)] monetary_cast_valid [OF sub(3)]
    by (simp add: submitQuery_def b(3) s_def)
  obtain offer where scan: "scan_offer L (?u, ?seller, sm_BondSeries sub, pg_numeric_out L ?p, ''MXN'') = Inr offer"
    using ParsePrice_numeric_out [OF laws sub(3)] by (auto simp: scan_offer_def)
  have id: "so_ID offer = ?u" using scan_offer_ID [OF scan] by simp
  have "accept_effect L ts (pg_uuidv7 L (next_uuid d)) ?u offer d t1 =
      (Inr offer, completed_db L ts (pg_uuidv7 L (next_uuid d)) ?u ''sale_offers'' ?u t1)"
  proof (intro accept_succeeds)
    show "pg_uuidv7 L (next_uuid t1) \<notin> ev_uuid ` set (integration_events t1)"
      using fresh_idsD(6) [OF ids, of 2] by (simp add: t1_def claimed_db_def)
    show "filter (\<lambda>x. cl_uuid x = pg_uuidv7 L (next_uuid d)) (operation_claims t1)
        = [claim_row_of op (pg_uuidv7 L (next_uuid d))]"
      using t(4) by (simp add: t1_def)
    show "\<forall>e\<in>set (integration_events t1). \<not> (ev_table e = ''sale_offers'' \<and> ev_source e = ?u)"
      using fresh_source(2) [OF t(2) u(1)] by (simp add: t1_def)
    show "has_terms t1 ?u" by (simp add: t1_def has_terms_def)
  qed (use t(3) oper in \<open>auto simp: t1_def claim_row_of_def operation_defs\<close>)
  then have "fst (submit_effect L op sub st ts d) = Inr offer"
    unfolding submit_effect_def t(1) submit_work_def priced_effect_def
    using sub by (simp add: query scan id MXN_def USD_def)
  then show ?thesis by blast
qed

end
