(* ===== verification/Trading_Props.thy ===== *)
theory Trading_Props
  imports Offer_Effect Demo_Db
begin

text \<open>
  Properties of trading as a whole: what a submission lists, and what every reachable state of the
  market satisfies.
\<close>

section \<open>Submissions\<close>



definition demo_submission :: "(int \<times> nat) Submission" where
  "demo_submission = \<lparr>sm_BondSeries = ''BOND1'', sm_Price = (1005, 1), sm_Currency = MXN, sm_QuoteID = ''''\<rparr>"



section \<open>Every reachable market\<close>

text \<open>
  The trading system as a state machine: any number of clients buy, list and submit, in any order
  and under any faults, and between their calls the environment moves the clock and the fault
  script and may change anything but the trading facts.
\<close>

inductive trading_step :: "('u, 'd) lib \<Rightarrow> world \<Rightarrow> world \<Rightarrow> bool" for L where
  buy: "trading_step L w (snd (Buy L op offer w))"
| create: "trading_step L w (snd (CreateSaleOffer L op so w))"
| submit: "trading_step L w (snd (CreateSaleOfferFromSubmission L op sub w))"
| other: "db w' = db w \<Longrightarrow> trading_step L w w'"

definition market_invariant :: "database \<Rightarrow> database \<Rightarrow> bool" where
  "market_invariant d0 d \<longleftrightarrow> wf_db d \<and> settled d \<and> extends d0 d"

lemma submit_keeps:
  assumes "market_invariant d0 (db w)"
  shows "market_invariant d0 (db (snd (CreateSaleOfferFromSubmission L op sub w)))"
  by (rule submit_op.keeps_predicate)
    (use assms in \<open>auto simp: market_invariant_def intro: submit_effect_wf submit_effect_grows extends_trans\<close>)

lemma trading_step_invariant:
  assumes "trading_step L w w'" and "market_invariant d0 (db w)"
  shows "market_invariant d0 (db w')"
  using assms
proof (induction rule: trading_step.induct)
  case (buy w op offer)
  show ?case
    by (rule buy_op.keeps_predicate)
      (use buy in \<open>auto simp: market_invariant_def intro: buy_effect_wf buy_effect_grows extends_trans\<close>)
next
  case (create w op so)
  show ?case
    by (rule create_op.keeps_predicate)
      (use create in \<open>auto simp: market_invariant_def intro: create_effect_wf create_effect_grows extends_trans\<close>)
next
  case (submit w op sub)
  then show ?case by (rule submit_keeps)
qed simp

text \<open>
  C16. Every market reachable from a well-formed one stays sound: no offer is bought twice, nobody
  buys their own offer, every quote is used by at most one offer, every claim has one result, the
  listed prices are valid peso amounts, and history is append-only: offers, terms, purchases,
  claims, results and events that were once recorded are never changed or removed.
\<close>

theorem reachable_market_sound:
  assumes "(trading_step L)\<^sup>*\<^sup>* w w'" and "wf_db (db w)" and "settled (db w)"
  shows "distinct (map pc_offer (purchases (db w')))
    \<and> (\<forall>p\<in>set (purchases (db w')). \<forall>s\<in>set (sale_offers (db w')). of_uuid s = pc_offer p \<longrightarrow> of_seller s \<noteq> pc_buyer p)
    \<and> distinct (filter (\<lambda>q. q \<noteq> None) (map sb_quote (submissions (db w'))))
    \<and> distinct (map rs_claim (operation_results (db w')))
    \<and> rs_claim ` set (operation_results (db w')) = cl_uuid ` set (operation_claims (db w'))
    \<and> (\<forall>c\<in>set (canonical_terms (db w')). valid_price (ct_price c) \<and> ct_currency c = MXN)
    \<and> extends (db w) (db w')"
proof -
  have "market_invariant (db w) (db w)" using assms(2,3) by (simp add: market_invariant_def)
  with assms(1) have "market_invariant (db w) (db w')"
    by (induction rule: rtranclp_induct) (auto dest: trading_step_invariant)
  then show ?thesis
    by (auto simp: market_invariant_def wf_db_def wf_purchases_def wf_submissions_def wf_operations_def
        wf_offers_def settled_def)
qed

theorem reachable_market_sound_witness:
  "extends demo_db (db (snd (Buy demo_lib (demo_request buyer_id OperationBuy) offer_id
     (snd (CreateSaleOfferFromSubmission demo_lib (demo_request seller_id OperationCreateSaleOffer) demo_submission
        (demo_world demo_db []))))))"
proof -
  let ?w0 = "demo_world demo_db []"
  let ?w1 = "snd (CreateSaleOfferFromSubmission demo_lib (demo_request seller_id OperationCreateSaleOffer) demo_submission ?w0)"
  have "(trading_step demo_lib)\<^sup>*\<^sup>* ?w0 (snd (Buy demo_lib (demo_request buyer_id OperationBuy) offer_id ?w1))"
    by (rule rtranclp.rtrancl_into_rtrancl [OF r_into_rtranclp]) (rule trading_step.intros)+
  from reachable_market_sound [OF this] show ?thesis by (simp add: demo_wf demo_settled)
qed

end
