(* ===== verification/Rates_Service.thy ===== *)
theory Rates_Service
  imports Rates_Store
begin

text \<open>
  \<^verbatim>\<open>exchangerates/service.go\<close>: the durable read-through cache. The provider and the store are
  interfaces of the code and records of operations here. The polling loops need not end, so they
  are partial functions: \<open>None\<close> is a call that never returns.
\<close>

section \<open>Interfaces and configuration\<close>

type_synonym 'd Provider = "FetchRequest \<Rightarrow> 'd FetchResult m"

record 'd RateStore =
  rs_States :: "WorkUnit list \<Rightarrow> (string \<Rightarrow> WorkState option) m"
  rs_Claim :: "WorkUnit list \<Rightarrow> string \<Rightarrow> int \<Rightarrow> bool \<Rightarrow> WorkUnit list m"
  rs_Complete :: "string \<Rightarrow> WorkUnit list \<Rightarrow> FetchRequest \<Rightarrow> 'd FetchResult \<Rightarrow> int \<Rightarrow> unit m"
  rs_Fail :: "string \<Rightarrow> WorkUnit list \<Rightarrow> string \<Rightarrow> int \<Rightarrow> unit m"
  rs_LatestObservations :: "Series list \<Rightarrow> 'd Observation list m"
  rs_RangeObservations :: "Series list \<Rightarrow> int \<Rightarrow> int \<Rightarrow> 'd Observation list m"
  rs_ProviderBlockedUntil :: "int m"
  rs_BlockProviderUntil :: "int \<Rightarrow> unit m"

definition postgres_rate_store ::
  "('u, 'd) lib \<Rightarrow> (string \<Rightarrow> bool) \<Rightarrow> (string \<Rightarrow> nat option) \<Rightarrow> 'd RateStore" where
  "postgres_rate_store L json_Valid jsonb =
     \<lparr>rs_States = States, rs_Claim = Claim L, rs_Complete = Complete L json_Valid jsonb, rs_Fail = Fail,
      rs_LatestObservations = LatestObservations L, rs_RangeObservations = RangeObservations L,
      rs_ProviderBlockedUntil = ProviderBlockedUntil, rs_BlockProviderUntil = BlockProviderUntil\<rparr>"

text \<open>Durations in nanoseconds; the clock is a function of the world, as it may tick between calls.\<close>

record RateConfig =
  rc_FreshFor :: int
  rc_LeaseFor :: int
  rc_RetryAfter :: int
  rc_PollEvery :: int
  rc_Now :: "(world \<Rightarrow> clock_time \<times> world) option"

record 'd RateService =
  sv_provider :: "'d Provider"
  sv_store :: "'d RateStore"
  sv_config :: RateConfig

text \<open>\<^verbatim>\<open>NewService\<close>; a nil dependency is \<open>None\<close>, \<open>wall\<close> is \<^verbatim>\<open>time.Now\<close>.\<close>

definition NewRateService ::
  "(world \<Rightarrow> clock_time \<times> world) \<Rightarrow> 'd Provider option \<Rightarrow> 'd RateStore option \<Rightarrow> RateConfig
     \<Rightarrow> 'd RateService result" where
  "NewRateService wall provider store config =
     (case (provider, store) of
        (Some pr, Some st) \<Rightarrow>
          (let c1 = (if rc_FreshFor config \<le> 0 then config\<lparr>rc_FreshFor := 15 * ns_minute\<rparr> else config);
               c2 = (if rc_LeaseFor c1 \<le> 0 then c1\<lparr>rc_LeaseFor := 10 * ns_second\<rparr> else c1);
               c3 = (if rc_RetryAfter c2 \<le> 0 then c2\<lparr>rc_RetryAfter := ns_minute\<rparr> else c2);
               c4 = (if rc_PollEvery c3 \<le> 0 then c3\<lparr>rc_PollEvery := 25000000\<rparr> else c3)
           in if rc_FreshFor c4 \<le> rc_LeaseFor c4 then
                Inl (ErrorString ''exchange-rate lease must be shorter than freshness period'')
              else Inr \<lparr>sv_provider = pr, sv_store = st,
                        sv_config = (if rc_Now c4 = None then c4\<lparr>rc_Now := Some wall\<rparr> else c4)\<rparr>)
      | _ \<Rightarrow> Inl (ErrorString ''exchange-rate provider and store are required''))"

text \<open>A service built by \<open>NewRateService\<close> has a clock; the default only completes the definition.\<close>

definition now_m :: "'d RateService \<Rightarrow> clock_time m" where
  "now_m sv w = (case rc_Now (sv_config sv) of
     Some now \<Rightarrow> (case now w of (t, w') \<Rightarrow> (Inr t, w'))
   | None \<Rightarrow> (Inr \<lparr>tm_instant = 0, tm_offset = 0\<rparr>, w))"

definition newLeaseNonce :: "string m" where
  "newLeaseNonce = uuid_NewRandom"

definition waitForPoll :: "int \<Rightarrow> unit m" where
  "waitForPoll delay = wait_ms (delay div 1000000)"

section \<open>Fetching claimed units\<close>

text \<open>One iteration of the loop over batches after a failed fetch.\<close>

definition fetch_failed ::
  "'d RateService \<Rightarrow> string \<Rightarrow> string \<Rightarrow> WorkUnit list list \<Rightarrow> go_error \<Rightarrow> unit m" where
  "fetch_failed sv nonce kind batches fetchErr =
     bind_m
       (case as_RateLimitError fetchErr of
          None \<Rightarrow> return_m (rc_RetryAfter (sv_config sv), ''provider_error'', Inr ())
        | Some retryAt \<Rightarrow>
            bind_m (now_m sv) (\<lambda>now.
            bind_m (if tm_instant now < retryAt
                    then bind_m (now_m sv) (\<lambda>again. return_m (time_Sub retryAt (tm_instant again)))
                    else return_m (rc_RetryAfter (sv_config sv))) (\<lambda>delay.
            bind_m (try_m (rs_BlockProviderUntil (sv_store sv) retryAt)) (\<lambda>blockErr.
            return_m (delay, ''provider_rate_limited'', blockErr)))))
       (\<lambda>(delay, errorClass, blockErr).
     bind_m (metric_m ''exchange_rate_fetch'' [kind, providerOutcome fetchErr]) (\<lambda>_.
     case blockErr of
       Inl e \<Rightarrow> fail_m e
     | Inr _ \<Rightarrow>
         bind_m (rs_Fail (sv_store sv) nonce (remainingUnits batches) errorClass delay) (\<lambda>_.
         fail_m fetchErr)))"

definition fetch_batch :: "'d RateService \<Rightarrow> FetchRequest \<Rightarrow> 'd FetchResult m" where
  "fetch_batch sv request =
     bind_m (sv_provider sv request) (\<lambda>r.
     if fr_Kind request = FetchLatest
     then bind_m (lift_r (requireLatestObservations request r)) (\<lambda>_. return_m r)
     else return_m r)"

fun fetch_batches :: "'d RateService \<Rightarrow> string \<Rightarrow> WorkUnit list list \<Rightarrow> unit m" where
  "fetch_batches sv nonce [] = return_m ()"
| "fetch_batches sv nonce (batch # rest) =
     (let request = requestForBatch batch;
          kind = (if fr_Kind request = FetchLatest then ''latest'' else ''range'')
      in bind_m (try_m (fetch_batch sv request)) (\<lambda>fetched.
         case fetched of
           Inr r \<Rightarrow>
             bind_m (metric_m ''exchange_rate_fetch'' [kind, ''succeeded'']) (\<lambda>_.
             bind_m (rs_Complete (sv_store sv) nonce batch request r (rc_FreshFor (sv_config sv))) (\<lambda>_.
             fetch_batches sv nonce rest))
         | Inl fetchErr \<Rightarrow> fetch_failed sv nonce kind (batch # rest) fetchErr))"

definition fetchClaimed :: "'d RateService \<Rightarrow> string \<Rightarrow> WorkUnit list \<Rightarrow> unit m" where
  "fetchClaimed sv nonce units =
     bind_m (rs_ProviderBlockedUntil (sv_store sv)) (\<lambda>blockedUntil.
     bind_m (now_m sv) (\<lambda>now.
     if tm_instant now < blockedUntil then
       bind_m (metric_m ''exchange_rate_fetch_skip'' [fetchKindName units, ''rate_limited'']) (\<lambda>_.
       bind_m (now_m sv) (\<lambda>again.
       bind_m (rs_Fail (sv_store sv) nonce units ''provider_rate_limited''
                 (time_Sub blockedUntil (tm_instant again))) (\<lambda>_.
       fail_m (RateLimitError blockedUntil))))
     else fetch_batches sv nonce (makeBatches units)))"

section \<open>Resolving work units\<close>

text \<open>A loop whose body decides whether to go on, with a new loop state, or to stop.\<close>

partial_function (option) loop_m :: "('s \<Rightarrow> ('s + 'b) m) \<Rightarrow> 's \<Rightarrow> world \<Rightarrow> ('b result \<times> world) option" where
  "loop_m body s w = (case body s w of
     (Inl e, w') \<Rightarrow> Some (Inl e, w')
   | (Inr (Inr b), w') \<Rightarrow> Some (Inr b, w')
   | (Inr (Inl s'), w') \<Rightarrow> loop_m body s' w')"

definition resolve_round :: "'d RateService \<Rightarrow> WorkUnit list \<Rightarrow> unit \<Rightarrow> (unit + unit) m" where
  "resolve_round sv units _ =
     bind_m (rs_States (sv_store sv) units) (\<lambda>states.
     let pending = pendingUnits units states
     in if pending = [] then bind_m (metric_m ''exchange_rate_cache'' [''hit'']) (\<lambda>_. return_m (Inr ()))
        else
          bind_m (metric_m ''exchange_rate_cache'' [''miss'']) (\<lambda>_.
          bind_m newLeaseNonce (\<lambda>nonce.
          bind_m (rs_Claim (sv_store sv) pending nonce (rc_LeaseFor (sv_config sv)) False) (\<lambda>claimed.
          if claimed = [] then
            bind_m (metric_m ''exchange_rate_cache'' [''lease_contended'']) (\<lambda>_.
            if allLatest units then fail_m ErrColdFetchInProgress
            else bind_m (waitForPoll (rc_PollEvery (sv_config sv))) (\<lambda>_. return_m (Inl ())))
          else bind_m (fetchClaimed sv nonce claimed) (\<lambda>_. return_m (Inl ()))))))"

definition resolve :: "'d RateService \<Rightarrow> WorkUnit list \<Rightarrow> world \<Rightarrow> (unit result \<times> world) option" where
  "resolve sv units = loop_m (resolve_round sv units) ()"

definition completed_at :: "(string \<Rightarrow> WorkState option) \<Rightarrow> WorkUnit \<Rightarrow> int" where
  "completed_at states u = ws_CompletedAt (case states (wu_Key u) of Some s \<Rightarrow> s | None \<Rightarrow> zero_state)"

definition forced_round ::
  "'d RateService \<Rightarrow> (string \<Rightarrow> WorkState option) \<Rightarrow> WorkUnit list \<Rightarrow> (WorkUnit list + unit) m" where
  "forced_round sv baseline remaining =
     (if remaining = [] then return_m (Inr ())
      else
        bind_m (rs_States (sv_store sv) remaining) (\<lambda>states.
        let pending = filter (\<lambda>u. \<not> completed_at baseline u < completed_at states u) remaining
        in if pending = [] then return_m (Inr ())
           else
             bind_m newLeaseNonce (\<lambda>nonce.
             bind_m (rs_Claim (sv_store sv) pending nonce (rc_LeaseFor (sv_config sv)) True) (\<lambda>claimed.
             if claimed = [] then
               bind_m (waitForPoll (rc_PollEvery (sv_config sv))) (\<lambda>_. return_m (Inl pending))
             else bind_m (fetchClaimed sv nonce claimed) (\<lambda>_. return_m (Inl pending))))))"

definition resolveForced :: "'d RateService \<Rightarrow> WorkUnit list \<Rightarrow> world \<Rightarrow> (unit result \<times> world) option" where
  "resolveForced sv units w =
     (case rs_States (sv_store sv) units w of
        (Inl e, w') \<Rightarrow> Some (Inl e, w')
      | (Inr baseline, w') \<Rightarrow> loop_m (forced_round sv baseline) units w')"

section \<open>Latest\<close>

definition mark_stale :: "(string \<Rightarrow> WorkState option) \<Rightarrow> 'd Observation \<Rightarrow> 'd Observation" where
  "mark_stale states x =
     x\<lparr>on_Stale := \<not> ws_Ready (case states (latestWorkKey
         \<lparr>se_ID = on_SeriesID x, se_Base = on_Base x, se_Quote = on_Quote x\<rparr>) of
       Some s \<Rightarrow> s | None \<Rightarrow> zero_state)\<rparr>"

text \<open>
  The fallback after a failed resolution: stored observations, marked stale where their unit is
  not ready. \<open>None\<close> when the loop goes on.
\<close>

definition stored_fallback ::
  "'d RateService \<Rightarrow> Series list \<Rightarrow> WorkUnit list \<Rightarrow> 'd Observation list option m" where
  "stored_fallback sv series units =
     bind_m (try_m (rs_LatestObservations (sv_store sv) series)) (\<lambda>loaded.
     case loaded of
       Inl _ \<Rightarrow> return_m None
     | Inr found \<Rightarrow>
         if length found \<noteq> length series then return_m None
         else bind_m (try_m (rs_States (sv_store sv) units)) (\<lambda>stated.
              case stated of
                Inl _ \<Rightarrow> return_m None
              | Inr states \<Rightarrow> return_m (Some (map (mark_stale states) found))))"

definition latest_fallback ::
  "'d RateService \<Rightarrow> Series list \<Rightarrow> WorkUnit list \<Rightarrow> go_error \<Rightarrow> 'd Observation list option m" where
  "latest_fallback sv series units err =
     bind_m (stored_fallback sv series units) (\<lambda>stored.
     case stored of
       Some found \<Rightarrow> return_m (Some found)
     | None \<Rightarrow>
         if \<not> errors_Is err ErrColdFetchInProgress then fail_m err
         else bind_m (waitForPoll (rc_PollEvery (sv_config sv))) (\<lambda>_. return_m None))"

partial_function (option) latest_retry ::
  "'d RateService \<Rightarrow> Series list \<Rightarrow> WorkUnit list \<Rightarrow> world \<Rightarrow> ('d Observation list result \<times> world) option" where
  "latest_retry sv series units w = (case resolve sv units w of
     None \<Rightarrow> None
   | Some (Inr _, w1) \<Rightarrow> Some (rs_LatestObservations (sv_store sv) series w1)
   | Some (Inl err, w1) \<Rightarrow>
       (case latest_fallback sv series units err w1 of
          (Inl e, w2) \<Rightarrow> Some (Inl e, w2)
        | (Inr (Some found), w2) \<Rightarrow> Some (Inr found, w2)
        | (Inr None, w2) \<Rightarrow> latest_retry sv series units w2))"

definition Latest :: "'d RateService \<Rightarrow> Series list \<Rightarrow> world \<Rightarrow> ('d Observation list result \<times> world) option" where
  "Latest sv requested w = (case normalizeSeries requested of
     Inl e \<Rightarrow> Some (Inl e, w)
   | Inr series \<Rightarrow> latest_retry sv series (map latest_unit series) w)"

section \<open>Ranges\<close>

text \<open>\<^verbatim>\<open>Range\<close> and \<^verbatim>\<open>RevalidateRange\<close> differ only in how they resolve their units.\<close>

definition range_with ::
  "(WorkUnit list \<Rightarrow> world \<Rightarrow> (unit result \<times> world) option) \<Rightarrow> 'd RateService \<Rightarrow> Series list
     \<Rightarrow> clock_time \<Rightarrow> clock_time \<Rightarrow> world \<Rightarrow> ('d Observation list result \<times> world) option" where
  "range_with resolver sv requested from to w = (case normalizeSeries requested of
     Inl e \<Rightarrow> Some (Inl e, w)
   | Inr series \<Rightarrow>
       (let from = dateOnly from; to = dateOnly to
        in if to < from then Some (Inl ErrInvalidDateRange, w)
           else (case now_m sv w of
                   (Inl e, w1) \<Rightarrow> Some (Inl e, w1)
                 | (Inr now, w1) \<Rightarrow>
                     (case resolver (rangeUnits now series from to) w1 of
                        None \<Rightarrow> None
                      | Some (Inl e, w2) \<Rightarrow> Some (Inl e, w2)
                      | Some (Inr _, w2) \<Rightarrow> Some (rs_RangeObservations (sv_store sv) series from to w2)))))"

definition Range ::
  "'d RateService \<Rightarrow> Series list \<Rightarrow> clock_time \<Rightarrow> clock_time \<Rightarrow> world
     \<Rightarrow> ('d Observation list result \<times> world) option" where
  "Range sv = range_with (resolve sv) sv"

definition RevalidateRange ::
  "'d RateService \<Rightarrow> Series list \<Rightarrow> clock_time \<Rightarrow> clock_time \<Rightarrow> world
     \<Rightarrow> ('d Observation list result \<times> world) option" where
  "RevalidateRange sv = range_with (resolveForced sv) sv"

end
