(* ===== verification/Rates_Facts.thy ===== *)
theory Rates_Facts
  imports Rates_Service Tx_Logic "HOL-Library.Multiset"
begin

text \<open>
  Facts about the exchange-rate cache: batches, normalised series, the months of a range, and the
  revisions of observations.
\<close>

section \<open>Batches\<close>

lemma cut_batch_bounds: "cut_batch u us \<le> length us" "cut_batch u us \<le> MaxSeriesPerRequest - 1"
  unfolding cut_batch_def using length_takeWhile_le [of "samePeriod u" "take (MaxSeriesPerRequest - 1) us"] by simp_all

lemma cut_batch_take: "take (cut_batch u us) us = takeWhile (samePeriod u) (take (MaxSeriesPerRequest - 1) us)"
proof -
  let ?n = "MaxSeriesPerRequest - 1"
  let ?ys = "takeWhile (samePeriod u) (take ?n us)"
  have "length ?ys \<le> ?n" using cut_batch_bounds(2) [of u us] by (simp add: cut_batch_def)
  then have "take (length ?ys) us = take (length ?ys) (take ?n us)" by (simp add: min_absorb1)
  also have "\<dots> = ?ys" by (rule takeWhile_eq_take [symmetric])
  finally show ?thesis by (simp add: cut_batch_def)
qed

lemma split_batches_concat: "concat (split_batches us) = us"
  by (induction us rule: split_batches.induct) auto

lemma split_batches_shape:
  "b \<in> set (split_batches us) \<Longrightarrow> b \<noteq> [] \<and> length b \<le> MaxSeriesPerRequest \<and> (\<forall>u\<in>set b. samePeriod (hd b) u)"
proof (induction us rule: split_batches.induct)
  case (2 u us)
  have first: "(u # take (cut_batch u us) us) \<noteq> [] \<and> length (u # take (cut_batch u us) us) \<le> MaxSeriesPerRequest
      \<and> (\<forall>x\<in>set (u # take (cut_batch u us) us). samePeriod (hd (u # take (cut_batch u us) us)) x)"
  proof (intro conjI ballI)
    show "length (u # take (cut_batch u us) us) \<le> MaxSeriesPerRequest"
      using cut_batch_bounds(2) [of u us] by (simp add: MaxSeriesPerRequest_def)
    fix x
    assume "x \<in> set (u # take (cut_batch u us) us)"
    then show "samePeriod (hd (u # take (cut_batch u us) us)) x"
      unfolding cut_batch_take by (auto simp: samePeriod_def [of u u] dest: set_takeWhileD)
  qed simp
  from 2(2) have "b = u # take (cut_batch u us) us \<or> b \<in> set (split_batches (drop (cut_batch u us) us))" by simp
  then show ?case using first 2(1) by blast
qed simp

section \<open>Series\<close>

lemma normalize_loop_Inr:
  "normalize_loop ss byID = Inr out \<Longrightarrow> distinct (map fst byID) \<Longrightarrow> \<forall>(i, s)\<in>set byID. i = se_ID s \<Longrightarrow>
     distinct (map fst out) \<and> (\<forall>(i, s)\<in>set out. i = se_ID s) \<and> snd ` set out = snd ` set byID \<union> set ss
     \<and> (\<forall>s\<in>set ss. Series_Validate s = Inr ())"
proof (induction ss byID rule: normalize_loop.induct)
  case (2 s ss byID)
  show ?case
  proof (cases "map_of byID (se_ID s)")
    case None
    then have "se_ID s \<notin> fst ` set byID" by (simp add: map_of_eq_None_iff)
    with 2 None show ?thesis by (auto split: sum.splits)
  next
    case (Some previous)
    then have "previous \<in> snd ` set byID" by (force dest: map_of_SomeD)
    with 2 Some show ?thesis by (auto split: sum.splits if_splits)
  qed
qed auto

lemma normalize_loop_Inl:
  "normalize_loop ss byID = Inl e \<Longrightarrow> \<forall>(i, s)\<in>set byID. i = se_ID s \<Longrightarrow>
     (\<exists>s\<in>set ss. Series_Validate s \<noteq> Inr ())
     \<or> (\<exists>s\<in>set ss. \<exists>t\<in>set ss \<union> snd ` set byID. se_ID s = se_ID t \<and> s \<noteq> t)"
proof (induction ss byID rule: normalize_loop.induct)
  case (2 s ss byID)
  show ?case
  proof (cases "Series_Validate s")
    case (Inr x)
    show ?thesis
    proof (cases "map_of byID (se_ID s)")
      case None
      with 2 Inr have "normalize_loop ss (byID @ [(se_ID s, s)]) = Inl e" by simp
      with 2(1) [OF Inr None] 2(4) show ?thesis by auto
    next
      case (Some previous)
      then have p: "previous \<in> snd ` set byID" "se_ID previous = se_ID s"
        using 2(4) map_of_SomeD [OF Some] by force+
      show ?thesis
      proof (cases "previous = s")
        case True
        with 2(3) Inr Some have "normalize_loop ss byID = Inl e" by simp
        from 2(2) [OF Inr Some _ this 2(4)] True show ?thesis by (metis Un_iff list.set_intros(2))
      next
        case False
        with p show ?thesis by (metis Un_iff list.set_intros(1))
      qed
    qed
  qed auto
qed simp

section \<open>Months\<close>

text \<open>The unit of a series for the month numbered \<open>j\<close>.\<close>

definition month_unit :: "int \<Rightarrow> int \<Rightarrow> int \<Rightarrow> Series \<Rightarrow> WorkUnit" where
  "month_unit today currentMonth j s =
     \<lparr>wu_Key = rangeWorkKey s (month_start j), wu_Kind = FetchRange, wu_Series = s,
      wu_From = month_start j, wu_To = month_start (j + 1) - 1,
      wu_FetchTo = min today (month_start (j + 1) - 1), wu_Permanent = month_start j < currentMonth\<rparr>"

lemma month_loop_step:
  assumes "k \<le> final"
  shows "set (month_loop series today currentMonth (month_start final) (month_start k)) =
    (if month_start k \<le> today then month_unit today currentMonth k ` set series else {})
      \<union> set (month_loop series today currentMonth (month_start final) (month_start (k + 1)))"
proof -
  have "\<not> month_start final < month_start k" using assms month_start_le_iff [of k final] by simp
  moreover have "(if today < month_start (k + 1) - 1 then today else month_start (k + 1) - 1) < month_start k
      \<longleftrightarrow> \<not> month_start k \<le> today"
    using month_start_less [of k] by auto
  moreover have "(if today < month_start (k + 1) - 1 then today else month_start (k + 1) - 1)
      = min today (month_start (k + 1) - 1)" by simp
  ultimately show ?thesis
    by (subst month_loop.simps) (simp add: Let_def month_unit_def)
qed

lemma month_loop_members:
  "u \<in> set (month_loop series today currentMonth (month_start final) (month_start k)) \<longleftrightarrow>
     (\<exists>j. k \<le> j \<and> j \<le> final \<and> month_start j \<le> today \<and> u \<in> month_unit today currentMonth j ` set series)"
proof (induction "nat (final + 1 - k)" arbitrary: k)
  case 0
  then have "final < k" by simp
  then have "month_start final < month_start k" by (rule month_start_mono_strict)
  with \<open>final < k\<close> show ?case by (subst month_loop.simps) auto
next
  case (Suc n)
  have le: "k \<le> final" using Suc(2) by simp
  have split: "(\<exists>j. k \<le> j \<and> j \<le> final \<and> P j) \<longleftrightarrow> P k \<or> (\<exists>j. k + 1 \<le> j \<and> j \<le> final \<and> P j)" for P
    using le by (metis add1_zle_eq order_le_less order_refl)
  have "u \<in> set (month_loop series today currentMonth (month_start final) (month_start (k + 1))) \<longleftrightarrow>
     (\<exists>j. k + 1 \<le> j \<and> j \<le> final \<and> month_start j \<le> today \<and> u \<in> month_unit today currentMonth j ` set series)"
    using Suc(1) [of "k + 1"] Suc(2) by simp
  then show ?case
    unfolding month_loop_step [OF le] Un_iff
    by (subst split [of "\<lambda>j. month_start j \<le> today \<and> u \<in> month_unit today currentMonth j ` set series"]) simp
qed

lemma rangeUnits_loop:
  "rangeUnits now series from to = month_loop series (local_day now) (month_start (month_of (local_day now)))
     (month_start (month_of to)) (month_start (month_of from))"
  by (simp add: rangeUnits_def Let_def)

lemma rangeUnits_members:
  "u \<in> set (rangeUnits now series from to) \<longleftrightarrow>
     (\<exists>j. month_of from \<le> j \<and> j \<le> month_of to \<and> month_start j \<le> local_day now
        \<and> u \<in> month_unit (local_day now) (month_start (month_of (local_day now))) j ` set series)"
  unfolding rangeUnits_loop by (rule month_loop_members)

lemma month_of_mono: "x \<le> y \<Longrightarrow> month_of x \<le> month_of y"
  using month_of_spec [of x] month_of_spec [of y] month_start_le_iff [of "month_of y + 1" "month_of x"] by linarith

section \<open>Revisions\<close>

text \<open>Revisions grow with the sequence of inserts and are never reused.\<close>

definition wf_rates :: "database \<Rightarrow> bool" where
  "wf_rates d \<longleftrightarrow> (\<forall>x\<in>set (observations d). ob_revision x < next_revision d) \<and> distinct (map ob_revision (observations d))"

definition rate_key :: "observation_row \<Rightarrow> string \<times> string \<times> string \<times> int" where
  "rate_key x = (ob_series x, ob_base x, ob_quote x, ob_observed_on x)"

lemma same_observation_key: "same_observation x y \<longleftrightarrow> rate_key x = rate_key y"
  by (auto simp: same_observation_def rate_key_def)

lemma current_rates_iff:
  "x \<in> set (current_rates d) \<longleftrightarrow> x \<in> set (observations d)
     \<and> (\<forall>y\<in>set (observations d). rate_key y = rate_key x \<longrightarrow> ob_revision y \<le> ob_revision x)"
  by (auto simp: current_rates_def list_ex_iff same_observation_key not_less)

lemma current_rates_unique:
  assumes "wf_rates d" and "x \<in> set (current_rates d)" and "y \<in> set (current_rates d)" and "rate_key x = rate_key y"
  shows "x = y"
proof -
  have "ob_revision x = ob_revision y"
    using assms(2-4) by (auto simp: current_rates_iff intro: order_antisym)
  then show ?thesis
    using assms(1-3) distinct_map_eq [of ob_revision "observations d" x y] by (simp add: wf_rates_def current_rates_iff)
qed

lemma insert_observation_cases:
  assumes "insert_observation L importID s date valueText ts d = Inr ((), d')"
  obtains (kept) x v where "numeric_param L valueText = Inr v" "d' = d" "x \<in> set (current_rates d)"
      "rate_key x = (se_ID s, se_Base s, se_Quote s, date)" "ob_value x = v"
  | (added) x v n where "numeric_param L valueText = Inr v" "rate_key x = (se_ID s, se_Base s, se_Quote s, date)"
      "ob_value x = v" "ob_revision x = next_revision d"
      "\<forall>y\<in>set (current_rates d). rate_key y = rate_key x \<longrightarrow> ob_value y \<noteq> v"
      "d' = d\<lparr>next_uuid := n, observations := observations d @ [x], next_revision := Suc (next_revision d)\<rparr>"
proof -
  obtain v where v: "numeric_param L valueText = Inr v"
    using assms by (auto simp: insert_observation_def bind_r_def split: sum.splits)
  show thesis
  proof (cases "\<exists>x\<in>set (current_rates d). rate_key x = (se_ID s, se_Base s, se_Quote s, date) \<and> ob_value x = v")
    case True
    then obtain x where x: "x \<in> set (current_rates d)" "rate_key x = (se_ID s, se_Base s, se_Quote s, date)" "ob_value x = v"
      by blast
    then have "list_ex (\<lambda>x. ob_series x = se_ID s \<and> ob_base x = se_Base s \<and> ob_quote x = se_Quote s
          \<and> ob_observed_on x = date \<and> ob_value x = v) (current_rates d)"
      by (auto simp: list_ex_iff rate_key_def)
    then have "d' = d" using assms v by (simp add: insert_observation_def)
    then show ?thesis using kept v x by blast
  next
    case False
    then have none: "\<not> list_ex (\<lambda>x. ob_series x = se_ID s \<and> ob_base x = se_Base s \<and> ob_quote x = se_Quote s
          \<and> ob_observed_on x = date \<and> ob_value x = v) (current_rates d)"
      by (auto simp: list_ex_iff rate_key_def)
    define x where "x = \<lparr>ob_uuid = pg_uuidv7 L (next_uuid d), ob_import = importID, ob_series = se_ID s, ob_base = se_Base s,
                ob_quote = se_Quote s, ob_observed_on = date, ob_value = v, ob_recorded_at = ts,
                ob_revision = next_revision d\<rparr>"
    have "d' = d\<lparr>next_uuid := Suc (next_uuid d), observations := observations d @ [x], next_revision := Suc (next_revision d)\<rparr>"
      using assms v none by (auto simp: insert_observation_def draw_uuid_def Let_def x_def split: option.splits)
    moreover have "rate_key x = (se_ID s, se_Base s, se_Quote s, date)" "ob_value x = v" "ob_revision x = next_revision d"
      by (simp_all add: x_def rate_key_def)
    ultimately show ?thesis using added v False by metis
  qed
qed

end
