(* ===== verification/Rates_Effect.thy ===== *)
theory Rates_Effect
  imports Rates_Facts
begin

text \<open>
  What the two transactions of the exchange-rate store, \<open>Claim\<close> and \<open>Complete\<close>, commit, as pure
  functions of the database and the transaction's timestamp. The contract \<open>atomic_at\<close> sharpens
  \<open>atomic\<close>: the timestamp is the server's time at which the transaction began.
\<close>

definition begin_time :: "world \<Rightarrow> int" where
  "begin_time w = stmt_time (snd (trip w))"

definition atomic_at :: "'a m \<Rightarrow> (int \<Rightarrow> database \<Rightarrow> 'a result \<times> database) \<Rightarrow> bool" where
  "atomic_at p eff \<longleftrightarrow>
     (\<forall>b w. calm b w \<longrightarrow> finished b (db w) (eff (begin_time w) (db w)) (fst (p w)) (snd (p w)))"

lemma triple_begin_at:
  "triple (\<lambda>w. at_db b d w \<and> begin_time w = ts) begin_tx (\<lambda>_. in_tx b d ts d) (faulted b d)"
  by (auto simp: triple_def begin_tx_def begin_time_def tx_assertions trip_facts split: exec_splits)

lemma atomic_at_begin:
  assumes "\<And>b d ts. ends b d (in_tx b d ts d) p (eff ts d)"
  shows "atomic_at (bind_m begin_tx (\<lambda>_. p)) eff"
proof -
  have "triple (\<lambda>w. at_db b d w \<and> begin_time w = ts) (bind_m begin_tx (\<lambda>_. p))
      (\<lambda>a. finished b d (eff ts d) (Inr a)) (\<lambda>e. finished b d (eff ts d) (Inl e))" for b d ts
    by (rule triple_step [OF triple_begin_at]) (auto intro: finished_fault assms [unfolded ends_def])
  note ok = this
  show ?thesis
    unfolding atomic_at_def
  proof (intro allI impI)
    fix b w
    assume "calm b w"
    with ok [of b "db w" "begin_time w"]
    show "finished b (db w) (eff (begin_time w) (db w)) (fst (bind_m begin_tx (\<lambda>_. p) w)) (snd (bind_m begin_tx (\<lambda>_. p) w))"
      by (cases "fst (bind_m begin_tx (\<lambda>_. p) w)"; cases "bind_m begin_tx (\<lambda>_. p) w")
        (auto simp: triple_def at_db_def split: prod.splits sum.splits)
  qed
qed

text \<open>The outcome of a transaction that ends with a commit.\<close>

definition committed :: "database \<Rightarrow> ('a \<times> database) result \<Rightarrow> 'a result \<times> database" where
  "committed d r = (case r of Inl e \<Rightarrow> (Inl e, d) | Inr (a, t) \<Rightarrow> (Inr a, t))"

lemma committed_simps [simp]: "committed d (Inl e) = (Inl e, d)" "committed d (Inr (a, t)) = (Inr a, t)"
  by (simp_all add: committed_def)

lemma ends_committed:
  assumes "steps b d ts t p r" and "\<And>a. f a = bind_m commit_tx (\<lambda>_. return_m a)"
  shows "ends b d (in_tx b d ts t) (bind_m p f) (committed d r)"
  by (rule ends_bind [OF assms(1)]) (auto simp: assms(2) intro!: ends_commit)

lemma bind_m_unit_return: "bind_m p return_m = p"
  by (rule ext) (simp add: bind_m_def return_m_def split: prod.splits sum.splits)

lemma steps_scan: "steps b d ts t (scan_row rows) (bind_r (first_row rows) (\<lambda>a. Inr (a, t)))"
  by (cases rows) (simp_all add: scan_row_def first_row_def steps_fail steps_return)

lemma lift_r_return: "lift_r (Inr a) = return_m a" "lift_r (Inl e) = fail_m e"
  by (rule ext, simp add: lift_r_def return_m_def fail_m_def)+

lemma steps_scan_bind:
  assumes "\<And>a. first_row rows = Inr a \<Longrightarrow> steps b d ts t (f a) (g a)"
  shows "steps b d ts t (bind_m (scan_row rows) f) (bind_r (first_row rows) g)"
  using assms by (cases rows) (simp_all add: scan_row_def first_row_def steps_fail)

lemma steps_lift_bind:
  assumes "\<And>a. r = Inr a \<Longrightarrow> steps b d ts t (f a) (g a)"
  shows "steps b d ts t (bind_m (lift_r r) f) (bind_r r g)"
  using assms by (cases r) (simp_all add: lift_r_return steps_fail)

lemma steps_exec_bind:
  assumes "\<And>a t'. q ts t = Inr (a, t') \<Longrightarrow> steps b d ts t' (f a) (g (a, t'))"
  shows "steps b d ts t (bind_m (exec_tx (\<lambda>ts _. q ts)) f) (bind_r (q ts t) g)"
  by (rule steps_bind [OF steps_exec]) (rule assms)

lemma steps_query_bind:
  assumes "steps b d ts t (f (q t)) r"
  shows "steps b d ts t (bind_m (query_tx (\<lambda>_ _. q)) f) r"
  using steps_bind [OF steps_query, where f = f and g = "\<lambda>_. r"] assms by simp

lemmas steps_rules = steps_scan_bind steps_lift_bind steps_exec_bind steps_query_bind steps_return steps_fail

section \<open>Complete\<close>

fun owned_r :: "string \<Rightarrow> WorkUnit list \<Rightarrow> database \<Rightarrow> unit result" where
  "owned_r nonce [] d = Inr ()"
| "owned_r nonce (u # us) d =
     bind_r (first_row (ownedQuery (wu_Key u) nonce d)) (\<lambda>owned.
     case owned of
       None \<Rightarrow> Inl (ErrorString ''cannot scan NULL into *bool'')
     | Some b \<Rightarrow> if \<not> b then Inl lease_lost else owned_r nonce us d)"

fun observations_r ::
  "('u, 'd) lib \<Rightarrow> string \<Rightarrow> FetchRequest \<Rightarrow> WorkUnit list \<Rightarrow> int \<Rightarrow> 'd ProviderObservation list \<Rightarrow> database
     \<Rightarrow> (unit \<times> database) result" where
  "observations_r L importID request units ts [] t = Inr ((), t)"
| "observations_r L importID request units ts (x # xs) t =
     bind_r (observation_ok L request units x) (\<lambda>s.
     bind_r (insert_observation L importID s (po_Date x) (dec_String L (po_Value x)) ts t) (\<lambda>(_, t').
     observations_r L importID request units ts xs t'))"

fun units_r :: "string \<Rightarrow> FetchRequest \<Rightarrow> int \<Rightarrow> int \<Rightarrow> WorkUnit list \<Rightarrow> database \<Rightarrow> (unit \<times> database) result" where
  "units_r nonce request freshFor ts [] t = Inr ((), t)"
| "units_r nonce request freshFor ts (u # us) t =
     bind_r (update_leased (wu_Key u) nonce
        (complete_row (if wu_Kind u = FetchRange then Some (fr_To request) else None)
          (if wu_Kind u = FetchLatest \<or> \<not> wu_Permanent u then Microseconds freshFor else 0) ts) t) (\<lambda>(n, t').
     if n \<noteq> 1 then Inl lease_lost else units_r nonce request freshFor ts us t')"

definition complete_r ::
  "('u, 'd) lib \<Rightarrow> (string \<Rightarrow> nat option) \<Rightarrow> string \<Rightarrow> WorkUnit list \<Rightarrow> FetchRequest \<Rightarrow> 'd FetchResult \<Rightarrow> int
     \<Rightarrow> int \<Rightarrow> database \<Rightarrow> (unit \<times> database) result" where
  "complete_r L jsonb nonce units request r freshFor ts d =
     bind_r (owned_r nonce units d) (\<lambda>_.
     bind_r (insert_import L jsonb request r d) (\<lambda>(rows, t).
     bind_r (first_row rows) (\<lambda>importID.
     bind_r (observations_r L importID request units ts (fe_Observations r) t) (\<lambda>(_, t').
     units_r nonce request freshFor ts units t'))))"

lemma steps_owned: "steps b d ts t (check_owned nonce units) (bind_r (owned_r nonce units t) (\<lambda>a. Inr (a, t)))"
proof (induction units)
  case (Cons u us)
  let ?q = "ownedQuery (wu_Key u) nonce t"
  have "steps b d ts t (check_owned nonce (u # us))
      (bind_r (first_row ?q) (\<lambda>owned. case owned of
          None \<Rightarrow> Inl (ErrorString ''cannot scan NULL into *bool'')
        | Some b \<Rightarrow> if \<not> b then Inl lease_lost else bind_r (owned_r nonce us t) (\<lambda>a. Inr (a, t))))"
    unfolding check_owned.simps
    by (intro steps_query_bind steps_scan_bind) (use Cons in \<open>auto intro!: steps_fail split: option.split\<close>)
  then show ?case
    by (cases "first_row ?q"; cases "projr (first_row ?q)") auto
qed (simp add: steps_return)

lemma exec_tx_skip: "steps b d ts t p r \<Longrightarrow> steps b d ts t (bind_m (exec_tx (\<lambda>_ _ d. Inr ((), d))) (\<lambda>_. p)) r"
  using steps_exec_bind [where q = "\<lambda>_ d. Inr ((), d)" and g = "\<lambda>_. r" and f = "\<lambda>_. p"] by simp

lemma steps_observations:
  "steps b d ts t (store_observations L importID request units xs) (observations_r L importID request units ts xs t)"
  by (induction xs arbitrary: t) (auto intro!: steps_return steps_lift_bind exec_tx_skip steps_exec_bind)

lemma steps_units:
  "steps b d ts t (complete_units nonce request freshFor us) (units_r nonce request freshFor ts us t)"
  by (induction us arbitrary: t) (auto simp: Let_def intro!: steps_return steps_exec_bind steps_fail)

definition complete_effect ::
  "('u, 'd) lib \<Rightarrow> (string \<Rightarrow> bool) \<Rightarrow> (string \<Rightarrow> nat option) \<Rightarrow> string \<Rightarrow> WorkUnit list \<Rightarrow> FetchRequest
     \<Rightarrow> 'd FetchResult \<Rightarrow> int \<Rightarrow> int \<Rightarrow> database \<Rightarrow> unit result \<times> database" where
  "complete_effect L json_Valid jsonb nonce units request r freshFor ts d =
     (if units = [] \<or> \<not> json_Valid (fe_Response r) then (Inl ErrInvalidObservation, d)
      else committed d (complete_r L jsonb nonce units request r freshFor ts d))"

lemma steps_complete:
  "steps b d ts d (bind_m (check_owned nonce units) (\<lambda>_.
      bind_m (exec_tx (\<lambda>_ _. insert_import L jsonb request r)) (\<lambda>rows.
      bind_m (scan_row rows) (\<lambda>importID.
      bind_m (store_observations L importID request units (fe_Observations r)) (\<lambda>_.
      complete_units nonce request freshFor units)))))
    (complete_r L jsonb nonce units request r freshFor ts d)"
proof -
  have "steps b d ts d (bind_m (check_owned nonce units) (\<lambda>_.
      bind_m (exec_tx (\<lambda>_ _. insert_import L jsonb request r)) (\<lambda>rows.
      bind_m (scan_row rows) (\<lambda>importID.
      bind_m (store_observations L importID request units (fe_Observations r)) (\<lambda>_.
      complete_units nonce request freshFor units)))))
    (bind_r (bind_r (owned_r nonce units d) (\<lambda>a. Inr (a, d))) (\<lambda>(_, d).
     bind_r (insert_import L jsonb request r d) (\<lambda>(rows, t).
     bind_r (first_row rows) (\<lambda>importID.
     bind_r (observations_r L importID request units ts (fe_Observations r) t) (\<lambda>(_, t').
     units_r nonce request freshFor ts units t')))))"
    by (rule steps_bind [OF steps_owned], simp, rule steps_exec_bind, simp, rule steps_scan_bind,
        rule steps_bind [OF steps_observations], simp, rule steps_units)
  then show ?thesis
    by (cases "owned_r nonce units d") (simp_all add: complete_r_def)
qed

lemma Complete_atomic: "atomic_at (Complete L json_Valid jsonb nonce units request r freshFor)
    (complete_effect L json_Valid jsonb nonce units request r freshFor)"
proof (cases "units = [] \<or> \<not> json_Valid (fe_Response r)")
  case True
  then show ?thesis
    by (simp add: Complete_def complete_effect_def atomic_at_def fail_m_def finished_def)
next
  case False
  have "ends b d (in_tx b d ts d) (defer_m (bind_m (check_owned nonce units) (\<lambda>_.
           bind_m (exec_tx (\<lambda>_ _. insert_import L jsonb request r)) (\<lambda>rows.
           bind_m (scan_row rows) (\<lambda>importID.
           bind_m (store_observations L importID request units (fe_Observations r)) (\<lambda>_.
           bind_m (complete_units nonce request freshFor units) (\<lambda>_. commit_tx)))))) rollback_tx)
      (committed d (complete_r L jsonb nonce units request r freshFor ts d))" for b d ts
    by (rule ends_defer)
      (use ends_committed [OF steps_complete, where f = "\<lambda>_. commit_tx"] in \<open>simp add: bind_m_unit_return bind_m_assoc\<close>)
  then show ?thesis
    using False unfolding Complete_def complete_effect_def by (simp add: atomic_at_begin)
qed

section \<open>Claim\<close>

fun claim_r ::
  "('u, 'd) lib \<Rightarrow> string \<Rightarrow> int \<Rightarrow> bool \<Rightarrow> int \<Rightarrow> WorkUnit list \<Rightarrow> WorkUnit list \<Rightarrow> database
     \<Rightarrow> (WorkUnit list \<times> database) result" where
  "claim_r L nonce micros force ts [] claimed t = Inr (claimed, t)"
| "claim_r L nonce micros force ts (u # us) claimed t =
     bind_r (insert_coordination u ts t) (\<lambda>(_, t1).
     bind_r (lease_query L u nonce micros force ts t1) (\<lambda>(rows, t2).
     claim_r L nonce micros force ts us (if rows = [] then claimed else claimed @ [u]) t2))"

lemma lease_query_error: "lease_query L u nonce micros force ts d = Inl e \<Longrightarrow> \<not> errors_Is e ErrNoRows"
  by (auto simp: lease_query_def Let_def check_violation_def split: if_splits)

lemma is_fault_NoRows: "is_fault e \<Longrightarrow> \<not> errors_Is e ErrNoRows"
  by (cases e) (auto simp: is_fault_def)

lemma steps_try_row:
  assumes row: "\<And>rows t'. q ts t = Inr (rows, t') \<Longrightarrow> steps b d ts t' (f (first_row rows)) (g (rows, t'))"
    and error: "\<And>e. q ts t = Inl e \<or> is_fault e \<Longrightarrow> f (Inl e) = fail_m e"
  shows "steps b d ts t (bind_m (try_m (bind_m (exec_tx (\<lambda>ts _. q ts)) scan_row)) f) (bind_r (q ts t) g)"
  unfolding steps_def
proof (rule triple_bind [OF triple_try_row], intro triple_disj triple_ex triple_fact)
  fix r :: "'a result" and e :: go_error
  let ?Q = "\<lambda>a w. \<exists>t'. bind_r (q ts t) g = Inr (a, t') \<and> in_tx b d ts t' w"
  let ?E = "\<lambda>e w. bind_r (q ts t) g = Inl e \<and> at_db b d w \<or> faulted b d e w"
  assume "r = Inl e"
  show "triple (faulted b d e) (f r) ?Q ?E"
    using error [of e] \<open>r = Inl e\<close> by (auto simp: triple_def fail_m_def faulted_def)
  assume "q ts t = Inl e"
  show "triple (at_db b d) (f r) ?Q ?E"
    using error [of e] \<open>r = Inl e\<close> \<open>q ts t = Inl e\<close> by (auto simp: triple_def fail_m_def)
qed (use row in \<open>auto simp: steps_def\<close>)

lemma steps_claim:
  "steps b d ts t (claim_loop L nonce micros force us claimed) (claim_r L nonce micros force ts us claimed t)"
proof (induction us arbitrary: claimed t)
  case (Cons u us)
  show ?case
    unfolding claim_loop.simps claim_r.simps
    by (rule steps_exec_bind, unfold case_prod_conv, rule steps_try_row)
      (auto simp: first_row_def Cons dest: lease_query_error is_fault_NoRows split: list.split)
qed (simp add: steps_return)

definition claim_effect ::
  "('u, 'd) lib \<Rightarrow> WorkUnit list \<Rightarrow> string \<Rightarrow> int \<Rightarrow> bool \<Rightarrow> int \<Rightarrow> database \<Rightarrow> WorkUnit list result \<times> database" where
  "claim_effect L units nonce leaseDuration force ts d =
     committed d (claim_r L nonce (Microseconds leaseDuration) force ts units [] d)"

lemma Claim_atomic: "atomic_at (Claim L units nonce leaseDuration force) (claim_effect L units nonce leaseDuration force)"
  unfolding Claim_def claim_effect_def
  by (rule atomic_at_begin, rule ends_defer, rule ends_committed [OF steps_claim]) simp

section \<open>The contract\<close>

text \<open>What a client concludes from the contract, whatever the environment did.\<close>

locale rate_transaction =
  fixes p :: "'a m" and eff :: "int \<Rightarrow> database \<Rightarrow> 'a result \<times> database"
  assumes at_begin: "atomic_at p eff"
begin

lemma is_finished: "finished False (db w) (eff (begin_time w) (db w)) (fst (p w)) (snd (p w))"
  using at_begin unfolding atomic_at_def by (simp add: calm_def)

lemma calm_reply: "script w = [] \<Longrightarrow> eff (begin_time w) (db w) = (fst (p w), db (snd (p w)))"
  using at_begin unfolding atomic_at_def finished_def calm_def by (metis (full_types))

lemma db_inv: "P (db w) \<Longrightarrow> P (snd (eff (begin_time w) (db w))) \<Longrightarrow> P (db (snd (p w)))"
  using is_finished [of w] by (auto simp: finished_def)

lemma reply_ok: "p w = (Inr a, w') \<Longrightarrow> eff (begin_time w) (db w) = (Inr a, db w')"
  using is_finished [of w] by (auto simp: finished_def)

end

interpretation rate_claim: rate_transaction "Claim L us n dur force" "claim_effect L us n dur force" for L us n dur force
  by unfold_locales (rule Claim_atomic)

interpretation rate_complete: rate_transaction "Complete L json_Valid jsonb n us request r freshFor"
    "complete_effect L json_Valid jsonb n us request r freshFor" for L json_Valid jsonb n us request r freshFor
  by unfold_locales (rule Complete_atomic)

end
