(* ===== verification/Rates_Lease.thy ===== *)
theory Rates_Lease
  imports Rates_Effect Event_Lease
begin

text \<open>
  Leases of exchange-rate work units as a state machine: while one replica holds the lease of a
  unit, other replicas claim, complete and fail work in any order, each request possibly failing.
  \<open>wf_coordination\<close> is the table's primary key and its checks.
\<close>

definition wf_coordination :: "database \<Rightarrow> bool" where
  "wf_coordination d \<longleftrightarrow> distinct (map fc_key (coordination d)) \<and> list_all (\<lambda>r. coordination_checks r = None) (coordination d)"

definition unit_leased :: "string \<Rightarrow> string \<Rightarrow> int \<Rightarrow> database \<Rightarrow> bool" where
  "unit_leased k n until d \<longleftrightarrow> wf_coordination d
     \<and> (\<exists>r\<in>set (coordination d). fc_key r = k \<and> fc_lease_nonce r = Some n \<and> fc_lease_until r = Some until)"

lemma unit_leased_same: "coordination d' = coordination d \<Longrightarrow> unit_leased k n until d' = unit_leased k n until d"
  by (simp add: unit_leased_def wf_coordination_def)

lemma unit_leased_row:
  assumes "unit_leased k n until d" and "r \<in> set (coordination d)" and "fc_key r = k"
  shows "fc_lease_nonce r = Some n" "fc_lease_until r = Some until"
proof -
  obtain x where x: "x \<in> set (coordination d)" "fc_key x = k" "fc_lease_nonce x = Some n" "fc_lease_until x = Some until"
    using assms(1) unfolding unit_leased_def by blast
  then have "x = r"
    using assms distinct_map_eq [of fc_key "coordination d" x r] by (simp add: unit_leased_def wf_coordination_def)
  with x show "fc_lease_nonce r = Some n" "fc_lease_until r = Some until" by simp_all
qed

lemma checks_lease_fields [simp]:
  "coordination_checks (r\<lparr>fc_lease_nonce := n, fc_lease_until := u\<rparr>) = coordination_checks r"
  "coordination_checks (r\<lparr>fc_lease_nonce := n, fc_lease_until := u, fc_next_attempt := a, fc_error_class := c\<rparr>)
     = coordination_checks r"
  by (simp_all add: coordination_checks_def cong: option.case_cong)

section \<open>The statements\<close>

lemma insert_coordination_cases:
  assumes "insert_coordination u ts d = Inr (x, d')"
  obtains (present) "d' = d" "\<exists>r\<in>set (coordination d). fc_key r = wu_Key u"
  | (added) r where "d' = d\<lparr>coordination := coordination d @ [r]\<rparr>" "fc_key r = wu_Key u" "fc_lease_nonce r = None"
      "coordination_checks r = None" "\<forall>y\<in>set (coordination d). fc_key y \<noteq> wu_Key u"
proof -
  define r where "r = \<lparr>fc_key = wu_Key u, fc_series = se_ID (wu_Series u), fc_base = se_Base (wu_Series u),
               fc_quote = se_Quote (wu_Series u), fc_kind = wu_Kind u,
               fc_period = (if wu_Kind u = FetchRange then Some (wu_From u, wu_To u) else None),
               fc_covered_until = None, fc_completed_at = None, fc_fresh_until = None,
               fc_lease_nonce = None, fc_lease_until = None, fc_next_attempt = ts,
               fc_error_class = None\<rparr>"
  have e: "insert_coordination u ts d = (case coordination_checks r of Some e \<Rightarrow> Inl e | None \<Rightarrow>
      if list_ex (\<lambda>x. fc_key x = wu_Key u) (coordination d) then Inr ((), d)
      else Inr ((), d\<lparr>coordination := coordination d @ [r]\<rparr>))"
    unfolding insert_coordination_def Let_def r_def ..
  have "fc_key r = wu_Key u" "fc_lease_nonce r = None" by (simp_all add: r_def)
  note r = this
  have c: "coordination_checks r = None" using assms unfolding e by (cases "coordination_checks r") simp_all
  show thesis
  proof (cases "list_ex (\<lambda>x. fc_key x = wu_Key u) (coordination d)")
    case True
    then have "d' = d" using assms unfolding e by (simp add: c)
    with True show ?thesis using present by (simp add: list_ex_iff)
  next
    case False
    then have "d' = d\<lparr>coordination := coordination d @ [r]\<rparr>" using assms unfolding e by (simp add: c)
    moreover from False have "\<forall>y\<in>set (coordination d). fc_key y \<noteq> wu_Key u" by (simp add: list_ex_iff)
    ultimately show ?thesis using added r c by blast
  qed
qed

lemma insert_coordination_keeps:
  assumes "insert_coordination u ts d = Inr (x, d')"
  shows "wf_coordination d \<Longrightarrow> wf_coordination d'" "unit_leased k n until d \<Longrightarrow> unit_leased k n until d'"
proof -
  show wf: "wf_coordination d'" if "wf_coordination d"
    using assms that by (cases rule: insert_coordination_cases) (auto simp: wf_coordination_def)
  show "unit_leased k n until d'" if "unit_leased k n until d"
    using assms that wf by (cases rule: insert_coordination_cases) (auto simp: unit_leased_def)
qed

lemma lease_query_Inr:
  assumes "lease_query L u nonce micros force ts d = Inr (rows, d')"
  shows "rows = map fc_key (filter (claimable u force ts) (coordination d))"
    "coordination d' = map (\<lambda>r. if claimable u force ts r
       then r\<lparr>fc_lease_nonce := Some nonce, fc_lease_until := Some (ts + micros)\<rparr> else r) (coordination d)"
  using assms by (auto simp: lease_query_def Let_def split: if_splits)

lemma wf_coordination_map:
  assumes "wf_coordination d" and "coordination d' = map g (coordination d)"
    and "\<And>r. r \<in> set (coordination d) \<Longrightarrow> coordination_checks r = None \<Longrightarrow> fc_key (g r) = fc_key r \<and> coordination_checks (g r) = None"
  shows "wf_coordination d'"
proof -
  have ok: "coordination_checks r = None" if "r \<in> set (coordination d)" for r
    using assms(1) that by (simp add: wf_coordination_def list_all_iff)
  have "map fc_key (coordination d') = map fc_key (coordination d)"
    using assms(2,3) ok by simp
  then show ?thesis
    using assms ok unfolding wf_coordination_def list_all_iff by (auto simp del: map_map)
qed

lemma lease_query_wf:
  assumes "lease_query L u nonce micros force ts d = Inr (rows, d')" and "wf_coordination d"
  shows "wf_coordination d'"
  by (rule wf_coordination_map [OF assms(2) lease_query_Inr(2) [OF assms(1)]]) auto

lemma claimable_key: "claimable u force ts r \<Longrightarrow> fc_key r = wu_Key u"
  by (simp add: claimable_def)

lemma leased_not_claimable:
  assumes "unit_leased k n until d" and "ts < until" and "r \<in> set (coordination d)" and "fc_key r = k"
  shows "\<not> claimable u force ts r"
  using unit_leased_row [OF assms(1,3,4)] assms(2) by (simp add: claimable_def)

lemma lease_query_leased:
  assumes q: "lease_query L u nonce micros force ts d = Inr (rows, d')" and h: "unit_leased k n until d" and "ts < until"
  shows "unit_leased k n until d'" "wu_Key u = k \<Longrightarrow> rows = []"
proof -
  obtain r where r: "r \<in> set (coordination d)" "fc_key r = k" "fc_lease_nonce r = Some n" "fc_lease_until r = Some until"
    using h unfolding unit_leased_def by blast
  then have "r \<in> set (coordination d')"
    unfolding lease_query_Inr(2) [OF q] using leased_not_claimable [OF h assms(3) r(1,2)] by (auto intro!: image_eqI)
  then show "unit_leased k n until d'"
    using r lease_query_wf [OF q] h unfolding unit_leased_def by blast
  show "rows = []" if "wu_Key u = k"
    unfolding lease_query_Inr(1) [OF q] using leased_not_claimable [OF h assms(3)] that
    by (auto simp: filter_empty_conv dest: claimable_key)
qed

lemma lease_query_claims:
  assumes q: "lease_query L u nonce micros force ts d = Inr (rows, d')" and "wf_coordination d" and "rows \<noteq> []"
  shows "unit_leased (wu_Key u) nonce (ts + micros) d'"
proof -
  obtain r where r: "r \<in> set (coordination d)" "claimable u force ts r"
    using assms(3) unfolding lease_query_Inr(1) [OF q] by (auto simp: filter_empty_conv)
  then have "r\<lparr>fc_lease_nonce := Some nonce, fc_lease_until := Some (ts + micros)\<rparr> \<in> set (coordination d')"
    unfolding lease_query_Inr(2) [OF q] by (auto intro!: image_eqI [of _ _ r])
  then show ?thesis
    using lease_query_wf [OF q assms(2)] unfolding unit_leased_def
    by (intro conjI bexI) (simp_all add: claimable_key [OF r(2)])
qed

lemma lease_query_own:
  assumes q: "lease_query L u nonce micros force ts d = Inr (rows, d')" and h: "unit_leased k nonce (ts + micros) d"
  shows "unit_leased k nonce (ts + micros) d'"
proof -
  obtain r where r: "r \<in> set (coordination d)" "fc_key r = k" "fc_lease_nonce r = Some nonce" "fc_lease_until r = Some (ts + micros)"
    using h unfolding unit_leased_def by blast
  then have "\<exists>r\<in>set (coordination d'). fc_key r = k \<and> fc_lease_nonce r = Some nonce \<and> fc_lease_until r = Some (ts + micros)"
    unfolding lease_query_Inr(2) [OF q] by force
  then show ?thesis using lease_query_wf [OF q] h unfolding unit_leased_def by blast
qed

section \<open>Claims\<close>

lemma claim_r_leased:
  assumes "claim_r L nonce micros force ts us claimed t = Inr (claimed', t')" and "unit_leased k n until t" and "ts < until"
  shows "unit_leased k n until t' \<and> (\<forall>u\<in>set claimed'. u \<in> set claimed \<or> wu_Key u \<noteq> k)"
  using assms
proof (induction us arbitrary: claimed t)
  case (Cons u us)
  then obtain x t1 rows t2 where s: "insert_coordination u ts t = Inr (x, t1)" "lease_query L u nonce micros force ts t1 = Inr (rows, t2)"
      "claim_r L nonce micros force ts us (if rows = [] then claimed else claimed @ [u]) t2 = Inr (claimed', t')"
    by (auto simp: bind_r_def split: sum.splits prod.splits)
  note t1 = insert_coordination_keeps(2) [OF s(1) Cons.prems(2)]
  note t2 = lease_query_leased [OF s(2) t1 Cons.prems(3)]
  show ?case using Cons.IH [OF s(3) t2(1) Cons.prems(3)] t2(2) by (auto split: if_splits)
qed auto

lemma claim_r_claims:
  assumes "claim_r L nonce micros force ts us claimed t = Inr (claimed', t')" and "wf_coordination t"
    and "\<forall>u\<in>set claimed. unit_leased (wu_Key u) nonce (ts + micros) t"
  shows "wf_coordination t' \<and> (\<forall>u\<in>set claimed'. unit_leased (wu_Key u) nonce (ts + micros) t')"
  using assms
proof (induction us arbitrary: claimed t)
  case (Cons u us)
  then obtain x t1 rows t2 where s: "insert_coordination u ts t = Inr (x, t1)" "lease_query L u nonce micros force ts t1 = Inr (rows, t2)"
      "claim_r L nonce micros force ts us (if rows = [] then claimed else claimed @ [u]) t2 = Inr (claimed', t')"
    by (auto simp: bind_r_def split: sum.splits prod.splits)
  have wf1: "wf_coordination t1" using insert_coordination_keeps(1) [OF s(1)] Cons.prems by simp
  have "unit_leased (wu_Key v) nonce (ts + micros) t2" if "v \<in> set claimed" for v
    using lease_query_own [OF s(2)] insert_coordination_keeps(2) [OF s(1)] Cons.prems(3) that by blast
  then have "\<forall>v\<in>set (if rows = [] then claimed else claimed @ [u]). unit_leased (wu_Key v) nonce (ts + micros) t2"
    using lease_query_claims [OF s(2) wf1] by auto
  with Cons.IH [OF s(3) lease_query_wf [OF s(2) wf1]] show ?case by blast
qed simp

section \<open>Updates under a lease\<close>

lemma update_leased_Inr:
  assumes "update_leased key nonce f d = Inr (m, d')"
  shows "m = length (filter (\<lambda>r. fc_key r = key \<and> fc_lease_nonce r = Some nonce) (coordination d))"
    "coordination d' = map (\<lambda>r. if fc_key r = key \<and> fc_lease_nonce r = Some nonce then f r else r) (coordination d)"
    "\<forall>r\<in>set (coordination d). fc_key r = key \<and> fc_lease_nonce r = Some nonce \<longrightarrow> coordination_checks (f r) = None"
  using assms
  by (auto simp: update_leased_def Let_def map_filter_def filter_empty_conv split: list.splits if_splits)

lemma update_leased_wf:
  assumes "update_leased key nonce f d = Inr (m, d')" and "wf_coordination d" and "\<And>r. fc_key (f r) = fc_key r"
  shows "wf_coordination d'"
  by (rule wf_coordination_map [OF assms(2) update_leased_Inr(2) [OF assms(1)]])
    (use update_leased_Inr(3) [OF assms(1)] assms(3) in auto)

lemma update_leased_other:
  assumes u: "update_leased key nonce f d = Inr (m, d')" and h: "unit_leased k n until d" and "nonce \<noteq> n"
    and "\<And>r. fc_key (f r) = fc_key r"
  shows "unit_leased k n until d'" "key = k \<Longrightarrow> m = 0"
proof -
  obtain r where r: "r \<in> set (coordination d)" "fc_key r = k" "fc_lease_nonce r = Some n" "fc_lease_until r = Some until"
    using h unfolding unit_leased_def by blast
  then have "r \<in> set (coordination d')"
    unfolding update_leased_Inr(2) [OF u] using assms(3) by (auto intro!: image_eqI)
  then show "unit_leased k n until d'"
    using r update_leased_wf [OF u _ assms(4)] h unfolding unit_leased_def by blast
  show "m = 0" if "key = k"
    unfolding update_leased_Inr(1) [OF u] using unit_leased_row(1) [OF h] assms(3) that by (auto simp: filter_empty_conv)
qed

lemma update_leased_owner:
  assumes h: "unit_leased k n until d" and f: "\<And>r. coordination_checks (f r) = coordination_checks r"
  obtains d' where "update_leased k n f d = Inr (1, d')"
proof -
  obtain r where r: "r \<in> set (coordination d)" "fc_key r = k" using h unfolding unit_leased_def by blast
  have d: "distinct (map fc_key (coordination d))" using h by (simp add: unit_leased_def wf_coordination_def)
  have "filter (\<lambda>x. fc_key x = k \<and> fc_lease_nonce x = Some n) (coordination d) = filter (\<lambda>x. fc_key x = k) (coordination d)"
    using unit_leased_row(1) [OF h] by (auto intro: filter_cong)
  also have "\<dots> = [r]" using filter_singleton_if_distinct [OF d r(1)] r(2) by simp
  finally have one: "filter (\<lambda>x. fc_key x = k \<and> fc_lease_nonce x = Some n) (coordination d) = [r]" .
  have "coordination_checks (f x) = None" if "x \<in> set (coordination d)" for x
    using h f that by (simp add: unit_leased_def wf_coordination_def list_all_iff)
  then have "List.map_filter (\<lambda>r. if fc_key r = k \<and> fc_lease_nonce r = Some n then coordination_checks (f r) else None)
      (coordination d) = []"
    by (auto simp: map_filter_def filter_empty_conv)
  then show thesis using that one by (simp add: update_leased_def)
qed

section \<open>Completion and failure under another nonce\<close>

lemma insert_import_coordination:
  assumes "insert_import L jsonb request r d = Inr (rows, d')"
  shows "coordination d' = coordination d"
  using assms by (auto simp: insert_import_def draw_uuid_def Let_def split: option.splits)

lemma insert_observation_coordination:
  assumes "insert_observation L importID s date valueText ts d = Inr (x, d')"
  shows "coordination d' = coordination d"
proof -
  have "insert_observation L importID s date valueText ts d = Inr ((), d')" using assms by simp
  then show ?thesis by (cases rule: insert_observation_cases) auto
qed

lemma observations_r_coordination:
  "observations_r L importID request units ts xs t = Inr (x, t') \<Longrightarrow> coordination t' = coordination t"
  by (induction xs arbitrary: t)
    (auto simp: bind_r_def dest: insert_observation_coordination split: sum.splits prod.splits)

lemma complete_row_key [simp]: "fc_key (complete_row c m ts r) = fc_key r"
  by (simp add: complete_row_def)

lemma units_r_other:
  assumes "units_r nonce request freshFor ts us t = Inr (x, t')" and "unit_leased k n until t" and "nonce \<noteq> n"
  shows "unit_leased k n until t'"
  using assms
proof (induction us arbitrary: t)
  case (Cons u us)
  then obtain m t1 where s: "update_leased (wu_Key u) nonce
        (complete_row (if wu_Kind u = FetchRange then Some (fr_To request) else None)
          (if wu_Kind u = FetchLatest \<or> \<not> wu_Permanent u then Microseconds freshFor else 0) ts) t = Inr (m, t1)"
      "units_r nonce request freshFor ts us t1 = Inr (x, t')"
    by (auto simp: bind_r_def split: sum.splits prod.splits if_splits)
  show ?case using Cons.IH [OF s(2)] update_leased_other(1) [OF s(1) Cons.prems(2,3)] Cons.prems(3) by simp
qed simp

lemma complete_r_other:
  assumes "complete_r L jsonb nonce units request r freshFor ts d = Inr (x, d')" and "unit_leased k n until d" and "nonce \<noteq> n"
  shows "unit_leased k n until d'"
proof -
  obtain rows t importID t1 where s: "insert_import L jsonb request r d = Inr (rows, t)"
      "observations_r L importID request units ts (fe_Observations r) t = Inr ((), t1)"
      "units_r nonce request freshFor ts units t1 = Inr (x, d')"
    using assms(1) by (auto simp: complete_r_def bind_r_def split: sum.splits prod.splits)
  have "coordination t1 = coordination d"
    using insert_import_coordination [OF s(1)] observations_r_coordination [OF s(2)] by simp
  then show ?thesis using units_r_other [OF s(3) _ assms(3)] assms(2) unit_leased_same by blast
qed

lemma owned_r_Inr:
  "owned_r nonce units d = Inr x \<Longrightarrow> u \<in> set units \<Longrightarrow>
     \<exists>r\<in>set (coordination d). fc_key r = wu_Key u \<and> fc_lease_nonce r = Some nonce"
proof (induction units)
  case (Cons v us)
  then obtain rs where q: "ownedQuery (wu_Key v) nonce d = Some True # rs" and rest: "owned_r nonce us d = Inr x"
    by (auto simp: bind_r_def first_row_def split: sum.splits list.splits option.splits if_splits)
  then have "Some True \<in> set (ownedQuery (wu_Key v) nonce d)" by simp
  then have "\<exists>r\<in>set (coordination d). fc_key r = wu_Key v \<and> fc_lease_nonce r = Some nonce"
    by (auto simp: ownedQuery_def dest!: sym [of "Some True"])
  with Cons rest show ?case by auto
qed simp

lemma complete_r_fenced:
  assumes "unit_leased k n until d" and "nonce \<noteq> n" and "u \<in> set units" and "wu_Key u = k"
  obtains e where "complete_r L jsonb nonce units request r freshFor ts d = Inl e"
proof (cases "owned_r nonce units d")
  case (Inl e)
  then show ?thesis using that by (simp add: complete_r_def)
next
  case (Inr x)
  from owned_r_Inr [OF Inr assms(3)] show ?thesis
    using unit_leased_row(1) [OF assms(1)] assms(2,4) by force
qed

lemma committed_inv: "P d \<Longrightarrow> (\<And>a t. r = Inr (a, t) \<Longrightarrow> P t) \<Longrightarrow> P (snd (committed d r))"
  by (cases r) auto

lemma Fail_inv:
  assumes "P (db w)"
    and "\<And>u ts m d d'. P d \<Longrightarrow> u \<in> set us \<Longrightarrow> update_leased (wu_Key u) nonce (\<lambda>r. r\<lparr>fc_lease_nonce := None,
       fc_lease_until := None, fc_next_attempt := ts + Microseconds retryAfter,
       fc_error_class := Some errorClass\<rparr>) d = Inr (m, d') \<Longrightarrow> P d'"
  shows "P (db (snd (Fail nonce us errorClass retryAfter w)))"
  using assms
proof (induction us arbitrary: w)
  case (Cons u us)
  let ?q = "\<lambda>ts. update_leased (wu_Key u) nonce (\<lambda>r. r\<lparr>fc_lease_nonce := None,
       fc_lease_until := None, fc_next_attempt := ts + Microseconds retryAfter, fc_error_class := Some errorClass\<rparr>)"
  obtain x w1 where p: "exec_pool ?q w = (x, w1)" by (cases "exec_pool ?q w")
  have "P (db (snd (exec_pool ?q w)))"
    by (rule exec_pool_inv [where P = P, OF Cons.prems(1)]) (rule Cons.prems(2) [OF Cons.prems(1)], simp_all)
  then have w1: "P (db w1)" by (simp add: p)
  have IH: "P (db (snd (Fail nonce us errorClass retryAfter w1)))"
    by (rule Cons.IH [OF w1], rule Cons.prems(2), assumption, rule list.set_intros(2))
  show ?case unfolding Fail.simps bind_m_def p
    by (cases x) (simp_all add: w1 IH fail_m_def)
qed (simp add: return_m_def)

lemma Fail_fenced:
  assumes "unit_leased k n until (db w)" and "nonce \<noteq> n" and "u \<in> set us" and "wu_Key u = k"
  shows "\<not> is_ok (fst (Fail nonce us errorClass retryAfter w))"
  using assms(1,3)
proof (induction us arbitrary: w)
  case (Cons v us)
  let ?q = "\<lambda>ts. update_leased (wu_Key v) nonce (\<lambda>r. r\<lparr>fc_lease_nonce := None,
       fc_lease_until := None, fc_next_attempt := ts + Microseconds retryAfter, fc_error_class := Some errorClass\<rparr>)"
  obtain x w1 where p: "exec_pool ?q w = (x, w1)" by (cases "exec_pool ?q w")
  show ?case
  proof (cases x)
    case (Inl e)
    with p show ?thesis by (simp add: bind_m_def)
  next
    case (Inr m)
    obtain d where d: "?q (stmt_time w1) (db w) = Inr (m, d)" "db w1 = d"
      using p Inr by (auto elim!: exec_pool_Inr)
    note o = update_leased_other [OF d(1) Cons.prems(1) assms(2)]
    show ?thesis
    proof (cases "wu_Key v = k")
      case True
      with o(2) p Inr show ?thesis by (simp add: bind_m_def fail_m_def)
    next
      case False
      with Cons.prems(2) assms(4) have "u \<in> set us" by auto
      with Cons.IH [of w1] o(1) d(2) p Inr show ?thesis by (auto simp: bind_m_def fail_m_def)
    qed
  qed
qed simp

section \<open>The state machine\<close>

inductive rate_step ::
  "('u, 'd) lib \<Rightarrow> (string \<Rightarrow> bool) \<Rightarrow> (string \<Rightarrow> nat option) \<Rightarrow> string \<Rightarrow> int \<Rightarrow> world \<Rightarrow> world \<Rightarrow> bool"
  for L json_Valid jsonb n until where
  claim: "begin_time w < until \<Longrightarrow> rate_step L json_Valid jsonb n until w (snd (Claim L us n' dur force w))"
| complete: "n' \<noteq> n \<Longrightarrow>
    rate_step L json_Valid jsonb n until w (snd (Complete L json_Valid jsonb n' us request r freshFor w))"
| failed: "n' \<noteq> n \<Longrightarrow> rate_step L json_Valid jsonb n until w (snd (Fail n' us errorClass retryAfter w))"
| other: "coordination (db w') = coordination (db w) \<Longrightarrow> rate_step L json_Valid jsonb n until w w'"

lemma Claim_leased:
  assumes "unit_leased k n until (db w)" and "begin_time w < until"
  shows "unit_leased k n until (db (snd (Claim L us n' dur force w)))"
  by (rule rate_claim.db_inv [where P = "unit_leased k n until", OF assms(1)], unfold claim_effect_def, rule committed_inv [where P = "unit_leased k n until", OF assms(1)])
    (use claim_r_leased [OF _ assms] in blast)

lemma Complete_leased:
  assumes "unit_leased k n until (db w)" and "n' \<noteq> n"
  shows "unit_leased k n until (db (snd (Complete L json_Valid jsonb n' us request r freshFor w)))"
proof (rule rate_complete.db_inv [where P = "unit_leased k n until", OF assms(1)])
  show "unit_leased k n until (snd (complete_effect L json_Valid jsonb n' us request r freshFor (begin_time w) (db w)))"
    unfolding complete_effect_def
    by (auto simp: assms(1) intro!: committed_inv [where P = "unit_leased k n until"] dest: complete_r_other [OF _ assms])
qed

lemma Fail_leased:
  assumes "unit_leased k n until (db w)" and "n' \<noteq> n"
  shows "unit_leased k n until (db (snd (Fail n' us errorClass retryAfter w)))"
  by (rule Fail_inv [where P = "unit_leased k n until", OF assms(1)]) (rule update_leased_other(1) [OF _ _ assms(2)], assumption+, simp)

lemma rate_steps_leased:
  assumes "(rate_step L json_Valid jsonb n until)\<^sup>*\<^sup>* w w'" and "unit_leased k n until (db w)"
  shows "unit_leased k n until (db w')"
  using assms
proof (induction rule: rtranclp_induct)
  case (step w1 w2)
  note held = step(3) [OF step(4)]
  from step(2) show ?case
  proof (cases rule: rate_step.cases)
    case claim
    then show ?thesis using Claim_leased [OF held] by simp
  next
    case complete
    then show ?thesis using Complete_leased [OF held] by simp
  next
    case failed
    then show ?thesis using Fail_leased [OF held] by simp
  next
    case other
    then show ?thesis using held unit_leased_same by blast
  qed
qed

lemma Claim_holds:
  assumes "Claim L us n dur force w = (Inr claimed, w')" and "wf_coordination (db w)" and "u \<in> set claimed"
  shows "unit_leased (wu_Key u) n (begin_time w + Microseconds dur) (db w')"
proof -
  have "claim_r L n (Microseconds dur) force (begin_time w) us [] (db w) = Inr (claimed, db w')"
    using rate_claim.reply_ok [OF assms(1)]
    by (simp add: claim_effect_def committed_def split: sum.splits prod.splits)
  from claim_r_claims [OF this assms(2)] assms(3) show ?thesis by simp
qed

lemma Claim_refused:
  assumes "unit_leased k n until (db w)" and "begin_time w < until" and "Claim L us n' dur force w = (Inr claimed, w')"
  shows "\<forall>u\<in>set claimed. wu_Key u \<noteq> k"
proof -
  have "claim_r L n' (Microseconds dur) force (begin_time w) us [] (db w) = Inr (claimed, db w')"
    using rate_claim.reply_ok [OF assms(3)]
    by (simp add: claim_effect_def committed_def split: sum.splits prod.splits)
  from claim_r_leased [OF this assms(1,2)] show ?thesis by simp
qed

lemma Complete_fenced:
  assumes "unit_leased k n until (db w)" and "n' \<noteq> n" and "u \<in> set us" and "wu_Key u = k"
  shows "\<not> is_ok (fst (Complete L json_Valid jsonb n' us request r freshFor w))
    \<and> db (snd (Complete L json_Valid jsonb n' us request r freshFor w)) = db w"
proof -
  obtain e where "complete_effect L json_Valid jsonb n' us request r freshFor (begin_time w) (db w) = (Inl e, db w)"
    using complete_r_fenced [OF assms] unfolding complete_effect_def by (metis committed_simps(1))
  with rate_complete.is_finished [of w L json_Valid jsonb n' us request r freshFor]
  show ?thesis by (auto simp: finished_def) (metis is_ok_simps(1))
qed

lemma Fail_owner:
  assumes "unit_leased k n until (db w)" and "script w = []" and "wu_Key u = k"
  shows "fst (Fail n [u] errorClass retryAfter w) = Inr ()"
proof -
  let ?f = "\<lambda>r. r\<lparr>fc_lease_nonce := None, fc_lease_until := None,
      fc_next_attempt := stmt_time w + Microseconds retryAfter, fc_error_class := Some errorClass\<rparr>"
  have "\<exists>d. update_leased k n ?f (db w) = Inr (1, d)"
    using update_leased_owner [where f = ?f, OF assms(1) checks_lease_fields(2)] by blast
  then show ?thesis using assms(2,3) by (auto simp: bind_m_def exec_pool_def trip_def return_m_def)
qed

section \<open>What a completion stores\<close>

text \<open>The rate the view shows for a series, pair and date.\<close>

definition rate_map :: "database \<Rightarrow> string \<times> string \<times> string \<times> int \<Rightarrow> rat option" where
  "rate_map d k = map_option ob_value (find (\<lambda>x. rate_key x = k) (current_rates d))"

lemma rate_map_Some:
  assumes "wf_rates d"
  shows "rate_map d k = Some v \<longleftrightarrow> (\<exists>x\<in>set (current_rates d). rate_key x = k \<and> ob_value x = v)"
proof
  assume "rate_map d k = Some v"
  then show "\<exists>x\<in>set (current_rates d). rate_key x = k \<and> ob_value x = v"
    by (auto simp: rate_map_def find_Some_iff)
next
  assume "\<exists>x\<in>set (current_rates d). rate_key x = k \<and> ob_value x = v"
  then obtain x where x: "x \<in> set (current_rates d)" "rate_key x = k" "ob_value x = v" by blast
  then obtain y where y: "find (\<lambda>x. rate_key x = k) (current_rates d) = Some y"
    by (cases "find (\<lambda>x. rate_key x = k) (current_rates d)") (auto simp: find_None_iff)
  then have "y \<in> set (current_rates d)" "rate_key y = k" by (auto simp: find_Some_iff)
  with x have "y = x" using current_rates_unique [OF assms] by simp
  with x y show "rate_map d k = Some v" by (simp add: rate_map_def)
qed

lemma insert_observation_view:
  assumes wf: "wf_rates d" and ins: "insert_observation L importID s date valueText ts d = Inr ((), d')"
  obtains v x where "numeric_param L valueText = Inr v" "x \<in> set (current_rates d')"
    "rate_key x = (se_ID s, se_Base s, se_Quote s, date)" "ob_value x = v" "wf_rates d'"
    "prefix_of (observations d) (observations d')"
    "\<And>y. rate_key y \<noteq> (se_ID s, se_Base s, se_Quote s, date) \<Longrightarrow> y \<in> set (current_rates d') \<longleftrightarrow> y \<in> set (current_rates d)"
  using ins
proof (cases rule: insert_observation_cases)
  case (kept x v)
  then show ?thesis using that [of v x] wf by (simp add: prefix_of_def)
next
  case (added x v n)
  have "x \<in> set (current_rates d')"
    using wf added(4) unfolding added(6) current_rates_iff by (auto simp: wf_rates_def)
  moreover have "wf_rates d'" using wf added(4) unfolding added(6) by (auto simp: wf_rates_def)
  moreover have "y \<in> set (current_rates d') \<longleftrightarrow> y \<in> set (current_rates d)"
    if "rate_key y \<noteq> (se_ID s, se_Base s, se_Quote s, date)" for y
    using that added(2) unfolding added(6) current_rates_iff by auto
  ultimately show ?thesis using that [of v x] added by (auto simp: prefix_of_def)
qed

lemma insert_observation_map:
  assumes wf: "wf_rates d" and ins: "insert_observation L importID s date valueText ts d = Inr ((), d')"
  obtains v where "numeric_param L valueText = Inr v" "wf_rates d'" "prefix_of (observations d) (observations d')"
    "rate_map d' = (rate_map d)((se_ID s, se_Base s, se_Quote s, date) \<mapsto> v)"
proof -
  let ?k = "(se_ID s, se_Base s, se_Quote s, date)"
  obtain v x where v: "numeric_param L valueText = Inr v" "x \<in> set (current_rates d')" "rate_key x = ?k" "ob_value x = v"
    and wf': "wf_rates d'" and pre: "prefix_of (observations d) (observations d')"
    and other: "\<And>y. rate_key y \<noteq> ?k \<Longrightarrow> y \<in> set (current_rates d') \<longleftrightarrow> y \<in> set (current_rates d)"
    using insert_observation_view [OF wf ins] by blast
  have "rate_map d' k = ((rate_map d)(?k \<mapsto> v)) k" for k
  proof (cases "k = ?k")
    case True
    with v have "rate_map d' k = Some v" using rate_map_Some [OF wf'] by blast
    with True show ?thesis by simp
  next
    case False
    then have "rate_map d' k = Some u \<longleftrightarrow> rate_map d k = Some u" for u
      using other unfolding rate_map_Some [OF wf'] rate_map_Some [OF wf] by auto
    then have "rate_map d' k = rate_map d k" by (metis option.exhaust)
    with False show ?thesis by simp
  qed
  then have "rate_map d' = (rate_map d)(?k \<mapsto> v)" by blast
  with v wf' pre that show thesis by blast
qed

text \<open>What a provider's observation says: its series, pair and date, and its rate.\<close>

definition observed_key :: "WorkUnit list \<Rightarrow> 'd ProviderObservation \<Rightarrow> string \<times> string \<times> string \<times> int" where
  "observed_key units x = (let s = the (seriesByID units (po_SeriesID x)) in (se_ID s, se_Base s, se_Quote s, po_Date x))"

definition record_observation ::
  "('u, 'd) lib \<Rightarrow> WorkUnit list \<Rightarrow> 'd ProviderObservation
     \<Rightarrow> (string \<times> string \<times> string \<times> int \<Rightarrow> rat option) \<Rightarrow> (string \<times> string \<times> string \<times> int \<Rightarrow> rat option)" where
  "record_observation L units x m = m(observed_key units x \<mapsto> projr (numeric_param L (dec_String L (po_Value x))))"

lemma observations_r_map:
  assumes "observations_r L importID request units ts xs t = Inr (y, t')" and "wf_rates t"
  shows "wf_rates t' \<and> prefix_of (observations t) (observations t')
    \<and> rate_map t' = fold (record_observation L units) xs (rate_map t)
    \<and> (\<forall>x\<in>set xs. is_ok (observation_ok L request units x))"
  using assms
proof (induction xs arbitrary: t)
  case (Cons x xs)
  then obtain s t1 where s: "observation_ok L request units x = Inr s"
      "insert_observation L importID s (po_Date x) (dec_String L (po_Value x)) ts t = Inr ((), t1)"
      "observations_r L importID request units ts xs t1 = Inr (y, t')"
    by (auto simp: bind_r_def split: sum.splits prod.splits)
  obtain v where v: "numeric_param L (dec_String L (po_Value x)) = Inr v" "wf_rates t1"
      "prefix_of (observations t) (observations t1)"
      "rate_map t1 = (rate_map t)((se_ID s, se_Base s, se_Quote s, po_Date x) \<mapsto> v)"
    using insert_observation_map [OF Cons.prems(2) s(2)] .
  have "seriesByID units (po_SeriesID x) = Some s"
    using s(1) by (auto simp: observation_ok_def split: option.splits if_splits)
  then have "rate_map t1 = record_observation L units x (rate_map t)"
    using v(1,4) by (simp add: record_observation_def observed_key_def)
  with Cons.IH [OF s(3) v(2)] v(3) s(1) show ?case by (auto simp: prefix_of_def)
qed (simp add: prefix_of_def)

lemma insert_import_rates:
  assumes "insert_import L jsonb request r d = Inr (rows, d')"
  shows "rate_map d' = rate_map d" "observations d' = observations d" "wf_rates d' = wf_rates d"
    "\<exists>i. rate_imports d' = rate_imports d @ [i] \<and> im_response i = fe_Response r \<and> im_digest i = Sum256 (fe_Response r)"
  using assms
  by (auto simp: insert_import_def draw_uuid_def Let_def rate_map_def current_rates_def wf_rates_def split: option.splits)

lemma update_leased_rates:
  assumes "update_leased key nonce f d = Inr (m, d')"
  shows "\<exists>c. d' = d\<lparr>coordination := c\<rparr>"
  using assms by (auto simp: update_leased_def Let_def split: list.splits)

lemma units_r_rates: "units_r nonce request freshFor ts us t = Inr (x, t') \<Longrightarrow> \<exists>c. t' = t\<lparr>coordination := c\<rparr>"
proof (induction us arbitrary: t)
  case Nil
  then show ?case by (intro exI [of _ "coordination t"]) simp
next
  case (Cons u us)
  then obtain m t1 where s: "update_leased (wu_Key u) nonce
        (complete_row (if wu_Kind u = FetchRange then Some (fr_To request) else None)
          (if wu_Kind u = FetchLatest \<or> \<not> wu_Permanent u then Microseconds freshFor else 0) ts) t = Inr (m, t1)"
      "units_r nonce request freshFor ts us t1 = Inr (x, t')"
    by (auto simp: bind_r_def split: sum.splits prod.splits if_splits)
  from Cons.IH [OF s(2)] update_leased_rates [OF s(1)] show ?case by auto
qed

text \<open>A unit completed at time \<open>ts\<close>: released, and ready as far as the request covered it.\<close>

definition unit_completed :: "FetchRequest \<Rightarrow> int \<Rightarrow> int \<Rightarrow> database \<Rightarrow> WorkUnit \<Rightarrow> bool" where
  "unit_completed request freshFor ts d u \<longleftrightarrow>
     (\<exists>r\<in>set (coordination d). fc_key r = wu_Key u \<and> fc_completed_at r = Some ts \<and> fc_lease_nonce r = None
        \<and> (fc_kind r = wu_Kind u \<and> wu_Kind u \<in> {FetchLatest, FetchRange} \<and> wu_FetchTo u \<le> fr_To request
           \<and> 0 < Microseconds freshFor \<longrightarrow> ready_at u ts r))"

lemma complete_row_ready:
  assumes "fc_kind r = wu_Kind u" and "wu_Kind u \<in> {FetchLatest, FetchRange}" and "wu_FetchTo u \<le> fr_To request"
    and "0 < Microseconds freshFor"
  shows "ready_at u ts (complete_row (if wu_Kind u = FetchRange then Some (fr_To request) else None)
          (if wu_Kind u = FetchLatest \<or> \<not> wu_Permanent u then Microseconds freshFor else 0) ts r)"
  using assms
  by (auto simp: ready_at_def complete_row_def fresh_at_def FetchLatest_def FetchRange_def split: option.splits)

lemma update_leased_completed:
  assumes "update_leased key nonce f d = Inr (m, d')" and "unit_completed request freshFor ts d u"
  shows "unit_completed request freshFor ts d' u"
proof -
  obtain r where r: "r \<in> set (coordination d)" "fc_key r = wu_Key u" "fc_completed_at r = Some ts" "fc_lease_nonce r = None"
      "fc_kind r = wu_Kind u \<and> wu_Kind u \<in> {FetchLatest, FetchRange} \<and> wu_FetchTo u \<le> fr_To request
           \<and> 0 < Microseconds freshFor \<longrightarrow> ready_at u ts r"
    using assms(2) unfolding unit_completed_def by blast
  then have "r \<in> set (coordination d')"
    unfolding update_leased_Inr(2) [OF assms(1)] by (auto intro!: image_eqI)
  with r show ?thesis unfolding unit_completed_def by blast
qed

lemma update_leased_completes:
  assumes "update_leased (wu_Key u) nonce
        (complete_row (if wu_Kind u = FetchRange then Some (fr_To request) else None)
          (if wu_Kind u = FetchLatest \<or> \<not> wu_Permanent u then Microseconds freshFor else 0) ts) d = Inr (1, d')"
    (is "update_leased _ _ ?f d = _")
  shows "unit_completed request freshFor ts d' u"
proof -
  obtain r where r: "r \<in> set (coordination d)" "fc_key r = wu_Key u" "fc_lease_nonce r = Some nonce"
    using update_leased_Inr(1) [OF assms] by (metis (mono_tags, lifting) filter_empty_conv list.size(3) zero_neq_one)
  then have "?f r \<in> set (coordination d')"
    unfolding update_leased_Inr(2) [OF assms] by (auto intro!: image_eqI)
  moreover have "fc_kind (?f r) = fc_kind r" "fc_completed_at (?f r) = Some ts" "fc_lease_nonce (?f r) = None"
    by (simp_all add: complete_row_def)
  ultimately show ?thesis
    unfolding unit_completed_def using r(2) complete_row_ready [of r u request freshFor ts]
    by (intro bexI [of _ "?f r"]) auto
qed

lemma units_r_completed:
  assumes "units_r nonce request freshFor ts us t = Inr (x, t')"
  shows "(\<forall>u. unit_completed request freshFor ts t u \<longrightarrow> unit_completed request freshFor ts t' u)
    \<and> (\<forall>u\<in>set us. unit_completed request freshFor ts t' u)"
  using assms
proof (induction us arbitrary: t)
  case (Cons u us)
  then obtain t1 where s: "update_leased (wu_Key u) nonce
        (complete_row (if wu_Kind u = FetchRange then Some (fr_To request) else None)
          (if wu_Kind u = FetchLatest \<or> \<not> wu_Permanent u then Microseconds freshFor else 0) ts) t = Inr (1, t1)"
      "units_r nonce request freshFor ts us t1 = Inr (x, t')"
    by (auto simp: bind_r_def split: sum.splits prod.splits if_splits)
  from Cons.IH [OF s(2)] update_leased_completed [OF s(1)] update_leased_completes [OF s(1)] show ?case by auto
qed simp

lemma insert_observation_imports:
  assumes "insert_observation L importID s date valueText ts d = Inr ((), d')"
  shows "rate_imports d' = rate_imports d"
  using assms by (cases rule: insert_observation_cases) auto

lemma observations_r_imports:
  "observations_r L importID request units ts xs t = Inr (y, t') \<Longrightarrow> rate_imports t' = rate_imports t"
  by (induction xs arbitrary: t)
    (auto simp: bind_r_def dest: insert_observation_imports split: sum.splits prod.splits)

end
