(* ===== verification/Rates_Props.thy ===== *)
theory Rates_Props
  imports Rates_Lease Demo_Db
begin

text \<open>Properties of the exchange-rate cache.\<close>

section \<open>Requests\<close>

text \<open>
  C17. The grouping of claimed units into provider requests loses and duplicates nothing; every
  request has at least one series and at most twenty, all for the same kind and period, and asks for
  exactly that period.
\<close>

theorem makeBatches_partition:
  "mset (concat (makeBatches units)) = mset units
    \<and> list_all (\<lambda>b. b \<noteq> [] \<and> length b \<le> 20 \<and> length (fr_SeriesIDs (requestForBatch b)) = length b
        \<and> list_all (\<lambda>u. wu_Kind u = fr_Kind (requestForBatch b) \<and> wu_From u = fr_From (requestForBatch b)
            \<and> wu_FetchTo u = fr_To (requestForBatch b)) b) (makeBatches units)"
proof -
  have "list_all (\<lambda>b. b \<noteq> [] \<and> length b \<le> 20 \<and> (\<forall>u\<in>set b. samePeriod (hd b) u)) (makeBatches units)"
    unfolding makeBatches_def list_all_iff
    using split_batches_shape by (metis MaxSeriesPerRequest_def)
  then show ?thesis
    by (auto simp: makeBatches_def split_batches_concat list_all_iff samePeriod_def requestForBatch_def)
qed

text \<open>
  C18. The normalised series are exactly the requested ones, each identifier once and in order; the
  request is refused exactly when it is empty, has an invalid series, or names one identifier with
  two currency pairs.
\<close>

theorem normalizeSeries_exact:
  "normalizeSeries input = Inr out \<longleftrightarrow>
     input \<noteq> [] \<and> list_all (\<lambda>s. Series_Validate s = Inr ()) input
     \<and> (\<forall>s\<in>set input. \<forall>t\<in>set input. se_ID s = se_ID t \<longrightarrow> s = t)
     \<and> set out = set input \<and> sorted (map se_ID out) \<and> distinct (map se_ID out)"
proof (cases "normalize_loop input []")
  case (Inl e)
  then have "normalizeSeries input = Inl e" by (simp add: normalizeSeries_def)
  moreover have "\<not> (list_all (\<lambda>s. Series_Validate s = Inr ()) input
      \<and> (\<forall>s\<in>set input. \<forall>t\<in>set input. se_ID s = se_ID t \<longrightarrow> s = t))"
    using normalize_loop_Inl [OF Inl] by (auto simp: list_all_iff)
  ultimately show ?thesis by auto
next
  case (Inr byID)
  have facts: "distinct (map fst byID)" "\<forall>(i, s)\<in>set byID. i = se_ID s" "snd ` set byID = set input"
    "\<forall>s\<in>set input. Series_Validate s = Inr ()"
    using normalize_loop_Inr [OF Inr] by auto
  have keys: "map se_ID (map snd byID) = map fst byID" using facts(2) by auto
  have unique: "\<forall>s\<in>set input. \<forall>t\<in>set input. se_ID s = se_ID t \<longrightarrow> s = t"
  proof (intro ballI impI)
    fix s t
    assume "s \<in> set input" "t \<in> set input" "se_ID s = se_ID t"
    moreover have "distinct (map se_ID (map snd byID))" using facts(1) by (simp only: keys)
    ultimately show "s = t"
      using distinct_map_eq [of se_ID "map snd byID" s t] facts(3) by simp
  qed
  have norm: "normalizeSeries input = (if input = [] then Inl ErrInvalidSeries else Inr (sort_key se_ID (map snd byID)))"
    using Inr facts(3) by (auto simp: normalizeSeries_def)
  let ?out = "sort_key se_ID (map snd byID)"
  have out: "set ?out = set input" "sorted (map se_ID ?out)" "distinct (map se_ID ?out)"
  proof -
    show "set ?out = set input" using facts(3) by simp
    show "sorted (map se_ID ?out)" by (rule sorted_sort_key)
    have "mset (map se_ID ?out) = mset (map fst byID)" by (simp add: keys [symmetric] del: map_map)
    then show "distinct (map se_ID ?out)" using facts(1) mset_eq_imp_distinct_iff by blast
  qed
  have "out = ?out" if "set out = set input" "sorted (map se_ID out)" "distinct (map se_ID out)"
  proof -
    have "map se_ID out = map se_ID ?out"
      using that out by (intro sorted_distinct_set_unique) (auto simp: image_image)
    moreover have "inj_on se_ID (set out \<union> set ?out)"
      using unique that(1) out(1) by (auto simp: inj_on_def)
    ultimately show ?thesis by (rule map_inj_on)
  qed
  then show ?thesis using norm facts(4) unique out by (auto simp: list_all_iff)
qed

definition fix_series :: Series where
  "fix_series = \<lparr>se_ID = ''SF43718'', se_Base = ''USD'', se_Quote = ''MXN''\<rparr>"

lemma fix_series_valid: "Series_Validate fix_series = Inr ()"
  by (simp add: Series_Validate_def fix_series_def SeriesID_Validate_def isCurrency_def byte_class_defs byte_of_def is_ok_def)

theorem normalizeSeries_exact_witness: "normalizeSeries [fix_series, fix_series] = Inr [fix_series]"
  using normalizeSeries_exact [of "[fix_series, fix_series]" "[fix_series]"] by (simp add: fix_series_valid)

section \<open>Ranges\<close>

text \<open>
  C19. The work units of a range cover it exactly: every requested series and every day of the range
  that is not in the future lies in the period to fetch of exactly one unit; no unit reaches beyond
  today or outside its own month, and a unit is permanent exactly when its month is over.
\<close>

theorem rangeUnits_cover:
  assumes "s \<in> set series" and "from \<le> x" and "x \<le> to" and "x \<le> local_day now"
  shows "(\<exists>!u. u \<in> set (rangeUnits now series from to) \<and> wu_Series u = s \<and> wu_From u \<le> x \<and> x \<le> wu_FetchTo u)
    \<and> list_all (\<lambda>u. wu_Series u \<in> set series \<and> wu_From u \<le> wu_FetchTo u \<and> wu_FetchTo u \<le> wu_To u
        \<and> wu_FetchTo u \<le> local_day now \<and> month_of (wu_From u) = month_of (wu_To u)
        \<and> (wu_Permanent u \<longleftrightarrow> month_of (wu_To u) < month_of (local_day now)))
      (rangeUnits now series from to)"
proof
  let ?today = "local_day now"
  let ?unit = "month_unit ?today (month_start (month_of ?today))"
  have mine: "month_start (month_of x) \<le> x" "x < month_start (month_of x + 1)" by (rule month_of_spec)+
  show "\<exists>!u. u \<in> set (rangeUnits now series from to) \<and> wu_Series u = s \<and> wu_From u \<le> x \<and> x \<le> wu_FetchTo u"
  proof (rule ex1I [of _ "?unit (month_of x) s"])
    have "month_of from \<le> month_of x" "month_of x \<le> month_of to" using assms(2,3) by (auto intro: month_of_mono)
    moreover have "month_start (month_of x) \<le> ?today" using mine(1) assms(4) by linarith
    ultimately show "?unit (month_of x) s \<in> set (rangeUnits now series from to) \<and> wu_Series (?unit (month_of x) s) = s
        \<and> wu_From (?unit (month_of x) s) \<le> x \<and> x \<le> wu_FetchTo (?unit (month_of x) s)"
      using mine assms(1,4) unfolding rangeUnits_members by (auto simp: month_unit_def)
  next
    fix u
    assume u: "u \<in> set (rangeUnits now series from to) \<and> wu_Series u = s \<and> wu_From u \<le> x \<and> x \<le> wu_FetchTo u"
    then obtain j where j: "u = ?unit j s" unfolding rangeUnits_members by (auto simp: month_unit_def)
    then have "month_start j \<le> x" "x < month_start (j + 1)" using u by (auto simp: month_unit_def)
    then have "month_of x = j" by (rule month_of_unique)
    with j show "u = ?unit (month_of x) s" by simp
  qed
  show "list_all (\<lambda>u. wu_Series u \<in> set series \<and> wu_From u \<le> wu_FetchTo u \<and> wu_FetchTo u \<le> wu_To u
        \<and> wu_FetchTo u \<le> ?today \<and> month_of (wu_From u) = month_of (wu_To u)
        \<and> (wu_Permanent u \<longleftrightarrow> month_of (wu_To u) < month_of ?today)) (rangeUnits now series from to)"
    unfolding list_all_iff
  proof
    fix u
    assume "u \<in> set (rangeUnits now series from to)"
    then obtain j t where u: "u = ?unit j t" "t \<in> set series" "month_start j \<le> ?today"
      unfolding rangeUnits_members by auto
    have "month_start j < month_start (j + 1)" by (rule month_start_less)
    moreover have "month_of (month_start (j + 1) - 1) = j"
      using \<open>month_start j < month_start (j + 1)\<close> by (intro month_of_unique) auto
    moreover have "month_start j < month_start (month_of ?today) \<longleftrightarrow> j < month_of ?today"
      using month_start_le_iff [of "month_of ?today" j] by auto
    ultimately show "wu_Series u \<in> set series \<and> wu_From u \<le> wu_FetchTo u \<and> wu_FetchTo u \<le> wu_To u
        \<and> wu_FetchTo u \<le> ?today \<and> month_of (wu_From u) = month_of (wu_To u)
        \<and> (wu_Permanent u \<longleftrightarrow> month_of (wu_To u) < month_of ?today)"
      using u by (simp add: month_unit_def)
  qed
qed

theorem rangeUnits_cover_witness:
  "\<exists>!u. u \<in> set (rangeUnits \<lparr>tm_instant = 0, tm_offset = 0\<rparr> [fix_series] (- 100) (- 5)) \<and> wu_Series u = fix_series
     \<and> wu_From u \<le> - 40 \<and> - 40 \<le> wu_FetchTo u"
proof -
  have "- 40 \<le> local_day \<lparr>tm_instant = 0, tm_offset = 0\<rparr>" by (simp add: local_day_def day_of_instant_def)
  then show ?thesis using rangeUnits_cover [of fix_series "[fix_series]" "- 100" "- 40" "- 5"] by simp
qed

section \<open>Revisions\<close>

text \<open>
  C20. Recording an observation keeps history: no earlier observation changes, the view shows the
  recorded value as the one current row of its series, pair and date, other dates and series keep
  their current rows, and recording the current value again changes nothing.
\<close>

theorem insert_observation_current:
  assumes wf: "wf_rates d" and ins: "insert_observation L importID s date valueText ts d = Inr ((), d')"
  shows "wf_rates d' \<and> prefix_of (observations d) (observations d')
    \<and> (\<exists>v. numeric_param L valueText = Inr v \<and>
        (\<exists>!x. x \<in> set (current_rates d') \<and> rate_key x = (se_ID s, se_Base s, se_Quote s, date))
        \<and> (\<forall>x\<in>set (current_rates d'). rate_key x = (se_ID s, se_Base s, se_Quote s, date) \<longrightarrow> ob_value x = v))
    \<and> (\<forall>x. rate_key x \<noteq> (se_ID s, se_Base s, se_Quote s, date) \<longrightarrow>
        (x \<in> set (current_rates d') \<longleftrightarrow> x \<in> set (current_rates d)))
    \<and> (\<forall>importID' ts'. insert_observation L importID' s date valueText ts' d' = Inr ((), d'))"
proof -
  let ?k = "(se_ID s, se_Base s, se_Quote s, date)"
  obtain v x where v: "numeric_param L valueText = Inr v" and x: "x \<in> set (current_rates d')" "rate_key x = ?k" "ob_value x = v"
    and wf': "wf_rates d'" and pre: "prefix_of (observations d) (observations d')"
    and others: "\<And>y. rate_key y \<noteq> ?k \<Longrightarrow> y \<in> set (current_rates d') \<longleftrightarrow> y \<in> set (current_rates d)"
    using insert_observation_view [OF wf ins] by blast
  have one: "y = x" if "y \<in> set (current_rates d')" "rate_key y = ?k" for y
    using current_rates_unique [OF wf' that(1) x(1)] that(2) x(2) by simp
  have again: "list_ex (\<lambda>y. ob_series y = se_ID s \<and> ob_base y = se_Base s \<and> ob_quote y = se_Quote s
      \<and> ob_observed_on y = date \<and> ob_value y = v) (current_rates d')"
    using x by (auto simp: list_ex_iff rate_key_def)
  have "\<exists>!y. y \<in> set (current_rates d') \<and> rate_key y = ?k" using x one by blast
  moreover have "\<forall>y\<in>set (current_rates d'). rate_key y = ?k \<longrightarrow> ob_value y = v" using one x(3) by blast
  moreover have "insert_observation L i s date valueText t d' = Inr ((), d')" for i t
    using again v by (simp add: insert_observation_def)
  ultimately show ?thesis using wf' pre v others by blast
qed

definition rate_db :: database where
  "rate_db = demo_db\<lparr>rate_imports := [\<lparr>im_uuid = ''import'', im_kind = ''latest'', im_series = [''SF43718''],
     im_period = None, im_response = ''{}'', im_digest = replicate 32 0\<rparr>]\<rparr>"

lemma parse17: "parse_dec ''17'' = Some (17, 0)"
  by code_simp

lemma rate_db_insert:
  "\<exists>d'. insert_observation demo_lib ''import'' fix_series 20000 ''17'' 5 rate_db = Inr ((), d')"
  by (simp add: insert_observation_def rate_db_def demo_db_def numeric_param_def demo_eval parse17 current_rates_def draw_uuid_def
      Let_def observation_checks_def currency_shape_def series_canonical_def fix_series_def byte_class_defs byte_of_def)

theorem insert_observation_current_witness:
  "\<exists>d'. insert_observation demo_lib ''import'' fix_series 20000 ''17'' 5 rate_db = Inr ((), d')
     \<and> insert_observation demo_lib ''import'' fix_series 20000 ''17'' 6 d' = Inr ((), d')"
proof -
  obtain d' where d': "insert_observation demo_lib ''import'' fix_series 20000 ''17'' 5 rate_db = Inr ((), d')"
    using rate_db_insert by blast
  have "wf_rates rate_db" by (simp add: wf_rates_def rate_db_def demo_db_def)
  from insert_observation_current [OF this d'] d' show ?thesis by blast
qed

section \<open>Leases of work units\<close>

text \<open>
  C21. The lease of a work unit is exclusive and fenced. After a claim returned a unit, while other
  replicas claim, complete and fail work in any order (claims beginning before the lease ends), no
  claim beginning before the lease ends returns that unit, forced or not; a completion under another
  nonce that includes it fails and writes nothing, a failure report under another nonce fails, and
  the holder's own report succeeds when the database answers.
\<close>

theorem rate_lease_exclusive:
  assumes "Claim L us n dur force w = (Inr claimed, w1)" and "wf_coordination (db w)" and "u \<in> set claimed"
    and "(rate_step L json_Valid jsonb n (begin_time w + Microseconds dur))\<^sup>*\<^sup>* w1 w2" and "n' \<noteq> n"
  shows "(begin_time w2 < begin_time w + Microseconds dur \<longrightarrow> Claim L us' n'' dur' force' w2 = (Inr claimed', w3)
      \<longrightarrow> (\<forall>v\<in>set claimed'. wu_Key v \<noteq> wu_Key u))
    \<and> (u \<in> set us' \<longrightarrow> \<not> is_ok (fst (Complete L json_Valid jsonb n' us' request r freshFor w2))
        \<and> db (snd (Complete L json_Valid jsonb n' us' request r freshFor w2)) = db w2
        \<and> \<not> is_ok (fst (Fail n' us' errorClass retryAfter w2)))
    \<and> (script w2 = [] \<longrightarrow> fst (Fail n [u] errorClass retryAfter w2) = Inr ())"
proof -
  have held: "unit_leased (wu_Key u) n (begin_time w + Microseconds dur) (db w2)"
    by (rule rate_steps_leased [OF assms(4) Claim_holds [OF assms(1-3)]])
  show ?thesis
    by (intro conjI impI; (rule Claim_refused [OF held] Complete_fenced [OF held assms(5), THEN conjunct1]
          Complete_fenced [OF held assms(5), THEN conjunct2] Fail_fenced [OF held assms(5)] Fail_owner [OF held])?; simp?)
qed

definition fix_unit :: WorkUnit where
  "fix_unit = \<lparr>wu_Key = ''latest:SF43718'', wu_Kind = FetchLatest, wu_Series = fix_series, wu_From = 0, wu_To = 0,
     wu_FetchTo = 0, wu_Permanent = False\<rparr>"

definition fix_row :: coordination_row where
  "fix_row = \<lparr>fc_key = ''latest:SF43718'', fc_series = ''SF43718'', fc_base = ''USD'', fc_quote = ''MXN'',
     fc_kind = ''latest'', fc_period = None, fc_covered_until = None, fc_completed_at = None, fc_fresh_until = None,
     fc_lease_nonce = None, fc_lease_until = None, fc_next_attempt = 7, fc_error_class = None\<rparr>"

definition unit_db :: database where "unit_db = rate_db\<lparr>coordination := [fix_row]\<rparr>"

definition nonce_r :: string where "nonce_r = ''aaaaaaaa-aaaa-4aaa-8aaa-aaaaaaaaaaaa''"

lemmas fix_defs = fix_unit_def fix_row_def fix_series_def unit_db_def nonce_r_def FetchLatest_def FetchRange_def

lemma fix_row_checks: "coordination_checks fix_row = None"
  by (simp add: coordination_checks_def fix_row_def currency_shape_def series_canonical_def byte_class_defs byte_of_def)

lemma unit_db_wf: "wf_coordination unit_db" "wf_rates unit_db"
  by (simp_all add: wf_coordination_def unit_db_def fix_row_checks wf_rates_def rate_db_def demo_db_def)

lemma fix_insert: "insert_coordination fix_unit 1000 unit_db = Inr ((), unit_db)"
proof -
  have "coordination_checks (fix_row\<lparr>fc_next_attempt := 1000\<rparr>) = None"
    by (simp add: coordination_checks_def fix_row_def currency_shape_def series_canonical_def byte_class_defs byte_of_def)
  then show ?thesis
    by (simp add: insert_coordination_def fix_unit_def fix_row_def fix_series_def unit_db_def Let_def FetchLatest_def FetchRange_def)
qed

lemma fix_lease:
  "\<exists>d. lease_query demo_lib fix_unit nonce_r us False 1000 unit_db = Inr ([''latest:SF43718''], d)"
proof -
  have "is_nonce_v4 demo_lib nonce_r" by (simp add: is_nonce_v4_def nonce_r_def demo_eval)
  moreover have "claimable fix_unit False 1000 fix_row"
    by (simp add: claimable_def fix_unit_def fix_row_def fix_series_def FetchLatest_def)
  ultimately show ?thesis by (simp add: lease_query_def unit_db_def Let_def) (simp add: fix_row_def)
qed

lemma fix_claim:
  "Claim demo_lib [fix_unit] nonce_r 60000000000 False (demo_world unit_db []) =
     (Inr [fix_unit], snd (Claim demo_lib [fix_unit] nonce_r 60000000000 False (demo_world unit_db [])))"
proof -
  have "begin_time (demo_world unit_db []) = 1000" by (simp add: begin_time_def trip_def demo_world_def)
  moreover have "fst (claim_effect demo_lib [fix_unit] nonce_r 60000000000 False 1000 unit_db) = Inr [fix_unit]"
    using fix_lease [of "Microseconds 60000000000"] by (auto simp: claim_effect_def fix_insert)
  ultimately show ?thesis
    using rate_claim.calm_reply [of "demo_world unit_db []" demo_lib "[fix_unit]" nonce_r 60000000000 False]
    by (simp add: prod_eq_iff)
qed

theorem rate_lease_exclusive_witness:
  "\<not> is_ok (fst (Fail ''other'' [fix_unit] ''timeout'' 0 (snd (Claim demo_lib [fix_unit] nonce_r 60000000000 False (demo_world unit_db [])))))"
  using rate_lease_exclusive [OF fix_claim, where u = fix_unit and n' = "''other''" and us' = "[fix_unit]"
      and json_Valid = "\<lambda>_. True" and jsonb = "\<lambda>_. None"] unit_db_wf(1)
  by (simp add: nonce_r_def)

text \<open>
  C22. A completed fetch is stored whole, or not at all. When completing a fetch succeeds, every unit
  was leased under the caller's nonce; the response is archived with its SHA-256 digest; the rates
  the view shows are the earlier ones updated by the observations of the response in their order,
  each of them valid for the request, with no earlier revision changed; and every unit is released
  and, as far as the request covered it, ready. When it fails for a reason of its own, nothing is
  written.
\<close>

theorem Complete_stores:
  assumes "wf_rates (db w)"
  shows "(Complete L json_Valid jsonb nonce units request r freshFor w = (Inr (), w') \<longrightarrow>
      (\<forall>u\<in>set units. \<exists>x\<in>set (coordination (db w)). fc_key x = wu_Key u \<and> fc_lease_nonce x = Some nonce)
      \<and> (\<exists>i. rate_imports (db w') = rate_imports (db w) @ [i] \<and> im_response i = fe_Response r
           \<and> im_digest i = Sum256 (fe_Response r))
      \<and> rate_map (db w') = fold (record_observation L units) (fe_Observations r) (rate_map (db w))
      \<and> list_all (\<lambda>x. is_ok (observation_ok L request units x)) (fe_Observations r)
      \<and> prefix_of (observations (db w)) (observations (db w')) \<and> wf_rates (db w')
      \<and> list_all (unit_completed request freshFor (begin_time w) (db w')) units)
    \<and> (Complete L json_Valid jsonb nonce units request r freshFor w = (Inl e, w') \<longrightarrow> \<not> is_fault e \<longrightarrow> db w' = db w)"
proof (intro conjI [of "_ \<longrightarrow> _"] impI)
  assume "Complete L json_Valid jsonb nonce units request r freshFor w = (Inr (), w')"
  from rate_complete.reply_ok [OF this] have "complete_r L jsonb nonce units request r freshFor (begin_time w) (db w) = Inr ((), db w')"
    by (auto simp: complete_effect_def committed_def split: if_splits sum.splits prod.splits)
  then obtain rows t importID t1 where s: "owned_r nonce units (db w) = Inr ()" "insert_import L jsonb request r (db w) = Inr (rows, t)"
      "observations_r L importID request units (begin_time w) (fe_Observations r) t = Inr ((), t1)"
      "units_r nonce request freshFor (begin_time w) units t1 = Inr ((), db w')"
    by (auto simp: complete_r_def bind_r_def split: sum.splits prod.splits)
  obtain c where c: "db w' = t1\<lparr>coordination := c\<rparr>" using units_r_rates [OF s(4)] by blast
  note import = insert_import_rates [OF s(2)]
  note obs = observations_r_map [OF s(3)] observations_r_imports [OF s(3)]
  have same: "rate_map (db w') = rate_map t1" "wf_rates (db w') = wf_rates t1" "observations (db w') = observations t1"
      "rate_imports (db w') = rate_imports t1"
    by (simp_all add: c rate_map_def [abs_def] current_rates_def wf_rates_def)
  show "(\<forall>u\<in>set units. \<exists>x\<in>set (coordination (db w)). fc_key x = wu_Key u \<and> fc_lease_nonce x = Some nonce)
      \<and> (\<exists>i. rate_imports (db w') = rate_imports (db w) @ [i] \<and> im_response i = fe_Response r
           \<and> im_digest i = Sum256 (fe_Response r))
      \<and> rate_map (db w') = fold (record_observation L units) (fe_Observations r) (rate_map (db w))
      \<and> list_all (\<lambda>x. is_ok (observation_ok L request units x)) (fe_Observations r)
      \<and> prefix_of (observations (db w)) (observations (db w')) \<and> wf_rates (db w')
      \<and> list_all (unit_completed request freshFor (begin_time w) (db w')) units"
    using owned_r_Inr [OF s(1)] import obs assms units_r_completed [OF s(4)] unfolding same list_all_iff by simp
next
  assume run: "Complete L json_Valid jsonb nonce units request r freshFor w = (Inl e, w')" and "\<not> is_fault e"
  with rate_complete.is_finished [of w L json_Valid jsonb nonce units request r freshFor]
  have "complete_effect L json_Valid jsonb nonce units request r freshFor (begin_time w) (db w) = (Inl e, db w')"
    by (auto simp: finished_def)
  then show "db w' = db w"
    by (auto simp: complete_effect_def committed_def split: if_splits sum.splits prod.splits)
qed

definition leased_db :: database where
  "leased_db = rate_db\<lparr>coordination := [fix_row\<lparr>fc_lease_nonce := Some nonce_r, fc_lease_until := Some 9000\<rparr>]\<rparr>"

definition fix_request :: FetchRequest where
  "fix_request = \<lparr>fr_Kind = ''latest'', fr_SeriesIDs = [''SF43718''], fr_From = 0, fr_To = 0\<rparr>"

definition fix_result :: "(int \<times> nat) FetchResult" where
  "fix_result = \<lparr>fe_Response = ''{}'', fe_Observations = [\<lparr>po_SeriesID = ''SF43718'', po_Date = 20000, po_Value = (17, 0)\<rparr>]\<rparr>"

lemma fix_import:
  "\<exists>d i. insert_import demo_lib (\<lambda>_. Some 2) fix_request fix_result leased_db = Inr ([im_uuid i], d)
     \<and> d = leased_db\<lparr>next_uuid := 2, rate_imports := rate_imports leased_db @ [i]\<rparr>"
  by (simp add: insert_import_def leased_db_def rate_db_def demo_db_def draw_uuid_def Let_def fix_request_def fix_result_def
      FetchRange_def series_canonical_def byte_class_defs byte_of_def demo_eval demo_uuidv7_def)

lemma fix_observation:
  "\<exists>d'. insert_observation demo_lib (im_uuid i) fix_series 20000 (print_dec (17, 0)) 1000
      (leased_db\<lparr>next_uuid := 2, rate_imports := rate_imports leased_db @ [i]\<rparr>) = Inr ((), d') \<and> coordination d' = coordination leased_db"
  by (simp add: insert_observation_def leased_db_def rate_db_def demo_db_def numeric_param_def demo_eval parse_print_dec dec_val_def
      current_rates_def draw_uuid_def Let_def observation_checks_def currency_shape_def series_canonical_def fix_series_def
      byte_class_defs byte_of_def)

lemma fix_units:
  assumes "coordination d = coordination leased_db"
  shows "\<exists>d'. units_r nonce_r fix_request 3600000000000 1000 [fix_unit] d = Inr ((), d')"
proof -
  have "coordination_checks (complete_row None 3600000000 1000 (fix_row\<lparr>fc_lease_nonce := Some nonce_r, fc_lease_until := Some 9000\<rparr>)) = None"
    by (simp add: coordination_checks_def complete_row_def fix_row_def currency_shape_def series_canonical_def byte_class_defs byte_of_def)
  then show ?thesis
    by (simp add: update_leased_def assms leased_db_def fix_unit_def Let_def Microseconds_def map_filter_def FetchLatest_def FetchRange_def)
      (simp add: fix_row_def)
qed

lemma fix_complete:
  "\<exists>d. complete_r demo_lib (\<lambda>_. Some 2) nonce_r [fix_unit] fix_request fix_result 3600000000000 1000 leased_db = Inr ((), d)"
proof -
  have "owned_r nonce_r [fix_unit] leased_db = Inr ()"
    by (simp add: ownedQuery_def leased_db_def fix_unit_def fix_row_def first_row_def)
  moreover obtain i d where i: "insert_import demo_lib (\<lambda>_. Some 2) fix_request fix_result leased_db = Inr ([im_uuid i], d)"
     "d = leased_db\<lparr>next_uuid := 2, rate_imports := rate_imports leased_db @ [i]\<rparr>"
    using fix_import by blast
  moreover obtain d' where d': "insert_observation demo_lib (im_uuid i) fix_series 20000 (print_dec (17, 0)) 1000 d = Inr ((), d')"
     "coordination d' = coordination leased_db"
    using fix_observation [of i] i(2) by blast
  moreover have "observation_ok demo_lib fix_request [fix_unit] \<lparr>po_SeriesID = ''SF43718'', po_Date = 20000, po_Value = (17, 0)\<rparr> = Inr fix_series"
    by (simp add: observation_ok_def seriesByID_def fix_unit_def fix_series_def fix_request_def FetchRange_def demo_eval dec_val_def zero_day_def)
  ultimately show ?thesis
    using fix_units [OF d'(2)] by (simp add: complete_r_def first_row_def fix_result_def demo_eval)
qed

theorem Complete_stores_witness:
  "\<exists>w'. Complete demo_lib (\<lambda>_. True) (\<lambda>_. Some 2) nonce_r [fix_unit] fix_request fix_result 3600000000000
      (demo_world leased_db []) = (Inr (), w')
    \<and> rate_map (db w') (''SF43718'', ''USD'', ''MXN'', 20000) = Some 17"
proof -
  let ?p = "Complete demo_lib (\<lambda>_. True) (\<lambda>_. Some 2) nonce_r [fix_unit] fix_request fix_result 3600000000000"
  have "begin_time (demo_world leased_db []) = 1000" by (simp add: begin_time_def trip_def demo_world_def)
  then have "fst (?p (demo_world leased_db [])) = Inr ()"
    using fix_complete rate_complete.calm_reply [of "demo_world leased_db []" demo_lib "\<lambda>_. True" "\<lambda>_. Some 2" nonce_r
        "[fix_unit]" fix_request fix_result 3600000000000]
    by (auto simp: complete_effect_def)
  then obtain w' where run: "?p (demo_world leased_db []) = (Inr (), w')" by (cases "?p (demo_world leased_db [])") auto
  have "wf_rates (db (demo_world leased_db []))" by (simp add: wf_rates_def leased_db_def rate_db_def demo_db_def)
  from Complete_stores [OF this, of demo_lib "\<lambda>_. True" "\<lambda>_. Some 2" nonce_r "[fix_unit]" fix_request fix_result
      3600000000000 w'] run
  have "rate_map (db w') = record_observation demo_lib [fix_unit] \<lparr>po_SeriesID = ''SF43718'', po_Date = 20000, po_Value = (17, 0)\<rparr> (rate_map leased_db)"
    by (simp add: fix_result_def)
  then show ?thesis using run
    by (simp add: record_observation_def observed_key_def seriesByID_def fix_unit_def fix_series_def numeric_param_def demo_eval parse_print_dec dec_val_def)
qed

end
