(* ===== verification/Go_Json.thy ===== *)
theory Go_Json
  imports Go_Strings
begin

text \<open>
  Package \<^verbatim>\<open>encoding/json\<close> as far as the sources use it: the lexical scanner, the values of a
  document, the token stream of \<^verbatim>\<open>json.Decoder\<close> and the validity check of \<^verbatim>\<open>json.Unmarshal\<close>. A
  string is the list of its bytes.
\<close>

section \<open>Lexemes\<close>

definition json_space :: "char \<Rightarrow> bool" where
  "json_space c \<longleftrightarrow> byte_of c \<in> {32, 9, 13, 10}"

definition skip_space :: "string \<Rightarrow> string" where
  "skip_space s = dropWhile json_space s"

definition is_hex_byte :: "char \<Rightarrow> bool" where
  "is_hex_byte c \<longleftrightarrow> is_digit_byte c \<or> byte_in (CHR ''a'') (CHR ''f'') c \<or> byte_in (CHR ''A'') (CHR ''F'') c"

text \<open>
  The body of a string literal up to its closing quote: its raw bytes and what follows. Control
  characters are errors; an escape is one of the eight short ones or \<^verbatim>\<open>u\<close> and four digits.
\<close>

definition quote_byte :: char where "quote_byte = CHR 0x22"
definition backslash :: char where "backslash = CHR 0x5C"

definition short_escape :: "char \<Rightarrow> bool" where
  "short_escape c \<longleftrightarrow> c \<in> {quote_byte, backslash, CHR ''/'', CHR ''b'', CHR ''f'', CHR ''n'', CHR ''r'', CHR ''t''}"

fun scan_string :: "string \<Rightarrow> (string \<times> string) option" where
  "scan_string [] = None"
| "scan_string (c # cs) =
     (if c = quote_byte then Some ([], cs)
      else if byte_of c < 32 then None
      else if c = backslash then
        (case cs of
           [] \<Rightarrow> None
         | e # es \<Rightarrow>
             if short_escape e then map_option (\<lambda>(a, r). (c # e # a, r)) (scan_string es)
             else if e = CHR ''u'' then
               (case es of
                  h1 # h2 # h3 # h4 # r' \<Rightarrow>
                    if is_hex_byte h1 \<and> is_hex_byte h2 \<and> is_hex_byte h3 \<and> is_hex_byte h4 then
                      map_option (\<lambda>(a, r). (c # e # h1 # h2 # h3 # h4 # a, r)) (scan_string r')
                    else None
                | _ \<Rightarrow> None)
             else None)
      else map_option (\<lambda>(a, r). (c # a, r)) (scan_string cs))"

definition hex_value :: "nat \<Rightarrow> nat" where
  "hex_value b = (if b \<le> 57 then b - 48 else if b \<le> 70 then b - 55 else b - 87)"

fun getu4 :: "nat list \<Rightarrow> nat option" where
  "getu4 (b # u # h1 # h2 # h3 # h4 # _) =
     (if b = 92 \<and> u = 117 \<and> list_all (\<lambda>h. is_hex_byte (char_of h)) [h1, h2, h3, h4] then
        Some (((hex_value h1 * 16 + hex_value h2) * 16 + hex_value h3) * 16 + hex_value h4)
      else None)"
| "getu4 _ = None"

definition is_surrogate :: "nat \<Rightarrow> bool" where
  "is_surrogate r \<longleftrightarrow> 55296 \<le> r \<and> r < 57344"

text \<open>\<^verbatim>\<open>utf16.DecodeRune\<close>: \<open>None\<close> stands for the replacement character.\<close>

definition decode_pair :: "nat \<Rightarrow> nat option \<Rightarrow> nat option" where
  "decode_pair r1 r2 =
     (case r2 of
        None \<Rightarrow> None
      | Some r2 \<Rightarrow>
          if 55296 \<le> r1 \<and> r1 < 56320 \<and> 56320 \<le> r2 \<and> r2 < 57344 then
            Some ((r1 - 55296) * 1024 + (r2 - 56320) + 65536)
          else None)"

definition escaped_byte :: "nat \<Rightarrow> nat" where
  "escaped_byte e = (if e = 98 then 8 else if e = 102 then 12 else if e = 110 then 10
     else if e = 114 then 13 else if e = 116 then 9 else e)"

text \<open>\<^verbatim>\<open>unquoteBytes\<close> on the raw bytes of a literal the scanner accepted.\<close>

function unquote :: "nat list \<Rightarrow> nat list" where
  "unquote [] = []"
| "unquote (b # bs) =
     (if b = 92 then
        (case bs of
           [] \<Rightarrow> []
         | e # es \<Rightarrow>
             if e = 117 then
               (case getu4 (b # bs) of
                  None \<Rightarrow> []
                | Some rr \<Rightarrow>
                    if is_surrogate rr then
                      (case decode_pair rr (getu4 (drop 4 es)) of
                         Some r \<Rightarrow> encode_rune r @ unquote (drop 10 es)
                       | None \<Rightarrow> encode_rune rune_error @ unquote (drop 4 es))
                    else encode_rune rr @ unquote (drop 4 es))
             else escaped_byte e # unquote es)
      else if b < 128 then b # unquote bs
      else encode_rune (fst (decode_rune (b # bs))) @ unquote (drop (snd (decode_rune (b # bs))) (b # bs)))"
  by pat_completeness auto
termination
proof (relation "measure length")
  fix b :: nat and bs :: "nat list"
  show "(drop (snd (decode_rune (b # bs))) (b # bs), b # bs) \<in> measure length"
    using decode_rune_width [of b bs] by (simp add: diff_less)
qed auto

definition unquote_string :: "string \<Rightarrow> string" where
  "unquote_string raw = map char_of (unquote (map byte_of raw))"

text \<open>
  Numbers: an optional sign, an integer part without leading zeros, an optional fraction and an
  optional exponent. The scanner stops at the first byte that does not continue the number.
\<close>

definition take_digits :: "string \<Rightarrow> string \<times> string" where
  "take_digits s = (takeWhile is_digit_byte s, dropWhile is_digit_byte s)"

definition scan_int :: "string \<Rightarrow> (string \<times> string) option" where
  "scan_int s =
     (case s of
        [] \<Rightarrow> None
      | c # cs \<Rightarrow>
          if c = CHR ''0'' then Some ([c], cs)
          else if is_digit_byte c then Some (take_digits s)
          else None)"

definition scan_frac :: "string \<Rightarrow> (string \<times> string) option" where
  "scan_frac s =
     (case s of
        c # cs \<Rightarrow>
          if c = CHR ''.'' then
            (case take_digits cs of (ds, r) \<Rightarrow> if ds = [] then None else Some (c # ds, r))
          else Some ([], s)
      | [] \<Rightarrow> Some ([], []))"

definition scan_exp :: "string \<Rightarrow> (string \<times> string) option" where
  "scan_exp s =
     (case s of
        c # cs \<Rightarrow>
          if c = CHR ''e'' \<or> c = CHR ''E'' then
            (let (sign, cs') = (case cs of
                   x # xs \<Rightarrow> if x = CHR ''+'' \<or> x = CHR ''-'' then ([x], xs) else ([], cs)
                 | [] \<Rightarrow> ([], []))
             in case take_digits cs' of (ds, r) \<Rightarrow> if ds = [] then None else Some (c # sign @ ds, r))
          else Some ([], s)
      | [] \<Rightarrow> Some ([], []))"

definition scan_number :: "string \<Rightarrow> (string \<times> string) option" where
  "scan_number s =
     (let (sign, s1) = (case s of
            c # cs \<Rightarrow> if c = CHR ''-'' then ([c], cs) else ([], s)
          | [] \<Rightarrow> ([], []))
      in case scan_int s1 of
           None \<Rightarrow> None
         | Some (i, s2) \<Rightarrow>
             (case scan_frac s2 of
                None \<Rightarrow> None
              | Some (f, s3) \<Rightarrow>
                  (case scan_exp s3 of
                     None \<Rightarrow> None
                   | Some (e, s4) \<Rightarrow> Some (sign @ i @ f @ e, s4))))"

section \<open>Values\<close>

datatype json =
    JNull
  | JBool bool
  | JNum string
  | JStr string
  | JArr "json list"
  | JObj "(string \<times> json) list"

definition scan_literal :: "string \<Rightarrow> string \<Rightarrow> string option" where
  "scan_literal word s = (if take (length word) s = word then Some (drop (length word) s) else None)"

text \<open>A value that is neither an object nor an array.\<close>

definition scan_scalar :: "string \<Rightarrow> (json \<times> string) option" where
  "scan_scalar s =
     (case s of
        [] \<Rightarrow> None
      | c # cs \<Rightarrow>
          if c = quote_byte then map_option (\<lambda>(raw, r). (JStr (unquote_string raw), r)) (scan_string cs)
          else if c = CHR ''t'' then map_option (\<lambda>r. (JBool True, r)) (scan_literal ''true'' s)
          else if c = CHR ''f'' then map_option (\<lambda>r. (JBool False, r)) (scan_literal ''false'' s)
          else if c = CHR ''n'' then map_option (\<lambda>r. (JNull, r)) (scan_literal ''null'' s)
          else if c = CHR ''-'' \<or> is_digit_byte c then map_option (\<lambda>(l, r). (JNum l, r)) (scan_number s)
          else None)"

text \<open>The key of a member and what follows its colon.\<close>

definition parse_key :: "string \<Rightarrow> (string \<times> string) option" where
  "parse_key s =
     (case skip_space s of
        [] \<Rightarrow> None
      | q # qs \<Rightarrow>
          if q \<noteq> quote_byte then None
          else (case scan_string qs of
                  None \<Rightarrow> None
                | Some (raw, r) \<Rightarrow>
                    (case skip_space r of
                       [] \<Rightarrow> None
                     | k # r1 \<Rightarrow> if k = CHR '':'' then Some (unquote_string raw, r1) else None)))"

text \<open>
  The grammar, by recursive descent. The counter bounds the depth of the calls: a value of a text of
  length \<open>n\<close> needs at most \<open>2 * n + 1\<close>.
\<close>

fun parse_value :: "nat \<Rightarrow> string \<Rightarrow> (json \<times> string) option"
  and parse_items :: "nat \<Rightarrow> bool \<Rightarrow> string \<Rightarrow> (json list \<times> string) option"
  and parse_members :: "nat \<Rightarrow> bool \<Rightarrow> string \<Rightarrow> ((string \<times> json) list \<times> string) option" where
  "parse_value 0 s = None"
| "parse_value (Suc n) s =
     (case skip_space s of
        [] \<Rightarrow> None
      | c # cs \<Rightarrow>
          if c = CHR ''['' then map_option (\<lambda>(vs, r). (JArr vs, r)) (parse_items n True cs)
          else if c = CHR ''{'' then map_option (\<lambda>(ms, r). (JObj ms, r)) (parse_members n True cs)
          else scan_scalar (c # cs))"
| "parse_items 0 first s = None"
| "parse_items (Suc n) first s =
     (case skip_space s of
        [] \<Rightarrow> None
      | c # cs \<Rightarrow>
          if c = CHR '']'' then Some ([], cs)
          else if \<not> first \<and> c \<noteq> CHR '','' then None
          else (case parse_value n (if first then c # cs else cs) of
                  None \<Rightarrow> None
                | Some (v, r) \<Rightarrow> map_option (\<lambda>(vs, r'). (v # vs, r')) (parse_items n False r)))"
| "parse_members 0 first s = None"
| "parse_members (Suc n) first s =
     (case skip_space s of
        [] \<Rightarrow> None
      | c # cs \<Rightarrow>
          if c = CHR ''}'' then Some ([], cs)
          else if \<not> first \<and> c \<noteq> CHR '','' then None
          else (case parse_key (if first then c # cs else cs) of
                  None \<Rightarrow> None
                | Some (name, r1) \<Rightarrow>
                    (case parse_value n r1 of
                       None \<Rightarrow> None
                     | Some (v, r2) \<Rightarrow>
                         map_option (\<lambda>(ms, r'). ((name, v) # ms, r')) (parse_members n False r2))))"

definition parse_json :: "string \<Rightarrow> json option" where
  "parse_json s =
     (case parse_value (2 * length s + 1) s of
        None \<Rightarrow> None
      | Some (v, r) \<Rightarrow> if skip_space r = [] then Some v else None)"

section \<open>The token stream\<close>

text \<open>
  \<^verbatim>\<open>json.Decoder\<close>: the bytes not yet consumed, the position inside the enclosing object or array, and
  the positions of the objects and arrays around it.
\<close>

datatype token_state =
    TopValue | ArrayStart | ArrayValue | ArrayComma
  | ObjectStart | ObjectKey | ObjectColon | ObjectValue | ObjectComma

datatype token =
    Delim char
  | TokString string
  | TokNumber string
  | TokBool bool
  | TokNull

record decoder =
  dc_rest :: string
  dc_state :: token_state
  dc_stack :: "token_state list"

definition NewDecoder :: "string \<Rightarrow> decoder" where
  "NewDecoder s = \<lparr>dc_rest = s, dc_state = TopValue, dc_stack = []\<rparr>"

definition io_EOF :: go_error where "io_EOF = ErrorString ''EOF''"
definition json_error :: go_error where "json_error = ErrorString ''invalid JSON''"

definition tokenValueAllowed :: "token_state \<Rightarrow> bool" where
  "tokenValueAllowed st \<longleftrightarrow> st \<in> {TopValue, ArrayStart, ArrayValue, ObjectValue}"

definition tokenValueEnd :: "token_state \<Rightarrow> token_state" where
  "tokenValueEnd st =
     (if st = ArrayStart \<or> st = ArrayValue then ArrayComma
      else if st = ObjectValue then ObjectComma
      else st)"

text \<open>
  A number is read into a \<^verbatim>\<open>float64\<close>; \<^verbatim>\<open>strconv.ParseFloat\<close> fails when it rounds to infinity, that is
  from half a unit above the largest finite value on. Its exponent stops growing at five digits.
\<close>

definition digits_value :: "string \<Rightarrow> nat" where
  "digits_value ds = foldl (\<lambda>n c. n * 10 + (byte_of c - 48)) 0 ds"

definition exponent_value :: "string \<Rightarrow> nat" where
  "exponent_value ds = foldl (\<lambda>e c. if e < 10000 then e * 10 + (byte_of c - 48) else e) 0 ds"

definition float_limit :: nat where
  "float_limit = 2 ^ 1024 - 2 ^ 970"

definition number_parts :: "string \<Rightarrow> string \<times> string \<times> bool \<times> string" where
  "number_parts l =
     (let s = (case l of c # cs \<Rightarrow> if c = CHR ''-'' then cs else l | [] \<Rightarrow> []);
          (i, s1) = take_digits s;
          (f, s2) = (case s1 of c # cs \<Rightarrow> if c = CHR ''.'' then take_digits cs else ([], s1) | [] \<Rightarrow> ([], []));
          s3 = (case s2 of _ # cs \<Rightarrow> cs | [] \<Rightarrow> [])
      in case s3 of
           c # cs \<Rightarrow> if c = CHR ''-'' then (i, f, True, cs) else if c = CHR ''+'' then (i, f, False, cs) else (i, f, False, s3)
         | [] \<Rightarrow> (i, f, False, []))"

definition float_finite :: "string \<Rightarrow> bool" where
  "float_finite l =
     (case number_parts l of (i, f, negative, ds) \<Rightarrow>
        let m = digits_value (i @ f); e = exponent_value ds; k = length f
        in if negative then m < float_limit * 10 ^ (k + e)
           else if k \<le> e then m * 10 ^ (e - k) < float_limit
           else m < float_limit * 10 ^ (k - e))"

text \<open>\<^verbatim>\<open>Decode\<close> of a scalar into an \<^verbatim>\<open>any\<close>.\<close>

definition decode_scalar :: "string \<Rightarrow> (token \<times> string) option" where
  "decode_scalar s =
     (case scan_scalar s of
        Some (JStr x, r) \<Rightarrow> Some (TokString x, r)
      | Some (JNum l, r) \<Rightarrow> if float_finite l then Some (TokNumber l, r) else None
      | Some (JBool b, r) \<Rightarrow> Some (TokBool b, r)
      | Some (JNull, r) \<Rightarrow> Some (TokNull, r)
      | _ \<Rightarrow> None)"

text \<open>\<^verbatim>\<open>Decoder.peek\<close>: the next byte that is not white space.\<close>

definition peek :: "decoder \<Rightarrow> decoder" where
  "peek d = d\<lparr>dc_rest := skip_space (dc_rest d)\<rparr>"

definition More :: "decoder \<Rightarrow> bool" where
  "More d = (case skip_space (dc_rest d) of [] \<Rightarrow> False | c # _ \<Rightarrow> c \<noteq> CHR '']'' \<and> c \<noteq> CHR ''}'')"

definition pop_state :: "decoder \<Rightarrow> string \<Rightarrow> decoder" where
  "pop_state d r = \<lparr>dc_rest = r, dc_state = tokenValueEnd (hd (dc_stack d)), dc_stack = tl (dc_stack d)\<rparr>"

lemma skip_space_length: "skip_space s = c # cs \<Longrightarrow> length cs < length s"
proof -
  assume "skip_space s = c # cs"
  then have "length (c # cs) \<le> length s" unfolding skip_space_def by (metis length_dropWhile_le)
  then show ?thesis by simp
qed

text \<open>
  \<^verbatim>\<open>Decoder.Token\<close>. Commas and colons are consumed on the way; the number of bytes left bounds the
  loop.
\<close>

function Token :: "decoder \<Rightarrow> token result \<times> decoder" where
  "Token d =
     (case skip_space (dc_rest d) of
        [] \<Rightarrow> (Inl io_EOF, d)
      | c # cs \<Rightarrow>
          if c = CHR ''['' then
            (if \<not> tokenValueAllowed (dc_state d) then (Inl json_error, d)
             else (Inr (Delim c), \<lparr>dc_rest = cs, dc_state = ArrayStart, dc_stack = dc_state d # dc_stack d\<rparr>))
          else if c = CHR '']'' then
            (if dc_state d \<noteq> ArrayStart \<and> dc_state d \<noteq> ArrayComma then (Inl json_error, d)
             else (Inr (Delim c), pop_state d cs))
          else if c = CHR ''{'' then
            (if \<not> tokenValueAllowed (dc_state d) then (Inl json_error, d)
             else (Inr (Delim c), \<lparr>dc_rest = cs, dc_state = ObjectStart, dc_stack = dc_state d # dc_stack d\<rparr>))
          else if c = CHR ''}'' then
            (if dc_state d \<noteq> ObjectStart \<and> dc_state d \<noteq> ObjectComma then (Inl json_error, d)
             else (Inr (Delim c), pop_state d cs))
          else if c = CHR '':'' then
            (if dc_state d \<noteq> ObjectColon then (Inl json_error, d)
             else Token (d\<lparr>dc_rest := cs, dc_state := ObjectValue\<rparr>))
          else if c = CHR '','' then
            (if dc_state d = ArrayComma then Token (d\<lparr>dc_rest := cs, dc_state := ArrayValue\<rparr>)
             else if dc_state d = ObjectComma then Token (d\<lparr>dc_rest := cs, dc_state := ObjectKey\<rparr>)
             else (Inl json_error, d))
          else if c = quote_byte \<and> (dc_state d = ObjectStart \<or> dc_state d = ObjectKey) then
            (case scan_string cs of
               None \<Rightarrow> (Inl json_error, d)
             | Some (raw, r) \<Rightarrow> (Inr (TokString (unquote_string raw)), d\<lparr>dc_rest := r, dc_state := ObjectColon\<rparr>))
          else if \<not> tokenValueAllowed (dc_state d) then (Inl json_error, d)
          else (case decode_scalar (c # cs) of
                  None \<Rightarrow> (Inl json_error, d)
                | Some (t, r) \<Rightarrow> (Inr t, d\<lparr>dc_rest := r, dc_state := tokenValueEnd (dc_state d)\<rparr>)))"
  by pat_completeness auto
termination
  by (relation "measure (\<lambda>d. length (dc_rest d))") (auto dest: skip_space_length)

declare Token.simps [simp del]

end
