(* ===== verification/Go_Http.thy ===== *)
theory Go_Http
  imports Go_Json
begin

text \<open>
  The parts of \<^verbatim>\<open>net/http\<close>, \<^verbatim>\<open>net/url\<close> and \<^verbatim>\<open>mime\<close> the HTTP code uses: headers, the response writer,
  query strings and media types. Case tables beyond ASCII stay a parameter, as in \<open>strings_ToUpper\<close>.
\<close>

section \<open>White space\<close>

definition unicode_IsSpace :: "nat \<Rightarrow> bool" where
  "unicode_IsSpace r \<longleftrightarrow> r \<in> {9, 10, 11, 12, 13, 32, 133, 160, 5760, 8232, 8233, 8239, 8287, 12288}
     \<or> 8192 \<le> r \<and> r \<le> 8202"

lemma decode_width: "(r, n) = decode_rune (b # bs) \<Longrightarrow> 0 < n"
  using decode_rune_width [of b bs] by (metis snd_conv)

function trim_left :: "nat list \<Rightarrow> nat list" where
  "trim_left [] = []"
| "trim_left (b # bs) =
     (case decode_rune (b # bs) of (r, n) \<Rightarrow>
        if unicode_IsSpace r then trim_left (drop n (b # bs)) else b # bs)"
  by pat_completeness auto
termination
  by (relation "measure length") (auto simp: diff_less dest: decode_width)

definition rune_start :: "nat \<Rightarrow> bool" where
  "rune_start b \<longleftrightarrow> \<not> cont_byte b"

text \<open>\<^verbatim>\<open>utf8.DecodeLastRune\<close>: at most four bytes back to the start of a rune.\<close>

definition decode_last :: "nat list \<Rightarrow> nat \<times> nat" where
  "decode_last bs =
     (if last bs < 128 then (last bs, 1)
      else
        let n = length bs;
            back = (case find (\<lambda>k. k \<le> n \<and> rune_start (bs ! (n - k))) [2, 3, 4] of
                      Some k \<Rightarrow> k | None \<Rightarrow> min n 5);
            (r, size) = decode_rune (drop (n - back) bs)
        in if size \<noteq> back then (rune_error, 1) else (r, size))"

function trim_right :: "nat list \<Rightarrow> nat list" where
  "trim_right bs =
     (if bs = [] then []
      else case decode_last bs of (r, n) \<Rightarrow>
        if unicode_IsSpace r then trim_right (take (length bs - max 1 n) bs) else bs)"
  by pat_completeness auto
termination
proof (relation "measure length")
  fix bs :: "nat list" and x :: "nat \<times> nat" and r n :: nat
  assume "bs \<noteq> []"
  then have "length bs - max 1 n < length bs" by (simp add: max_def)
  then show "(take (length bs - max 1 n) bs, bs) \<in> measure length" by simp
qed simp

declare trim_right.simps [simp del]

definition TrimLeft :: "string \<Rightarrow> string" where
  "TrimLeft s = map char_of (trim_left (map byte_of s))"

definition TrimSpace :: "string \<Rightarrow> string" where
  "TrimSpace s = map char_of (trim_right (trim_left (map byte_of s)))"

section \<open>Media types\<close>

definition strings_ToLower :: "(nat \<Rightarrow> nat) \<Rightarrow> string \<Rightarrow> string" where
  "strings_ToLower tab s =
     (let lower = (\<lambda>r. if 65 \<le> r \<and> r \<le> 90 then r + 32 else if r < 128 then r else tab r)
      in if list_all is_ascii_byte s then map (char_of \<circ> lower \<circ> byte_of) s
         else map char_of (concat (map (encode_rune \<circ> lower) (range_runes (map byte_of s)))))"

definition isTSpecial :: "char \<Rightarrow> bool" where
  "isTSpecial c \<longleftrightarrow> c \<in> set (''()<>@,;:/[]?='' @ [backslash, quote_byte])"

definition isTokenChar :: "char \<Rightarrow> bool" where
  "isTokenChar c \<longleftrightarrow> 32 < byte_of c \<and> byte_of c < 127 \<and> \<not> isTSpecial c"

definition consumeToken :: "string \<Rightarrow> string \<times> string" where
  "consumeToken s = (takeWhile isTokenChar s, dropWhile isTokenChar s)"

definition mediaTypeOk :: "string \<Rightarrow> bool" where
  "mediaTypeOk s =
     (case consumeToken s of (typ, rest) \<Rightarrow>
        typ \<noteq> [] \<and>
        (case rest of
           [] \<Rightarrow> True
         | c # cs \<Rightarrow> c = CHR ''/'' \<and> (case consumeToken cs of (subtype, rest') \<Rightarrow> subtype \<noteq> [] \<and> rest' = [])))"

text \<open>The rest of a quoted value after its opening quote.\<close>

fun quoted_value :: "string \<Rightarrow> (string \<times> string) option" where
  "quoted_value [] = None"
| "quoted_value (c # cs) =
     (if c = quote_byte then Some ([], cs)
      else if c = backslash \<and> cs \<noteq> [] \<and> isTSpecial (hd cs) then
        map_option (\<lambda>(a, r). (hd cs # a, r)) (quoted_value (tl cs))
      else if byte_of c = 13 \<or> byte_of c = 10 then None
      else map_option (\<lambda>(a, r). (c # a, r)) (quoted_value cs))"

definition consumeValue :: "string \<Rightarrow> string \<times> string" where
  "consumeValue v =
     (case v of
        [] \<Rightarrow> ([], [])
      | c # cs \<Rightarrow>
          if c \<noteq> quote_byte then consumeToken v
          else (case quoted_value cs of Some (a, r) \<Rightarrow> (a, r) | None \<Rightarrow> ([], v)))"

text \<open>\<^verbatim>\<open>consumeMediaParam\<close>: an empty name is a failure, and then nothing is consumed.\<close>

definition consumeMediaParam :: "(nat \<Rightarrow> nat) \<Rightarrow> string \<Rightarrow> string \<times> string \<times> string" where
  "consumeMediaParam tab v =
     (case TrimLeft v of
        c # cs \<Rightarrow>
          if c \<noteq> CHR '';'' then ([], [], v)
          else (case consumeToken (TrimLeft cs) of (param, rest) \<Rightarrow>
                  if strings_ToLower tab param = [] then ([], [], v)
                  else (case TrimLeft rest of
                          e # es \<Rightarrow>
                            if e \<noteq> CHR ''='' then ([], [], v)
                            else (case consumeValue (TrimLeft es) of (value, rest2) \<Rightarrow>
                                    if value = [] \<and> rest2 = TrimLeft es then ([], [], v)
                                    else (strings_ToLower tab param, value, rest2))
                        | [] \<Rightarrow> ([], [], v)))
      | [] \<Rightarrow> ([], [], v))"

text \<open>
  The parameters after the media type: whether they parse. \<open>seen\<close> holds names and values so far; names
  with a star live in maps of their own, one for each base name, so the same rule applies to all.
  Every parameter consumes bytes, so their number bounds the loop.
\<close>

fun media_params :: "(nat \<Rightarrow> nat) \<Rightarrow> nat \<Rightarrow> (string \<times> string) list \<Rightarrow> string \<Rightarrow> bool" where
  "media_params tab 0 seen v \<longleftrightarrow> v = []"
| "media_params tab (Suc n) seen v \<longleftrightarrow>
     (if TrimLeft v = [] then True
      else case consumeMediaParam tab (TrimLeft v) of (key, value, rest) \<Rightarrow>
        if key = [] then TrimSpace rest = '';''
        else (case map_of seen key of
                Some old \<Rightarrow> old = value \<and> media_params tab n seen rest
              | None \<Rightarrow> media_params tab n ((key, value) # seen) rest))"

definition ParseMediaType :: "(nat \<Rightarrow> nat) \<Rightarrow> string \<Rightarrow> string option" where
  "ParseMediaType tab v =
     (let base = (case strings_Cut (CHR '';'') v of Some (a, _) \<Rightarrow> a | None \<Rightarrow> v);
          mediatype = TrimSpace (strings_ToLower tab base);
          rest = drop (length base) v
      in if \<not> mediaTypeOk mediatype then None
         else if media_params tab (length rest) [] rest then Some mediatype
         else None)"

lemma ParseMediaType_json: "ParseMediaType tab ''application/json'' = Some ''application/json''"
proof -
  let ?bytes = "[97, 112, 112, 108, 105, 99, 97, 116, 105, 111, 110, 47, 106, 115, 111, 110] :: nat list"
  have low: "strings_ToLower tab ''application/json'' = ''application/json''" by code_simp
  have "map byte_of ''application/json'' = ?bytes" by (simp add: byte_of_def)
  moreover have "map char_of ?bytes = ''application/json''" by code_simp
  moreover have "trim_left ?bytes = ?bytes" by (simp add: decode_rune_ascii unicode_IsSpace_def)
  moreover have "trim_right ?bytes = ?bytes" by (simp add: trim_right.simps decode_last_def unicode_IsSpace_def)
  ultimately have trim: "TrimSpace ''application/json'' = ''application/json''" by (simp only: TrimSpace_def)
  have ok: "mediaTypeOk ''application/json''" by code_simp
  have cut: "strings_Cut (CHR '';'') ''application/json'' = None" by simp
  show ?thesis unfolding ParseMediaType_def cut option.case Let_def low trim using ok by simp
qed
section \<open>Queries\<close>

fun QueryUnescape :: "string \<Rightarrow> string option" where
  "QueryUnescape [] = Some []"
| "QueryUnescape (c # cs) =
     (if c = CHR ''%'' then
        (case cs of
           h # l # r \<Rightarrow>
             if is_hex_byte h \<and> is_hex_byte l then
               map_option (\<lambda>a. char_of (hex_value (byte_of h) * 16 + hex_value (byte_of l)) # a) (QueryUnescape r)
             else None
         | _ \<Rightarrow> None)
      else map_option (\<lambda>a. (if c = CHR ''+'' then CHR '' '' else c) # a) (QueryUnescape cs))"

fun split_on :: "char \<Rightarrow> string \<Rightarrow> string list" where
  "split_on sep [] = [[]]"
| "split_on sep (c # cs) =
     (if c = sep then [] # split_on sep cs
      else case split_on sep cs of x # xs \<Rightarrow> (c # x) # xs | [] \<Rightarrow> [[c]])"

definition query_pair :: "string \<Rightarrow> (string \<times> string) option" where
  "query_pair s =
     (if CHR '';'' \<in> set s \<or> s = [] then None
      else let (k, v) = (case strings_Cut (CHR ''='') s of Some kv \<Rightarrow> kv | None \<Rightarrow> (s, []))
           in case QueryUnescape k of
                None \<Rightarrow> None
              | Some k' \<Rightarrow> (case QueryUnescape v of None \<Rightarrow> None | Some v' \<Rightarrow> Some (k', v')))"

definition max_query_params :: nat where "max_query_params = 10000"

text \<open>\<^verbatim>\<open>URL.Query\<close>: the pairs in order; malformed ones are dropped.\<close>

definition URL_Query :: "string \<Rightarrow> (string \<times> string) list" where
  "URL_Query raw =
     (if max_query_params < length (split_on (CHR ''&'') raw) then []
      else List.map_filter query_pair (split_on (CHR ''&'') raw))"

section \<open>Requests and responses\<close>

datatype request_body = NilBody | NoBody | Body string bool

record http_request =
  hq_Method :: string
  hq_Path :: string
  hq_RawQuery :: string
  hq_Header :: "string \<Rightarrow> string list"
  hq_Body :: request_body
  hq_ContentLength :: int
  hq_Host :: string
  hq_RemoteAddr :: string
  hq_RequestURI :: string
  hq_Fragment :: string

definition Header_Get :: "http_request \<Rightarrow> string \<Rightarrow> string" where
  "Header_Get rq name = (case hq_Header rq name of [] \<Rightarrow> [] | v # _ \<Rightarrow> v)"

text \<open>
  A response under construction: the header map, what was sent of it with which status, and the body
  written so far. The first \<^verbatim>\<open>WriteHeader\<close> wins, and \<^verbatim>\<open>Write\<close> implies status 200.
\<close>

record http_response =
  hr_header :: "string \<Rightarrow> string option"
  hr_sent :: "(int \<times> (string \<Rightarrow> string option)) option"
  hr_body :: string

definition empty_response :: http_response where
  "empty_response = \<lparr>hr_header = Map.empty, hr_sent = None, hr_body = []\<rparr>"

definition Header_Set :: "string \<Rightarrow> string \<Rightarrow> http_response \<Rightarrow> http_response" where
  "Header_Set k v r = r\<lparr>hr_header := (hr_header r)(k \<mapsto> v)\<rparr>"

definition WriteHeader :: "int \<Rightarrow> http_response \<Rightarrow> http_response" where
  "WriteHeader status r = (if hr_sent r = None then r\<lparr>hr_sent := Some (status, hr_header r)\<rparr> else r)"

definition Write :: "string \<Rightarrow> http_response \<Rightarrow> http_response" where
  "Write payload r = (let r1 = WriteHeader 200 r in r1\<lparr>hr_body := hr_body r1 @ payload\<rparr>)"

section \<open>Encoding a string\<close>

definition lower_hex :: "nat \<Rightarrow> char" where
  "lower_hex n = (if n < 10 then char_of (48 + n) else char_of (87 + n))"

definition escape_byte :: "nat \<Rightarrow> string" where
  "escape_byte b =
     (if b = 92 \<or> b = 34 then [backslash, char_of b]
      else if b = 8 then [backslash, CHR ''b''] else if b = 12 then [backslash, CHR ''f'']
      else if b = 10 then [backslash, CHR ''n''] else if b = 13 then [backslash, CHR ''r'']
      else if b = 9 then [backslash, CHR ''t'']
      else if b < 32 \<or> b = 60 \<or> b = 62 \<or> b = 38 then
        [backslash, CHR ''u'', CHR ''0'', CHR ''0'', lower_hex (b div 16), lower_hex (b mod 16)]
      else [char_of b])"

text \<open>\<^verbatim>\<open>appendString\<close> with HTML escaping.\<close>

function json_escape :: "nat list \<Rightarrow> string" where
  "json_escape [] = []"
| "json_escape (b # bs) =
     (if b < 128 then escape_byte b @ json_escape bs
      else case decode_rune (b # bs) of (r, n) \<Rightarrow>
        (if r = rune_error \<and> n = 1 then [backslash] @ ''ufffd''
         else if r = 8232 \<or> r = 8233 then [backslash] @ ''u202'' @ [lower_hex (r mod 16)]
         else map char_of (take n (b # bs))) @ json_escape (drop n (b # bs)))"
  by pat_completeness auto
termination
  by (relation "measure length") (auto simp: diff_less dest: decode_width)

definition json_string :: "string \<Rightarrow> string" where
  "json_string s = [quote_byte] @ json_escape (map byte_of s) @ [quote_byte]"

end
