(* ===== verification/Http_Json.thy ===== *)
theory Http_Json
  imports Go_Json
begin

text \<open>
  The structural check of request bodies in \<^verbatim>\<open>httpapi/handler.go\<close>: one JSON object without duplicate
  keys, walked token by token. The Go code recurses without a bound; here a counter bounds the depth
  of the calls, and the number of bytes of the body is always enough for it.
\<close>

fun validateJSONObject :: "nat \<Rightarrow> string list \<Rightarrow> decoder \<Rightarrow> decoder result"
  and validateJSONValue :: "nat \<Rightarrow> decoder \<Rightarrow> token \<Rightarrow> decoder result"
  and validate_items :: "nat \<Rightarrow> decoder \<Rightarrow> decoder result" where
  "validateJSONObject 0 keys d = Inl (ErrorString ''out of fuel'')"
| "validateJSONObject (Suc n) keys d =
     (if More d then
        (case Token d of
           (Inl e, _) \<Rightarrow> Inl e
         | (Inr (TokString name), d1) \<Rightarrow>
             if name \<in> set keys then Inl (ErrorString ''duplicate JSON object key'')
             else (case Token d1 of
                     (Inl e, _) \<Rightarrow> Inl e
                   | (Inr v, d2) \<Rightarrow>
                       (case validateJSONValue n d2 v of
                          Inl e \<Rightarrow> Inl e
                        | Inr d3 \<Rightarrow> validateJSONObject n (name # keys) d3))
         | (Inr _, _) \<Rightarrow> Inl (ErrorString ''JSON object key must be a string''))
      else
        (case Token d of
           (Inr (Delim c), d1) \<Rightarrow>
             if c = CHR ''}'' then Inr d1 else Inl (ErrorString ''invalid JSON object'')
         | _ \<Rightarrow> Inl (ErrorString ''invalid JSON object'')))"
| "validateJSONValue 0 d v = Inl (ErrorString ''out of fuel'')"
| "validateJSONValue (Suc n) d v =
     (case v of
        Delim c \<Rightarrow>
          if c = CHR ''{'' then validateJSONObject n [] d
          else if c = CHR ''['' then validate_items n d
          else Inl (ErrorString ''unexpected JSON delimiter'')
      | _ \<Rightarrow> Inr d)"
| "validate_items 0 d = Inl (ErrorString ''out of fuel'')"
| "validate_items (Suc n) d =
     (if More d then
        (case Token d of
           (Inl e, _) \<Rightarrow> Inl e
         | (Inr item, d1) \<Rightarrow>
             (case validateJSONValue n d1 item of Inl e \<Rightarrow> Inl e | Inr d2 \<Rightarrow> validate_items n d2))
      else
        (case Token d of
           (Inr (Delim c), d1) \<Rightarrow>
             if c = CHR '']'' then Inr d1 else Inl (ErrorString ''invalid JSON array'')
         | _ \<Rightarrow> Inl (ErrorString ''invalid JSON array'')))"

definition validateSingleJSONObject :: "string \<Rightarrow> unit result" where
  "validateSingleJSONObject body =
     (case Token (NewDecoder body) of
        (Inr (Delim c), d) \<Rightarrow>
          if c \<noteq> CHR ''{'' then Inl (ErrorString ''top-level JSON value must be an object'')
          else (case validateJSONObject (2 * length body) [] d of
                  Inl e \<Rightarrow> Inl e
                | Inr d1 \<Rightarrow>
                    (case Token d1 of
                       (Inl e, _) \<Rightarrow>
                         if errors_Is e io_EOF then Inr ()
                         else Inl (ErrorString ''request must contain one JSON object'')
                     | (Inr _, _) \<Rightarrow> Inl (ErrorString ''request must contain one JSON object'')))
      | _ \<Rightarrow> Inl (ErrorString ''top-level JSON value must be an object''))"

section \<open>The walk accepts what the grammar generates\<close>

text \<open>The documents the check is meant to accept: no duplicate keys, and numbers a \<^verbatim>\<open>float64\<close> can hold.\<close>

fun json_ok :: "json \<Rightarrow> bool" where
  "json_ok (JNum l) \<longleftrightarrow> float_finite l"
| "json_ok (JArr vs) \<longleftrightarrow> (\<forall>v\<in>set vs. json_ok v)"
| "json_ok (JObj ms) \<longleftrightarrow> distinct (map fst ms) \<and> (\<forall>m\<in>set ms. json_ok (snd m))"
| "json_ok _ \<longleftrightarrow> True"

abbreviation dec_at :: "string \<Rightarrow> token_state \<Rightarrow> token_state list \<Rightarrow> decoder" where
  "dec_at s st K \<equiv> \<lparr>dc_rest = s, dc_state = st, dc_stack = K\<rparr>"

definition walk :: "nat \<Rightarrow> decoder \<Rightarrow> decoder result" where
  "walk n d = (case Token d of (Inl e, _) \<Rightarrow> Inl e | (Inr v, d1) \<Rightarrow> validateJSONValue n d1 v)"

lemma char_marks [simp]:
  "CHR ''['' \<noteq> quote_byte" "CHR '']'' \<noteq> quote_byte" "CHR ''{'' \<noteq> quote_byte" "CHR ''}'' \<noteq> quote_byte"
  "CHR '':'' \<noteq> quote_byte" "CHR '','' \<noteq> quote_byte"
  "quote_byte \<noteq> CHR ''[''" "quote_byte \<noteq> CHR '']''" "quote_byte \<noteq> CHR ''{''" "quote_byte \<noteq> CHR ''}''"
  "quote_byte \<noteq> CHR '':''" "quote_byte \<noteq> CHR '',''"
  by (simp_all add: quote_byte_def)

definition marks :: "char set" where
  "marks = {CHR ''['', CHR '']'', CHR ''{'', CHR ''}'', CHR '':'', CHR '',''}"

lemma scan_scalar_marks: "c \<in> marks \<Longrightarrow> scan_scalar (c # cs) = None"
  unfolding marks_def insert_iff empty_iff by (elim disjE) (simp_all add: scan_scalar_def byte_class_defs)

text \<open>What \<open>Token\<close> does, by the next byte and the state.\<close>

lemma Token_values:
  assumes "tokenValueAllowed st"
  shows "skip_space s = CHR ''['' # cs \<Longrightarrow> Token (dec_at s st K) = (Inr (Delim (CHR ''['')), dec_at cs ArrayStart (st # K))"
    and "skip_space s = CHR ''{'' # cs \<Longrightarrow> Token (dec_at s st K) = (Inr (Delim (CHR ''{'')), dec_at cs ObjectStart (st # K))"
    and "skip_space s = c # cs \<Longrightarrow> c \<notin> marks \<Longrightarrow> Token (dec_at s st K) =
      (case decode_scalar (c # cs) of None \<Rightarrow> (Inl json_error, dec_at s st K)
       | Some (t, r) \<Rightarrow> (Inr t, dec_at r (tokenValueEnd st) K))"
  using assms by (auto simp: Token.simps [of "dec_at s st K"] marks_def tokenValueAllowed_def cong: option.case_cong)

lemma Token_closes:
  "skip_space s = CHR '']'' # cs \<Longrightarrow> st = ArrayStart \<or> st = ArrayComma \<Longrightarrow>
     Token (dec_at s st (k # K)) = (Inr (Delim (CHR '']'')), dec_at cs (tokenValueEnd k) K)"
  "skip_space s = CHR ''}'' # cs \<Longrightarrow> st = ObjectStart \<or> st = ObjectComma \<Longrightarrow>
     Token (dec_at s st (k # K)) = (Inr (Delim (CHR ''}'')), dec_at cs (tokenValueEnd k) K)"
  by (auto simp: Token.simps [of "dec_at s st (k # K)"] pop_state_def)

lemma Token_separators:
  "skip_space s = CHR '':'' # cs \<Longrightarrow> Token (dec_at s ObjectColon K) = Token (dec_at cs ObjectValue K)"
  "skip_space s = CHR '','' # cs \<Longrightarrow> Token (dec_at s ArrayComma K) = Token (dec_at cs ArrayValue K)"
  "skip_space s = CHR '','' # cs \<Longrightarrow> Token (dec_at s ObjectComma K) = Token (dec_at cs ObjectKey K)"
  by (simp_all add: Token.simps [of "dec_at s _ K"])

lemma Token_key:
  "skip_space s = quote_byte # cs \<Longrightarrow> st = ObjectStart \<or> st = ObjectKey \<Longrightarrow> Token (dec_at s st K) =
     (case scan_string cs of None \<Rightarrow> (Inl json_error, dec_at s st K)
      | Some (raw, r) \<Rightarrow> (Inr (TokString (unquote_string raw)), dec_at r ObjectColon K))"
  by (auto simp: Token.simps [of "dec_at s st K"] cong: option.case_cong)

definition expected :: "token_state \<Rightarrow> char \<Rightarrow> bool" where
  "expected st c \<longleftrightarrow>
     (case st of
        ArrayComma \<Rightarrow> c = CHR '']'' \<or> c = CHR '',''
      | ObjectComma \<Rightarrow> c = CHR ''}'' \<or> c = CHR '',''
      | ObjectColon \<Rightarrow> c = CHR '':''
      | ObjectKey \<Rightarrow> c = quote_byte
      | ObjectStart \<Rightarrow> c = quote_byte \<or> c = CHR ''}''
      | ArrayStart \<Rightarrow> c \<noteq> CHR ''}'' \<and> c \<noteq> CHR '':'' \<and> c \<noteq> CHR '',''
      | _ \<Rightarrow> c \<noteq> CHR '']'' \<and> c \<noteq> CHR ''}'' \<and> c \<noteq> CHR '':'' \<and> c \<noteq> CHR '','')"

lemma Token_errors:
  "skip_space s = [] \<Longrightarrow> Token (dec_at s st K) = (Inl io_EOF, dec_at s st K)"
  "skip_space s = c # cs \<Longrightarrow> \<not> expected st c \<Longrightarrow> Token (dec_at s st K) = (Inl json_error, dec_at s st K)"
  by (simp add: Token.simps [of "dec_at s st K"])
    (cases st; auto simp: Token.simps [of "dec_at s _ K"] expected_def tokenValueAllowed_def)

lemma decode_scalar_Some:
  "decode_scalar s = Some (t, r) \<longleftrightarrow>
     (\<exists>v. scan_scalar s = Some (v, r) \<and> json_ok v \<and>
        (case v of JStr x \<Rightarrow> t = TokString x | JNum l \<Rightarrow> t = TokNumber l | JBool b \<Rightarrow> t = TokBool b
         | JNull \<Rightarrow> t = TokNull | _ \<Rightarrow> False))"
  by (auto simp: decode_scalar_def split: option.splits json.splits if_splits)

lemma scan_scalar_shape: "scan_scalar s = Some (v, r) \<Longrightarrow> \<not> (\<exists>vs. v = JArr vs) \<and> \<not> (\<exists>ms. v = JObj ms)"
  by (auto simp: scan_scalar_def split: list.splits if_splits)

lemma decode_scalar_not_Delim: "decode_scalar s \<noteq> Some (Delim c, r)"
  by (auto simp: decode_scalar_Some split: json.splits)

lemma decode_scalar_iff:
  "(\<exists>t. decode_scalar s = Some (t, r)) \<longleftrightarrow> (\<exists>v. scan_scalar s = Some (v, r) \<and> json_ok v)"
proof
  assume "\<exists>t. decode_scalar s = Some (t, r)"
  then show "\<exists>v. scan_scalar s = Some (v, r) \<and> json_ok v" unfolding decode_scalar_Some by blast
next
  assume "\<exists>v. scan_scalar s = Some (v, r) \<and> json_ok v"
  then obtain v where v: "scan_scalar s = Some (v, r)" "json_ok v" by blast
  then show "\<exists>t. decode_scalar s = Some (t, r)"
    using scan_scalar_shape [OF v(1)] by (cases v) (auto simp: decode_scalar_def)
qed

text \<open>The three walks against the three parsers, with the same counter.\<close>

definition value_agrees :: "nat \<Rightarrow> bool" where
  "value_agrees n \<longleftrightarrow> (\<forall>s st K d. tokenValueAllowed st \<longrightarrow>
     (walk n (dec_at s st K) = Inr d \<longleftrightarrow>
        (\<exists>v r. parse_value n s = Some (v, r) \<and> json_ok v \<and> d = dec_at r (tokenValueEnd st) K)))"

definition items_agree :: "nat \<Rightarrow> bool" where
  "items_agree n \<longleftrightarrow> (\<forall>s st k K d. st = ArrayStart \<or> st = ArrayComma \<longrightarrow>
     (validate_items n (dec_at s st (k # K)) = Inr d \<longleftrightarrow>
        (\<exists>vs r. parse_items n (st = ArrayStart) s = Some (vs, r) \<and> (\<forall>v\<in>set vs. json_ok v)
           \<and> d = dec_at r (tokenValueEnd k) K)))"

definition members_agree :: "nat \<Rightarrow> bool" where
  "members_agree n \<longleftrightarrow> (\<forall>s st k K d keys. st = ObjectStart \<or> st = ObjectComma \<longrightarrow>
     (validateJSONObject n keys (dec_at s st (k # K)) = Inr d \<longleftrightarrow>
        (\<exists>ms r. parse_members n (st = ObjectStart) s = Some (ms, r) \<and> (\<forall>m\<in>set ms. json_ok (snd m))
           \<and> distinct (map fst ms) \<and> set keys \<inter> fst ` set ms = {} \<and> d = dec_at r (tokenValueEnd k) K)))"

lemma More_iff: "More (dec_at s st K) \<longleftrightarrow> (\<exists>c cs. skip_space s = c # cs \<and> c \<noteq> CHR '']'' \<and> c \<noteq> CHR ''}'')"
  by (auto simp: More_def split: list.splits)

lemma value_step:
  assumes "items_agree n" and "members_agree n"
  shows "value_agrees (Suc n)"
  unfolding value_agrees_def
proof (intro allI impI)
  fix s st K d
  assume st: "tokenValueAllowed st"
  show "walk (Suc n) (dec_at s st K) = Inr d \<longleftrightarrow>
        (\<exists>v r. parse_value (Suc n) s = Some (v, r) \<and> json_ok v \<and> d = dec_at r (tokenValueEnd st) K)"
  proof (cases "skip_space s")
    case Nil
    then show ?thesis by (simp add: walk_def Token_errors(1))
  next
    case (Cons c cs)
    consider (arr) "c = CHR ''[''" | (obj) "c = CHR ''{''" | (mark) "c \<in> marks" "c \<noteq> CHR ''[''" "c \<noteq> CHR ''{''"
      | (scalar) "c \<notin> marks" by blast
    then show ?thesis
    proof cases
      case arr
      with Cons have t: "Token (dec_at s st K) = (Inr (Delim (CHR ''['')), dec_at cs ArrayStart (st # K))"
        using Token_values(1) [OF st] by simp
      have "validate_items n (dec_at cs ArrayStart (st # K)) = Inr d \<longleftrightarrow>
          (\<exists>vs r. parse_items n True cs = Some (vs, r) \<and> (\<forall>v\<in>set vs. json_ok v) \<and> d = dec_at r (tokenValueEnd st) K)"
        using assms(1) unfolding items_agree_def by simp
      with t Cons arr show ?thesis by (auto simp: walk_def)
    next
      case obj
      with Cons have t: "Token (dec_at s st K) = (Inr (Delim (CHR ''{'')), dec_at cs ObjectStart (st # K))"
        using Token_values(2) [OF st] by simp
      have "validateJSONObject n [] (dec_at cs ObjectStart (st # K)) = Inr d \<longleftrightarrow>
          (\<exists>ms r. parse_members n True cs = Some (ms, r) \<and> (\<forall>m\<in>set ms. json_ok (snd m)) \<and> distinct (map fst ms)
             \<and> d = dec_at r (tokenValueEnd st) K)"
        using assms(2) unfolding members_agree_def by simp
      with t Cons obj show ?thesis by (auto simp: walk_def)
    next
      case mark
      have "parse_value (Suc n) s = None" using Cons mark scan_scalar_marks by simp
      moreover have "walk (Suc n) (dec_at s st K) \<noteq> Inr d"
      proof (cases "expected st c")
        case False
        then show ?thesis using Token_errors(2) [OF Cons] by (simp add: walk_def)
      next
        case True
        then have "st = ArrayStart" "c = CHR '']''"
          using mark st by (auto simp: expected_def marks_def tokenValueAllowed_def split: token_state.splits)
        with Cons show ?thesis
          by (simp add: walk_def Token.simps [of "dec_at s _ K"])
      qed
      ultimately show ?thesis by simp
    next
      case scalar
      then have c: "c \<noteq> CHR ''[''" "c \<noteq> CHR ''{''" by (auto simp: marks_def)
      have "walk (Suc n) (dec_at s st K) = Inr d \<longleftrightarrow>
          (\<exists>t r. decode_scalar (c # cs) = Some (t, r) \<and> d = dec_at r (tokenValueEnd st) K)"
        using Token_values(3) [OF st Cons scalar] decode_scalar_not_Delim
        by (auto simp: walk_def split: option.splits token.splits)
      also have "\<dots> \<longleftrightarrow> (\<exists>v r. scan_scalar (c # cs) = Some (v, r) \<and> json_ok v \<and> d = dec_at r (tokenValueEnd st) K)"
        using decode_scalar_iff by blast
      finally show ?thesis using Cons c by simp
    qed
  qed
qed

lemma items_step:
  assumes val: "value_agrees n" and items: "items_agree n"
  shows "items_agree (Suc n)"
  unfolding items_agree_def
proof (intro allI impI)
  fix s st k K d
  assume st: "st = ArrayStart \<or> st = ArrayComma"
  let ?first = "st = ArrayStart"
  show "validate_items (Suc n) (dec_at s st (k # K)) = Inr d \<longleftrightarrow>
        (\<exists>vs r. parse_items (Suc n) ?first s = Some (vs, r) \<and> (\<forall>v\<in>set vs. json_ok v) \<and> d = dec_at r (tokenValueEnd k) K)"
  proof (cases "skip_space s")
    case Nil
    then show ?thesis by (simp add: More_iff Token_errors(1))
  next
    case (Cons c cs)
    consider (close) "c = CHR '']''" | (wrong) "c \<noteq> CHR '']''" "c = CHR ''}'' \<or> \<not> ?first \<and> c \<noteq> CHR '',''"
      | (item) "c \<noteq> CHR '']''" "c \<noteq> CHR ''}''" "?first \<or> c = CHR '',''" by blast
    then show ?thesis
    proof cases
      case close
      with Cons st have "Token (dec_at s st (k # K)) = (Inr (Delim (CHR '']'')), dec_at cs (tokenValueEnd k) K)"
        using Token_closes(1) by blast
      with Cons close show ?thesis by (auto simp: More_iff)
    next
      case wrong
      have "\<not> expected st c" using wrong st by (auto simp: expected_def)
      then have t: "Token (dec_at s st (k # K)) = (Inl json_error, dec_at s st (k # K))" using Token_errors(2) [OF Cons] by simp
      have "parse_items (Suc n) ?first s = None"
      proof (cases n)
        case (Suc m)
        have "scan_scalar (CHR ''}'' # cs) = None" by (simp add: scan_scalar_marks marks_def)
        with Cons wrong Suc show ?thesis by (auto simp: skip_space_def json_space_def byte_of_def)
      qed (use Cons wrong in auto)
      with t show ?thesis by simp
    next
      case item
      define s' where "s' = (if ?first then c # cs else cs)"
      define st' where "st' = (if ?first then ArrayStart else ArrayValue)"
      have st': "tokenValueAllowed st'" "tokenValueEnd st' = ArrayComma" by (simp_all add: st'_def tokenValueAllowed_def tokenValueEnd_def)
      have skip: "skip_space s = skip_space (c # cs)" unfolding Cons using Cons by (metis dropWhile_idem skip_space_def)
      have tok: "Token (dec_at s st (k # K)) = Token (dec_at s' st' (k # K))" if "\<not> ?first"
        using that st Cons item Token_separators(2) [of s cs "k # K"] by (simp add: s'_def st'_def)
      have walk_eq: "walk n (dec_at s st (k # K)) = Inr d' \<longleftrightarrow>
          (\<exists>v r. parse_value n s' = Some (v, r) \<and> json_ok v \<and> d' = dec_at r ArrayComma (k # K))" for d'
      proof (cases ?first)
        case True
        have "parse_value n s = parse_value n s'"
        proof (cases n)
          case (Suc m)
          with True skip show ?thesis by (simp add: s'_def)
        qed simp
        with True val st' show ?thesis unfolding value_agrees_def st'_def by simp
      next
        case False
        then have "walk n (dec_at s st (k # K)) = walk n (dec_at s' st' (k # K))" by (simp add: walk_def tok)
        with val st' show ?thesis unfolding value_agrees_def by simp
      qed
      have "More (dec_at s st (k # K))" using Cons item by (simp add: More_iff)
      then have "validate_items (Suc n) (dec_at s st (k # K)) = Inr d \<longleftrightarrow>
          (\<exists>d'. walk n (dec_at s st (k # K)) = Inr d' \<and> validate_items n d' = Inr d)"
        by (auto simp: walk_def split: prod.splits sum.splits)
      also have "\<dots> \<longleftrightarrow> (\<exists>v r. parse_value n s' = Some (v, r) \<and> json_ok v
          \<and> validate_items n (dec_at r ArrayComma (k # K)) = Inr d)" unfolding walk_eq by blast
      also have "\<dots> \<longleftrightarrow> (\<exists>v r vs r'. parse_value n s' = Some (v, r) \<and> json_ok v
          \<and> parse_items n False r = Some (vs, r') \<and> (\<forall>v\<in>set vs. json_ok v) \<and> d = dec_at r' (tokenValueEnd k) K)"
        using items unfolding items_agree_def by simp
      also have "\<dots> \<longleftrightarrow> (\<exists>vs r. parse_items (Suc n) ?first s = Some (vs, r) \<and> (\<forall>v\<in>set vs. json_ok v)
          \<and> d = dec_at r (tokenValueEnd k) K)"
        using Cons item by (auto simp: s'_def split: option.splits)
      finally show ?thesis .
    qed
  qed
qed

definition fails :: "token result \<times> decoder \<Rightarrow> bool" where
  "fails t \<longleftrightarrow> \<not> is_ok (fst t)"

lemma Token_fails: "skip_space s = c # cs \<Longrightarrow> \<not> expected st c \<Longrightarrow> fails (Token (dec_at s st K))"
  "skip_space s = [] \<Longrightarrow> fails (Token (dec_at s st K))"
  by (simp_all add: Token_errors fails_def)

lemma key_tokens:
  assumes "st = ObjectStart \<or> st = ObjectKey" and "parse_key s = Some (name, r1)"
  obtains r where "Token (dec_at s st K) = (Inr (TokString name), dec_at r ObjectColon K)"
    "Token (dec_at r ObjectColon K) = Token (dec_at r1 ObjectValue K)"
proof -
  obtain qs raw r where q: "skip_space s = quote_byte # qs" "scan_string qs = Some (raw, r)"
      "skip_space r = CHR '':'' # r1" "name = unquote_string raw"
    using assms(2) by (auto simp: parse_key_def split: list.splits if_splits option.splits)
  then show thesis
    using that [of r] Token_key [OF q(1) assms(1)] Token_separators(1) [OF q(3)] by simp
qed

lemma no_key_tokens:
  assumes st: "st = ObjectStart \<or> st = ObjectKey" and "parse_key s = None" and "\<And>cs. skip_space s \<noteq> CHR ''}'' # cs"
  shows "fails (Token (dec_at s st K))
    \<or> (\<exists>name d. Token (dec_at s st K) = (Inr (TokString name), d) \<and> fails (Token d))"
proof (cases "\<exists>qs. skip_space s = quote_byte # qs")
  case False
  show ?thesis
  proof (cases "skip_space s")
    case (Cons c cs)
    then have "c \<noteq> CHR ''}''" using assms(3) by blast
    with Cons False st have "\<not> expected st c" by (auto simp: expected_def)
    with Cons show ?thesis using Token_fails(1) by blast
  qed (simp add: Token_fails(2))
next
  case True
  then obtain qs where q: "skip_space s = quote_byte # qs" by blast
  show ?thesis
  proof (cases "scan_string qs")
    case None
    then show ?thesis using Token_key [OF q st] by (simp add: fails_def)
  next
    case (Some x)
    obtain raw r where x: "x = (raw, r)" by force
    have "fails (Token (dec_at r ObjectColon K))"
      using assms(2) q Some x Token_fails
      by (cases "skip_space r") (auto simp: parse_key_def expected_def split: if_splits)
    then show ?thesis using Token_key [OF q st, of K] Some x by simp
  qed
qed

lemma member_iff:
  assumes st: "st = ObjectStart \<or> st = ObjectKey" and no: "\<And>cs. skip_space s \<noteq> CHR ''}'' # cs"
    and tok: "Token d0 = Token (dec_at s st K)" and more: "More d0"
  shows "validateJSONObject (Suc n) keys d0 = Inr d \<longleftrightarrow>
    (\<exists>name r1 d'. parse_key s = Some (name, r1) \<and> name \<notin> set keys \<and> walk n (dec_at r1 ObjectValue K) = Inr d'
       \<and> validateJSONObject n (name # keys) d' = Inr d)"
proof (cases "parse_key s")
  case None
  have "validateJSONObject (Suc n) keys d0 \<noteq> Inr d"
    using no_key_tokens [OF st None no, of K] more
    by (auto simp: tok fails_def split: sum.splits prod.splits token.splits)
  with None show ?thesis by simp
next
  case (Some x)
  obtain name r1 where x: "x = (name, r1)" by force
  with Some have key: "parse_key s = Some (name, r1)" by simp
  obtain r where r: "Token (dec_at s st K) = (Inr (TokString name), dec_at r ObjectColon K)"
      "Token (dec_at r ObjectColon K) = Token (dec_at r1 ObjectValue K)"
    by (rule key_tokens [OF st key])
  show ?thesis
    using more by (auto simp: tok r key walk_def split: prod.splits sum.splits)
qed

lemma members_step:
  assumes val: "value_agrees n" and members: "members_agree n"
  shows "members_agree (Suc n)"
  unfolding members_agree_def
proof (intro allI impI)
  fix s st k K d keys
  assume st: "st = ObjectStart \<or> st = ObjectComma"
  let ?first = "st = ObjectStart"
  let ?ok = "\<lambda>ms keys. (\<forall>m\<in>set ms. json_ok (snd m)) \<and> distinct (map fst ms) \<and> set keys \<inter> fst ` set ms = {}"
  show "validateJSONObject (Suc n) keys (dec_at s st (k # K)) = Inr d \<longleftrightarrow>
        (\<exists>ms r. parse_members (Suc n) ?first s = Some (ms, r) \<and> (\<forall>m\<in>set ms. json_ok (snd m))
           \<and> distinct (map fst ms) \<and> set keys \<inter> fst ` set ms = {} \<and> d = dec_at r (tokenValueEnd k) K)"
  proof (cases "skip_space s")
    case Nil
    then show ?thesis by (simp add: More_iff Token_errors(1))
  next
    case (Cons c cs)
    have skip: "skip_space (c # cs) = c # cs" using Cons by (metis dropWhile_idem skip_space_def)
    consider (close) "c = CHR ''}''" | (wrong) "c \<noteq> CHR ''}''" "c = CHR '']'' \<or> \<not> ?first \<and> c \<noteq> CHR '',''"
      | (member) "c \<noteq> CHR ''}''" "c \<noteq> CHR '']''" "?first \<or> c = CHR '',''" by blast
    then show ?thesis
    proof cases
      case close
      with Cons st have "Token (dec_at s st (k # K)) = (Inr (Delim (CHR ''}'')), dec_at cs (tokenValueEnd k) K)"
        using Token_closes(2) by blast
      with Cons close show ?thesis by (auto simp: More_iff)
    next
      case wrong
      have "\<not> expected st c" using wrong st by (auto simp: expected_def)
      then have t: "Token (dec_at s st (k # K)) = (Inl json_error, dec_at s st (k # K))" using Token_errors(2) [OF Cons] by simp
      have "parse_members (Suc n) ?first s = None"
        using Cons wrong skip by (auto simp: parse_key_def)
      with t show ?thesis by simp
    next
      case member
      define s' where "s' = (if ?first then s else cs)"
      define st' where "st' = (if ?first then ObjectStart else ObjectKey)"
      have st': "st' = ObjectStart \<or> st' = ObjectKey" by (simp add: st'_def)
      have key: "parse_key (if ?first then c # cs else cs) = parse_key s'"
        using Cons skip by (simp add: s'_def parse_key_def)
      have tok: "Token (dec_at s st (k # K)) = Token (dec_at s' st' (k # K))"
        using st Cons member Token_separators(3) [of s cs "k # K"] by (auto simp: s'_def st'_def)
      have more: "More (dec_at s st (k # K))" using Cons member by (simp add: More_iff)
      show ?thesis
      proof (cases "\<exists>cs'. skip_space s' = CHR ''}'' # cs'")
        case True
        then have "\<not> ?first" using Cons member by (auto simp: s'_def)
        moreover from this True have "fails (Token (dec_at s' st' (k # K)))"
          using Token_fails(1) [of s' "CHR ''}''"] by (auto simp: st'_def expected_def)
        moreover have "parse_key s' = None" using True by (auto simp: parse_key_def)
        ultimately show ?thesis
          using Cons member more key by (auto simp: tok fails_def split: sum.splits prod.splits)
      next
        case False
        then have no: "\<And>cs'. skip_space s' \<noteq> CHR ''}'' # cs'" by blast
        have "validateJSONObject (Suc n) keys (dec_at s st (k # K)) = Inr d \<longleftrightarrow>
            (\<exists>name r1 v r2. parse_key s' = Some (name, r1) \<and> name \<notin> set keys \<and> parse_value n r1 = Some (v, r2) \<and> json_ok v
              \<and> validateJSONObject n (name # keys) (dec_at r2 ObjectComma (k # K)) = Inr d)"
          unfolding member_iff [OF st' no tok more]
          using val unfolding value_agrees_def by (auto simp: tokenValueAllowed_def tokenValueEnd_def)
        also have "\<dots> \<longleftrightarrow> (\<exists>name r1 v r2 ms r'. parse_key s' = Some (name, r1) \<and> name \<notin> set keys
              \<and> parse_value n r1 = Some (v, r2) \<and> json_ok v
              \<and> parse_members n False r2 = Some (ms, r') \<and> ?ok ms (name # keys) \<and> d = dec_at r' (tokenValueEnd k) K)"
          using members unfolding members_agree_def by simp
        also have "\<dots> \<longleftrightarrow> (\<exists>ms r. parse_members (Suc n) ?first s = Some (ms, r) \<and> ?ok ms keys \<and> d = dec_at r (tokenValueEnd k) K)"
          using Cons member key by (auto simp: image_iff split: option.splits)
        finally show ?thesis by simp
      qed
    qed
  qed
qed

lemma walks_agree: "value_agrees n \<and> items_agree n \<and> members_agree n"
proof (induction n)
  case 0
  have "walk 0 (dec_at s st K) \<noteq> Inr d" for s st K d
    by (auto simp: walk_def split: prod.splits sum.splits)
  then show ?case by (simp add: value_agrees_def items_agree_def members_agree_def)
next
  case (Suc n)
  then show ?case using value_step items_step members_step by blast
qed

section \<open>The counter is large enough\<close>

lemma scan_string_length: "scan_string s = Some (raw, r) \<Longrightarrow> length r < length s"
  by (induction s arbitrary: raw r rule: scan_string.induct)
    (fastforce split: if_splits list.splits option.splits)+

lemma skip_space_le: "length (skip_space s) \<le> length s"
  by (simp add: skip_space_def length_dropWhile_le)

lemma take_digits_length: "length (snd (take_digits s)) \<le> length s"
  by (simp add: take_digits_def length_dropWhile_le)

lemma scan_exp_length: "scan_exp s = Some (e, r) \<Longrightarrow> length r \<le> length s"
  by (auto simp: scan_exp_def take_digits_def Let_def split: list.splits if_splits prod.splits
      intro: le_SucI length_dropWhile_le)

lemma scan_number_length:
  assumes "scan_number s = Some (l, r)"
  shows "length r < length s"
proof -
  obtain sign s1 where s1: "(case s of c # cs \<Rightarrow> if c = CHR ''-'' then ([c], cs) else ([], s) | [] \<Rightarrow> ([], [])) = (sign, s1)"
    by force
  then have le: "length s1 \<le> length s" by (auto split: list.splits if_splits)
  obtain i s2 where s2: "scan_int s1 = Some (i, s2)"
    using assms s1 by (auto simp: scan_number_def split: option.splits)
  obtain f s3 where s3: "scan_frac s2 = Some (f, s3)"
    using assms s1 s2 by (auto simp: scan_number_def split: option.splits)
  obtain e where e: "scan_exp s3 = Some (e, r)"
    using assms s1 s2 s3 by (auto simp: scan_number_def split: option.splits)
  have "length s2 < length s1"
    using s2 take_digits_length [of "tl s1"]
    by (auto simp: scan_int_def take_digits_def split: list.splits if_splits intro: le_imp_less_Suc length_dropWhile_le)
  moreover have "length s3 \<le> length s2"
    using s3 by (auto simp: scan_frac_def take_digits_def split: list.splits if_splits
        intro: le_SucI length_dropWhile_le)
  moreover note scan_exp_length [OF e]
  ultimately show ?thesis using le by linarith
qed

lemma scan_scalar_length: "scan_scalar s = Some (v, r) \<Longrightarrow> length r < length s"
  using scan_number_length [of s]
  by (auto simp: scan_scalar_def scan_literal_def split: list.splits if_splits dest: scan_string_length)

lemma parse_key_length: "parse_key s = Some (name, r) \<Longrightarrow> length r < length s"
  using skip_space_le [of s]
  by (auto simp: parse_key_def split: list.splits if_splits option.splits dest!: scan_string_length skip_space_length)

lemma skip_space_Cons: "skip_space s = c # cs \<Longrightarrow> length (c # cs) \<le> length s"
  using skip_space_le [of s] by simp

lemma parse_shrinks:
  shows "parse_value n s = Some (v, r) \<Longrightarrow> length r < length s"
    and "parse_items n first s = Some (vs, r) \<Longrightarrow> length r < length s"
    and "parse_members n first s = Some (ms, r) \<Longrightarrow> length r < length s"
proof (induction n s and n first s and n first s arbitrary: v r and vs r and ms r
    rule: parse_value_parse_items_parse_members.induct)
  case (2 n s)
  then show ?case
    by (cases "skip_space s") (fastforce split: if_splits dest: skip_space_Cons scan_scalar_length)+
next
  case (4 n first s)
  obtain c cs where c: "skip_space s = c # cs" using 4(3) by (cases "skip_space s") auto
  show ?case
  proof (cases "c = CHR '']''")
    case True
    with 4(3) c show ?thesis by (auto dest: skip_space_Cons)
  next
    case False
    with 4(3) c obtain v r1 vs' where p: "parse_value n (if first then c # cs else cs) = Some (v, r1)"
        "parse_items n False r1 = Some (vs', r)" and g: "\<not> (\<not> first \<and> c \<noteq> CHR '','')"
      by (auto split: if_splits option.splits)
    have "length r1 < length (if first then c # cs else cs)" using 4(1) [OF c False g p(1)] .
    moreover have "length r < length r1" using 4(2) [OF c False g p(1) _ p(2)] by simp
    ultimately show ?thesis using skip_space_Cons [OF c] by (auto split: if_splits)
  qed
next
  case (6 n first s)
  obtain c cs where c: "skip_space s = c # cs" using 6(3) by (cases "skip_space s") auto
  show ?case
  proof (cases "c = CHR ''}''")
    case True
    with 6(3) c show ?thesis by (auto dest: skip_space_Cons)
  next
    case False
    with 6(3) c obtain name r1 v r2 ms' where p: "parse_key (if first then c # cs else cs) = Some (name, r1)"
        "parse_value n r1 = Some (v, r2)" "parse_members n False r2 = Some (ms', r)" and g: "\<not> (\<not> first \<and> c \<noteq> CHR '','')"
      by (auto split: if_splits option.splits)
    have "length r2 < length r1" using 6(1) [OF c False g p(1) _ p(2)] by simp
    moreover have "length r < length r2" using 6(2) [OF c False g p(1) _ p(2) _ p(3)] by simp
    ultimately show ?thesis using skip_space_Cons [OF c] parse_key_length [OF p(1)] by (auto split: if_splits)
  qed
qed simp_all

lemma parse_fuel:
  "(\<forall>m s. 2 * length s < n \<longrightarrow> 2 * length s < m \<longrightarrow> parse_value n s = parse_value m s)
   \<and> (\<forall>m s b. 2 * length s + 1 < n \<longrightarrow> 2 * length s + 1 < m \<longrightarrow> parse_items n b s = parse_items m b s)
   \<and> (\<forall>m s b. 2 * length s + 1 < n \<longrightarrow> 2 * length s + 1 < m \<longrightarrow> parse_members n b s = parse_members m b s)"
proof (induction n)
  case (Suc n)
  have v: "parse_value n s = parse_value m s" if "2 * length s < n" "2 * length s < m" for m s using Suc that by blast
  have i: "parse_items n b s = parse_items m b s" if "2 * length s + 1 < n" "2 * length s + 1 < m" for m s b using Suc that by blast
  have o: "parse_members n b s = parse_members m b s" if "2 * length s + 1 < n" "2 * length s + 1 < m" for m s b using Suc that by blast
  have "parse_value (Suc n) s = parse_value m s" if "2 * length s < Suc n" "2 * length s < m" for m s
  proof (cases m)
    case (Suc m')
    show ?thesis
    proof (cases "skip_space s")
      case (Cons c cs)
      have l: "length cs < length s" using skip_space_length [OF Cons] .
      have "parse_items n True cs = parse_items m' True cs" "parse_members n True cs = parse_members m' True cs"
        by (rule i o; use l that Suc in simp)+
      with Cons Suc show ?thesis by simp
    qed (simp add: Suc)
  qed (use that in simp)
  moreover have "parse_items (Suc n) b s = parse_items m b s" if "2 * length s + 1 < Suc n" "2 * length s + 1 < m" for m s b
  proof (cases m)
    case (Suc m')
    show ?thesis
    proof (cases "skip_space s")
      case (Cons c cs)
      note l = skip_space_Cons [OF Cons]
      have "parse_value n (if b then c # cs else cs) = parse_value m' (if b then c # cs else cs)"
        by (rule v) (use l that Suc in auto)
      moreover have "parse_items n False r = parse_items m' False r" if "parse_value m' (if b then c # cs else cs) = Some (x, r)" for x r
        by (rule i; use parse_shrinks(1) [OF that] l \<open>2 * length s + 1 < Suc n\<close> \<open>2 * length s + 1 < m\<close> Suc in \<open>auto split: if_splits\<close>)
      ultimately show ?thesis using Cons Suc by (auto split: option.splits)
    qed (simp add: Suc)
  qed (use that in simp)
  moreover have "parse_members (Suc n) b s = parse_members m b s" if "2 * length s + 1 < Suc n" "2 * length s + 1 < m" for m s b
  proof (cases m)
    case (Suc m')
    show ?thesis
    proof (cases "skip_space s")
      case (Cons c cs)
      note l = skip_space_Cons [OF Cons]
      have k: "length r < length s" if "parse_key (if b then c # cs else cs) = Some (name, r)" for name r
        using parse_key_length [OF that] l by (auto split: if_splits)
      have "parse_value n r = parse_value m' r" if "parse_key (if b then c # cs else cs) = Some (name, r)" for name r
        by (rule v; use k [OF that] \<open>2 * length s + 1 < Suc n\<close> \<open>2 * length s + 1 < m\<close> Suc in simp)
      moreover have "parse_members n False r' = parse_members m' False r'"
        if "parse_key (if b then c # cs else cs) = Some (name, r)" "parse_value m' r = Some (x, r')" for name r x r'
        by (rule o; use k [OF that(1)] parse_shrinks(1) [OF that(2)] \<open>2 * length s + 1 < Suc n\<close> \<open>2 * length s + 1 < m\<close> Suc in simp)
      ultimately show ?thesis using Cons Suc by (auto split: option.splits)
    qed (simp add: Suc)
  qed (use that in simp)
  ultimately show ?case by blast
qed simp

end
