(* ===== verification/Http_Api.thy ===== *)
theory Http_Api
  imports Go_Http Http_Json Rpc_Api
begin

text \<open>
  Package \<^verbatim>\<open>httpapi\<close> and the generated gateway registration. grpc-gateway, protojson and the
  OpenTelemetry handler are parameters. A handler runs on the response under construction and the
  world; \<open>True\<close> beside its result means that it panicked. Log records go to \<open>metrics\<close>.
\<close>

type_synonym http_state = "http_response \<times> world"
type_synonym http_run = "http_state \<Rightarrow> (bool \<times> http_state) option"
type_synonym handler = "http_request \<Rightarrow> http_run"

definition log_http :: "string \<Rightarrow> string list \<Rightarrow> world \<Rightarrow> world" where
  "log_http event attrs w = snd (metric_m event attrs w)"

definition MethodGet :: string where "MethodGet = ''GET''"
definition MethodPost :: string where "MethodPost = ''POST''"
definition MethodHead :: string where "MethodHead = ''HEAD''"

section \<open>Writers\<close>

text \<open>\<^verbatim>\<open>secureResponseWriter\<close> completes the content type before anything is sent.\<close>

datatype writer = Plain | Secure

definition complete_type :: "http_response \<Rightarrow> http_response" where
  "complete_type r =
     (if hr_header r ''Content-Type'' = Some ''application/json'' then
        Header_Set ''Content-Type'' ''application/json; charset=utf-8'' r
      else r)"

definition write_header :: "writer \<Rightarrow> int \<Rightarrow> http_response \<Rightarrow> http_response" where
  "write_header wr status r = (case wr of Plain \<Rightarrow> WriteHeader status r | Secure \<Rightarrow> WriteHeader status (complete_type r))"

definition write_body :: "writer \<Rightarrow> string \<Rightarrow> http_response \<Rightarrow> http_response" where
  "write_body wr payload r = (case wr of Plain \<Rightarrow> Write payload r | Secure \<Rightarrow> Write payload (complete_type r))"

section \<open>Errors\<close>

text \<open>\<^verbatim>\<open>json.NewEncoder(...).Encode(&Error{...})\<close>; the field is tagged \<^verbatim>\<open>omitempty\<close>.\<close>

definition encode_error :: "string \<Rightarrow> string" where
  "encode_error message =
     (if message = [] then ''{}''
      else ''{'' @ json_string ''error'' @ '':'' @ json_string message @ ''}'') @ [char_of (10 :: nat)]"

definition writeRESTError :: "writer \<Rightarrow> int \<Rightarrow> string \<Rightarrow> http_response \<Rightarrow> http_response" where
  "writeRESTError wr httpStatus message r =
     write_body wr (encode_error message)
       (write_header wr httpStatus (Header_Set ''Content-Type'' ''application/json; charset=utf-8'' r))"

text \<open>Whole seconds, rounded up; Go's division truncates.\<close>

definition retry_seconds_header :: "int \<Rightarrow> int" where
  "retry_seconds_header delay =
     (let q = (if 0 \<le> delay then delay div ns_second else - ((- delay) div ns_second))
      in if delay mod ns_second \<noteq> 0 then q + 1 else q)"

definition writeStatusError :: "(code \<Rightarrow> int) \<Rightarrow> writer \<Rightarrow> grpc_status \<Rightarrow> http_response \<Rightarrow> http_response" where
  "writeStatusError httpStatus wr st r =
     (let r1 = (case gs_retry st of
                  None \<Rightarrow> r
                | Some delay \<Rightarrow>
                    (let seconds = retry_seconds_header delay
                     in if 0 < seconds then Header_Set ''Retry-After'' (append_int seconds 1) r else r))
      in writeRESTError wr (httpStatus (gs_code st)) (gs_message st) r1)"

text \<open>\<^verbatim>\<open>status.Convert\<close>: an error that is no status has code \<open>Unknown\<close> and its own text.\<close>

definition status_Convert :: "(go_error \<Rightarrow> string) \<Rightarrow> rpc_error \<Rightarrow> grpc_status" where
  "status_Convert driver e =
     (case e of StatusError st \<Rightarrow> st | StreamError err \<Rightarrow> status_Error Unknown (Error_text driver err))"

section \<open>Middleware\<close>

definition logRejectedInput :: "http_request \<Rightarrow> string \<Rightarrow> world \<Rightarrow> world" where
  "logRejectedInput rq reason = log_http ''security.input_validation'' [hq_Method rq, hq_Path rq, reason]"

definition reject :: "http_request \<Rightarrow> string \<Rightarrow> int \<Rightarrow> string \<Rightarrow> http_run" where
  "reject rq reason httpStatus message = (\<lambda>(r, w).
     Some (False, writeRESTError Secure httpStatus message r, logRejectedInput rq reason w))"

definition max_request_bytes :: nat where "max_request_bytes = 64 * 1024"

definition strings_EqualFold_ascii :: "string \<Rightarrow> string \<Rightarrow> bool" where
  "strings_EqualFold_ascii a b \<longleftrightarrow> map ascii_upper a = map ascii_upper b"

definition requireSingleJSONDocument :: "(nat \<Rightarrow> nat) \<Rightarrow> handler \<Rightarrow> handler" where
  "requireSingleJSONDocument tab next rq s =
     (if hq_Body rq = NilBody \<or> hq_Method rq = MethodGet \<or> hq_Method rq = MethodHead then next rq s
      else
        case ParseMediaType tab (Header_Get rq ''Content-Type'') of
          None \<Rightarrow> reject rq ''unsupported_media_type'' 415 ''Content-Type must be application/json'' s
        | Some mediaType \<Rightarrow>
            if \<not> strings_EqualFold_ascii mediaType ''application/json'' then
              reject rq ''unsupported_media_type'' 415 ''Content-Type must be application/json'' s
            else
              (let (content, readable) = (case hq_Body rq of Body b ok \<Rightarrow> (b, ok) | _ \<Rightarrow> ([], True))
               in if \<not> readable \<or> max_request_bytes < length content then
                    reject rq ''request_too_large'' 413 ''JSON request exceeds 65536 bytes'' s
                  else if TrimSpace content = [] then next (rq\<lparr>hq_Body := Body content True\<rparr>) s
                  else (case validateSingleJSONObject content of
                          Inl _ \<Rightarrow> reject rq ''invalid_json_structure'' 400 ''invalid JSON request'' s
                        | Inr _ \<Rightarrow> next (rq\<lparr>hq_Body := Body content True\<rparr>) s)))"

definition securityHeaders :: "handler \<Rightarrow> handler" where
  "securityHeaders next rq = (\<lambda>(r, w).
     next rq (Header_Set ''X-Content-Type-Options'' ''nosniff'' (Header_Set ''Cache-Control'' ''no-store'' r), w))"

definition recoverPanics :: "handler \<Rightarrow> handler" where
  "recoverPanics next rq s =
     (case next rq s of
        None \<Rightarrow> None
      | Some (panicked, r, w) \<Rightarrow>
          if panicked then
            Some (False, writeRESTError Plain 500 ''internal server error'' r,
              log_http ''recovered HTTP panic'' [hq_Method rq, hq_Path rq] w)
          else Some (False, r, w))"

section \<open>Telemetry of requests\<close>

definition methodTemplate :: "string \<Rightarrow> string" where
  "methodTemplate method = (if method = MethodGet \<or> method = MethodPost then method else ''OTHER'')"

definition known_routes :: "string list" where
  "known_routes = [''/buys'', ''/sale-offer-quotes'', ''/sale-offers'', ''/active-offers'', ''/active-bond-series'',
     ''/healthz'', ''/event-publications:publish-pending'']"

definition routeTemplate :: "string \<Rightarrow> string" where
  "routeTemplate path = (if path \<in> set known_routes then path else ''unmatched'')"

definition trace_headers :: "string list" where
  "trace_headers = [''Traceparent'', ''Tracestate'', ''Baggage'']"

definition sanitize_request :: "http_request \<Rightarrow> http_request" where
  "sanitize_request rq = rq\<lparr>hq_Path := routeTemplate (hq_Path rq), hq_RawQuery := [], hq_Fragment := [],
     hq_Method := methodTemplate (hq_Method rq), hq_Host := ''bond-exchange'', hq_RemoteAddr := [],
     hq_RequestURI := routeTemplate (hq_Path rq), hq_ContentLength := 0,
     hq_Header := (\<lambda>name. if name \<in> set trace_headers then hq_Header rq name else [])\<rparr>"

text \<open>
  \<^verbatim>\<open>instrumentHTTP\<close>: the instrumentation sees the sanitised request, the handler the original one.
\<close>

definition instrumentHTTP :: "(http_request \<Rightarrow> http_run \<Rightarrow> http_run) \<Rightarrow> handler \<Rightarrow> handler" where
  "instrumentHTTP otel next rq = otel (sanitize_request rq) (next rq)"

section \<open>The stream of offers\<close>

text \<open>
  grpc-gateway, protojson and the status table as parameters: what a body decodes to, how messages
  are rendered, the route a request matches, the metadata of the annotated context, the forwarding of
  a response. \<open>gw_write\<close> is the outcome of writing to the client.
\<close>

datatype route = RouteBuy | RouteQuoteSaleOffer | RouteCreateSaleOffer | RouteListActiveOffers
  | RouteListActiveBondSeries | RouteCheckHealth | RoutePublishPendingEvents

datatype decoded = Decoded proto_request | AtEOF | DecodeError string

record gateway =
  gw_match :: "(string \<times> string \<times> route) list \<Rightarrow> http_request \<Rightarrow> grpc_status + route"
  gw_annotate :: "http_request \<Rightarrow> (string \<Rightarrow> string list) \<Rightarrow> grpc_status + (string \<Rightarrow> string list)"
  gw_decode :: "route \<Rightarrow> string \<Rightarrow> decoded"
  gw_forward :: "(http_response \<Rightarrow> http_response) \<Rightarrow> proto_response \<Rightarrow> http_response \<Rightarrow> http_response"
  gw_HTTPStatusFromCode :: "code \<Rightarrow> int"
  gw_event :: "stream_event \<Rightarrow> string result"
  gw_error :: "string \<Rightarrow> string result"
  gw_write :: "world \<Rightarrow> unit result"
  gw_driver_text :: "go_error \<Rightarrow> string"

definition forwardAuthenticationMetadata :: "http_request \<Rightarrow> string \<Rightarrow> string list" where
  "forwardAuthenticationMetadata rq key = (if key = ''idempotency-key'' then hq_Header rq ''Idempotency-Key'' else [])"

definition frame :: "string \<Rightarrow> string" where
  "frame payload = [char_of (30 :: nat)] @ payload @ [char_of (10 :: nat)]"

text \<open>
  \<^verbatim>\<open>writeJSONSequence\<close> and \<^verbatim>\<open>Send\<close>: the header goes out with the first message, even when rendering it
  fails. What was written is kept in the metric log, one mark per call and one per frame.
\<close>

definition writeJSONSequence :: "gateway \<Rightarrow> string result \<Rightarrow> unit m" where
  "writeJSONSequence g payload =
     bind_m (metric_m ''http_write'' []) (\<lambda>_.
     bind_m (lift_r payload) (\<lambda>p.
     bind_m (\<lambda>w. (gw_write g w, w)) (\<lambda>_. metric_m ''http_frame'' [frame p])))"

definition stream_Send :: "gateway \<Rightarrow> stream_event \<Rightarrow> unit m" where
  "stream_Send g message = writeJSONSequence g (gw_event g message)"

definition written :: "world \<Rightarrow> world \<Rightarrow> metric list" where
  "written w w' = drop (length (metrics w)) (metrics w')"

definition stream_started :: "world \<Rightarrow> world \<Rightarrow> bool" where
  "stream_started w w' \<longleftrightarrow> Metric ''http_write'' [] \<in> set (written w w')"

definition frames :: "world \<Rightarrow> world \<Rightarrow> string list" where
  "frames w w' = List.map_filter (\<lambda>x. case x of Metric n as \<Rightarrow>
     if n = ''http_frame'' then (case as of [f] \<Rightarrow> Some f | _ \<Rightarrow> None) else None) (written w w')"

definition streamed_response :: "world \<Rightarrow> world \<Rightarrow> http_response \<Rightarrow> http_response" where
  "streamed_response w w' r =
     (if stream_started w w' then
        (let r1 = write_header Secure 200 (Header_Set ''Content-Type'' ''application/json-seq; charset=utf-8'' r)
         in r1\<lparr>hr_body := hr_body r1 @ concat (frames w w')\<rparr>)
      else r)"

definition serveActiveOffersStream :: "('u, 'd) lib \<Rightarrow> gateway \<Rightarrow> 'd Server \<Rightarrow> handler" where
  "serveActiveOffersStream L g sv rq = (\<lambda>(r, w).
     if hq_Method rq \<noteq> MethodGet then
       reject rq ''unsupported_method'' 405 ''method not allowed'' (Header_Set ''Allow'' MethodGet r, w)
     else if hq_Body rq \<noteq> NilBody \<and> hq_Body rq \<noteq> NoBody \<and> hq_ContentLength rq \<noteq> 0 then
       reject rq ''body_on_get'' 400 ''request body is not allowed'' (r, w)
     else
       (let query = URL_Query (hq_RawQuery rq)
        in if length (remdups (map fst query)) \<noteq> 1 \<or> length (filter (\<lambda>kv. fst kv = ''bond'') query) \<noteq> 1 then
             reject rq ''query_parameter_pollution'' 400 ''exactly one bond query parameter is required'' (r, w)
           else
             (let incoming = (\<lambda>key. if key = ''authorization'' then hq_Header rq ''Authorization''
                    else forwardAuthenticationMetadata rq key);
                  bond = snd (hd (filter (\<lambda>kv. fst kv = ''bond'') query))
              in case Rpc_ListActiveOffers L sv incoming (stream_Send g) bond w of
                   None \<Rightarrow> None
                 | Some (Inr _, w1) \<Rightarrow> Some (False, streamed_response w w1 r, w1)
                 | Some (Inl e, w1) \<Rightarrow>
                     (let st = status_Convert (gw_driver_text g) e
                      in if \<not> stream_started w w1 then
                           Some (False, writeStatusError (gw_HTTPStatusFromCode g) Secure st r, w1)
                         else
                           (let w2 = snd (writeJSONSequence g (gw_error g (gs_message st)) w1)
                            in Some (False, streamed_response w w2 r, w2))))))"

section \<open>The gateway\<close>

text \<open>\<^verbatim>\<open>setSuccessStatus\<close>: the three creating calls answer with 201.\<close>

definition setSuccessStatus :: "proto_response \<Rightarrow> http_response \<Rightarrow> http_response" where
  "setSuccessStatus message r =
     (case message of
        BuyResponse _ _ \<Rightarrow> write_header Secure 201 r
      | QuoteSaleOfferResponse _ \<Rightarrow> write_header Secure 201 r
      | CreateSaleOfferResponse _ \<Rightarrow> write_header Secure 201 r
      | _ \<Rightarrow> r)"

definition writeError :: "gateway \<Rightarrow> rpc_error \<Rightarrow> http_response \<Rightarrow> http_response" where
  "writeError g err r = writeStatusError (gw_HTTPStatusFromCode g) Secure (status_Convert (gw_driver_text g) err) r"

text \<open>
  The \<^verbatim>\<open>local_request\<close> functions: decode the body, an empty one being the empty message, and call the
  server.
\<close>

definition body_bytes :: "http_request \<Rightarrow> string" where
  "body_bytes rq = (case hq_Body rq of Body b _ \<Rightarrow> b | _ \<Rightarrow> [])"

definition local_request ::
  "gateway \<Rightarrow> http_request \<Rightarrow> route \<Rightarrow> proto_request \<Rightarrow> (proto_request \<Rightarrow> world \<Rightarrow> (proto_response reply \<times> world) option)
     \<Rightarrow> world \<Rightarrow> (proto_response reply \<times> world) option" where
  "local_request g rq route zero call w =
     (case gw_decode g route (body_bytes rq) of
        DecodeError text \<Rightarrow> Some (Inl (StatusError (status_Error InvalidArgument text)), w)
      | AtEOF \<Rightarrow> call zero w
      | Decoded request \<Rightarrow> call request w)"

definition local_request_Buy ::
  "('u, 'd) lib \<Rightarrow> gateway \<Rightarrow> 'd Server \<Rightarrow> (string \<Rightarrow> string list) \<Rightarrow> http_request \<Rightarrow> world \<Rightarrow> (proto_response reply \<times> world) option" where
  "local_request_Buy L g sv md rq = local_request g rq RouteBuy (BuyRequest [])
     (\<lambda>request. case request of BuyRequest offer \<Rightarrow> Rpc_Buy L sv md offer | _ \<Rightarrow> (\<lambda>_. None))"

definition local_request_QuoteSaleOffer ::
  "('u, 'd) lib \<Rightarrow> gateway \<Rightarrow> 'd Server \<Rightarrow> (string \<Rightarrow> string list) \<Rightarrow> http_request \<Rightarrow> world \<Rightarrow> (proto_response reply \<times> world) option" where
  "local_request_QuoteSaleOffer L g sv md rq = local_request g rq RouteQuoteSaleOffer (QuoteSaleOfferRequest [] [] [])
     (\<lambda>request. case request of QuoteSaleOfferRequest b p c \<Rightarrow> Rpc_QuoteSaleOffer L sv md b p c | _ \<Rightarrow> (\<lambda>_. None))"

definition local_request_CreateSaleOffer ::
  "('u, 'd) lib \<Rightarrow> gateway \<Rightarrow> 'd Server \<Rightarrow> (string \<Rightarrow> string list) \<Rightarrow> http_request \<Rightarrow> world \<Rightarrow> (proto_response reply \<times> world) option" where
  "local_request_CreateSaleOffer L g sv md rq = local_request g rq RouteCreateSaleOffer (CreateSaleOfferRequest [] [] [] [])
     (\<lambda>request. case request of CreateSaleOfferRequest b p c q \<Rightarrow> Rpc_CreateSaleOffer L sv md b p c q | _ \<Rightarrow> (\<lambda>_. None))"

definition local_request_PublishPendingEvents ::
  "gateway \<Rightarrow> 'd Server \<Rightarrow> (string \<Rightarrow> string list) \<Rightarrow> http_request \<Rightarrow> world \<Rightarrow> (proto_response reply \<times> world) option" where
  "local_request_PublishPendingEvents g sv md rq = local_request g rq RoutePublishPendingEvents (PublishPendingEventsRequest [])
     (\<lambda>request. case request of PublishPendingEventsRequest i \<Rightarrow> Rpc_PublishPendingEvents sv md i | _ \<Rightarrow> (\<lambda>_. None))"

definition gateway_routes :: "(string \<times> string \<times> route) list" where
  "gateway_routes =
     [(MethodPost, ''/buys'', RouteBuy), (MethodPost, ''/sale-offer-quotes'', RouteQuoteSaleOffer),
      (MethodPost, ''/sale-offers'', RouteCreateSaleOffer), (MethodGet, ''/active-offers'', RouteListActiveOffers),
      (MethodGet, ''/active-bond-series'', RouteListActiveBondSeries), (MethodGet, ''/healthz'', RouteCheckHealth),
      (MethodPost, ''/event-publications:publish-pending'', RoutePublishPendingEvents)]"

definition route_call ::
  "('u, 'd) lib \<Rightarrow> gateway \<Rightarrow> 'd Server \<Rightarrow> route \<Rightarrow> (string \<Rightarrow> string list) \<Rightarrow> http_request \<Rightarrow> world
     \<Rightarrow> (proto_response reply \<times> world) option" where
  "route_call L g sv route md rq =
     (case route of
        RouteBuy \<Rightarrow> local_request_Buy L g sv md rq
      | RouteQuoteSaleOffer \<Rightarrow> local_request_QuoteSaleOffer L g sv md rq
      | RouteCreateSaleOffer \<Rightarrow> local_request_CreateSaleOffer L g sv md rq
      | RouteListActiveBondSeries \<Rightarrow> Rpc_ListActiveBondSeries sv md
      | RouteCheckHealth \<Rightarrow> Rpc_CheckHealth sv md
      | RoutePublishPendingEvents \<Rightarrow> local_request_PublishPendingEvents g sv md rq
      | RouteListActiveOffers \<Rightarrow> (\<lambda>w. Some (Inl (StatusError (status_Error Unimplemented
          ''streaming calls are not yet supported in the in-process transport'')), w)))"

definition RegisterBondExchangeServiceHandlerServer :: "('u, 'd) lib \<Rightarrow> gateway \<Rightarrow> 'd Server \<Rightarrow> handler" where
  "RegisterBondExchangeServiceHandlerServer L g sv rq = (\<lambda>(r, w).
     case gw_match g gateway_routes rq of
       Inl st \<Rightarrow> Some (False, writeError g (StatusError st) r, w)
     | Inr route \<Rightarrow>
         (case (if route = RouteListActiveOffers then Inr (\<lambda>_. []) else gw_annotate g rq (forwardAuthenticationMetadata rq)) of
            Inl st \<Rightarrow> Some (False, writeError g (StatusError st) r, w)
          | Inr md \<Rightarrow>
              (case route_call L g sv route md rq w of
                 None \<Rightarrow> None
               | Some (Inl e, w1) \<Rightarrow> Some (False, writeError g e r, w1)
               | Some (Inr message, w1) \<Rightarrow> Some (False, gw_forward g (setSuccessStatus message) message r, w1))))"

definition NewHandler ::
  "('u, 'd) lib \<Rightarrow> (nat \<Rightarrow> nat) \<Rightarrow> (http_request \<Rightarrow> http_run \<Rightarrow> http_run) \<Rightarrow> gateway \<Rightarrow> 'd Server \<Rightarrow> handler" where
  "NewHandler L tab otel g sv =
     instrumentHTTP otel (recoverPanics (securityHeaders (requireSingleJSONDocument tab (\<lambda>rq.
       if hq_Path rq = ''/active-offers'' then serveActiveOffersStream L g sv rq
       else RegisterBondExchangeServiceHandlerServer L g sv rq))))"

end
