(* ===== verification/Http_Facts.thy ===== *)
theory Http_Facts
  imports Http_Api
begin

text \<open>Facts about the HTTP layer: the body check, the writers, and the encoding of error messages.\<close>

section \<open>The body check decides the grammar\<close>

lemma Token_end:
  "Token (dec_at r TopValue []) = (Inl e, d) \<and> errors_Is e io_EOF \<longleftrightarrow>
     skip_space r = [] \<and> e = io_EOF \<and> d = dec_at r TopValue []"
proof (cases "skip_space r")
  case Nil
  then show ?thesis by (auto simp: Token_errors(1))
next
  case (Cons c cs)
  have "\<not> errors_Is json_error io_EOF" by (simp add: json_error_def io_EOF_def)
  with Cons show ?thesis
    by (auto simp: Token.simps [of "dec_at r TopValue []"] tokenValueAllowed_def split: if_splits option.splits)
qed

lemma validate_document:
  "validateSingleJSONObject body = Inr () \<longleftrightarrow> (\<exists>ms. parse_json body = Some (JObj ms) \<and> json_ok (JObj ms))"
proof (cases "\<exists>cs. skip_space body = CHR ''{'' # cs")
  case True
  then obtain cs where cs: "skip_space body = CHR ''{'' # cs" by blast
  let ?n = "2 * length body"
  have t: "Token (NewDecoder body) = (Inr (Delim (CHR ''{'')), dec_at cs ObjectStart [TopValue])"
    using Token_values(2) [of TopValue, OF _ cs] by (simp add: NewDecoder_def tokenValueAllowed_def)
  have members: "validateJSONObject ?n [] (dec_at cs ObjectStart [TopValue]) = Inr d \<longleftrightarrow>
      (\<exists>ms r. parse_members ?n True cs = Some (ms, r) \<and> json_ok (JObj ms) \<and> d = dec_at r TopValue [])" for d
    using walks_agree [of ?n] unfolding members_agree_def by (auto simp: tokenValueEnd_def)
  have "validateSingleJSONObject body = Inr () \<longleftrightarrow>
      (\<exists>d. validateJSONObject ?n [] (dec_at cs ObjectStart [TopValue]) = Inr d \<and>
         (\<exists>e d'. Token d = (Inl e, d') \<and> errors_Is e io_EOF))"
    by (auto simp: validateSingleJSONObject_def t split: sum.splits prod.splits if_splits)
  also have "\<dots> \<longleftrightarrow> (\<exists>ms r. parse_members ?n True cs = Some (ms, r) \<and> json_ok (JObj ms) \<and> skip_space r = [])"
    unfolding members using Token_end by blast
  also have "\<dots> \<longleftrightarrow> (\<exists>ms. parse_json body = Some (JObj ms) \<and> json_ok (JObj ms))"
    by (auto simp: parse_json_def cs split: option.splits)
  finally show ?thesis .
next
  case False
  have "validateSingleJSONObject body \<noteq> Inr ()"
  proof (cases "skip_space body")
    case Nil
    then show ?thesis by (simp add: validateSingleJSONObject_def NewDecoder_def Token_errors(1))
  next
    case (Cons c cs)
    with False have "c \<noteq> CHR ''{''" by blast
    with Cons show ?thesis using decode_scalar_not_Delim
      by (auto simp: validateSingleJSONObject_def NewDecoder_def Token.simps [of "dec_at body TopValue []"]
          tokenValueAllowed_def split: if_splits option.splits token.splits)
  qed
  moreover have "parse_json body \<noteq> Some (JObj ms)" for ms
    using False scan_scalar_shape
    by (cases "skip_space body") (auto simp: parse_json_def split: option.splits if_splits)
  ultimately show ?thesis by simp
qed

section \<open>Error messages\<close>

lemma lower_hex_props:
  assumes "n < 16"
  shows "is_hex_byte (lower_hex n)" "hex_value (byte_of (lower_hex n)) = n"
proof -
  have b: "byte_of (lower_hex n) = (if n < 10 then 48 + n else 87 + n)"
    using assms by (simp add: lower_hex_def byte_of_def)
  show "is_hex_byte (lower_hex n)"
    using assms b by (auto simp: is_hex_byte_def byte_class_defs split: if_splits)
  show "hex_value (byte_of (lower_hex n)) = n"
    using assms by (auto simp: b hex_value_def)
qed

lemma byte_marks: "byte_of quote_byte = 34" "byte_of backslash = 92" "backslash \<noteq> quote_byte" "quote_byte \<noteq> backslash"
  by (simp_all add: quote_byte_def backslash_def byte_of_def)

lemma char_of_marks: "char_of (34 :: nat) = quote_byte" "char_of (92 :: nat) = backslash"
  by (metis byte_marks char_of_byte_of)+

lemma letter_bytes: "byte_of (CHR ''b'') = 98" "byte_of (CHR ''f'') = 102" "byte_of (CHR ''n'') = 110"
    "byte_of (CHR ''r'') = 114" "byte_of (CHR ''t'') = 116"
  by (simp_all add: byte_of_def)

lemma escape_cases:
  assumes "b < 128"
  obtains (short) e where "escape_byte b = [backslash, e]" "short_escape e" "escaped_byte (byte_of e) = b" "byte_of e \<noteq> 117"
  | (hex) "escape_byte b = [backslash, CHR ''u'', CHR ''0'', CHR ''0'', lower_hex (b div 16), lower_hex (b mod 16)]"
  | (plain) "escape_byte b = [char_of b]" "b \<noteq> 92" "b \<noteq> 34" "32 \<le> b"
proof -
  have q: "escape_byte b = [backslash, e] \<Longrightarrow> short_escape e \<Longrightarrow> escaped_byte (byte_of e) = b \<Longrightarrow> byte_of e \<noteq> 117 \<Longrightarrow> thesis" for e
    by (rule short)
  consider "b = 92" | "b = 34" | "b = 8" | "b = 12" | "b = 10" | "b = 13" | "b = 9"
    | "b \<notin> {92, 34, 8, 12, 10, 13, 9}" "b < 32 \<or> b = 60 \<or> b = 62 \<or> b = 38"
    | "b \<notin> {92, 34, 8, 12, 10, 13, 9}" "\<not> (b < 32 \<or> b = 60 \<or> b = 62 \<or> b = 38)" by blast
  then show thesis
  proof cases
    case 1
    show ?thesis
      by (rule q [of "backslash"]) (simp_all add: 1 escape_byte_def char_of_marks short_escape_def escaped_byte_def byte_marks letter_bytes)
  next
    case 2
    show ?thesis
      by (rule q [of "quote_byte"]) (simp_all add: 2 escape_byte_def char_of_marks short_escape_def escaped_byte_def byte_marks letter_bytes)
  next
    case 3
    show ?thesis
      by (rule q [of "CHR ''b''"]) (simp_all add: 3 escape_byte_def char_of_marks short_escape_def escaped_byte_def byte_marks letter_bytes)
  next
    case 4
    show ?thesis
      by (rule q [of "CHR ''f''"]) (simp_all add: 4 escape_byte_def char_of_marks short_escape_def escaped_byte_def byte_marks letter_bytes)
  next
    case 5
    show ?thesis
      by (rule q [of "CHR ''n''"]) (simp_all add: 5 escape_byte_def char_of_marks short_escape_def escaped_byte_def byte_marks letter_bytes)
  next
    case 6
    show ?thesis
      by (rule q [of "CHR ''r''"]) (simp_all add: 6 escape_byte_def char_of_marks short_escape_def escaped_byte_def byte_marks letter_bytes)
  next
    case 7
    show ?thesis
      by (rule q [of "CHR ''t''"]) (simp_all add: 7 escape_byte_def char_of_marks short_escape_def escaped_byte_def byte_marks letter_bytes)
  next
    case 8
    then have "escape_byte b = [backslash, CHR ''u'', CHR ''0'', CHR ''0'', lower_hex (b div 16), lower_hex (b mod 16)]"
      unfolding escape_byte_def by simp
    then show ?thesis by (rule hex)
  next
    case 9
    then have "escape_byte b = [char_of b]" "b \<noteq> 92" "b \<noteq> 34" "32 \<le> b" unfolding escape_byte_def by simp_all
    then show ?thesis by (rule plain)
  qed
qed

lemma scan_escape:
  assumes "b < 128"
  shows "scan_string (escape_byte b @ s) = map_option (\<lambda>(a, r). (escape_byte b @ a, r)) (scan_string s)"
  using assms
proof (cases rule: escape_cases)
  case (short e)
  then show ?thesis by (simp add: byte_marks)
next
  case hex
  have "is_hex_byte (lower_hex (b div 16))" "is_hex_byte (lower_hex (b mod 16))" "is_hex_byte (CHR ''0'')"
    using assms by (simp_all add: lower_hex_props is_hex_byte_def [of "CHR ''0''"] byte_class_defs)
  moreover have "\<not> short_escape (CHR ''u'')" by (simp add: short_escape_def quote_byte_def backslash_def)
  ultimately show ?thesis unfolding hex by (simp add: byte_marks)
next
  case plain
  have "byte_of (char_of b) = b" using assms by simp
  then have "char_of b \<noteq> quote_byte" "char_of b \<noteq> backslash" using plain byte_marks by metis+
  with plain assms show ?thesis by simp
qed

lemma unquote_escape:
  assumes "b < 128"
  shows "unquote (map byte_of (escape_byte b) @ bs) = b # unquote bs"
  using assms
proof (cases rule: escape_cases)
  case (short e)
  then show ?thesis by (simp add: byte_marks)
next
  case hex
  have d: "b div 16 < 16" "b mod 16 < 16" using assms by simp_all
  have c: "byte_of (CHR ''u'') = 117" "byte_of (CHR ''0'') = 48" by (simp_all add: byte_of_def)
  have "is_hex_byte (char_of (48 :: nat))" by (simp add: is_hex_byte_def is_digit_byte_def byte_in_def) (simp add: byte_of_def)
  then have u4: "getu4 (92 # 117 # 48 # 48 # byte_of (lower_hex (b div 16)) # byte_of (lower_hex (b mod 16)) # bs) = Some b"
    using lower_hex_props [OF d(1)] lower_hex_props [OF d(2)] by (simp add: hex_value_def [of 48])
  show ?thesis unfolding hex using assms by (simp add: byte_marks c u4 is_surrogate_def encode_rune_def del: getu4.simps)
next
  case plain
  with assms show ?thesis by simp
qed

lemma escape_scans:
  "\<forall>b\<in>set bs. b < 128 \<Longrightarrow> scan_string (json_escape bs @ quote_byte # r) = Some (json_escape bs, r)"
proof (induction bs rule: json_escape.induct)
  case (2 b bs)
  then show ?case by (simp add: scan_escape)
qed simp

lemma escape_unquotes: "\<forall>b\<in>set bs. b < 128 \<Longrightarrow> unquote (map byte_of (json_escape bs)) = bs"
proof (induction bs rule: json_escape.induct)
  case (2 b bs)
  then show ?case by (simp add: unquote_escape)
qed simp

lemma ascii_bytes: "list_all is_ascii_byte s \<Longrightarrow> \<forall>b\<in>set (map byte_of s). b < 128"
  by (auto simp: list_all_iff is_ascii_byte_def)

lemma scan_json_string:
  assumes "list_all is_ascii_byte s"
  shows "json_string s @ r = quote_byte # (json_escape (map byte_of s) @ quote_byte # r)
    \<and> scan_string (json_escape (map byte_of s) @ quote_byte # r) = Some (json_escape (map byte_of s), r)
    \<and> unquote_string (json_escape (map byte_of s)) = s"
  using escape_scans [OF ascii_bytes [OF assms], of r] escape_unquotes [OF ascii_bytes [OF assms]]
  by (simp add: json_string_def unquote_string_def comp_def)

lemma skip_marks: "skip_space (quote_byte # s) = quote_byte # s" "skip_space (CHR ''{'' # s) = CHR ''{'' # s"
    "skip_space (CHR ''}'' # s) = CHR ''}'' # s" "skip_space (CHR '':'' # s) = CHR '':'' # s"
    "skip_space [char_of (10 :: nat)] = []"
  by (simp_all add: skip_space_def json_space_def byte_marks) (simp_all add: byte_of_def)

lemma parse_json_key:
  assumes "list_all is_ascii_byte k"
  shows "parse_key (json_string k @ (CHR '':'' # s)) = Some (k, s)"
  using scan_json_string [OF assms, of "CHR '':'' # s"] by (simp add: parse_key_def skip_marks)

lemma parse_json_string:
  assumes "list_all is_ascii_byte m"
  shows "parse_value (Suc n) (json_string m @ s) = Some (JStr m, s)"
  using scan_json_string [OF assms, of s] by (simp add: skip_marks scan_scalar_def)

lemma parse_one_member:
  assumes k: "list_all is_ascii_byte k" and m: "list_all is_ascii_byte m"
  shows "parse_value (Suc (Suc (Suc n))) (CHR ''{'' # (json_string k @ (CHR '':'' # (json_string m @ (CHR ''}'' # s)))))
    = Some (JObj [(k, JStr m)], s)"
proof -
  let ?doc = "json_string k @ (CHR '':'' # (json_string m @ (CHR ''}'' # s)))"
  have "skip_space ?doc = quote_byte # tl ?doc" "?doc = quote_byte # tl ?doc"
    using scan_json_string [OF k, of "CHR '':'' # (json_string m @ (CHR ''}'' # s))"] by (simp_all add: skip_marks)
  note doc = this
  have key: "parse_key (quote_byte # tl ?doc) = Some (k, json_string m @ (CHR ''}'' # s))"
    using parse_json_key [OF k, of "json_string m @ (CHR ''}'' # s)"] doc(2) by simp
  have "parse_members (Suc (Suc n)) True ?doc = Some ([(k, JStr m)], s)"
    unfolding parse_members.simps(2) doc(1)
    using key parse_json_string [OF m, of n "CHR ''}'' # s"] by (simp add: skip_marks)
  then show ?thesis by (simp add: skip_marks)
qed

lemma parse_encoded_error:
  assumes "list_all is_ascii_byte m" and "m \<noteq> []"
  shows "parse_json (encode_error m) = Some (JObj [(''error'', JStr m)])"
proof -
  let ?nl = "[char_of (10 :: nat)]"
  have e: "list_all is_ascii_byte ''error''" by (simp add: byte_class_defs)
  have doc: "encode_error m = CHR ''{'' # (json_string ''error'' @ (CHR '':'' # (json_string m @ (CHR ''}'' # ?nl))))"
    using assms(2) by (simp add: encode_error_def)
  have "\<exists>n. 2 * length (encode_error m) + 1 = Suc (Suc (Suc n))"
    unfolding doc by (intro exI [of _ "2 * length (encode_error m) - 2"]) (simp add: doc)
  then show ?thesis
    using parse_one_member [OF e assms(1), of _ ?nl] unfolding parse_json_def by (auto simp: doc skip_marks)
qed

section \<open>Headers of every response\<close>

definition hardened_headers :: "(string \<Rightarrow> string option) \<Rightarrow> bool" where
  "hardened_headers h \<longleftrightarrow> h ''Cache-Control'' = Some ''no-store'' \<and> h ''X-Content-Type-Options'' = Some ''nosniff''"

definition hardened :: "http_response \<Rightarrow> bool" where
  "hardened r \<longleftrightarrow> hardened_headers (hr_header r) \<and> (\<forall>st h. hr_sent r = Some (st, h) \<longrightarrow> hardened_headers h)"

lemma hardened_set [intro]:
  "hardened r \<Longrightarrow> name \<noteq> ''Cache-Control'' \<Longrightarrow> name \<noteq> ''X-Content-Type-Options'' \<Longrightarrow> hardened (Header_Set name v r)"
  by (auto simp: hardened_def hardened_headers_def Header_Set_def)

lemma hardened_WriteHeader [intro]: "hardened r \<Longrightarrow> hardened (WriteHeader st r)"
  by (auto simp: hardened_def WriteHeader_def)

lemma hardened_Write [intro]: "hardened r \<Longrightarrow> hardened (Write p r)"
  by (auto simp: hardened_def Write_def WriteHeader_def Let_def)

lemma hardened_write_header [intro]: "hardened r \<Longrightarrow> hardened (write_header wr st r)"
  by (cases wr) (auto simp: write_header_def complete_type_def)

lemma hardened_write_body [intro]: "hardened r \<Longrightarrow> hardened (write_body wr p r)"
  by (cases wr) (auto simp: write_body_def complete_type_def)

lemma hardened_rest_error [intro]: "hardened r \<Longrightarrow> hardened (writeRESTError wr st msg r)"
  unfolding writeRESTError_def by (intro hardened_write_body hardened_write_header hardened_set) simp_all

lemma hardened_status_error [intro]: "hardened r \<Longrightarrow> hardened (writeStatusError f wr st r)"
  unfolding writeStatusError_def Let_def
  by (intro hardened_rest_error) (auto split: option.splits)

lemma hardened_writeError [intro]: "hardened r \<Longrightarrow> hardened (writeError g e r)"
  unfolding writeError_def by (rule hardened_status_error)

lemma hardened_success [intro]: "hardened r \<Longrightarrow> hardened (setSuccessStatus m r)"
  by (auto simp: setSuccessStatus_def split: proto_response.splits)

lemma hardened_streamed [intro]: "hardened r \<Longrightarrow> hardened (streamed_response w w' r)"
proof -
  assume "hardened r"
  then have "hardened (write_header Secure 200 (Header_Set ''Content-Type'' ''application/json-seq; charset=utf-8'' r))"
    by (intro hardened_write_header hardened_set) simp_all
  with \<open>hardened r\<close> show ?thesis by (simp add: streamed_response_def hardened_def Let_def)
qed

definition hardens :: "handler \<Rightarrow> bool" where
  "hardens h \<longleftrightarrow> (\<forall>rq r w p r' w'. hardened r \<longrightarrow> h rq (r, w) = Some (p, r', w') \<longrightarrow> hardened r')"

lemma hardensI: "(\<And>rq r w p r' w'. hardened r \<Longrightarrow> h rq (r, w) = Some (p, r', w') \<Longrightarrow> hardened r') \<Longrightarrow> hardens h"
  unfolding hardens_def by (intro allI impI)

lemma hardensD: "hardens h \<Longrightarrow> hardened r \<Longrightarrow> h rq (r, w) = Some (p, r', w') \<Longrightarrow> hardened r'"
  unfolding hardens_def by (elim allE impE)

lemma reject_hardened: "hardened r \<Longrightarrow> reject rq reason st msg (r, w) = Some (p, r', w') \<Longrightarrow> hardened r'"
  by (auto simp: reject_def)

lemma stream_hardens: "hardens (serveActiveOffersStream L g sv)"
proof (rule hardensI)
  fix rq r w p r' w'
  assume h: "hardened r" and run: "serveActiveOffersStream L g sv rq (r, w) = Some (p, r', w')"
  have a: "hardened (Header_Set ''Allow'' MethodGet r)" using h by (intro hardened_set) simp_all
  show "hardened r'"
    using run h a reject_hardened [OF a] reject_hardened [OF h]
    unfolding serveActiveOffersStream_def
    by (auto simp: Let_def split: if_splits option.splits sum.splits prod.splits)
qed

lemma require_hardens: assumes "hardens h" shows "hardens (requireSingleJSONDocument tab h)"
proof (rule hardensI)
  fix rq r w p r' w'
  assume hr: "hardened r" and run: "requireSingleJSONDocument tab h rq (r, w) = Some (p, r', w')"
  have keep: "h rq' (r, w) = Some (p, r', w') \<Longrightarrow> hardened r'" for rq'
    by (rule hardensD [OF assms hr])
  show "hardened r'"
    using run keep reject_hardened [OF hr]
    unfolding requireSingleJSONDocument_def Let_def
    by (auto split: if_splits option.splits sum.splits prod.splits request_body.splits)
qed

text \<open>
  What the forwarding of a response relies on: it adds headers of its own names, runs the options and
  writes the message, so it keeps the two headers whenever the options do.
\<close>

definition forwards_hardened :: "gateway \<Rightarrow> bool" where
  "forwards_hardened g \<longleftrightarrow> (\<forall>opt m r. (\<forall>r'. hardened r' \<longrightarrow> hardened (opt r')) \<longrightarrow> hardened r
     \<longrightarrow> hardened (gw_forward g opt m r))"

lemma gateway_hardens:
  assumes "forwards_hardened g"
  shows "hardens (RegisterBondExchangeServiceHandlerServer L g sv)"
proof -
  have fwd: "hardened r \<Longrightarrow> hardened (gw_forward g (setSuccessStatus m) m r)" for m r
    using assms unfolding forwards_hardened_def by (meson hardened_success)
  then show ?thesis
    unfolding hardens_def RegisterBondExchangeServiceHandlerServer_def
    by (auto split: option.splits sum.splits prod.splits if_splits)
qed

lemma hardens_secured:
  assumes "hardens h" and "recoverPanics (securityHeaders h) rq (r, w) = Some (p, r', w')" and "hr_sent r = None"
  shows "hardened r'"
proof -
  define r0 where "r0 = Header_Set ''X-Content-Type-Options'' ''nosniff'' (Header_Set ''Cache-Control'' ''no-store'' r)"
  have "hardened r0" using assms(3) by (simp add: hardened_def hardened_headers_def Header_Set_def r0_def)
  moreover obtain q r1 w1 where "h rq (r0, w) = Some (q, r1, w1)" and
    "r' = (if q then writeRESTError Plain 500 ''internal server error'' r1 else r1)"
    using assms(2) by (auto simp: recoverPanics_def securityHeaders_def r0_def split: option.splits if_splits prod.splits)
  ultimately show ?thesis using hardensD [OF assms(1), of r0 rq w q r1 w1] by (auto split: if_splits)
qed

lemma hardens_if: "hardens a \<Longrightarrow> hardens b \<Longrightarrow> hardens (\<lambda>rq. if P rq then a rq else b rq)"
proof -
  assume a: "hardens a" and b: "hardens b"
  have "hardened r'" if "hardened r" "(if P rq then a rq else b rq) (r, w) = Some (p, r', w')" for rq r w p r' w'
    using that hardensD [OF a, of r rq w p r' w'] hardensD [OF b, of r rq w p r' w'] by (cases "P rq") simp_all
  then show ?thesis by (rule hardensI)
qed

lemma NewHandler_hardened:
  assumes "\<And>rq run s. otel rq run s = run s" and "forwards_hardened g" and "hr_sent r = None"
    and "NewHandler L tab otel g sv rq (r, w) = Some (p, r', w')"
  shows "hardened r'"
proof -
  let ?routes = "\<lambda>rq. if hq_Path rq = ''/active-offers'' then serveActiveOffersStream L g sv rq
       else RegisterBondExchangeServiceHandlerServer L g sv rq"
  have "hardens ?routes"
    by (rule hardens_if [OF stream_hardens gateway_hardens [OF assms(2)]])
  then have "hardens (requireSingleJSONDocument tab ?routes)" by (rule require_hardens)
  moreover have "recoverPanics (securityHeaders (requireSingleJSONDocument tab ?routes)) rq (r, w) = Some (p, r', w')"
    using assms(1,4) unfolding NewHandler_def instrumentHTTP_def by simp
  ultimately show ?thesis by (rule hardens_secured [OF _ _ assms(3)])
qed

end
