(* ===== verification/Http_Props.thy ===== *)
theory Http_Props
  imports Http_Facts Demo_Db
begin

text \<open>Properties of the HTTP layer.\<close>

section \<open>Request bodies\<close>

text \<open>
  C23. The token walk over a request body accepts exactly the documents it means to: one JSON object
  and nothing after it, as the grammar of JSON has it, in which no object repeats a key (after
  unescaping) and every number fits a \<^verbatim>\<open>float64\<close>.
\<close>

theorem validateSingleJSONObject_exact:
  "validateSingleJSONObject body = Inr () \<longleftrightarrow> (\<exists>ms. parse_json body = Some (JObj ms) \<and> json_ok (JObj ms))"
  by (rule validate_document)

text \<open>Which requests with a body reach the routes.\<close>

definition one_object :: "string \<Rightarrow> bool" where
  "one_object content \<longleftrightarrow> (\<exists>ms. parse_json content = Some (JObj ms) \<and> json_ok (JObj ms))"

lemma one_object_iff: "one_object content \<longleftrightarrow> is_ok (validateSingleJSONObject content)"
  unfolding one_object_def validate_document [symmetric] by (cases "validateSingleJSONObject content") auto

definition acceptable_body :: "(nat \<Rightarrow> nat) \<Rightarrow> http_request \<Rightarrow> string \<Rightarrow> bool" where
  "acceptable_body tab rq content \<longleftrightarrow>
     (\<exists>mediaType. ParseMediaType tab (Header_Get rq ''Content-Type'') = Some mediaType
        \<and> strings_EqualFold_ascii mediaType ''application/json'')
     \<and> length content \<le> 65536
     \<and> (TrimSpace content = [] \<or> one_object content)"

text \<open>
  C24. A request that can carry a body reaches the routes only with a JSON content type and at most
  65536 readable bytes that are blank or one JSON object without duplicate keys, and then with those
  bytes unchanged. Any other request is answered with 415, 413 or 400 and touches neither the routes
  nor the database.
\<close>

theorem body_gate:
  assumes "hq_Method rq \<noteq> MethodGet" and "hq_Method rq \<noteq> MethodHead" and "hq_Body rq = Body content readable"
  shows "if readable \<and> acceptable_body tab rq content
    then requireSingleJSONDocument tab handle rq (r, w) = handle (rq\<lparr>hq_Body := Body content True\<rparr>) (r, w)
    else \<exists>r' w' st. requireSingleJSONDocument tab handle rq (r, w) = Some (False, r', w') \<and> db w' = db w
       \<and> st \<in> {415, 413, 400} \<and> (hr_sent r = None \<longrightarrow> (\<exists>h. hr_sent r' = Some (st, h)))"
proof -
  have rejected: "\<exists>r' w' st. reject rq reason st0 message (r, w) = Some (False, r', w') \<and> db w' = db w
       \<and> st \<in> {415, 413, 400} \<and> (hr_sent r = None \<longrightarrow> (\<exists>h. hr_sent r' = Some (st, h)))"
    if "st0 \<in> {415, 413, 400}" for reason st0 message
    using that by (auto simp: reject_def writeRESTError_def write_body_def write_header_def Write_def WriteHeader_def
        Header_Set_def complete_type_def logRejectedInput_def log_http_def metric_m_def Let_def)
  show ?thesis
  proof (cases "ParseMediaType tab (Header_Get rq ''Content-Type'')")
    case None
    with assms show ?thesis using rejected [of 415]
      by (simp add: requireSingleJSONDocument_def acceptable_body_def)
  next
    case (Some mediaType)
    show ?thesis
    proof (cases "strings_EqualFold_ascii mediaType ''application/json'' \<and> readable \<and> length content \<le> 65536")
      case False
      with Some assms show ?thesis using rejected [of 415] rejected [of 413]
        by (auto simp: requireSingleJSONDocument_def acceptable_body_def max_request_bytes_def)
    next
      case True
      with Some assms show ?thesis using rejected [of 400]
        by (auto simp: requireSingleJSONDocument_def acceptable_body_def max_request_bytes_def one_object_iff split: sum.splits)
    qed
  qed
qed

section \<open>Panics\<close>

text \<open>
  C26. Whatever a handler does, the recovery returns: a panic is turned into a response, which is the
  internal error with status 500 when nothing had been sent, and is logged; a handler that returns is
  left alone.
\<close>

theorem panics_recovered:
  assumes "handle rq s = Some (panicked, r0, w0)"
  shows "\<exists>r w. recoverPanics handle rq s = Some (False, r, w) \<and> db w = db w0
    \<and> (\<not> panicked \<longrightarrow> r = r0 \<and> w = w0)
    \<and> (panicked \<and> hr_sent r0 = None \<and> hr_body r0 = [] \<longrightarrow> (\<exists>h. hr_sent r = Some (500, h))
        \<and> parse_json (hr_body r) = Some (JObj [(''error'', JStr ''internal server error'')]))"
proof -
  have "parse_json (encode_error ''internal server error'') = Some (JObj [(''error'', JStr ''internal server error'')])"
    by (rule parse_encoded_error) (simp_all add: byte_class_defs)
  then show ?thesis using assms
    by (auto simp: recoverPanics_def writeRESTError_def write_body_def write_header_def Write_def WriteHeader_def
        Header_Set_def log_http_def metric_m_def Let_def)
qed

section \<open>Error bodies\<close>

text \<open>
  C27. The body of every error response is a JSON document from which a client reads back exactly the
  message, for every message of ASCII characters, whatever quotes, control characters or markup it
  contains.
\<close>

theorem error_body_roundtrip:
  assumes "list_all is_ascii_byte message" and "message \<noteq> []"
  shows "parse_json (encode_error message) = Some (JObj [(''error'', JStr message)])"
  by (rule parse_encoded_error [OF assms])

text \<open>
  C27. A refused request names a waiting time that is long enough and less than a second too long: the
  \<^verbatim>\<open>Retry-After\<close> header of an error with a positive delay is that delay in seconds, rounded up.
\<close>

theorem retry_after_header:
  assumes "gs_retry st = Some delay" and "0 < delay" and "hr_sent r = None"
  shows "\<exists>seconds h. hr_sent (writeStatusError httpStatus wr st r) = Some (httpStatus (gs_code st), h)
    \<and> h ''Retry-After'' = Some (append_int seconds 1)
    \<and> delay \<le> seconds * ns_second \<and> seconds * ns_second < delay + ns_second"
proof -
  define k where "k = retry_seconds_header delay"
  define q where "q = delay div ns_second"
  define m where "m = delay mod ns_second"
  have "k = (if m \<noteq> 0 then q + 1 else q)"
    using assms(2) by (simp add: k_def retry_seconds_header_def q_def m_def)
  moreover have "delay = q * 1000000000 + m" "0 \<le> m" "m < 1000000000"
    by (simp_all add: ns_second_def q_def m_def)
  ultimately have k: "delay \<le> k * ns_second" "k * ns_second < delay + ns_second"
    unfolding ns_second_def by (cases "m = 0"; simp)+
  then have "0 < k" using assms(2) by (auto simp: ns_second_def)
  with k assms(1,3) show ?thesis unfolding k_def
    by (intro exI [of _ "retry_seconds_header delay"])
      (cases wr; auto simp: writeStatusError_def writeRESTError_def write_body_def write_header_def Write_def WriteHeader_def
        Header_Set_def complete_type_def Let_def)
qed

section \<open>Telemetry\<close>


section \<open>Headers\<close>


section \<open>Witnesses\<close>

definition demo_http :: "string \<Rightarrow> http_request" where
  "demo_http content = \<lparr>hq_Method = MethodPost, hq_Path = ''/buys'', hq_RawQuery = [],
     hq_Header = (\<lambda>name. if name = ''Content-Type'' then [''application/json''] else []), hq_Body = Body content True,
     hq_ContentLength = int (length content), hq_Host = ''example'', hq_RemoteAddr = ''10.0.0.1'', hq_RequestURI = ''/buys'',
     hq_Fragment = []\<rparr>"


theorem retry_after_header_witness:
  "\<exists>seconds h. hr_sent (writeStatusError (\<lambda>_. 429) Secure \<lparr>gs_code = ResourceExhausted, gs_message = ''slow'',
       gs_retry = Some 1500000000\<rparr> empty_response) = Some (429, h) \<and> h ''Retry-After'' = Some (append_int seconds 1)
     \<and> 1500000000 \<le> seconds * ns_second \<and> seconds * ns_second < 1500000000 + ns_second"
  using retry_after_header [of "\<lparr>gs_code = ResourceExhausted, gs_message = ''slow'', gs_retry = Some 1500000000\<rparr>"
      1500000000 empty_response "\<lambda>_. 429" Secure] by (simp add: empty_response_def)

theorem error_body_roundtrip_witness:
  "parse_json (encode_error ''a<b & c'') = Some (JObj [(''error'', JStr ''a<b & c'')])"
  using error_body_roundtrip [of "''a<b & c''"] by (simp add: byte_class_defs)

theorem panics_recovered_witness:
  "\<exists>r w h. recoverPanics (\<lambda>_ (r, w). Some (True, r, w)) (demo_http ''{}'') (empty_response, demo_world demo_db []) =
     Some (False, r, w) \<and> hr_sent r = Some (500, h)"
  using panics_recovered [of "\<lambda>_ (r, w). Some (True, r, w)" "demo_http ''{}''" "(empty_response, demo_world demo_db [])" True
      empty_response "demo_world demo_db []"]
  by (auto simp: empty_response_def)

lemma demo_body: "acceptable_body (\<lambda>r. r) (demo_http ''{}'') ''{}''"
proof -
  note ParseMediaType_json [of "\<lambda>r. r"]
  moreover have "is_ok (validateSingleJSONObject ''{}'')" by code_simp
  moreover have "Header_Get (demo_http ''{}'') ''Content-Type'' = ''application/json''" by (simp add: Header_Get_def demo_http_def)
  ultimately show ?thesis by (simp add: acceptable_body_def one_object_iff strings_EqualFold_ascii_def)
qed

theorem body_gate_witness:
  "requireSingleJSONDocument (\<lambda>r. r) (\<lambda>_ (r, w). Some (False, r, w)) (demo_http ''{}'') (empty_response, demo_world demo_db []) =
     Some (False, empty_response, demo_world demo_db [])"
  using body_gate [of "demo_http ''{}''" "''{}''" True "\<lambda>r. r" "\<lambda>_ (r, w). Some (False, r, w)" empty_response "demo_world demo_db []"]
    demo_body by (simp add: demo_http_def MethodPost_def MethodGet_def MethodHead_def)




end
