(* ===== verification/Go_Unmarshal.thy ===== *)
theory Go_Unmarshal
  imports Go_Json Go_Time
begin

text \<open>
  \<^verbatim>\<open>json.Unmarshal\<close> into structs, strings, integers, raw messages and slices, and the parsing of
  integers and dates. A mismatch of types makes \<^verbatim>\<open>Unmarshal\<close> return an error whatever follows, so
  decoding is partial; a null leaves strings, integers and structs as they are.
\<close>

section \<open>Documents\<close>

fun json_depth :: "json \<Rightarrow> nat"
  and items_depth :: "json list \<Rightarrow> nat"
  and members_depth :: "(string \<times> json) list \<Rightarrow> nat" where
  "json_depth (JArr vs) = Suc (items_depth vs)"
| "json_depth (JObj ms) = Suc (members_depth ms)"
| "json_depth _ = 0"
| "items_depth [] = 0"
| "items_depth (v # vs) = max (json_depth v) (items_depth vs)"
| "members_depth [] = 0"
| "members_depth ((_, v) # ms) = max (json_depth v) (members_depth ms)"

definition maxNestingDepth :: nat where "maxNestingDepth = 10000"

definition checkValid :: "string \<Rightarrow> json option" where
  "checkValid s =
     (case parse_json s of
        None \<Rightarrow> None
      | Some v \<Rightarrow> if json_depth v \<le> maxNestingDepth then Some v else None)"

section \<open>Names of fields\<close>

text \<open>
  \<^verbatim>\<open>foldName\<close>. Only U+017F and U+212A fold to an ASCII letter; the other runes beyond ASCII are left as
  they are, since the names of the sources are ASCII.
\<close>

definition foldRune :: "nat \<Rightarrow> nat" where
  "foldRune r = (if r = 383 then 83 else if r = 8490 then 75 else r)"

function foldName :: "nat list \<Rightarrow> nat list" where
  "foldName [] = []"
| "foldName (b # bs) =
     (if b < 128 then (if 97 \<le> b \<and> b \<le> 122 then b - 32 else b) # foldName bs
      else encode_rune (foldRune (fst (decode_rune (b # bs))))
        @ foldName (drop (snd (decode_rune (b # bs))) (b # bs)))"
  by pat_completeness auto
termination
proof (relation "measure length")
  fix b :: nat and bs :: "nat list"
  show "(drop (snd (decode_rune (b # bs))) (b # bs), b # bs) \<in> measure length"
    using decode_rune_width [of b bs] by (simp add: diff_less)
qed auto

definition field_is :: "string \<Rightarrow> string \<Rightarrow> bool" where
  "field_is name key \<longleftrightarrow> key = name \<or> foldName (map byte_of key) = foldName (map byte_of name)"

section \<open>Integers\<close>

definition wrap64 :: "int \<Rightarrow> int" where
  "wrap64 n = (n + 2 ^ 63) mod 2 ^ 64 - 2 ^ 63"

text \<open>\<^verbatim>\<open>strconv.ParseInt(s, 10, 64)\<close>\<close>

definition ParseInt64 :: "string \<Rightarrow> int option" where
  "ParseInt64 s =
     (let (negative, ds) = (case s of
            c # cs \<Rightarrow> if c = CHR ''-'' then (True, cs) else if c = CHR ''+'' then (False, cs) else (False, s)
          | [] \<Rightarrow> (False, []));
          n = int (digits_value ds)
      in if ds = [] \<or> \<not> list_all is_digit_byte ds then None
         else if negative then (if n \<le> 2 ^ 63 then Some (- n) else None)
         else if n < 2 ^ 63 then Some n else None)"

section \<open>Destinations\<close>

definition decode_string :: "json \<Rightarrow> string \<Rightarrow> string option" where
  "decode_string v old = (case v of JStr s \<Rightarrow> Some s | JNull \<Rightarrow> Some old | _ \<Rightarrow> None)"

definition decode_int64 :: "json \<Rightarrow> int \<Rightarrow> int option" where
  "decode_int64 v old = (case v of JNum l \<Rightarrow> ParseInt64 l | JNull \<Rightarrow> Some old | _ \<Rightarrow> None)"

fun decode_members :: "(string \<Rightarrow> json \<Rightarrow> 'a \<Rightarrow> 'a option) \<Rightarrow> (string \<times> json) list \<Rightarrow> 'a \<Rightarrow> 'a option" where
  "decode_members field [] x = Some x"
| "decode_members field ((key, v) # ms) x =
     (case field key v x of None \<Rightarrow> None | Some x' \<Rightarrow> decode_members field ms x')"

definition decode_struct :: "(string \<Rightarrow> json \<Rightarrow> 'a \<Rightarrow> 'a option) \<Rightarrow> json \<Rightarrow> 'a \<Rightarrow> 'a option" where
  "decode_struct field v old =
     (case v of JObj ms \<Rightarrow> decode_members field ms old | JNull \<Rightarrow> Some old | _ \<Rightarrow> None)"

text \<open>
  A slice is nil or a backing array with the number of elements in use. Decoding an array reuses the
  elements of the backing array, also those past the length, so a repeated key merges into what an
  earlier one left there; an empty array allocates a new slice.
\<close>

type_synonym 'a slice = "('a list \<times> nat) option"

definition elements :: "'a slice \<Rightarrow> 'a list" where
  "elements s = (case s of None \<Rightarrow> [] | Some (xs, n) \<Rightarrow> take n xs)"

fun decode_items :: "(json \<Rightarrow> 'a \<Rightarrow> 'a option) \<Rightarrow> 'a \<Rightarrow> nat \<Rightarrow> json list \<Rightarrow> 'a list \<Rightarrow> 'a list option" where
  "decode_items item zero i [] xs = Some xs"
| "decode_items item zero i (v # vs) xs =
     (case item v (if i < length xs then xs ! i else zero) of
        None \<Rightarrow> None
      | Some x \<Rightarrow> decode_items item zero (Suc i) vs (if i < length xs then xs[i := x] else xs @ [x]))"

definition decode_slice :: "(json \<Rightarrow> 'a \<Rightarrow> 'a option) \<Rightarrow> 'a \<Rightarrow> json \<Rightarrow> 'a slice \<Rightarrow> 'a slice option" where
  "decode_slice item zero v old =
     (case v of
        JNull \<Rightarrow> Some None
      | JArr vs \<Rightarrow>
          if vs = [] then Some (Some ([], 0))
          else map_option (\<lambda>xs. Some (xs, length vs))
                 (decode_items item zero 0 vs (case old of None \<Rightarrow> [] | Some (xs, _) \<Rightarrow> xs))
      | _ \<Rightarrow> None)"

text \<open>Into a nil slice, decoding is a plain map.\<close>

lemma decode_items_fresh:
  assumes "list_all2 (\<lambda>v x. item v zero = Some x) vs xs"
  shows "decode_items item zero (length ys) vs ys = Some (ys @ xs)"
  using assms
proof (induction vs arbitrary: ys xs)
  case (Cons v vs)
  then obtain x xs' where "xs = x # xs'" "item v zero = Some x" "list_all2 (\<lambda>v x. item v zero = Some x) vs xs'"
    by (auto simp: list_all2_Cons1)
  then show ?case using Cons.IH [of xs' "ys @ [x]"] by simp
qed simp

lemma decode_slice_fresh:
  assumes "list_all2 (\<lambda>v x. item v zero = Some x) vs xs"
  shows "decode_slice item zero (JArr vs) None = Some (Some (xs, length xs))"
proof (cases "vs = []")
  case False
  then show ?thesis
    using decode_items_fresh [of item zero vs xs "[]"] assms list_all2_lengthD [OF assms] by (simp add: decode_slice_def)
qed (use assms in \<open>simp add: decode_slice_def\<close>)

section \<open>Dates\<close>

text \<open>\<^verbatim>\<open>time.Parse\<close> for the layouts \<^verbatim>\<open>02/01/2006\<close> and \<^verbatim>\<open>2006-01-02\<close>.\<close>

definition daysIn :: "int \<Rightarrow> int \<Rightarrow> int" where
  "daysIn month year = month_start (12 * year + month) - month_start (12 * year + month - 1)"

definition take_number :: "nat \<Rightarrow> string \<Rightarrow> (int \<times> string) option" where
  "take_number n s =
     (if length s < n \<or> \<not> list_all is_digit_byte (take n s) then None
      else Some (int (digits_value (take n s)), drop n s))"

definition skip_byte :: "char \<Rightarrow> string \<Rightarrow> string option" where
  "skip_byte c s = (case s of x # r \<Rightarrow> if x = c then Some r else None | [] \<Rightarrow> None)"

definition valid_date :: "int \<Rightarrow> int \<Rightarrow> int \<Rightarrow> string \<Rightarrow> int option" where
  "valid_date y m d rest =
     (if m < 1 \<or> 12 < m then None
      else if rest \<noteq> [] then None
      else if d < 1 \<or> daysIn m y < d then None
      else Some (time_Date y m d))"

definition Parse_slashed :: "string \<Rightarrow> int option" where
  "Parse_slashed s =
     Option.bind (take_number 2 s) (\<lambda>(d, s1).
     Option.bind (skip_byte (CHR ''/'') s1) (\<lambda>s2.
     Option.bind (take_number 2 s2) (\<lambda>(m, s3).
     Option.bind (skip_byte (CHR ''/'') s3) (\<lambda>s4.
     Option.bind (take_number 4 s4) (\<lambda>(y, s5). valid_date y m d s5)))))"

definition Parse_DateOnly :: "string \<Rightarrow> int option" where
  "Parse_DateOnly s =
     Option.bind (take_number 4 s) (\<lambda>(y, s1).
     Option.bind (skip_byte (CHR ''-'') s1) (\<lambda>s2.
     Option.bind (take_number 2 s2) (\<lambda>(m, s3).
     Option.bind (skip_byte (CHR ''-'') s3) (\<lambda>s4.
     Option.bind (take_number 2 s4) (\<lambda>(d, s5). valid_date y m d s5)))))"

end
