(* ===== verification/Sie_Client.thy ===== *)
theory Sie_Client
  imports Go_Unmarshal Go_Http Rates_Service
begin

text \<open>
  Package \<^verbatim>\<open>sie\<close>: the client of the central bank's API of exchange rates. The exchange over the network
  (\<^verbatim>\<open>Client.Do\<close>, with its redirects and timeout) and the clock are parameters.
\<close>

section \<open>Configuration\<close>

definition baseURL :: string where "baseURL = ''https://www.banxico.org.mx''"
definition defaultTimeout :: int where "defaultTimeout = 5 * ns_second"
definition defaultMaxBodySize :: int where "defaultMaxBodySize = 1024 * 1024"

definition ErrInvalidConfiguration :: go_error where
  "ErrInvalidConfiguration = ErrorString ''invalid SIE client configuration''"

definition ErrAuthentication :: go_error where
  "ErrAuthentication = Errorf ''SIE API rejected its configured token'' [ErrProviderAuthentication]"

definition ErrInvalidResponse :: go_error where
  "ErrInvalidResponse = Errorf ''SIE API returned an invalid response'' [ErrProviderInvalidResponse]"

definition invalid_response :: "string \<Rightarrow> go_error" where
  "invalid_response detail = Errorf detail [ErrInvalidResponse]"

text \<open>The transports of package \<^verbatim>\<open>http\<close> are opaque.\<close>

record redirect_url =
  ru_Scheme :: string
  ru_Host :: string

record 't http_client =
  hc_Transport :: "'t option"
  hc_Timeout :: int
  hc_CheckRedirect :: "(redirect_url \<Rightarrow> unit result) option"

record 't Config =
  cf_Token :: string
  cf_HTTPClient :: "'t http_client option"
  cf_Timeout :: int
  cf_MaxBodySize :: int

record 't Client =
  cl_token :: string
  cl_httpClient :: "'t http_client"
  cl_maxBodySize :: int

definition validToken :: "string \<Rightarrow> bool" where
  "validToken token \<longleftrightarrow> length token = 64
     \<and> list_all (\<lambda>c. is_digit_byte c \<or> is_upper_byte c \<or> is_lower_byte c) token"

definition sameOriginRedirect :: "redirect_url \<Rightarrow> unit result" where
  "sameOriginRedirect u =
     (if ru_Scheme u \<noteq> ''https'' \<or> ru_Host u \<noteq> ''www.banxico.org.mx'' then
        Inl (ErrorString ''SIE redirect left the configured HTTPS origin'')
      else Inr ())"

definition NewClient :: "'t http_client \<Rightarrow> 't \<Rightarrow> ('t \<Rightarrow> 't) \<Rightarrow> 't Config \<Rightarrow> 't Client result" where
  "NewClient DefaultClient DefaultTransport otel config =
     (if \<not> validToken (cf_Token config) \<or> cf_Timeout config < 0 \<or> cf_MaxBodySize config < 0 then
        Inl ErrInvalidConfiguration
      else
        (let timeout = (if cf_Timeout config = 0 then defaultTimeout else cf_Timeout config);
             maxBodySize = (if cf_MaxBodySize config = 0 then defaultMaxBodySize else cf_MaxBodySize config);
             client = (case cf_HTTPClient config of None \<Rightarrow> DefaultClient | Some c \<Rightarrow> c);
             transport = (case hc_Transport client of None \<Rightarrow> DefaultTransport | Some t \<Rightarrow> t)
         in Inr \<lparr>cl_token = cf_Token config,
              cl_httpClient = client\<lparr>hc_Timeout := timeout, hc_CheckRedirect := Some sameOriginRedirect,
                hc_Transport := Some (otel transport)\<rparr>,
              cl_maxBodySize = maxBodySize\<rparr>))"

section \<open>Requests\<close>

fun collect_series :: "string list \<Rightarrow> string list \<Rightarrow> string list result" where
  "collect_series [] requested = Inr requested"
| "collect_series (i # is) requested =
     bind_r (SeriesID_Validate i) (\<lambda>_.
       if i \<in> set requested then Inl ErrInvalidSeries else collect_series is (requested @ [i]))"

fun strings_Join :: "string list \<Rightarrow> string \<Rightarrow> string" where
  "strings_Join [] sep = []"
| "strings_Join [a] sep = a"
| "strings_Join (a # b # as) sep = a @ sep @ strings_Join (b # as) sep"

text \<open>
  The dates of a request are days at midnight UTC, which \<^verbatim>\<open>dateOnly\<close> leaves alone. \<^verbatim>\<open>url.Parse\<close> and
  \<^verbatim>\<open>String\<close> give back the address they were given: it has only letters, digits, slashes, commas,
  hyphens and dots after the scheme (\<open>requestURL_plain\<close>).
\<close>

definition requestURL :: "FetchRequest \<Rightarrow> (string \<times> string list) result" where
  "requestURL request =
     (if fr_SeriesIDs request = [] \<or> MaxSeriesPerRequest < length (fr_SeriesIDs request) then Inl ErrInvalidSeries
      else bind_r (collect_series (fr_SeriesIDs request) []) (\<lambda>requested.
        (let path = ''/SieAPIRest/service/v1/series/'' @ strings_Join (fr_SeriesIDs request) '','' @ ''/datos''
         in if fr_Kind request = FetchLatest then Inr (baseURL @ path @ ''/oportuno'', requested)
            else if fr_Kind request = FetchRange then
              (if fr_From request = zero_day \<or> fr_To request = zero_day \<or> fr_To request < fr_From request then
                 Inl ErrInvalidDateRange
               else Inr (baseURL @ path @ ''/'' @ Format_DateOnly (fr_From request) @ ''/''
                 @ Format_DateOnly (fr_To request), requested))
            else Inl ErrInvalidDateRange)))"

record outgoing =
  og_Method :: string
  og_URL :: string
  og_Header :: "string \<Rightarrow> string option"

text \<open>A response: the bytes of its body and the error that follows them, if any.\<close>

record incoming =
  ic_Status :: int
  ic_Header :: "string \<Rightarrow> string list"
  ic_Body :: string
  ic_ReadError :: "go_error option"

definition incoming_Get :: "incoming \<Rightarrow> string \<Rightarrow> string" where
  "incoming_Get r name = (case ic_Header r name of [] \<Rightarrow> [] | v # _ \<Rightarrow> v)"

text \<open>\<^verbatim>\<open>readBounded\<close>: the limit is one byte more than allowed, in 64 bits.\<close>

definition readBounded :: "incoming \<Rightarrow> int \<Rightarrow> string result" where
  "readBounded r maximum =
     (let limit = nat (wrap64 (maximum + 1));
          body = take limit (ic_Body r)
      in case (if length (ic_Body r) < limit then ic_ReadError r else None) of
           Some e \<Rightarrow> Inl (Errorf ''read SIE response'' [e])
         | None \<Rightarrow> if maximum < int (length body) then Inl (invalid_response ''response exceeds bytes'') else Inr body)"

fun bytes_Contains :: "string \<Rightarrow> string \<Rightarrow> bool" where
  "bytes_Contains [] needle \<longleftrightarrow> needle = []"
| "bytes_Contains (c # cs) needle \<longleftrightarrow> take (length needle) (c # cs) = needle \<or> bytes_Contains cs needle"

section \<open>Documents\<close>

record wireObservation =
  wo_Date :: string
  wo_Value :: string

record wireSeries =
  we_ID :: string
  we_Observations :: "wireObservation slice"
  we_Error :: "json option"

definition zero_observation :: wireObservation where
  "zero_observation = \<lparr>wo_Date = [], wo_Value = []\<rparr>"

definition zero_series :: wireSeries where
  "zero_series = \<lparr>we_ID = [], we_Observations = None, we_Error = None\<rparr>"

definition decode_observation :: "json \<Rightarrow> wireObservation \<Rightarrow> wireObservation option" where
  "decode_observation = decode_struct (\<lambda>key v x.
     if field_is ''fecha'' key then map_option (\<lambda>s. x\<lparr>wo_Date := s\<rparr>) (decode_string v (wo_Date x))
     else if field_is ''dato'' key then map_option (\<lambda>s. x\<lparr>wo_Value := s\<rparr>) (decode_string v (wo_Value x))
     else Some x)"

text \<open>The raw bytes of the error are kept as the value they spell.\<close>

definition decode_series :: "json \<Rightarrow> wireSeries \<Rightarrow> wireSeries option" where
  "decode_series = decode_struct (\<lambda>key v x.
     if field_is ''idSerie'' key then map_option (\<lambda>s. x\<lparr>we_ID := s\<rparr>) (decode_string v (we_ID x))
     else if field_is ''datos'' key then
       map_option (\<lambda>s. x\<lparr>we_Observations := s\<rparr>) (decode_slice decode_observation zero_observation v (we_Observations x))
     else if field_is ''error'' key then Some (x\<lparr>we_Error := Some v\<rparr>)
     else Some x)"

text \<open>\<^verbatim>\<open>wireResponse\<close> is a struct around a struct around the series.\<close>

definition decode_bmx :: "json \<Rightarrow> wireSeries slice \<Rightarrow> wireSeries slice option" where
  "decode_bmx = decode_struct (\<lambda>key v x.
     if field_is ''series'' key then decode_slice decode_series zero_series v x else Some x)"

definition decode_wireResponse :: "json \<Rightarrow> wireSeries slice \<Rightarrow> wireSeries slice option" where
  "decode_wireResponse = decode_struct (\<lambda>key v x. if field_is ''bmx'' key then decode_bmx v x else Some x)"

definition Unmarshal_wireResponse :: "string \<Rightarrow> wireSeries slice option" where
  "Unmarshal_wireResponse body = Option.bind (checkValid body) (\<lambda>v. decode_wireResponse v None)"

definition parseObservation :: "('u, 'd) lib \<Rightarrow> string \<Rightarrow> wireObservation \<Rightarrow> 'd ProviderObservation result" where
  "parseObservation L seriesID item =
     (let observedAt = (case Parse_slashed (wo_Date item) of
            Some t \<Rightarrow> Some t
          | None \<Rightarrow> Parse_DateOnly (wo_Date item))
      in case (observedAt, dec_NewFromString L (filter (\<lambda>c. c \<noteq> CHR '','') (wo_Value item))) of
           (Some t, Some d) \<Rightarrow>
             if \<not> dec_IsPositive L d then Inl ErrInvalidObservation
             else Inr \<lparr>po_SeriesID = seriesID, po_Date = t, po_Value = d\<rparr>
         | _ \<Rightarrow> Inl ErrInvalidObservation)"

definition observation_key :: "string \<Rightarrow> int \<Rightarrow> string" where
  "observation_key seriesID date = seriesID @ [char_of (0 :: nat)] @ Format_DateOnly date"

fun decode_observations ::
  "('u, 'd) lib \<Rightarrow> string \<Rightarrow> wireObservation list \<Rightarrow> string list \<Rightarrow> 'd ProviderObservation list
     \<Rightarrow> (string list \<times> 'd ProviderObservation list) result" where
  "decode_observations L seriesID [] seen acc = Inr (seen, acc)"
| "decode_observations L seriesID (item # items) seen acc =
     bind_r (parseObservation L seriesID item) (\<lambda>x.
       (let key = observation_key seriesID (po_Date x)
        in if key \<in> set seen then Inl (invalid_response ''duplicate observation'')
           else decode_observations L seriesID items (key # seen) (acc @ [x])))"

fun decode_all ::
  "('u, 'd) lib \<Rightarrow> string list \<Rightarrow> wireSeries list \<Rightarrow> string list \<Rightarrow> string list \<Rightarrow> 'd ProviderObservation list
     \<Rightarrow> 'd ProviderObservation list result" where
  "decode_all L requested [] seenSeries seen acc =
     (if length seenSeries \<noteq> length requested then Inl (invalid_response ''missing series'') else Inr acc)"
| "decode_all L requested (s # ss) seenSeries seen acc =
     (if we_ID s \<notin> set requested then Inl (invalid_response ''unrequested series'')
      else if we_ID s \<in> set seenSeries then Inl (invalid_response ''duplicate series'')
      else if we_Error s \<noteq> None \<and> we_Error s \<noteq> Some JNull then Inl (invalid_response ''series error'')
      else bind_r (decode_observations L (we_ID s) (elements (we_Observations s)) seen acc) (\<lambda>(seen', acc').
        decode_all L requested ss (we_ID s # seenSeries) seen' acc'))"

definition decodeResponse :: "('u, 'd) lib \<Rightarrow> string \<Rightarrow> string list \<Rightarrow> 'd ProviderObservation list result" where
  "decodeResponse L body requested =
     (case Unmarshal_wireResponse body of
        Some (Some s) \<Rightarrow> decode_all L requested (elements (Some s)) [] [] []
      | _ \<Rightarrow> Inl (invalid_response ''malformed JSON body''))"

section \<open>Rate limits\<close>

definition decode_rate_limit :: "json \<Rightarrow> int \<times> int \<Rightarrow> (int \<times> int) option" where
  "decode_rate_limit = decode_struct (\<lambda>key v x.
     if field_is ''error'' key then
       decode_struct (\<lambda>key v (timeReset, secondsToReset).
         if field_is ''timeReset'' key then map_option (\<lambda>n. (n, secondsToReset)) (decode_int64 v timeReset)
         else if field_is ''secondsToReset'' key then map_option (\<lambda>n. (timeReset, n)) (decode_int64 v secondsToReset)
         else Some (timeReset, secondsToReset)) v x
     else Some x)"

text \<open>\<^verbatim>\<open>time.Unix(s, 0)\<close> counts seconds from year 1 in 64 bits.\<close>

definition time_Unix :: "int \<Rightarrow> int" where
  "time_Unix s = (wrap64 (s + 62135596800) - 62135596800) * ns_second"

definition positive_header :: "incoming \<Rightarrow> string \<Rightarrow> int option" where
  "positive_header r name =
     (if incoming_Get r name = [] then None
      else case ParseInt64 (incoming_Get r name) of
             None \<Rightarrow> None
           | Some n \<Rightarrow> if 0 < n then Some n else None)"

definition rateLimitReset :: "(world \<Rightarrow> clock_time \<times> world) \<Rightarrow> incoming \<Rightarrow> string \<Rightarrow> world \<Rightarrow> int option \<times> world" where
  "rateLimitReset now r body w =
     (case positive_header r ''Bmx-Timereset'' of
        Some s \<Rightarrow> (Some (time_Unix s), w)
      | None \<Rightarrow>
          (case Option.bind (checkValid body) (\<lambda>v. decode_rate_limit v (0, 0)) of
             Some (timeReset, _) \<Rightarrow>
               if 0 < timeReset then (Some (time_Unix timeReset), w)
               else (case positive_header r ''Bmx-Secondstoreset'' of
                       None \<Rightarrow> (None, w)
                     | Some s \<Rightarrow> (case now w of (t, w1) \<Rightarrow> (Some (tm_instant t + wrap64 (s * ns_second)), w1)))
           | None \<Rightarrow>
               (case positive_header r ''Bmx-Secondstoreset'' of
                  None \<Rightarrow> (None, w)
                | Some s \<Rightarrow> (case now w of (t, w1) \<Rightarrow> (Some (tm_instant t + wrap64 (s * ns_second)), w1)))))"

section \<open>Fetch\<close>

definition rate_limited :: "incoming \<Rightarrow> bool" where
  "rate_limited r \<longleftrightarrow> ic_Status r = 400 \<or> ic_Status r = 429"

definition accept_response ::
  "('u, 'd) lib \<Rightarrow> (nat \<Rightarrow> nat) \<Rightarrow> string list \<Rightarrow> incoming \<Rightarrow> string \<Rightarrow> 'd FetchResult result" where
  "accept_response L tab requested r body =
     (if ic_Status r \<noteq> 200 then Inl (Errorf ''HTTP status'' [ErrUpstreamUnavailable])
      else if ParseMediaType tab (incoming_Get r ''Content-Type'') \<noteq> Some ''application/json'' then
        Inl (invalid_response ''unexpected content type'')
      else bind_r (decodeResponse L body requested) (\<lambda>observations.
        Inr \<lparr>fe_Response = body, fe_Observations = observations\<rparr>))"

definition Client_Fetch ::
  "('u, 'd) lib \<Rightarrow> (nat \<Rightarrow> nat) \<Rightarrow> ('t http_client \<Rightarrow> outgoing \<Rightarrow> incoming m) \<Rightarrow> (world \<Rightarrow> clock_time \<times> world)
     \<Rightarrow> 't Client \<Rightarrow> 'd Provider" where
  "Client_Fetch L tab Do now client request =
     bind_m (lift_r (requestURL request)) (\<lambda>(endpoint, requested).
     bind_m (try_m (Do (cl_httpClient client) \<lparr>og_Method = ''GET'', og_URL = endpoint,
         og_Header = [''Accept'' \<mapsto> ''application/json'', ''Bmx-Token'' \<mapsto> cl_token client]\<rparr>)) (\<lambda>answer.
     case answer of
       Inl e \<Rightarrow> fail_m (Errorf ''%w: %w'' [ErrUpstreamUnavailable, e])
     | Inr r \<Rightarrow>
         bind_m (lift_r (readBounded r (cl_maxBodySize client))) (\<lambda>body.
           if bytes_Contains body (cl_token client) then fail_m (invalid_response ''response contained credential'')
           else if ic_Status r = 401 \<or> ic_Status r = 403 then fail_m ErrAuthentication
           else if rate_limited r then
             (\<lambda>w. case rateLimitReset now r body w of
                (Some retryAt, w1) \<Rightarrow> fail_m (RateLimitError retryAt) w1
              | (None, w1) \<Rightarrow> lift_r (accept_response L tab requested r body) w1)
           else lift_r (accept_response L tab requested r body))))"

end
