(* ===== verification/Sie_Facts.thy ===== *)
theory Sie_Facts
  imports Sie_Client Rates_Facts
begin

text \<open>Lemmas on the client of exchange rates: dates, addresses, documents and responses.\<close>

section \<open>Dates\<close>

lemma digit_byte: "n < 10 \<Longrightarrow> byte_of (digit n) = 48 + n" "n < 10 \<Longrightarrow> is_digit_byte (digit n)"
  by (simp_all add: digit_def byte_class_defs)

lemma digits_value_append: "digits_value (xs @ [c]) = digits_value xs * 10 + (byte_of c - 48)"
  by (simp add: digits_value_def)

lemma digits_value_zeros: "digits_value (replicate k (CHR ''0'')) = 0"
proof (induction k)
  case (Suc k)
  then show ?case
    using digits_value_append [of "replicate k (CHR ''0'')" "CHR ''0''"]
    by (simp add: replicate_append_same [symmetric] byte_of_def)
qed (simp add: digits_value_def)

lemma append_digits_read:
  assumes "0 < width" and "n < 10 ^ width"
  shows "length (append_digits width n) = width \<and> list_all is_digit_byte (append_digits width n)
    \<and> digits_value (append_digits width n) = n"
  using assms
proof (induction width n rule: append_digits.induct)
  case (1 width n)
  show ?case
  proof (cases "n < 10")
    case True
    then show ?thesis using 1(2)
      by (simp add: append_digits.simps [of width n] digit_byte digits_value_append digits_value_zeros)
        (simp add: byte_class_defs list_all_iff)
  next
    case False
    have "width \<noteq> 1" using 1(3) False by (metis power_one_right)
    with 1(2) have "0 < width - 1" "width = Suc (width - 1)" by simp_all
    moreover from this have "n div 10 < 10 ^ (width - 1)"
      using 1(3) by (metis less_mult_imp_div_less power_Suc mult.commute)
    ultimately have "length (append_digits (width - 1) (n div 10)) = width - 1"
      "list_all is_digit_byte (append_digits (width - 1) (n div 10))"
      "digits_value (append_digits (width - 1) (n div 10)) = n div 10"
      using 1(1) [OF False] by blast+
    then show ?thesis using False \<open>0 < width - 1\<close>
      by (simp add: append_digits.simps [of width n] digits_value_append digit_byte)
  qed
qed

lemma take_number_append_int:
  assumes "0 \<le> n" and "n < 10 ^ width" and "0 < width"
  shows "take_number width (append_int n width @ rest) = Some (n, rest)"
proof -
  have "nat n < 10 ^ width" using assms by (simp add: nat_less_iff)
  with append_digits_read [OF assms(3) this] assms(1) show ?thesis
    by (simp add: take_number_def append_int_def)
qed

lemma date_parts:
  "time_Date (time_Year d) (time_Month d) (time_Day d) = d" "1 \<le> time_Month d" "time_Month d \<le> 12"
  "1 \<le> time_Day d" "time_Day d \<le> daysIn (time_Month d) (time_Year d)" "time_Day d \<le> 31"
  using month_of_spec [of d] month_start_step [of "month_of d"]
  by (auto simp: time_Date_def time_Year_def time_Month_def time_Day_def daysIn_def algebra_simps)

lemma time_Date_parts:
  assumes "1 \<le> m" "m \<le> 12" "1 \<le> d" "d \<le> daysIn m y"
  shows "time_Year (time_Date y m d) = y" "time_Month (time_Date y m d) = m" "time_Day (time_Date y m d) = d"
proof -
  have k: "month_of (time_Date y m d) = 12 * y + m - 1"
    using assms by (intro month_of_unique) (simp_all add: time_Date_def daysIn_def)
  then show "time_Year (time_Date y m d) = y"
    using assms(1,2) by (simp add: time_Year_def)
  have "(12 * y + m - 1) mod 12 = (m - 1) mod 12" by (metis add_diff_eq mod_mult_self4)
  then show "time_Month (time_Date y m d) = m" using k assms(1,2) by (simp add: time_Month_def)
  show "time_Day (time_Date y m d) = d" using k by (simp add: time_Day_def time_Date_def)
qed

lemma Parse_Format_DateOnly:
  assumes "0 \<le> time_Year d" and "time_Year d \<le> 9999"
  shows "Parse_DateOnly (Format_DateOnly d) = Some d"
proof -
  have "take_number 4 (append_int (time_Year d) 4 @ rest) = Some (time_Year d, rest)"
    "take_number 2 (append_int (time_Month d) 2 @ rest) = Some (time_Month d, rest)"
    "take_number 2 (append_int (time_Day d) 2 @ rest) = Some (time_Day d, rest)" for rest
    using assms date_parts [of d] by (simp_all add: take_number_append_int)
  from this(1,2) this(3) [of "[]"] show ?thesis
    using date_parts [of d] by (simp add: Parse_DateOnly_def Format_DateOnly_def skip_byte_def valid_date_def)
qed

lemma digits_value_bound: "list_all is_digit_byte s \<Longrightarrow> digits_value s < 10 ^ length s"
proof (induction s rule: rev_induct)
  case (snoc c s)
  then have "byte_of c \<le> 57" "48 \<le> byte_of c" by (simp_all add: byte_class_defs)
  then have "byte_of c - 48 < 10" by arith
  with snoc show ?case by (simp add: digits_value_append)
qed (simp add: digits_value_def)

lemma take_number_bound: "take_number n s = Some (k, r) \<Longrightarrow> 0 \<le> k \<and> k < 10 ^ n"
  using digits_value_bound [of "take n s"]
  by (auto simp: take_number_def min_def split: if_splits)

lemma valid_date_year: "valid_date y m d rest = Some t \<Longrightarrow> time_Year t = y"
  by (auto simp: valid_date_def time_Date_parts split: if_splits)

lemma parsed_year:
  "Parse_slashed s = Some t \<Longrightarrow> 0 \<le> time_Year t \<and> time_Year t \<le> 9999"
  "Parse_DateOnly s = Some t \<Longrightarrow> 0 \<le> time_Year t \<and> time_Year t \<le> 9999"
  by (auto simp: Parse_slashed_def Parse_DateOnly_def bind_eq_Some_conv dest!: valid_date_year take_number_bound)

section \<open>Addresses\<close>

lemma collect_series_Inr:
  "collect_series is requested = Inr r \<longleftrightarrow>
     r = requested @ is \<and> distinct is \<and> set is \<inter> set requested = {} \<and> list_all (\<lambda>i. is_ok (SeriesID_Validate i)) is"
proof (induction "is" arbitrary: requested)
  case (Cons i "is")
  show ?case
    using Cons.IH [of "requested @ [i]"] by (cases "SeriesID_Validate i") (auto simp: is_ok_def)
qed auto

lemma requestURL_Inr:
  assumes "requestURL request = Inr (endpoint, requested)"
  shows "requested = fr_SeriesIDs request \<and> distinct requested \<and> list_all (\<lambda>i. is_ok (SeriesID_Validate i)) requested
    \<and> requested \<noteq> [] \<and> length requested \<le> MaxSeriesPerRequest"
  using assms by (auto simp: requestURL_def bind_r_Inr collect_series_Inr Let_def split: if_splits)

definition plain_byte :: "char \<Rightarrow> bool" where
  "plain_byte c \<longleftrightarrow> is_digit_byte c \<or> is_upper_byte c \<or> is_lower_byte c \<or> c \<in> set ''/,-.''"

lemma append_digits_plain: "list_all plain_byte (append_digits width n)"
proof (induction width n rule: append_digits.induct)
  case (1 width n)
  have "plain_byte (digit (n mod 10))" "n < 10 \<Longrightarrow> plain_byte (digit n)"
    by (simp_all add: plain_byte_def digit_byte)
  moreover have "plain_byte (CHR ''0'')" by (simp add: plain_byte_def byte_class_defs)
  ultimately show ?case using 1 by (subst append_digits.simps) (auto simp: list_all_iff)
qed

lemma Format_DateOnly_plain: "list_all plain_byte (Format_DateOnly d)"
  using append_digits_plain by (simp add: Format_DateOnly_def append_int_def plain_byte_def)

lemma series_plain: "is_ok (SeriesID_Validate i) \<Longrightarrow> list_all plain_byte i"
proof -
  assume "is_ok (SeriesID_Validate i)"
  then have "list_all is_upper_byte (take 2 i)" "list_all is_digit_byte (drop 2 i)"
    by (auto simp: SeriesID_Validate_def is_ok_def split: if_splits)
  then have "list_all plain_byte (take 2 i @ drop 2 i)"
    unfolding list_all_append by (auto simp: plain_byte_def list_all_iff)
  then show ?thesis by simp
qed

lemma strings_Join_plain: "list_all (list_all plain_byte) xs \<Longrightarrow> list_all plain_byte (strings_Join xs '','')"
  by (induction xs "'',''" rule: strings_Join.induct) (auto simp: plain_byte_def)

lemma requestURL_plain:
  assumes "requestURL request = Inr (endpoint, requested)"
  shows "\<exists>path. endpoint = baseURL @ ''/'' @ path \<and> list_all plain_byte path"
proof -
  have "list_all (list_all plain_byte) (fr_SeriesIDs request)"
    using requestURL_Inr [OF assms] series_plain by (auto simp: list_all_iff)
  then have join: "list_all plain_byte (strings_Join (fr_SeriesIDs request) '','')" by (rule strings_Join_plain)
  have fixed: "list_all plain_byte ''SieAPIRest/service/v1/series/''" "list_all plain_byte ''/datos''"
    "list_all plain_byte ''/oportuno''" "list_all plain_byte ''/''"
    by (simp_all add: plain_byte_def byte_class_defs)
  let ?path = "''SieAPIRest/service/v1/series/'' @ strings_Join (fr_SeriesIDs request) '','' @ ''/datos''"
  have "endpoint = baseURL @ ''/'' @ ?path @ ''/oportuno''
      \<or> endpoint = baseURL @ ''/'' @ ?path @ ''/'' @ Format_DateOnly (fr_From request) @ ''/'' @ Format_DateOnly (fr_To request)"
    using assms by (auto simp: requestURL_def bind_r_Inr Let_def split: if_splits)
  moreover have "list_all plain_byte (?path @ ''/oportuno'')"
    "list_all plain_byte (?path @ ''/'' @ Format_DateOnly (fr_From request) @ ''/'' @ Format_DateOnly (fr_To request))"
    using join fixed Format_DateOnly_plain unfolding list_all_append by blast+
  ultimately show ?thesis by blast
qed

section \<open>Documents\<close>

text \<open>A key names a series and a date: the series has no NUL and the date can be read back.\<close>

lemma series_no_nul:
  assumes "is_ok (SeriesID_Validate i)"
  shows "char_of (0 :: nat) \<notin> set i"
proof
  assume "char_of (0 :: nat) \<in> set i"
  then have "plain_byte (char_of (0 :: nat))" using series_plain [OF assms] by (simp add: list_all_iff)
  moreover have "plain_byte c \<Longrightarrow> byte_of c \<noteq> 0" for c by (auto simp: plain_byte_def byte_class_defs)
  ultimately have "byte_of (char_of (0 :: nat)) \<noteq> 0" by blast
  then show False by simp
qed

lemma observation_key_inj:
  assumes "is_ok (SeriesID_Validate i)" and "is_ok (SeriesID_Validate j)"
    and "0 \<le> time_Year s \<and> time_Year s \<le> 9999" and "0 \<le> time_Year t \<and> time_Year t \<le> 9999"
    and "observation_key i s = observation_key j t"
  shows "i = j \<and> s = t"
proof -
  let ?nul = "char_of (0 :: nat)"
  have "i @ ?nul # Format_DateOnly s = j @ ?nul # Format_DateOnly t"
    using assms(5) by (simp add: observation_key_def)
  moreover have "strings_Cut ?nul (i @ ?nul # Format_DateOnly s) = Some (i, Format_DateOnly s)"
    "strings_Cut ?nul (j @ ?nul # Format_DateOnly t) = Some (j, Format_DateOnly t)"
    using series_no_nul [OF assms(1)] series_no_nul [OF assms(2)] unfolding strings_Cut_Some by simp_all
  ultimately have "Some (i, Format_DateOnly s) = Some (j, Format_DateOnly t)" by metis
  then have "i = j" and f: "Format_DateOnly s = Format_DateOnly t" by simp_all
  moreover have "s = t"
    using Parse_Format_DateOnly [OF conjunct1 [OF assms(3)] conjunct2 [OF assms(3)]]
      Parse_Format_DateOnly [OF conjunct1 [OF assms(4)] conjunct2 [OF assms(4)]] unfolding f by (rule option.inject [THEN iffD1, OF trans [OF sym]])
  ultimately show ?thesis by blast
qed

lemma parseObservation_Inr:
  assumes "parseObservation L i item = Inr x"
  shows "po_SeriesID x = i" "dec_IsPositive L (po_Value x)" "0 \<le> time_Year (po_Date x) \<and> time_Year (po_Date x) \<le> 9999"
    "dec_NewFromString L (filter (\<lambda>c. c \<noteq> CHR '','') (wo_Value item)) = Some (po_Value x)"
  using assms parsed_year [of "wo_Date item"]
  by (auto simp: parseObservation_def Let_def split: option.splits if_splits)

text \<open>What a series of the document says, item by item, and the key under which an observation is seen.\<close>

definition series_reads :: "('u, 'd) lib \<Rightarrow> wireSeries \<Rightarrow> 'd ProviderObservation list \<Rightarrow> bool" where
  "series_reads L s xs \<longleftrightarrow> list_all2 (\<lambda>item x. parseObservation L (we_ID s) item = Inr x) (elements (we_Observations s)) xs"

definition seen_key :: "'d ProviderObservation \<Rightarrow> string" where
  "seen_key x = observation_key (po_SeriesID x) (po_Date x)"

lemma ex_list_all2_Cons:
  "(\<exists>zs. list_all2 R (y # ys) zs \<and> Q zs) \<longleftrightarrow> (\<exists>z. R y z \<and> (\<exists>zs. list_all2 R ys zs \<and> Q (z # zs)))"
  by (auto simp: list_all2_Cons1)

lemma decode_observations_Inr:
  "decode_observations L i items seen acc = Inr (seen', acc') \<longleftrightarrow>
     (\<exists>xs. list_all2 (\<lambda>item x. parseObservation L i item = Inr x) items xs \<and> acc' = acc @ xs
        \<and> seen' = rev (map seen_key xs) @ seen \<and> distinct (map seen_key xs) \<and> set (map seen_key xs) \<inter> set seen = {})"
proof (induction items arbitrary: seen acc)
  case (Cons item items)
  show ?case
  proof (cases "parseObservation L i item")
    case (Inl e)
    then show ?thesis by (auto simp: list_all2_Cons1)
  next
    case (Inr x)
    have k: "observation_key i (po_Date x) = seen_key x"
      using parseObservation_Inr(1) [OF Inr] by (simp add: seen_key_def)
    show ?thesis
    proof (cases "seen_key x \<in> set seen")
      case True
      then show ?thesis using Inr k by (auto simp: list_all2_Cons1 Let_def)
    next
      case False
      then have step: "decode_observations L i (item # items) seen acc = decode_observations L i items (seen_key x # seen) (acc @ [x])"
        using Inr k by (simp add: Let_def)
      show ?thesis
        unfolding step Cons.IH ex_list_all2_Cons [where R = "\<lambda>item x. parseObservation L i item = Inr x"] Inr
        using False by (simp, intro iff_exI) auto
    qed
  qed
qed auto

lemma decode_all_Inr:
  "decode_all L requested ss seenSeries seen acc = Inr r \<longleftrightarrow>
     (\<exists>xss. list_all2 (series_reads L) ss xss \<and> r = acc @ concat xss
        \<and> distinct (map seen_key (concat xss)) \<and> set (map seen_key (concat xss)) \<inter> set seen = {}
        \<and> distinct (map we_ID ss) \<and> set (map we_ID ss) \<inter> set seenSeries = {} \<and> set (map we_ID ss) \<subseteq> set requested
        \<and> list_all (\<lambda>s. we_Error s = None \<or> we_Error s = Some JNull) ss
        \<and> length ss + length seenSeries = length requested)"
proof (induction ss arbitrary: seenSeries seen acc)
  case (Cons s ss)
  let ?ok = "we_ID s \<in> set requested \<and> we_ID s \<notin> set seenSeries \<and> (we_Error s = None \<or> we_Error s = Some JNull)"
  show ?case
  proof (cases ?ok)
    case False
    then show ?thesis by auto
  next
    case True
    have step: "decode_all L requested (s # ss) seenSeries seen acc = Inr r \<longleftrightarrow>
        (\<exists>xs. series_reads L s xs \<and> distinct (map seen_key xs) \<and> set (map seen_key xs) \<inter> set seen = {}
           \<and> decode_all L requested ss (we_ID s # seenSeries) (rev (map seen_key xs) @ seen) (acc @ xs) = Inr r)"
      using True by (auto simp: bind_r_Inr decode_observations_Inr series_reads_def)
    show ?thesis
      unfolding step Cons.IH ex_list_all2_Cons [where R = "series_reads L"] ex_simps(1,2) [symmetric]
      by (intro iff_exI) (use True in \<open>simp add: Int_Un_distrib Int_Un_distrib2 del: set_map; blast\<close>)
  qed
qed auto

lemma distinct_map_cong:
  assumes "\<And>x y. x \<in> set xs \<Longrightarrow> y \<in> set xs \<Longrightarrow> f x = f y \<longleftrightarrow> g x = g y"
  shows "distinct (map f xs) \<longleftrightarrow> distinct (map g xs)"
  using assms by (auto simp: distinct_map inj_on_def)

lemma full_length_iff:
  assumes "distinct ys" and "distinct xs"
  shows "set xs \<subseteq> set ys \<and> length xs = length ys \<longleftrightarrow> set xs = set ys"
proof -
  have "card (set xs) = length xs" "card (set ys) = length ys"
    using assms by (simp_all add: distinct_card)
  then show ?thesis by (metis List.finite_set card_subset_eq order_refl)
qed

definition document_reads :: "('u, 'd) lib \<Rightarrow> string list \<Rightarrow> wireSeries list \<Rightarrow> 'd ProviderObservation list \<Rightarrow> bool" where
  "document_reads L requested ss xs \<longleftrightarrow>
     distinct (map we_ID ss) \<and> set (map we_ID ss) = set requested
     \<and> list_all (\<lambda>s. we_Error s = None \<or> we_Error s = Some JNull) ss
     \<and> (\<exists>xss. list_all2 (series_reads L) ss xss \<and> xs = concat xss)
     \<and> distinct (map (\<lambda>x. (po_SeriesID x, po_Date x)) xs)"

lemma series_reads_members:
  assumes "list_all2 (series_reads L) ss xss" and "x \<in> set (concat xss)"
  shows "\<exists>s\<in>set ss. \<exists>item. parseObservation L (we_ID s) item = Inr x"
proof -
  obtain ys where "ys \<in> set xss" "x \<in> set ys" using assms(2) by auto
  then obtain n where n: "n < length xss" "x \<in> set (xss ! n)" by (metis in_set_conv_nth)
  then have "series_reads L (ss ! n) (xss ! n)" and "n < length ss" using assms(1) by (auto simp: list_all2_conv_all_nth)
  moreover obtain k where k: "k < length (xss ! n)" "x = xss ! n ! k" using n(2) by (metis in_set_conv_nth)
  ultimately have "parseObservation L (we_ID (ss ! n)) (elements (we_Observations (ss ! n)) ! k) = Inr x"
    unfolding series_reads_def by (simp add: list_all2_conv_all_nth)
  with \<open>n < length ss\<close> nth_mem [of n ss] show ?thesis by blast
qed

lemma decode_all_document:
  assumes "distinct requested" and valid: "list_all (\<lambda>i. is_ok (SeriesID_Validate i)) requested"
  shows "decode_all L requested ss [] [] [] = Inr xs \<longleftrightarrow> document_reads L requested ss xs"
proof -
  have keys: "distinct (map seen_key (concat xss)) \<longleftrightarrow> distinct (map (\<lambda>x. (po_SeriesID x, po_Date x)) (concat xss))"
    if r: "list_all2 (series_reads L) ss xss" and sub: "set (map we_ID ss) \<subseteq> set requested" for xss
  proof (rule distinct_map_cong)
    have ok: "is_ok (SeriesID_Validate (po_SeriesID z)) \<and> (0 \<le> time_Year (po_Date z) \<and> time_Year (po_Date z) \<le> 9999)"
      if z: "z \<in> set (concat xss)" for z
    proof -
      obtain s item where "s \<in> set ss" and p: "parseObservation L (we_ID s) item = Inr z"
        using series_reads_members [OF r z] by blast
      then have "po_SeriesID z \<in> set requested" using sub parseObservation_Inr(1) [OF p] by auto
      then show ?thesis using valid parseObservation_Inr(3) [OF p] by (simp add: list_all_iff)
    qed
    fix x y assume "x \<in> set (concat xss)" "y \<in> set (concat xss)"
    with ok [of x] ok [of y] show "seen_key x = seen_key y \<longleftrightarrow> (po_SeriesID x, po_Date x) = (po_SeriesID y, po_Date y)"
      using observation_key_inj [of "po_SeriesID x" "po_SeriesID y" "po_Date x" "po_Date y"]
      by (auto simp: seen_key_def)
  qed
  have "decode_all L requested ss [] [] [] = Inr xs \<longleftrightarrow>
      (\<exists>xss. list_all2 (series_reads L) ss xss \<and> xs = concat xss \<and> distinct (map seen_key xs)
        \<and> distinct (map we_ID ss) \<and> set (map we_ID ss) = set requested
        \<and> list_all (\<lambda>s. we_Error s = None \<or> we_Error s = Some JNull) ss)"
    unfolding decode_all_Inr using full_length_iff [OF assms(1), of "map we_ID ss"] by auto
  then show ?thesis unfolding document_reads_def using keys by blast
qed

lemma decodeResponse_Inr:
  assumes "distinct requested" and "list_all (\<lambda>i. is_ok (SeriesID_Validate i)) requested"
  shows "decodeResponse L body requested = Inr xs \<longleftrightarrow>
    (\<exists>s. Unmarshal_wireResponse body = Some (Some s) \<and> document_reads L requested (elements (Some s)) xs)"
  unfolding decodeResponse_def by (auto simp: decode_all_document [OF assms] split: option.splits)

text \<open>The documents of the service, with the fields the client does not read.\<close>

definition observation_json :: "wireObservation \<Rightarrow> json" where
  "observation_json x = JObj [(''fecha'', JStr (wo_Date x)), (''dato'', JStr (wo_Value x))]"

definition series_json :: "string \<times> string \<times> wireObservation list \<Rightarrow> json" where
  "series_json s = (case s of (i, title, xs) \<Rightarrow>
     JObj [(''idSerie'', JStr i), (''titulo'', JStr title), (''datos'', JArr (map observation_json xs))])"

definition document_json :: "(string \<times> string \<times> wireObservation list) list \<Rightarrow> json" where
  "document_json ss = JObj [(''bmx'', JObj [(''series'', JArr (map series_json ss))])]"

definition wire_of :: "string \<times> string \<times> wireObservation list \<Rightarrow> wireSeries" where
  "wire_of s = (case s of (i, _, xs) \<Rightarrow> \<lparr>we_ID = i, we_Observations = Some (xs, length xs), we_Error = None\<rparr>)"

lemma field_is_refl [simp]: "field_is name name"
  by (simp add: field_is_def)

lemma other_fields:
  "\<not> field_is ''fecha'' ''dato''" "\<not> field_is ''idSerie'' ''titulo''" "\<not> field_is ''idSerie'' ''datos''"
  "\<not> field_is ''datos'' ''titulo''" "\<not> field_is ''error'' ''titulo''"
  by (simp_all add: field_is_def byte_of_def)

lemma decode_observation_json: "decode_observation (observation_json x) old = Some x"
  by (simp add: decode_observation_def observation_json_def decode_struct_def decode_string_def other_fields)

lemma decode_series_json: "decode_series (series_json s) zero_series = Some (wire_of s)"
proof -
  obtain i title xs where s: "s = (i, title, xs)" by (cases s) auto
  have "decode_slice decode_observation zero_observation (JArr (map observation_json xs)) None = Some (Some (xs, length xs))"
    by (rule decode_slice_fresh) (simp add: decode_observation_json list_all2_conv_all_nth)
  then show ?thesis
    by (simp add: s decode_series_def series_json_def wire_of_def decode_struct_def decode_string_def other_fields zero_series_def)
qed

lemma decode_document_json:
  "decode_wireResponse (document_json ss) None = Some (Some (map wire_of ss, length ss))"
proof -
  have "decode_slice decode_series zero_series (JArr (map series_json ss)) None = Some (Some (map wire_of ss, length (map wire_of ss)))"
    by (rule decode_slice_fresh) (simp add: decode_series_json list_all2_conv_all_nth)
  then show ?thesis
    by (simp add: decode_wireResponse_def decode_bmx_def decode_struct_def document_json_def)
qed

section \<open>Responses\<close>

lemma readBounded_Inr:
  assumes "readBounded r maximum = Inr body" and "0 \<le> maximum" and "maximum < 2 ^ 63 - 1"
  shows "body = ic_Body r" "int (length body) \<le> maximum" "ic_ReadError r = None"
proof -
  have "wrap64 (maximum + 1) = maximum + 1" using assms(2,3) by (simp add: wrap64_def)
  with assms(1) have b: "body = take (nat (maximum + 1)) (ic_Body r)" "int (length body) \<le> maximum"
    "length (ic_Body r) < nat (maximum + 1) \<longrightarrow> ic_ReadError r = None"
    by (auto simp: readBounded_def Let_def split: option.splits if_splits)
  then have "length (ic_Body r) < nat (maximum + 1)" using assms(2) by (auto simp: min_def split: if_splits)
  with b show "body = ic_Body r" "int (length body) \<le> maximum" "ic_ReadError r = None" by simp_all
qed

lemma bytes_Contains_iff: "bytes_Contains s needle \<longleftrightarrow> (\<exists>a b. s = a @ needle @ b)"
proof (induction s)
  case (Cons c s)
  have "take (length needle) (c # s) = needle \<longleftrightarrow> (\<exists>b. c # s = needle @ b)"
    by (metis append_eq_conv_conj)
  moreover have "(\<exists>a b. c # s = a @ needle @ b) \<longleftrightarrow> (\<exists>b. c # s = needle @ b) \<or> (\<exists>a b. s = a @ needle @ b)"
    by (metis append_Cons append_Nil list.exhaust list.sel(3))
  ultimately show ?case using Cons.IH by simp
qed auto

definition fetch_request :: "'t Client \<Rightarrow> string \<Rightarrow> outgoing" where
  "fetch_request client endpoint = \<lparr>og_Method = ''GET'', og_URL = endpoint,
     og_Header = [''Accept'' \<mapsto> ''application/json'', ''Bmx-Token'' \<mapsto> cl_token client]\<rparr>"

lemma Client_Fetch_Inr:
  assumes "Client_Fetch L tab Do now client request w = (Inr result, w')"
  shows "\<exists>endpoint r. requestURL request = Inr (endpoint, fr_SeriesIDs request)
    \<and> Do (cl_httpClient client) (fetch_request client endpoint) w = (Inr r, w')
    \<and> readBounded r (cl_maxBodySize client) = Inr (fe_Response result)
    \<and> \<not> bytes_Contains (fe_Response result) (cl_token client) \<and> ic_Status r = 200
    \<and> ParseMediaType tab (incoming_Get r ''Content-Type'') = Some ''application/json''
    \<and> decodeResponse L (fe_Response result) (fr_SeriesIDs request) = Inr (fe_Observations result)"
proof -
  obtain endpoint requested where u: "requestURL request = Inr (endpoint, requested)"
    using assms by (cases "requestURL request") (auto simp: Client_Fetch_def lift_r_def bind_m_def)
  then have q: "requested = fr_SeriesIDs request" using requestURL_Inr by blast
  obtain r w1 where d: "Do (cl_httpClient client) (fetch_request client endpoint) w = (Inr r, w1)"
    using assms u by (auto simp: Client_Fetch_def lift_r_def bind_m_def try_m_def fail_m_def fetch_request_def
        split: prod.splits sum.splits)
  obtain body where b: "readBounded r (cl_maxBodySize client) = Inr body"
    using assms u d by (cases "readBounded r (cl_maxBodySize client)")
      (auto simp: Client_Fetch_def lift_r_def bind_m_def try_m_def fetch_request_def)
  have "\<not> bytes_Contains body (cl_token client) \<and> accept_response L tab requested r body = Inr result \<and> w' = w1"
    using assms u d b
    by (auto simp: Client_Fetch_def lift_r_def bind_m_def try_m_def fail_m_def fetch_request_def rate_limited_def
        accept_response_def split: if_splits prod.splits option.splits)
  then show ?thesis
    using u q d b by (auto simp: accept_response_def bind_r_Inr split: if_splits)
qed

lemma outcomes [simp]:
  "providerOutcome (invalid_response d) = ''invalid_response''"
  "providerOutcome ErrInvalidObservation = ''invalid_response''"
  "providerOutcome ErrAuthentication = ''authentication_failed''"
  "providerOutcome (RateLimitError t) = ''rate_limited''"
  "providerOutcome (Errorf d [ErrUpstreamUnavailable]) = ''unavailable''"
  by (simp_all add: providerOutcome_def invalid_response_def ErrInvalidResponse_def ErrAuthentication_def)

lemma decode_observations_Inl:
  "decode_observations L i items seen acc = Inl e \<Longrightarrow> providerOutcome e = ''invalid_response''"
proof (induction items arbitrary: seen acc)
  case (Cons item items)
  have "parseObservation L i item = Inl e' \<Longrightarrow> e' = ErrInvalidObservation" for e'
    by (auto simp: parseObservation_def Let_def split: option.splits if_splits)
  with Cons show ?case
    by (cases "parseObservation L i item")
      (auto simp: Let_def split: if_splits)
qed simp

lemma decode_all_Inl: "decode_all L requested ss seenSeries seen acc = Inl e \<Longrightarrow> providerOutcome e = ''invalid_response''"
proof (induction ss arbitrary: seenSeries seen acc)
  case (Cons s ss)
  then show ?case
    using decode_observations_Inl [of L "we_ID s" "elements (we_Observations s)" seen acc e]
    by (cases "decode_observations L (we_ID s) (elements (we_Observations s)) seen acc")
      (auto split: if_splits)
qed (auto split: if_splits)

lemma decodeResponse_Inl: "decodeResponse L body requested = Inl e \<Longrightarrow> providerOutcome e = ''invalid_response''"
  by (auto simp: decodeResponse_def dest: decode_all_Inl split: option.splits)

lemma fetched_observation:
  assumes "Client_Fetch L tab Do now client request w = (Inr result, w')" and "x \<in> set (fe_Observations result)"
  shows "po_SeriesID x \<in> set (fr_SeriesIDs request) \<and> dec_IsPositive L (po_Value x)"
proof -
  obtain endpoint where "requestURL request = Inr (endpoint, fr_SeriesIDs request)"
    and f: "decodeResponse L (fe_Response result) (fr_SeriesIDs request) = Inr (fe_Observations result)"
    using Client_Fetch_Inr [OF assms(1)] by blast
  then have q: "distinct (fr_SeriesIDs request)" "list_all (\<lambda>i. is_ok (SeriesID_Validate i)) (fr_SeriesIDs request)"
    using requestURL_Inr by blast+
  obtain s xss where d: "set (map we_ID (elements (Some s))) = set (fr_SeriesIDs request)"
    "list_all2 (series_reads L) (elements (Some s)) xss" "fe_Observations result = concat xss"
    using f unfolding decodeResponse_Inr [OF q] document_reads_def by blast
  obtain z item where "z \<in> set (elements (Some s))" and i: "parseObservation L (we_ID z) item = Inr x"
    using series_reads_members [OF d(2)] assms(2) d(3) by metis
  then show ?thesis using d(1) parseObservation_Inr [OF i] by auto
qed

end
