(* ===== verification/Sie_Props.thy ===== *)
theory Sie_Props
  imports Sie_Facts Demo_Db
begin

text \<open>Properties of the client of exchange rates.\<close>

section \<open>Documents\<close>

text \<open>
  C30. A response is accepted exactly when it lists every requested series once, without an error and
  without another series, and no series twice the same day; what is accepted is every item of the
  document, in its order, with its value.
\<close>

theorem decodeResponse_exact:
  assumes "distinct requested" and "list_all (\<lambda>i. is_ok (SeriesID_Validate i)) requested"
  shows "decodeResponse L body requested = Inr xs \<longleftrightarrow>
    (\<exists>s. Unmarshal_wireResponse body = Some (Some s)
      \<and> distinct (map we_ID (elements (Some s))) \<and> set (map we_ID (elements (Some s))) = set requested
      \<and> list_all (\<lambda>s. we_Error s = None \<or> we_Error s = Some JNull) (elements (Some s))
      \<and> (\<exists>xss. list_all2 (\<lambda>s. list_all2 (\<lambda>item x. parseObservation L (we_ID s) item = Inr x) (elements (we_Observations s)))
           (elements (Some s)) xss \<and> xs = concat xss)
      \<and> distinct (map (\<lambda>x. (po_SeriesID x, po_Date x)) xs))"
  unfolding decodeResponse_Inr [OF assms] document_reads_def series_reads_def [abs_def] ..

text \<open>
  C34. The documents of the service are read back as they were written: the series, titles left out,
  with their dates and values.
\<close>

theorem document_read_back:
  assumes "checkValid body = Some (document_json ss)"
  shows "Unmarshal_wireResponse body = Some (Some (map wire_of ss, length ss))"
  using assms by (simp add: Unmarshal_wireResponse_def decode_document_json)

section \<open>Fetch\<close>

text \<open>
  C31. What a fetch returns, and the store then archives, is the whole body of a response with status
  200, no longer than the limit, in which the token of the client does not occur, sent for an address
  on the configured origin; its observations are of requested series, positive, and one per series and
  day, and every requested series is in the document.
\<close>

theorem Fetch_accepts:
  assumes "NewClient DefaultClient DefaultTransport otel config = Inr client" and "cf_MaxBodySize config < 2 ^ 63 - 1"
    and "Client_Fetch L tab Do now client request w = (Inr result, w')"
  shows "\<exists>path r. Do (cl_httpClient client) (fetch_request client (baseURL @ ''/'' @ path)) w = (Inr r, w')
    \<and> ic_Status r = 200 \<and> ic_ReadError r = None \<and> fe_Response result = ic_Body r
    \<and> int (length (ic_Body r)) \<le> cl_maxBodySize client \<and> \<not> (\<exists>a b. ic_Body r = a @ cf_Token config @ b)
    \<and> (\<forall>x\<in>set (fe_Observations result). po_SeriesID x \<in> set (fr_SeriesIDs request) \<and> dec_IsPositive L (po_Value x))
    \<and> distinct (map (\<lambda>x. (po_SeriesID x, po_Date x)) (fe_Observations result))"
proof -
  have c: "cl_token client = cf_Token config" "0 \<le> cl_maxBodySize client" "cl_maxBodySize client < 2 ^ 63 - 1"
    using assms(1,2) by (auto simp: NewClient_def Let_def defaultMaxBodySize_def split: if_splits)
  obtain endpoint r where f: "requestURL request = Inr (endpoint, fr_SeriesIDs request)"
    "Do (cl_httpClient client) (fetch_request client endpoint) w = (Inr r, w')"
    "readBounded r (cl_maxBodySize client) = Inr (fe_Response result)"
    "\<not> bytes_Contains (fe_Response result) (cl_token client)" "ic_Status r = 200"
    "decodeResponse L (fe_Response result) (fr_SeriesIDs request) = Inr (fe_Observations result)"
    using Client_Fetch_Inr [OF assms(3)] by blast
  obtain path where p: "endpoint = baseURL @ ''/'' @ path" using requestURL_plain [OF f(1)] by blast
  have q: "distinct (fr_SeriesIDs request)" "list_all (\<lambda>i. is_ok (SeriesID_Validate i)) (fr_SeriesIDs request)"
    using requestURL_Inr [OF f(1)] by simp_all
  have d: "distinct (map (\<lambda>x. (po_SeriesID x, po_Date x)) (fe_Observations result))"
    using f(6) unfolding decodeResponse_Inr [OF q] document_reads_def by blast
  show ?thesis
    using f(2,4,5) c(1) d readBounded_Inr [OF f(3) c(2,3)] fetched_observation [OF assms(3)]
    unfolding bytes_Contains_iff p by (intro exI [of _ path] exI [of _ r] conjI ballI) simp_all
qed

text \<open>
  C32. The answers of the service are told apart for the caller: a leaked token and a malformed document
  are invalid responses, 401 and 403 failures of authentication, 400 and 429 with a time to wait a rate
  limit until that time, and every other status an unavailable service.
\<close>

theorem Fetch_errors_classified:
  assumes "requestURL request = Inr (endpoint, requested)"
    and "Do (cl_httpClient client) (fetch_request client endpoint) w = (Inr r, w1)"
    and "readBounded r (cl_maxBodySize client) = Inr body"
  shows "if bytes_Contains body (cl_token client) then
      \<exists>e. Client_Fetch L tab Do now client request w = (Inl e, w1) \<and> providerOutcome e = ''invalid_response''
    else if ic_Status r = 401 \<or> ic_Status r = 403 then
      \<exists>e. Client_Fetch L tab Do now client request w = (Inl e, w1) \<and> providerOutcome e = ''authentication_failed''
    else if (ic_Status r = 400 \<or> ic_Status r = 429) \<and> fst (rateLimitReset now r body w1) \<noteq> None then
      \<exists>e retryAt w2. Client_Fetch L tab Do now client request w = (Inl e, w2) \<and> rateLimitReset now r body w1 = (Some retryAt, w2)
        \<and> as_RateLimitError e = Some retryAt \<and> providerOutcome e = ''rate_limited''
    else if ic_Status r \<noteq> 200 then
      \<exists>e w2. Client_Fetch L tab Do now client request w = (Inl e, w2) \<and> providerOutcome e = ''unavailable''
    else (\<exists>result. Client_Fetch L tab Do now client request w = (Inr result, w1))
      \<or> (\<exists>e. Client_Fetch L tab Do now client request w = (Inl e, w1) \<and> providerOutcome e = ''invalid_response'')"
proof -
  have step: "Client_Fetch L tab Do now client request w =
      (if bytes_Contains body (cl_token client) then (Inl (invalid_response ''response contained credential''), w1)
       else if ic_Status r = 401 \<or> ic_Status r = 403 then (Inl ErrAuthentication, w1)
       else if rate_limited r then
         (case rateLimitReset now r body w1 of
            (Some retryAt, w2) \<Rightarrow> (Inl (RateLimitError retryAt), w2)
          | (None, w2) \<Rightarrow> (accept_response L tab requested r body, w2))
       else (accept_response L tab requested r body, w1))"
    using assms by (simp add: Client_Fetch_def lift_r_def bind_m_def try_m_def fail_m_def fetch_request_def split: option.split prod.split)
  have "accept_response L tab requested r body = Inl e \<Longrightarrow> ic_Status r = 200 \<Longrightarrow> providerOutcome e = ''invalid_response''" for e
    using decodeResponse_Inl by (auto simp: accept_response_def bind_r_def split: if_splits sum.splits)
  then show ?thesis unfolding step
    by (cases "decodeResponse L body requested")
      (auto simp: rate_limited_def accept_response_def split: prod.splits option.splits)
qed



section \<open>Witnesses\<close>

definition dq :: string where "dq = [quote_byte]"

definition fix_body :: string where
  "fix_body = ''{'' @ dq @ ''bmx'' @ dq @ '':{'' @ dq @ ''series'' @ dq @ '':[{'' @ dq @ ''idSerie'' @ dq @ '':'' @ dq @ ''SF43718'' @ dq
     @ '','' @ dq @ ''titulo'' @ dq @ '':'' @ dq @ ''FIX'' @ dq @ '','' @ dq @ ''datos'' @ dq @ '':[{'' @ dq @ ''fecha'' @ dq @ '':'' @ dq
     @ ''03/10/2024'' @ dq @ '','' @ dq @ ''dato'' @ dq @ '':'' @ dq @ ''19.5'' @ dq @ ''}]}]}}''"

definition fix_document :: "(string \<times> string \<times> wireObservation list) list" where
  "fix_document = [(''SF43718'', ''FIX'', [\<lparr>wo_Date = ''03/10/2024'', wo_Value = ''19.5''\<rparr>])]"

lemma fix_body_valid: "checkValid fix_body = Some (document_json fix_document)"
  by code_simp


text \<open>The tests of the client use such a transport.\<close>

definition sie_request :: FetchRequest where
  "sie_request = \<lparr>fr_Kind = FetchLatest, fr_SeriesIDs = [''SF43718''], fr_From = zero_day, fr_To = zero_day\<rparr>"

definition sie_client :: "unit Client" where
  "sie_client = \<lparr>cl_token = replicate 64 (CHR ''a''), cl_httpClient = \<lparr>hc_Transport = Some (), hc_Timeout = defaultTimeout,
     hc_CheckRedirect = Some sameOriginRedirect\<rparr>, cl_maxBodySize = defaultMaxBodySize\<rparr>"

definition sie_answer :: "int \<Rightarrow> incoming" where
  "sie_answer status = \<lparr>ic_Status = status, ic_Header = (\<lambda>name. if name = ''Content-Type'' then [''application/json'']
     else if name = ''Bmx-Timereset'' then [''1700000000''] else []), ic_Body = fix_body, ic_ReadError = None\<rparr>"

definition sie_Do :: "int \<Rightarrow> unit http_client \<Rightarrow> outgoing \<Rightarrow> incoming m" where
  "sie_Do status _ _ w = (Inr (sie_answer status), w)"

definition sie_now :: "world \<Rightarrow> clock_time \<times> world" where
  "sie_now w = (\<lparr>tm_instant = 0, tm_offset = 0\<rparr>, w)"

definition fix_observation :: "(int \<times> nat) ProviderObservation" where
  "fix_observation = \<lparr>po_SeriesID = ''SF43718'', po_Date = 19999, po_Value = (195, 1)\<rparr>"

lemma sie_new: "NewClient \<lparr>hc_Transport = None, hc_Timeout = 0, hc_CheckRedirect = None\<rparr> () id
    \<lparr>cf_Token = replicate 64 (CHR ''a''), cf_HTTPClient = None, cf_Timeout = 0, cf_MaxBodySize = 0\<rparr> = Inr sie_client"
proof -
  have "validToken (replicate 64 (CHR ''a''))" by (simp add: validToken_def list_all_iff byte_class_defs)
  then show ?thesis by (simp add: NewClient_def sie_client_def defaultTimeout_def defaultMaxBodySize_def Let_def)
qed

lemma sie_url: "requestURL sie_request =
    Inr (baseURL @ ''/SieAPIRest/service/v1/series/SF43718/datos/oportuno'', [''SF43718''])"
  by (simp add: requestURL_def sie_request_def MaxSeriesPerRequest_def SeriesID_Validate_def byte_class_defs FetchLatest_def)

lemma sie_read: "readBounded (sie_answer status) (cl_maxBodySize sie_client) = Inr fix_body"
proof -
  have "length fix_body = 104" by code_simp
  then show ?thesis
    by (simp add: readBounded_def sie_answer_def sie_client_def defaultMaxBodySize_def wrap64_def Let_def)
qed

lemma sie_no_token: "\<not> bytes_Contains fix_body (cl_token sie_client)"
  by code_simp

lemma fix_parse: "parseObservation demo_lib ''SF43718'' \<lparr>wo_Date = ''03/10/2024'', wo_Value = ''19.5''\<rparr> = Inr fix_observation"
  by code_simp

theorem document_read_back_witness:
  "Unmarshal_wireResponse fix_body = Some (Some (map wire_of fix_document, 1))"
  using document_read_back [OF fix_body_valid] by (simp add: fix_document_def)

lemma fix_decoded: "decodeResponse demo_lib fix_body [''SF43718''] = Inr [fix_observation]"
  using fix_body_valid fix_parse
  by (simp add: decodeResponse_def Unmarshal_wireResponse_def decode_document_json fix_document_def elements_def wire_of_def Let_def)

theorem decodeResponse_exact_witness:
  "\<exists>s. Unmarshal_wireResponse fix_body = Some (Some s) \<and> distinct (map we_ID (elements (Some s)))"
proof -
  have "list_all (\<lambda>i. is_ok (SeriesID_Validate i)) [''SF43718'']"
    by (simp add: SeriesID_Validate_def byte_class_defs is_ok_def)
  then show ?thesis
    using decodeResponse_exact [of "[''SF43718'']" demo_lib fix_body "[fix_observation]"] fix_decoded by auto
qed

lemma sie_fetch: "Client_Fetch demo_lib id (sie_Do 200) sie_now sie_client sie_request (demo_world demo_db []) =
    (Inr \<lparr>fe_Response = fix_body, fe_Observations = [fix_observation]\<rparr>, demo_world demo_db [])"
proof -
  have "incoming_Get (sie_answer 200) ''Content-Type'' = ''application/json''" "ic_Status (sie_answer 200) = 200"
    by (simp_all add: incoming_Get_def sie_answer_def)
  then show ?thesis
    using sie_read [of 200] sie_no_token fix_decoded
    by (simp add: Client_Fetch_def sie_url lift_r_def bind_m_def try_m_def sie_Do_def rate_limited_def accept_response_def
        ParseMediaType_json)
qed

theorem Fetch_accepts_witness:
  "\<exists>path r. sie_Do 200 (cl_httpClient sie_client) (fetch_request sie_client (baseURL @ ''/'' @ path)) (demo_world demo_db [])
      = (Inr r, demo_world demo_db []) \<and> fix_body = ic_Body r \<and> \<not> (\<exists>a b. ic_Body r = a @ replicate 64 (CHR ''a'') @ b)"
  using Fetch_accepts [OF sie_new _ sie_fetch] by auto

theorem Fetch_errors_classified_witness:
  "\<exists>e w2. Client_Fetch demo_lib id (sie_Do 429) sie_now sie_client sie_request (demo_world demo_db []) = (Inl e, w2)
     \<and> providerOutcome e = ''rate_limited''"
proof -
  have "sie_Do 429 (cl_httpClient sie_client) out w = (Inr (sie_answer 429), w)" for out w by (simp add: sie_Do_def)
  moreover have "fst (rateLimitReset sie_now (sie_answer 429) fix_body (demo_world demo_db [])) \<noteq> None"
  proof -
    have "ParseInt64 ''1700000000'' = Some 1700000000"
      by (simp add: ParseInt64_def digits_value_def byte_class_defs)
    then show ?thesis by (simp add: rateLimitReset_def positive_header_def incoming_Get_def sie_answer_def)
  qed
  moreover have "ic_Status (sie_answer 429) = 429" by (simp add: sie_answer_def)
  ultimately show ?thesis
    using Fetch_errors_classified [OF sie_url, of "sie_Do 429" sie_client "demo_world demo_db []" "sie_answer 429"
        "demo_world demo_db []" fix_body demo_lib id sie_now] sie_read sie_no_token by auto
qed


end
