(* ===== verification/Server_Runtime.thy ===== *)
theory Server_Runtime
  imports Authn
begin

text \<open>
  Package \<^verbatim>\<open>serverruntime\<close>: the configuration of a server process, its keys, limits, listeners and
  shutdown. The file system, the decoding of a key set by go-jose and the parsing of a database address
  by pgx are parameters.
\<close>

section \<open>Configuration\<close>

definition DatabaseURLVariable :: string where "DatabaseURLVariable = ''DATABASE_URL''"
definition RESTAddressVariable :: string where "RESTAddressVariable = ''BOND_EXCHANGE_ADDRESS''"
definition GRPCAddressVariable :: string where "GRPCAddressVariable = ''BOND_EXCHANGE_GRPC_ADDRESS''"
definition AssertionIssuerVariable :: string where "AssertionIssuerVariable = ''BOND_EXCHANGE_ASSERTION_ISSUER''"
definition AssertionAudienceVariable :: string where "AssertionAudienceVariable = ''BOND_EXCHANGE_ASSERTION_AUDIENCE''"
definition AssertionKeySetPathVariable :: string where
  "AssertionKeySetPathVariable = ''BOND_EXCHANGE_ASSERTION_JWKS_FILE''"
definition BanxicoSIETokenVariable :: string where "BanxicoSIETokenVariable = ''BANXICO_SIE_TOKEN''"

lemmas variable_defs = DatabaseURLVariable_def RESTAddressVariable_def GRPCAddressVariable_def AssertionIssuerVariable_def
  AssertionAudienceVariable_def AssertionKeySetPathVariable_def BanxicoSIETokenVariable_def

definition DefaultRESTAddress :: string where "DefaultRESTAddress = ''127.0.0.1:8080''"
definition DefaultGRPCAddress :: string where "DefaultGRPCAddress = ''127.0.0.1:9090''"

record RuntimeConfig =
  rt_DatabaseURL :: string
  rt_RESTAddress :: string
  rt_GRPCAddress :: string
  rt_AssertionIssuer :: string
  rt_AssertionAudience :: string
  rt_AssertionKeySetPath :: string
  rt_BanxicoSIEToken :: string

definition environment_config :: "(string \<Rightarrow> string) \<Rightarrow> RuntimeConfig" where
  "environment_config lookup =
     \<lparr>rt_DatabaseURL = lookup DatabaseURLVariable,
      rt_RESTAddress = (if lookup RESTAddressVariable = '''' then DefaultRESTAddress else lookup RESTAddressVariable),
      rt_GRPCAddress = (if lookup GRPCAddressVariable = '''' then DefaultGRPCAddress else lookup GRPCAddressVariable),
      rt_AssertionIssuer = lookup AssertionIssuerVariable, rt_AssertionAudience = lookup AssertionAudienceVariable,
      rt_AssertionKeySetPath = lookup AssertionKeySetPathVariable, rt_BanxicoSIEToken = lookup BanxicoSIETokenVariable\<rparr>"

definition required :: "RuntimeConfig \<Rightarrow> (string \<times> string) list" where
  "required config =
     [(DatabaseURLVariable, rt_DatabaseURL config), (AssertionIssuerVariable, rt_AssertionIssuer config),
      (AssertionAudienceVariable, rt_AssertionAudience config), (AssertionKeySetPathVariable, rt_AssertionKeySetPath config),
      (BanxicoSIETokenVariable, rt_BanxicoSIEToken config)]"

fun comma_separated :: "string list \<Rightarrow> string" where
  "comma_separated [] = []"
| "comma_separated [v] = v"
| "comma_separated (v # u # vs) = v @ '', '' @ comma_separated (u # vs)"

text \<open>The text of the second error is kept up to the address, which Go quotes after it.\<close>

definition Load :: "(string \<Rightarrow> string) \<Rightarrow> RuntimeConfig result" where
  "Load lookup =
     (let config = environment_config lookup;
          missing = map fst (filter (\<lambda>candidate. snd candidate = '''') (required config))
      in if missing \<noteq> [] then Inl (ErrorString (''missing required configuration: '' @ comma_separated missing))
         else if rt_RESTAddress config = rt_GRPCAddress config then
           Inl (ErrorString (RESTAddressVariable @ '' and '' @ GRPCAddressVariable @ '' must differ, both are ''))
         else Inr config)"

section \<open>Keys\<close>

definition MaxKeySetBytes :: nat where "MaxKeySetBytes = 1024 * 1024"

text \<open>A file: its bytes and the error that follows them, or the error of opening it.\<close>

definition ReadKeySet ::
  "(string \<Rightarrow> (string \<times> go_error option) result) \<Rightarrow> (string \<Rightarrow> 'k jwk list result) \<Rightarrow> string \<Rightarrow> 'k jwk list result" where
  "ReadKeySet os_Open decode path =
     (case os_Open path of
        Inl e \<Rightarrow> Inl (Errorf ''open assertion verification keys'' [e])
      | Inr (content, failure) \<Rightarrow>
          (let encoded = take (MaxKeySetBytes + 1) content
           in case (if length content \<le> MaxKeySetBytes then failure else None) of
                Some e \<Rightarrow> Inl (Errorf ''read assertion verification keys'' [e])
              | None \<Rightarrow>
                  if MaxKeySetBytes < length encoded then
                    Inl (ErrorString ''assertion verification key file exceeds 1048576 bytes'')
                  else (case decode encoded of
                          Inl e \<Rightarrow> Inl (Errorf ''decode assertion verification keys'' [e])
                        | Inr keys \<Rightarrow>
                            if keys = [] then Inl (ErrorString ''assertion verification key set contains no keys'')
                            else Inr keys)))"

section \<open>Limits\<close>

definition MaxPoolConnections :: int where "MaxPoolConnections = 20"
definition MinPoolConnections :: int where "MinPoolConnections = 2"
definition MaxConnectionLifetime :: int where "MaxConnectionLifetime = 30 * ns_minute"
definition MaxConnectionIdleTime :: int where "MaxConnectionIdleTime = 5 * ns_minute"
definition PoolHealthCheckPeriod :: int where "PoolHealthCheckPeriod = 30 * ns_second"
definition MaxMessageBytes :: nat where "MaxMessageBytes = 64 * 1024"
definition MaxConcurrentStreams :: nat where "MaxConcurrentStreams = 128"
definition ReadTimeout :: int where "ReadTimeout = 10 * ns_second"
definition ReadHeaderTimeout :: int where "ReadHeaderTimeout = 5 * ns_second"
definition IdleTimeout :: int where "IdleTimeout = 60 * ns_second"

record pool_config =
  pc_MaxConns :: int
  pc_MinConns :: int
  pc_MaxConnLifetime :: int
  pc_MaxConnIdleTime :: int
  pc_HealthCheckPeriod :: int

definition PoolConfig :: "(string \<Rightarrow> pool_config result) \<Rightarrow> string \<Rightarrow> pool_config result" where
  "PoolConfig ParseConfig databaseURL =
     (case ParseConfig databaseURL of
        Inl e \<Rightarrow> Inl (Errorf ''parse database configuration'' [e])
      | Inr c \<Rightarrow> Inr (c\<lparr>pc_MaxConns := MaxPoolConnections, pc_MinConns := MinPoolConnections,
          pc_MaxConnLifetime := MaxConnectionLifetime, pc_MaxConnIdleTime := MaxConnectionIdleTime,
          pc_HealthCheckPeriod := PoolHealthCheckPeriod\<rparr>))"

record 'h http_server =
  hs_Addr :: string
  hs_Handler :: 'h
  hs_ReadTimeout :: int
  hs_ReadHeaderTimeout :: int
  hs_IdleTimeout :: int

definition HTTPServer :: "string \<Rightarrow> 'h \<Rightarrow> 'h http_server" where
  "HTTPServer address h = \<lparr>hs_Addr = address, hs_Handler = h, hs_ReadTimeout = ReadTimeout,
     hs_ReadHeaderTimeout = ReadHeaderTimeout, hs_IdleTimeout = IdleTimeout\<rparr>"

datatype ('u, 's) server_option =
    MaxRecvMsgSize nat
  | MaxSendMsgSize nat
  | ConcurrentStreams nat
  | UnaryInterceptor 'u
  | StreamInterceptor 's

definition GRPCServerOptions :: "'u \<Rightarrow> 's \<Rightarrow> ('u, 's) server_option list" where
  "GRPCServerOptions unary stream = [MaxRecvMsgSize MaxMessageBytes, MaxSendMsgSize MaxMessageBytes,
     ConcurrentStreams MaxConcurrentStreams, UnaryInterceptor unary, StreamInterceptor stream]"

section \<open>Listeners\<close>

text \<open>
  The sockets of the process: the open listeners, the next handle, and the outcomes of the calls to
  come, where a failure to close still gives the port back. The other resources of the process are in
  \<open>Server_Main\<close>.
\<close>

record process =
  pr_open :: "nat list"
  pr_next :: nat
  pr_faults :: "go_error option list"

type_synonym 'a p = "process \<Rightarrow> 'a result \<times> process"

definition next_fault :: "process \<Rightarrow> go_error option \<times> process" where
  "next_fault p = (case pr_faults p of [] \<Rightarrow> (None, p) | f # fs \<Rightarrow> (f, p\<lparr>pr_faults := fs\<rparr>))"

definition net_ErrClosed :: go_error where "net_ErrClosed = ErrorString ''use of closed network connection''"

definition net_Listen :: "string \<Rightarrow> nat p" where
  "net_Listen address p =
     (case next_fault p of
        (Some e, p1) \<Rightarrow> (Inl e, p1)
      | (None, p1) \<Rightarrow> (Inr (pr_next p1), p1\<lparr>pr_open := pr_next p1 # pr_open p1, pr_next := Suc (pr_next p1)\<rparr>))"

definition listener_Close :: "nat \<Rightarrow> unit p" where
  "listener_Close l p =
     (if l \<notin> set (pr_open p) then (Inl net_ErrClosed, p)
      else (case next_fault p of
              (Some e, p1) \<Rightarrow> (Inl e, p1\<lparr>pr_open := removeAll l (pr_open p1)\<rparr>)
            | (None, p1) \<Rightarrow> (Inr (), p1\<lparr>pr_open := removeAll l (pr_open p1)\<rparr>)))"

definition closeListener :: "nat option \<Rightarrow> unit p" where
  "closeListener listener p =
     (case listener of
        None \<Rightarrow> (Inr (), p)
      | Some l \<Rightarrow>
          (case listener_Close l p of
             (Inl e, p1) \<Rightarrow> (if errors_Is e net_ErrClosed then Inr () else Inl e, p1)
           | (Inr _, p1) \<Rightarrow> (Inr (), p1)))"

record Listeners =
  ls_REST :: "nat option"
  ls_GRPC :: "nat option"

definition Listeners_Close :: "Listeners \<Rightarrow> unit p" where
  "Listeners_Close listeners p =
     (case closeListener (ls_REST listeners) p of (restErr, p1) \<Rightarrow>
      (case closeListener (ls_GRPC listeners) p1 of (grpcErr, p2) \<Rightarrow>
         (case restErr of Inl e \<Rightarrow> Inl e | Inr _ \<Rightarrow> grpcErr, p2)))"

text \<open>\<^verbatim>\<open>errors.Join\<close>: nil errors are left out, and no error at all joins to nil.\<close>

definition errors_Join :: "go_error option list \<Rightarrow> go_error option" where
  "errors_Join es = (let present = List.map_filter id es in if present = [] then None else Some (Errorf ''join'' present))"

definition error_of :: "'a result \<Rightarrow> go_error option" where
  "error_of r = (case r of Inl e \<Rightarrow> Some e | Inr _ \<Rightarrow> None)"

definition Listen :: "RuntimeConfig \<Rightarrow> Listeners p" where
  "Listen config p =
     (case net_Listen (rt_RESTAddress config) p of
        (Inl e, p1) \<Rightarrow> (Inl (Errorf ''listen for REST'' [e]), p1)
      | (Inr rest, p1) \<Rightarrow>
          (case net_Listen (rt_GRPCAddress config) p1 of
             (Inl e, p2) \<Rightarrow>
               (case closeListener (Some rest) p2 of (closeErr, p3) \<Rightarrow>
                  (Inl (Errorf ''join'' (Errorf ''listen for gRPC'' [e] # List.map_filter id [error_of closeErr])), p3))
           | (Inr grpc, p2) \<Rightarrow> (Inr \<lparr>ls_REST = Some rest, ls_GRPC = Some grpc\<rparr>, p2)))"

section \<open>Shutdown\<close>

text \<open>
  \<^verbatim>\<open>ShutdownServers\<close> waits for the HTTP server, then for the goroutine that stops the gRPC server
  gracefully or for the end of the context, and then forces the stop. The steps are those of the caller,
  of that goroutine, of the clients and of the clock. A graceful stop takes no new calls and returns when
  none is left or when \<^verbatim>\<open>Stop\<close> has closed their connections; clients open finitely many calls while the
  HTTP server drains.
\<close>

datatype shutdown_stage = DrainHTTP | AwaitStop | ForcedStop | Returned_from "go_error option"

record shutdown =
  sh_stage :: shutdown_stage
  sh_requests :: nat
  sh_calls :: nat
  sh_arrivals :: nat
  sh_expired :: bool
  sh_http :: "go_error option"
  sh_stop :: bool
  sh_stopped :: bool

definition draining :: "nat \<Rightarrow> nat \<Rightarrow> nat \<Rightarrow> shutdown" where
  "draining requests calls arrivals = \<lparr>sh_stage = DrainHTTP, sh_requests = requests, sh_calls = calls, sh_arrivals = arrivals,
     sh_expired = False, sh_http = None, sh_stop = False, sh_stopped = False\<rparr>"

definition returned :: "shutdown \<Rightarrow> bool" where
  "returned s \<longleftrightarrow> (case sh_stage s of Returned_from _ \<Rightarrow> True | _ \<Rightarrow> False)"

inductive ShutdownServers :: "shutdown \<Rightarrow> shutdown \<Rightarrow> bool" where
  expire: "\<not> sh_expired s \<Longrightarrow> \<not> returned s \<Longrightarrow> ShutdownServers s (s\<lparr>sh_expired := True\<rparr>)"
| request_ends: "sh_requests s = Suc n \<Longrightarrow> ShutdownServers s (s\<lparr>sh_requests := n\<rparr>)"
| call_starts: "sh_stage s = DrainHTTP \<Longrightarrow> sh_arrivals s = Suc n
    \<Longrightarrow> ShutdownServers s (s\<lparr>sh_arrivals := n, sh_calls := Suc (sh_calls s)\<rparr>)"
| call_ends: "sh_calls s = Suc n \<Longrightarrow> ShutdownServers s (s\<lparr>sh_calls := n\<rparr>)"
| http_drained: "sh_stage s = DrainHTTP \<Longrightarrow> sh_requests s = 0 \<Longrightarrow> ShutdownServers s (s\<lparr>sh_stage := AwaitStop\<rparr>)"
| http_expired: "sh_stage s = DrainHTTP \<Longrightarrow> sh_expired s
    \<Longrightarrow> ShutdownServers s (s\<lparr>sh_stage := AwaitStop, sh_http := Some ContextDeadlineExceeded\<rparr>)"
| graceful_returns: "sh_stage s = AwaitStop \<or> sh_stage s = ForcedStop \<Longrightarrow> \<not> sh_stopped s \<Longrightarrow> sh_calls s = 0 \<or> sh_stop s
    \<Longrightarrow> ShutdownServers s (s\<lparr>sh_stopped := True\<rparr>)"
| select_stopped: "sh_stage s = AwaitStop \<Longrightarrow> sh_stopped s \<Longrightarrow> ShutdownServers s (s\<lparr>sh_stage := Returned_from (sh_http s)\<rparr>)"
| select_done: "sh_stage s = AwaitStop \<Longrightarrow> sh_expired s
    \<Longrightarrow> ShutdownServers s (s\<lparr>sh_stage := ForcedStop, sh_stop := True\<rparr>)"
| await_stopped: "sh_stage s = ForcedStop \<Longrightarrow> sh_stopped s \<Longrightarrow> ShutdownServers s (s\<lparr>sh_stage := Returned_from (sh_http s)\<rparr>)"

code_pred ShutdownServers .

inductive_cases ShutdownServersE: "ShutdownServers s s'"

end
