(* ===== verification/Telemetry.thy ===== *)
theory Telemetry
  imports Server_Runtime Http_Api Go_Unmarshal
begin

text \<open>
  Package \<^verbatim>\<open>telemetry\<close>: the set-up and shutdown of the OpenTelemetry providers, and the functions with
  which the other packages report operations. The environment, \<^verbatim>\<open>strconv.ParseFloat\<close> and \<^verbatim>\<open>url.Parse\<close> are
  parameters; the calls into the SDK take their outcomes from a script.
\<close>

section \<open>Instruments\<close>

text \<open>
  An instrument: the provider of its meter, its name, unit and bucket boundaries. Their descriptions are
  left out, and so is the panic of \<^verbatim>\<open>mustInstrument\<close>, since the SDK refuses only malformed names and units.
\<close>

record instrument =
  in_meter :: "nat option"
  in_name :: string
  in_unit :: string
  in_bounds :: "rat list"

record recorder =
  rc_id :: nat
  rc_tracer :: "nat option"
  rc_operations :: instrument
  rc_operationDuration :: instrument
  rc_authentications :: instrument
  rc_authDuration :: instrument
  rc_rateFetchAttempts :: instrument
  rc_rateFetchWorkUnits :: instrument
  rc_rateFetchSkips :: instrument
  rc_rateFetchDuration :: instrument
  rc_rateCacheResults :: instrument
  rc_observationAge :: instrument
  rc_observationResults :: instrument
  rc_eventDeliveries :: instrument
  rc_eventDuration :: instrument
  rc_eventStages :: instrument
  rc_eventPublisherCount :: instrument
  rc_databaseRetries :: instrument
  rc_idempotencyResults :: instrument
  rc_rateLimitDecisions :: instrument
  rc_rateLimitDuration :: instrument
  rc_streamedOfferCount :: instrument
  rc_marketIntegrityRejections :: instrument

definition thousandths :: "nat list \<Rightarrow> rat list" where "thousandths = map (\<lambda>n. of_nat n / 1000)"

definition slow_bounds :: "rat list" where
  "slow_bounds = thousandths [5, 10, 25, 50, 75, 100, 250, 500, 750, 1000, 2500, 5000, 10000]"
definition fast_bounds :: "rat list" where
  "fast_bounds = map (\<lambda>n. of_nat n / 10000) [10, 25, 50, 100, 250, 500, 1000, 2500, 5000, 10000, 25000, 50000]"
definition age_bounds :: "rat list" where
  "age_bounds = map of_nat [0, 3600, 21600, 43200, 86400, 172800, 259200, 345600, 432000, 518400, 604800]"
definition offer_bounds :: "rat list" where
  "offer_bounds = map of_nat [0, 1, 5, 10, 25, 50, 100, 250, 500, 1000, 2500, 5000, 10000]"

definition newRecorder :: "nat \<Rightarrow> nat option \<Rightarrow> nat option \<Rightarrow> recorder" where
  "newRecorder address tracerProvider meterProvider =
     (let instrument = (\<lambda>name unit bounds. \<lparr>in_meter = meterProvider, in_name = ''bondexchange.'' @ name, in_unit = unit, in_bounds = bounds\<rparr>)
      in \<lparr>rc_id = address, rc_tracer = tracerProvider,
          rc_operations = instrument ''operation.count'' ''{operation}'' [],
          rc_operationDuration = instrument ''operation.duration'' ''s'' slow_bounds,
          rc_authentications = instrument ''authentication.count'' ''{authentication}'' [],
          rc_authDuration = instrument ''authentication.duration'' ''s'' fast_bounds,
          rc_rateFetchAttempts = instrument ''rate.fetch.attempt.count'' ''{attempt}'' [],
          rc_rateFetchWorkUnits = instrument ''rate.fetch.work_unit.count'' ''{work_unit}'' [],
          rc_rateFetchSkips = instrument ''rate.fetch.skip.count'' ''{skip}'' [],
          rc_rateFetchDuration = instrument ''rate.fetch.duration'' ''s'' slow_bounds,
          rc_rateCacheResults = instrument ''rate.cache.result'' ''{result}'' [],
          rc_observationAge = instrument ''rate.observation.age'' ''s'' age_bounds,
          rc_observationResults = instrument ''rate.observation.validation.count'' ''{validation}'' [],
          rc_eventDeliveries = instrument ''event.delivery.count'' ''{attempt}'' [],
          rc_eventDuration = instrument ''event.delivery.duration'' ''s'' slow_bounds,
          rc_eventStages = instrument ''event.stage.count'' ''{result}'' [],
          rc_eventPublisherCount = instrument ''event.publisher.configured'' ''{publisher}'' [],
          rc_databaseRetries = instrument ''database.transaction.retry'' ''{retry}'' [],
          rc_idempotencyResults = instrument ''idempotency.result'' ''{result}'' [],
          rc_rateLimitDecisions = instrument ''request.rate_limit.count'' ''{decision}'' [],
          rc_rateLimitDuration = instrument ''request.rate_limit.duration'' ''s'' fast_bounds,
          rc_streamedOfferCount = instrument ''stream.offer.count'' ''{offer}'' offer_bounds,
          rc_marketIntegrityRejections = instrument ''market_integrity.rejection.count'' ''{rejection}'' []\<rparr>)"

section \<open>State\<close>

text \<open>
  The providers that run and the two that are registered with \<^verbatim>\<open>otel\<close>, the active recorder, the objects
  of the operations, and what was reported: measurements and the life of the spans. Durations are kept
  in nanoseconds where Go turns them into seconds.
\<close>

datatype float64 = NaN | MinusInf | PlusInf | Finite rat

datatype sampler = AlwaysSample | NeverSample | TraceIDRatioBased float64 | ParentBased sampler

type_synonym attributes = "(string \<times> string) list"

datatype provider = TracerProvider attributes sampler | MeterProvider attributes int int

datatype amount = Whole int | Seconds int

record measurement =
  me_instrument :: instrument
  me_value :: amount
  me_attributes :: attributes

datatype span_event =
    SpanStarted nat "nat option" string attributes
  | SpanAttributes nat attributes
  | SpanError nat string
  | SpanEnded nat

record operationState =
  os_started :: int
  os_span :: nat
  os_completed :: bool

record telemetry =
  tl_tracers :: "nat option"
  tl_meters :: "nat option"
  tl_running :: "(nat \<times> provider) list"
  tl_next :: nat
  tl_active :: "recorder option"
  tl_operations :: "operationState list"
  tl_measured :: "measurement list"
  tl_spans :: "span_event list"
  tl_faults :: "go_error option list"

definition sdk_call :: "telemetry \<Rightarrow> go_error option \<times> telemetry" where
  "sdk_call t = (case tl_faults t of [] \<Rightarrow> (None, t) | f # fs \<Rightarrow> (f, t\<lparr>tl_faults := fs\<rparr>))"

definition provider_start :: "provider \<Rightarrow> telemetry \<Rightarrow> nat \<times> telemetry" where
  "provider_start pv t = (tl_next t, t\<lparr>tl_running := (tl_next t, pv) # tl_running t, tl_next := Suc (tl_next t)\<rparr>)"

definition provider_Shutdown :: "nat \<Rightarrow> telemetry \<Rightarrow> go_error option \<times> telemetry" where
  "provider_Shutdown p t = (case sdk_call t of (e, t1) \<Rightarrow> (e, t1\<lparr>tl_running := filter (\<lambda>r. fst r \<noteq> p) (tl_running t1)\<rparr>))"

text \<open>\<^verbatim>\<open>active.CompareAndSwap\<close>: recorders are compared by their address.\<close>

definition active_CompareAndSwap :: "recorder \<Rightarrow> recorder option \<Rightarrow> telemetry \<Rightarrow> telemetry" where
  "active_CompareAndSwap old new t =
     (if map_option rc_id (tl_active t) = Some (rc_id old) then t\<lparr>tl_active := new\<rparr> else t)"

section \<open>Set-up\<close>

fun float_less :: "float64 \<Rightarrow> rat \<Rightarrow> bool" where
  "float_less (Finite x) y = (x < y)"
| "float_less MinusInf y = True"
| "float_less _ y = False"

fun float_greater :: "float64 \<Rightarrow> rat \<Rightarrow> bool" where
  "float_greater (Finite x) y = (y < x)"
| "float_greater PlusInf y = True"
| "float_greater _ y = False"

record telemetry_env =
  te_Getenv :: "string \<Rightarrow> string"
  te_ParseFloat :: "string \<Rightarrow> float64 option"
  te_url_Parse :: "string \<Rightarrow> (string \<times> string) option"

definition sampler_ratio :: "telemetry_env \<Rightarrow> sampler result" where
  "sampler_ratio E =
     (case te_ParseFloat E (TrimSpace (te_Getenv E ''OTEL_TRACES_SAMPLER_ARG'')) of
        None \<Rightarrow> Inl (ErrorString ''OTEL_TRACES_SAMPLER_ARG must be a number between zero and one'')
      | Some parsed \<Rightarrow>
          if float_less parsed 0 \<or> float_greater parsed 1 then
            Inl (ErrorString ''OTEL_TRACES_SAMPLER_ARG must be a number between zero and one'')
          else Inr (TraceIDRatioBased parsed))"

definition samplerFromEnv :: "telemetry_env \<Rightarrow> sampler result" where
  "samplerFromEnv E =
     (let given = TrimSpace (te_Getenv E ''OTEL_TRACES_SAMPLER'');
          name = (if given = '''' then ''parentbased_always_on'' else given)
      in if name = ''always_on'' then Inr AlwaysSample
         else if name = ''always_off'' then Inr NeverSample
         else if name = ''parentbased_always_on'' then Inr (ParentBased AlwaysSample)
         else if name = ''parentbased_always_off'' then Inr (ParentBased NeverSample)
         else if name = ''traceidratio'' then sampler_ratio E
         else if name = ''parentbased_traceidratio'' then bind_r (sampler_ratio E) (\<lambda>configured. Inr (ParentBased configured))
         else Inl (ErrorString ''unsupported OTEL_TRACES_SAMPLER''))"

text \<open>The product of the milliseconds and \<^verbatim>\<open>time.Millisecond\<close> wraps at 64 bits.\<close>

definition millisecondDurationFromEnv :: "telemetry_env \<Rightarrow> string \<Rightarrow> int \<Rightarrow> int result" where
  "millisecondDurationFromEnv E name fallback =
     (let given = TrimSpace (te_Getenv E name)
      in if given = '''' then Inr fallback
         else (case ParseInt64 given of
                 None \<Rightarrow> Inl (ErrorString (name @ '' must be a positive integer number of milliseconds''))
               | Some milliseconds \<Rightarrow>
                   if milliseconds \<le> 0 then Inl (ErrorString (name @ '' must be a positive integer number of milliseconds''))
                   else Inr (wrap64 (milliseconds * 1000000))))"

definition signalEnabled :: "telemetry_env \<Rightarrow> string \<Rightarrow> string \<Rightarrow> bool result" where
  "signalEnabled E exporterVariable endpointVariable =
     (let exporter = TrimSpace (te_Getenv E exporterVariable)
      in if exporter = ''none'' then Inr False
         else if exporter \<noteq> '''' \<and> exporter \<noteq> ''otlp'' then Inl (ErrorString (exporterVariable @ '' supports only otlp or none''))
         else Inr (exporter = ''otlp'' \<or> TrimSpace (te_Getenv E endpointVariable) \<noteq> ''''
                   \<or> TrimSpace (te_Getenv E ''OTEL_EXPORTER_OTLP_ENDPOINT'') \<noteq> ''''))"

text \<open>The value of the first of two variables that is not blank, with its name.\<close>

definition either_variable :: "telemetry_env \<Rightarrow> string \<Rightarrow> string \<Rightarrow> string \<times> string" where
  "either_variable E specific general =
     (let v = TrimSpace (te_Getenv E specific)
      in if v = '''' then (general, TrimSpace (te_Getenv E general)) else (specific, v))"

definition validateHTTPExporter :: "telemetry_env \<Rightarrow> string \<Rightarrow> go_error option" where
  "validateHTTPExporter E signal =
     (case either_variable E (''OTEL_EXPORTER_OTLP_'' @ signal @ ''_PROTOCOL'') ''OTEL_EXPORTER_OTLP_PROTOCOL'' of
        (protocolVariable, protocol) \<Rightarrow>
          if protocol \<noteq> '''' \<and> protocol \<noteq> ''http/protobuf'' then
            Some (ErrorString (protocolVariable @ '' supports only http/protobuf''))
          else (case either_variable E (''OTEL_EXPORTER_OTLP_'' @ signal @ ''_ENDPOINT'') ''OTEL_EXPORTER_OTLP_ENDPOINT'' of
                  (endpointVariable, endpoint) \<Rightarrow>
                    if endpoint = '''' then None
                    else (case te_url_Parse E endpoint of
                            None \<Rightarrow> Some (ErrorString (endpointVariable @ '' must be an absolute HTTP or HTTPS URL''))
                          | Some (scheme, url_host) \<Rightarrow>
                              if url_host = '''' \<or> (scheme \<noteq> ''http'' \<and> scheme \<noteq> ''https'') then
                                Some (ErrorString (endpointVariable @ '' must be an absolute HTTP or HTTPS URL''))
                              else None)))"

definition shutdownProviders :: "nat option \<Rightarrow> nat option \<Rightarrow> telemetry \<Rightarrow> go_error option \<times> telemetry" where
  "shutdownProviders meterProvider tracerProvider t =
     (case (case meterProvider of
              None \<Rightarrow> (None, t)
            | Some p \<Rightarrow> (case provider_Shutdown p t of (e, t1) \<Rightarrow> (errors_Join [None, e], t1))) of (result, t1) \<Rightarrow>
        (case tracerProvider of
           None \<Rightarrow> (result, t1)
         | Some p \<Rightarrow> (case provider_Shutdown p t1 of (e, t2) \<Rightarrow> (errors_Join [result, e], t2))))"

record TelemetryConfig =
  tc_ServiceName :: string
  tc_ServiceVersion :: string

definition enabled_signals :: "telemetry_env \<Rightarrow> (bool \<times> bool) result" where
  "enabled_signals E =
     (if strings_EqualFold_ascii (TrimSpace (te_Getenv E ''OTEL_SDK_DISABLED'')) ''true'' then Inr (False, False)
      else bind_r (signalEnabled E ''OTEL_TRACES_EXPORTER'' ''OTEL_EXPORTER_OTLP_TRACES_ENDPOINT'') (\<lambda>tracesEnabled.
           bind_r (signalEnabled E ''OTEL_METRICS_EXPORTER'' ''OTEL_EXPORTER_OTLP_METRICS_ENDPOINT'') (\<lambda>metricsEnabled.
           Inr (tracesEnabled, metricsEnabled))))"

definition service_resource :: "TelemetryConfig \<Rightarrow> attributes" where
  "service_resource config =
     (''service.name'', if tc_ServiceName config = '''' then ''bond-exchange'' else tc_ServiceName config)
     # (if tc_ServiceVersion config = '''' then [] else [(''service.version'', tc_ServiceVersion config)])"

definition setup_resource :: "bool \<Rightarrow> TelemetryConfig \<Rightarrow> telemetry \<Rightarrow> attributes result \<times> telemetry" where
  "setup_resource needed config t =
     (if \<not> needed then (Inr [], t)
      else (case sdk_call t of
              (Some e, t1) \<Rightarrow> (Inl (Errorf ''create OpenTelemetry resource'' [e]), t1)
            | (None, t1) \<Rightarrow> (Inr (service_resource config), t1)))"

definition setup_traces :: "telemetry_env \<Rightarrow> bool \<Rightarrow> attributes \<Rightarrow> telemetry \<Rightarrow> nat option result \<times> telemetry" where
  "setup_traces E tracesEnabled resource t =
     (if \<not> tracesEnabled then (Inr None, t)
      else (case validateHTTPExporter E ''TRACES'' of
              Some e \<Rightarrow> (Inl e, t)
            | None \<Rightarrow>
                (case samplerFromEnv E of
                   Inl e \<Rightarrow> (Inl e, t)
                 | Inr sampler \<Rightarrow>
                     (case sdk_call t of
                        (Some e, t1) \<Rightarrow> (Inl (Errorf ''create OTLP trace exporter'' [e]), t1)
                      | (None, t1) \<Rightarrow>
                          (case provider_start (TracerProvider resource sampler) t1 of (p, t2) \<Rightarrow>
                             (Inr (Some p), t2\<lparr>tl_tracers := Some p\<rparr>))))))"

definition give_up :: "nat option \<Rightarrow> go_error \<Rightarrow> telemetry \<Rightarrow> 'a result \<times> telemetry" where
  "give_up tracerProvider e t =
     (Inl e, case tracerProvider of None \<Rightarrow> t | Some p \<Rightarrow> snd (provider_Shutdown p t))"

definition setup_metrics ::
  "telemetry_env \<Rightarrow> bool \<Rightarrow> attributes \<Rightarrow> nat option \<Rightarrow> telemetry \<Rightarrow> nat option result \<times> telemetry" where
  "setup_metrics E metricsEnabled resource tracerProvider t =
     (if \<not> metricsEnabled then (Inr None, t)
      else (case validateHTTPExporter E ''METRICS'' of
              Some e \<Rightarrow> give_up tracerProvider e t
            | None \<Rightarrow>
                (case millisecondDurationFromEnv E ''OTEL_METRIC_EXPORT_INTERVAL'' ns_minute of
                   Inl e \<Rightarrow> give_up tracerProvider e t
                 | Inr interval \<Rightarrow>
                     (case millisecondDurationFromEnv E ''OTEL_METRIC_EXPORT_TIMEOUT'' (30 * ns_second) of
                        Inl e \<Rightarrow> give_up tracerProvider e t
                      | Inr timeout \<Rightarrow>
                          (case sdk_call t of
                             (Some e, t1) \<Rightarrow> give_up tracerProvider (Errorf ''create OTLP metric exporter'' [e]) t1
                           | (None, t1) \<Rightarrow>
                               (case provider_start (MeterProvider resource interval timeout) t1 of (p, t2) \<Rightarrow>
                                  (Inr (Some p), t2\<lparr>tl_meters := Some p\<rparr>)))))))"

text \<open>The function that \<^verbatim>\<open>Setup\<close> returns, with the variables it captures.\<close>

record telemetry_shutdown =
  ts_created :: recorder
  ts_previous :: "recorder option"
  ts_meterProvider :: "nat option"
  ts_tracerProvider :: "nat option"

definition run_shutdown :: "telemetry_shutdown \<Rightarrow> telemetry \<Rightarrow> go_error option \<times> telemetry" where
  "run_shutdown sd t =
     shutdownProviders (ts_meterProvider sd) (ts_tracerProvider sd) (active_CompareAndSwap (ts_created sd) (ts_previous sd) t)"

definition setup_recorder :: "nat option \<Rightarrow> nat option \<Rightarrow> telemetry \<Rightarrow> telemetry_shutdown result \<times> telemetry" where
  "setup_recorder meterProvider tracerProvider t =
     (let created = newRecorder (tl_next t) (tl_tracers t) (tl_meters t);
          previous = tl_active t;
          t1 = t\<lparr>tl_next := Suc (tl_next t), tl_active := Some created\<rparr>;
          sd = \<lparr>ts_created = created, ts_previous = previous, ts_meterProvider = meterProvider, ts_tracerProvider = tracerProvider\<rparr>
      in if meterProvider = None then (Inr sd, t1)
         else (case sdk_call t1 of
                 (None, t2) \<Rightarrow> (Inr sd, t2)
               | (Some e, t2) \<Rightarrow>
                   (case run_shutdown sd t2 of (shutdownErr, t3) \<Rightarrow>
                      (Inl (Errorf ''join'' (Errorf ''start Go runtime metrics'' [e] # List.map_filter id [shutdownErr])), t3))))"

definition Setup :: "telemetry_env \<Rightarrow> TelemetryConfig \<Rightarrow> telemetry \<Rightarrow> telemetry_shutdown result \<times> telemetry" where
  "Setup E config t =
     (case enabled_signals E of
        Inl e \<Rightarrow> (Inl e, t)
      | Inr (tracesEnabled, metricsEnabled) \<Rightarrow>
          (case setup_resource (tracesEnabled \<or> metricsEnabled) config t of
             (Inl e, t1) \<Rightarrow> (Inl e, t1)
           | (Inr resource, t1) \<Rightarrow>
               (case setup_traces E tracesEnabled resource t1 of
                  (Inl e, t2) \<Rightarrow> (Inl e, t2)
                | (Inr tracerProvider, t2) \<Rightarrow>
                    (case setup_metrics E metricsEnabled resource tracerProvider t2 of
                       (Inl e, t3) \<Rightarrow> (Inl e, t3)
                     | (Inr meterProvider, t3) \<Rightarrow> setup_recorder meterProvider tracerProvider t3))))"

section \<open>Operations\<close>

text \<open>A context: the span in it and the address of the state of the operation in it.\<close>

record go_context =
  cx_span :: "nat option"
  cx_operation :: "nat option"

definition Start :: "go_context \<Rightarrow> string \<Rightarrow> attributes \<Rightarrow> telemetry \<Rightarrow> (go_context \<times> nat) \<times> telemetry" where
  "Start ctx name attributes t =
     (let sp = tl_next t;
          tracer = (case tl_active t of None \<Rightarrow> tl_tracers t | Some current \<Rightarrow> rc_tracer current)
      in ((ctx\<lparr>cx_span := Some sp\<rparr>, sp),
          t\<lparr>tl_next := Suc sp, tl_spans := tl_spans t @ [SpanStarted sp tracer name attributes]\<rparr>))"

definition span_events :: "span_event list \<Rightarrow> telemetry \<Rightarrow> telemetry" where
  "span_events es t = t\<lparr>tl_spans := tl_spans t @ es\<rparr>"

definition End :: "nat \<Rightarrow> string \<Rightarrow> telemetry \<Rightarrow> telemetry" where
  "End sp errorClass =
     span_events ((if errorClass \<noteq> '''' then [SpanAttributes sp [(''error.type'', errorClass)], SpanError sp errorClass] else [])
       @ [SpanEnded sp])"

definition BeginOperation :: "go_context \<Rightarrow> string \<Rightarrow> int \<Rightarrow> telemetry \<Rightarrow> go_context \<times> telemetry" where
  "BeginOperation ctx operation now t =
     (case Start ctx (''bondexchange.operation '' @ operation) [(''bondexchange.operation'', operation)] t of ((ctx1, sp), t1) \<Rightarrow>
        (ctx1\<lparr>cx_operation := Some (length (tl_operations t1))\<rparr>,
         t1\<lparr>tl_operations := tl_operations t1 @ [\<lparr>os_started = now, os_span = sp, os_completed = False\<rparr>]\<rparr>))"

definition measure_all :: "(instrument \<times> amount) list \<Rightarrow> attributes \<Rightarrow> telemetry \<Rightarrow> telemetry" where
  "measure_all values attributes t =
     t\<lparr>tl_measured := tl_measured t @ map (\<lambda>(i, v). \<lparr>me_instrument = i, me_value = v, me_attributes = attributes\<rparr>) values\<rparr>"

text \<open>The functions that report do nothing while no recorder is active.\<close>

definition with_active :: "(recorder \<Rightarrow> telemetry \<Rightarrow> telemetry) \<Rightarrow> telemetry \<Rightarrow> telemetry" where
  "with_active f t = (case tl_active t of None \<Rightarrow> t | Some current \<Rightarrow> f current t)"

definition RecordOperation :: "string \<Rightarrow> string \<Rightarrow> string \<Rightarrow> int \<Rightarrow> int \<Rightarrow> telemetry \<Rightarrow> telemetry" where
  "RecordOperation operation outcome errorCode elapsed streamedOffers = with_active (\<lambda>current.
     measure_all ([(rc_operations current, Whole 1), (rc_operationDuration current, Seconds elapsed)]
         @ (if 0 \<le> streamedOffers then [(rc_streamedOfferCount current, Whole streamedOffers)] else []))
       ([(''bondexchange.operation'', operation), (''outcome'', outcome)]
         @ (if errorCode \<noteq> '''' then [(''error.type'', errorCode)] else [])))"

definition CompleteOperation :: "go_context \<Rightarrow> string \<Rightarrow> string \<Rightarrow> string \<Rightarrow> int \<Rightarrow> int \<Rightarrow> telemetry \<Rightarrow> telemetry" where
  "CompleteOperation ctx operation outcome errorCode streamedOffers now t =
     (case cx_operation ctx of
        None \<Rightarrow> RecordOperation operation outcome errorCode 0 streamedOffers t
      | Some i \<Rightarrow>
          (let state = tl_operations t ! i; sp = os_span state
           in if os_completed state then t
              else RecordOperation operation outcome errorCode (time_Sub now (os_started state)) streamedOffers
                (span_events ([SpanAttributes sp [(''outcome'', outcome)]]
                   @ (if errorCode \<noteq> '''' then [SpanAttributes sp [(''error.type'', errorCode)]] else [])
                   @ (if errorCode \<in> {''Internal'', ''Unavailable'', ''Unknown'', ''DeadlineExceeded''} then [SpanError sp errorCode] else [])
                   @ [SpanEnded sp])
                   (t\<lparr>tl_operations := (tl_operations t)[i := state\<lparr>os_completed := True\<rparr>]\<rparr>))))"

text \<open>Deferred: \<open>recovered\<close> is the panic that runs through the handler, which goes on.\<close>

definition CompleteOperationOnPanic ::
  "go_context \<Rightarrow> string \<Rightarrow> int option \<Rightarrow> int \<Rightarrow> 'p option \<Rightarrow> telemetry \<Rightarrow> 'p option \<times> telemetry" where
  "CompleteOperationOnPanic ctx operation streamedOffers now recovered t =
     (case recovered of
        None \<Rightarrow> (None, t)
      | Some panic \<Rightarrow>
          (Some panic, CompleteOperation ctx operation ''failed'' ''Internal''
             (case streamedOffers of None \<Rightarrow> - 1 | Some count \<Rightarrow> count) now t))"

section \<open>Reports\<close>

definition RecordSelfTradeRejection :: "telemetry \<Rightarrow> telemetry" where
  "RecordSelfTradeRejection = with_active (\<lambda>current.
     measure_all [(rc_marketIntegrityRejections current, Whole 1)] [(''control'', ''self_trade'')])"

definition RecordAuthentication :: "string \<Rightarrow> string \<Rightarrow> string \<Rightarrow> int \<Rightarrow> telemetry \<Rightarrow> telemetry" where
  "RecordAuthentication operation outcome stage elapsed = with_active (\<lambda>current.
     measure_all [(rc_authentications current, Whole 1), (rc_authDuration current, Seconds elapsed)]
       [(''bondexchange.operation'', operation), (''outcome'', outcome), (''stage'', stage)])"

definition RecordRateFetch :: "string \<Rightarrow> string \<Rightarrow> int \<Rightarrow> int \<Rightarrow> telemetry \<Rightarrow> telemetry" where
  "RecordRateFetch kind outcome units elapsed = with_active (\<lambda>current.
     measure_all [(rc_rateFetchAttempts current, Whole 1), (rc_rateFetchWorkUnits current, Whole units),
         (rc_rateFetchDuration current, Seconds elapsed)]
       [(''fetch.kind'', kind), (''outcome'', outcome)])"

definition RecordRateFetchSkip :: "string \<Rightarrow> string \<Rightarrow> telemetry \<Rightarrow> telemetry" where
  "RecordRateFetchSkip kind outcome = with_active (\<lambda>current.
     measure_all [(rc_rateFetchSkips current, Whole 1)] [(''fetch.kind'', kind), (''outcome'', outcome)])"

definition RecordRateCache :: "string \<Rightarrow> telemetry \<Rightarrow> telemetry" where
  "RecordRateCache outcome = with_active (\<lambda>current. measure_all [(rc_rateCacheResults current, Whole 1)] [(''outcome'', outcome)])"

definition RecordObservationAge :: "int \<Rightarrow> telemetry \<Rightarrow> telemetry" where
  "RecordObservationAge age = with_active (\<lambda>current. measure_all [(rc_observationAge current, Seconds age)] [])"

definition RecordObservationValidation :: "string \<Rightarrow> telemetry \<Rightarrow> telemetry" where
  "RecordObservationValidation outcome = with_active (\<lambda>current.
     measure_all [(rc_observationResults current, Whole 1)] [(''outcome'', outcome)])"

definition RecordEventDelivery :: "string \<Rightarrow> string \<Rightarrow> int \<Rightarrow> telemetry \<Rightarrow> telemetry" where
  "RecordEventDelivery outcome errorClass elapsed = with_active (\<lambda>current.
     measure_all [(rc_eventDeliveries current, Whole 1), (rc_eventDuration current, Seconds elapsed)]
       ((''outcome'', outcome) # (if errorClass \<noteq> '''' then [(''error.type'', errorClass)] else [])))"

definition RecordEventStage :: "string \<Rightarrow> string \<Rightarrow> telemetry \<Rightarrow> telemetry" where
  "RecordEventStage stage outcome = with_active (\<lambda>current.
     measure_all [(rc_eventStages current, Whole 1)] [(''stage'', stage), (''outcome'', outcome)])"

definition RecordEventPublisherCount :: "int \<Rightarrow> telemetry \<Rightarrow> telemetry" where
  "RecordEventPublisherCount count = with_active (\<lambda>current. measure_all [(rc_eventPublisherCount current, Whole count)] [])"

definition RecordDatabaseRetry :: "string \<Rightarrow> string \<Rightarrow> telemetry \<Rightarrow> telemetry" where
  "RecordDatabaseRetry operation reason = with_active (\<lambda>current.
     measure_all [(rc_databaseRetries current, Whole 1)] [(''bondexchange.operation'', operation), (''reason'', reason)])"

definition Telemetry_RecordIdempotency :: "string \<Rightarrow> string \<Rightarrow> telemetry \<Rightarrow> telemetry" where
  "Telemetry_RecordIdempotency operation outcome = with_active (\<lambda>current.
     measure_all [(rc_idempotencyResults current, Whole 1)] [(''bondexchange.operation'', operation), (''outcome'', outcome)])"

definition RecordRateLimit :: "string \<Rightarrow> string \<Rightarrow> int \<Rightarrow> telemetry \<Rightarrow> telemetry" where
  "RecordRateLimit operation outcome elapsed = with_active (\<lambda>current.
     measure_all [(rc_rateLimitDecisions current, Whole 1), (rc_rateLimitDuration current, Seconds elapsed)]
       [(''bondexchange.operation'', operation), (''outcome'', outcome)])"

section \<open>Logs\<close>

text \<open>
  The handler that adds the identifiers of the current span to a log record before it hands it on; its
  other methods only delegate.
\<close>

record span_context =
  sc_TraceID :: string
  sc_SpanID :: string
  sc_sampled :: bool

definition Handle :: "(attributes \<Rightarrow> go_error option) \<Rightarrow> span_context option \<Rightarrow> attributes \<Rightarrow> go_error option" where
  "Handle next sp log_record =
     next (log_record @ (case sp of
         None \<Rightarrow> []
       | Some sc \<Rightarrow> [(''trace_id'', sc_TraceID sc), (''span_id'', sc_SpanID sc),
           (''trace_sampled'', if sc_sampled sc then ''true'' else ''false'')]))"

end
