(* ===== verification/Server_Main.thy ===== *)
theory Server_Main
  imports Server_Runtime Telemetry Sie_Client Offer_Store Eventing Http_Api
begin

text \<open>
  Command \<^verbatim>\<open>server\<close>: how the components are put together, and the life of the process from its
  configuration to its shutdown.
\<close>

section \<open>Recovery\<close>

text \<open>A call of a handler; \<open>None\<close> beside the world means that it panicked.\<close>

type_synonym 'a call = "world \<Rightarrow> 'a reply option \<times> world"

definition internal_error :: rpc_error where
  "internal_error = StatusError (status_Error Internal ''internal server error'')"

definition recoverUnaryPanic :: "string \<Rightarrow> 'a call \<Rightarrow> world \<Rightarrow> 'a reply \<times> world" where
  "recoverUnaryPanic method handle w =
     (case handle w of
        (None, w1) \<Rightarrow> (Inl internal_error, log_http ''recovered gRPC panic'' [method] w1)
      | (Some r, w1) \<Rightarrow> (r, w1))"

definition recoverStreamPanic :: "string \<Rightarrow> unit call \<Rightarrow> world \<Rightarrow> unit reply \<times> world" where
  "recoverStreamPanic method handle w =
     (case handle w of
        (None, w1) \<Rightarrow> (Inl internal_error, log_http ''recovered gRPC stream panic'' [method] w1)
      | (Some r, w1) \<Rightarrow> (r, w1))"

section \<open>Assembly\<close>

text \<open>
  What the process takes from its libraries: the clock, the network client, go-jose, the message
  encoding, PostgreSQL's jsonb, the texts of driver errors, and the cancellation of a context.
\<close>

record ('u, 'd, 't, 'o, 'k) libraries =
  lb_lib :: "('u, 'd) lib"
  lb_jose :: "('o, 'k) jose"
  lb_fold :: "nat \<Rightarrow> nat"
  lb_Do :: "'t http_client \<Rightarrow> outgoing \<Rightarrow> incoming m"
  lb_DefaultClient :: "'t http_client"
  lb_DefaultTransport :: 't
  lb_otel :: "'t \<Rightarrow> 't"
  lb_wall :: "world \<Rightarrow> clock_time \<times> world"
  lb_jsonb :: "string \<Rightarrow> nat option"
  lb_marshal :: "proto_request \<Rightarrow> string option"
  lb_env :: rpc_env
  lb_canceled :: "world \<Rightarrow> bool"
  lb_Ping :: "unit m"

definition exchange_service :: "('u, 'd) lib \<Rightarrow> 'd ExchangeApi" where
  "exchange_service L = \<lparr>ex_Buy = Service_Buy L (postgres_store L),
     ex_StreamActiveOffers = Service_StreamActiveOffers L (postgres_store L),
     ex_ActiveBondSeries = Service_ActiveBondSeries (postgres_store L)\<rparr>"

definition intake_exchange :: "('u, 'd) lib \<Rightarrow> 'd IntakeService \<Rightarrow> 'd AppExchange" where
  "intake_exchange L intake = \<lparr>ax_Buy = Intake_Buy intake, ax_QuoteSaleOffer = QuoteSaleOffer L intake,
     ax_CreateSaleOffer = Intake_CreateSaleOffer L intake, ax_StreamActiveOffers = Intake_StreamActiveOffers intake,
     ax_ActiveBondSeries = Intake_ActiveBondSeries intake\<rparr>"

definition NewApplication :: "'d AppExchange \<Rightarrow> (AccessContext \<Rightarrow> string \<Rightarrow> unit m) \<Rightarrow> Dispatcher \<Rightarrow> 'd Application" where
  "NewApplication exchange authorizer dispatcher =
     \<lparr>ap_exchange = exchange, ap_authorize = authorizer, ap_dispatcher = dispatcher\<rparr>"

definition application_api :: "'d Application \<Rightarrow> 'd RpcApplication" where
  "application_api app = \<lparr>ra_Buy = App_Buy app, ra_CreateSaleOffer = App_CreateSaleOffer app,
     ra_QuoteSaleOffer = App_QuoteSaleOffer app, ra_StreamActiveOffers = App_StreamActiveOffers app,
     ra_ActiveBondSeries = App_ActiveBondSeries app, ra_PublishPendingEvents = App_PublishPendingEvents app\<rparr>"

definition NewServer ::
  "('u, 'd, 't, 'o, 'k) libraries \<Rightarrow> 'd RpcApplication \<Rightarrow> Authenticator \<Rightarrow> (string \<Rightarrow> unit m) \<Rightarrow> 'd Server" where
  "NewServer B application authenticator rateLimiter =
     \<lparr>sr_application = application, sr_Ping = lb_Ping B, sr_Authorize = Authorize, sr_authenticator = Some authenticator,
      sr_rateLimiter = Some rateLimiter, sr_marshal = lb_marshal B, sr_env = lb_env B\<rparr>"

definition assemble :: "('u, 'd, 't, 'o, 'k) libraries \<Rightarrow> RuntimeConfig \<Rightarrow> 'k jwk list \<Rightarrow> 'd Server result" where
  "assemble B config keys =
     (let L = lb_lib B
      in bind_r (NewClient (lb_DefaultClient B) (lb_DefaultTransport B) (lb_otel B)
           \<lparr>cf_Token = rt_BanxicoSIEToken config, cf_HTTPClient = None, cf_Timeout = 0, cf_MaxBodySize = 0\<rparr>) (\<lambda>sieClient.
         bind_r (NewRateService (lb_wall B) (Some (Client_Fetch L (lb_fold B) (lb_Do B) (lb_wall B) sieClient))
           (Some (postgres_rate_store L (\<lambda>body. checkValid body \<noteq> None) (lb_jsonb B)))
           \<lparr>rc_FreshFor = 0, rc_LeaseFor = 0, rc_RetryAfter = 0, rc_PollEvery = 0, rc_Now = None\<rparr>) (\<lambda>rateService.
         bind_r (NewIntakeService (lb_wall B) (Some (exchange_service L)) (Some (Latest rateService))
           (Some (postgres_repository L)) \<lparr>ic_QuoteTTL = 0, ic_MaxObservationAge = 0, ic_Now = None\<rparr>) (\<lambda>intakeService.
         bind_r (NewDispatcher (postgres_event_store L) [] (5 * ns_second) (lb_canceled B)) (\<lambda>dispatcher.
         let service = NewApplication (intake_exchange L intakeService) Authorize dispatcher
         in bind_r (NewJWTAuthenticator (lb_wall B)
              \<lparr>jw_Issuer = rt_AssertionIssuer config, jw_Audience = rt_AssertionAudience config, jw_Keys = keys,
               jw_Algorithms = [], jw_MaximumAge = 0, jw_ClockSkew = 0, jw_Now = None\<rparr> (Some ResolvePrincipal)) (\<lambda>jwt.
            Inr (NewServer B (application_api service) (Authenticate L (lb_jose B) jwt) AdmitRequest)))))))"

section \<open>The process\<close>

text \<open>
  The resources of the process, and what its environment answers. \<open>ou_Serve\<close> runs both servers until
  one fails, with its error, or a signal arrives; \<open>ou_Shutdown\<close> is the result of \<^verbatim>\<open>ShutdownServers\<close>.
  \<^verbatim>\<open>httpapi.NewHandler\<close> has no error here: the registration that the generated gateway does for it
  always returns nil.
\<close>

record host =
  ho_net :: process
  ho_telemetry :: telemetry
  ho_pool :: bool

record ('u, 'd, 't, 'o, 'k) outside =
  ou_libraries :: "('u, 'd, 't, 'o, 'k) libraries"
  ou_Getenv :: "string \<Rightarrow> string"
  ou_Open :: "string \<Rightarrow> (string \<times> go_error option) result"
  ou_DecodeKeys :: "string \<Rightarrow> 'k jwk list result"
  ou_ParseFloat :: "string \<Rightarrow> float64 option"
  ou_url_Parse :: "string \<Rightarrow> (string \<times> string) option"
  ou_ParseConfig :: "string \<Rightarrow> pool_config result"
  ou_NewPool :: "pool_config \<Rightarrow> go_error option"
  ou_RecordStats :: "go_error option"
  ou_Ping :: "go_error option"
  ou_Serve :: "'d Server \<Rightarrow> Listeners \<Rightarrow> host \<Rightarrow> go_error option \<times> host"
  ou_Shutdown :: "go_error option"

definition run_serving ::
  "('u, 'd, 't, 'o, 'k) outside \<Rightarrow> 'd Server \<Rightarrow> Listeners \<Rightarrow> host \<Rightarrow> go_error option \<times> host" where
  "run_serving E apiServer listeners h =
     (case ou_Serve E apiServer listeners h of (serveErr, h1) \<Rightarrow>
        (if serveErr \<noteq> None then serveErr else ou_Shutdown E, h1))"

definition run_with_pool ::
  "('u, 'd, 't, 'o, 'k) outside \<Rightarrow> RuntimeConfig \<Rightarrow> 'k jwk list \<Rightarrow> host \<Rightarrow> go_error option \<times> host" where
  "run_with_pool E config keys h =
     (case ou_RecordStats E of
        Some e \<Rightarrow> (Some (Errorf ''record PostgreSQL pool metrics'' [e]), h)
      | None \<Rightarrow>
          (case ou_Ping E of
             Some e \<Rightarrow> (Some e, h)
           | None \<Rightarrow>
               (case assemble (ou_libraries E) config keys of
                  Inl e \<Rightarrow> (Some e, h)
                | Inr apiServer \<Rightarrow>
                    (case Listen config (ho_net h) of
                       (Inl e, p1) \<Rightarrow> (Some e, h\<lparr>ho_net := p1\<rparr>)
                     | (Inr listeners, p1) \<Rightarrow>
                         (case run_serving E apiServer listeners (h\<lparr>ho_net := p1\<rparr>) of (result, h1) \<Rightarrow>
                            (result, h1\<lparr>ho_net := snd (Listeners_Close listeners (ho_net h1))\<rparr>))))))"

definition run_with_telemetry ::
  "('u, 'd, 't, 'o, 'k) outside \<Rightarrow> RuntimeConfig \<Rightarrow> 'k jwk list \<Rightarrow> host \<Rightarrow> go_error option \<times> host" where
  "run_with_telemetry E config keys h =
     (case PoolConfig (ou_ParseConfig E) (rt_DatabaseURL config) of
        Inl e \<Rightarrow> (Some e, h)
      | Inr poolConfig \<Rightarrow>
          (case ou_NewPool E poolConfig of
             Some e \<Rightarrow> (Some e, h)
           | None \<Rightarrow>
               (case run_with_pool E config keys (h\<lparr>ho_pool := True\<rparr>) of (result, h1) \<Rightarrow>
                  (result, h1\<lparr>ho_pool := False\<rparr>))))"

definition run :: "('u, 'd, 't, 'o, 'k) outside \<Rightarrow> host \<Rightarrow> go_error option \<times> host" where
  "run E h =
     (case Load (ou_Getenv E) of
        Inl e \<Rightarrow> (Some e, h)
      | Inr config \<Rightarrow>
          (case ReadKeySet (ou_Open E) (ou_DecodeKeys E) (rt_AssertionKeySetPath config) of
             Inl e \<Rightarrow> (Some e, h)
           | Inr keySet \<Rightarrow>
               (case Setup \<lparr>te_Getenv = ou_Getenv E, te_ParseFloat = ou_ParseFloat E, te_url_Parse = ou_url_Parse E\<rparr>
                   \<lparr>tc_ServiceName = [], tc_ServiceVersion = []\<rparr> (ho_telemetry h) of
                  (Inl e, t1) \<Rightarrow> (Some e, h\<lparr>ho_telemetry := t1\<rparr>)
                | (Inr shutdownTelemetry, t1) \<Rightarrow>
                    (case run_with_telemetry E config keySet (h\<lparr>ho_telemetry := t1\<rparr>) of (result, h1) \<Rightarrow>
                       (case run_shutdown shutdownTelemetry (ho_telemetry h1) of (e, t2) \<Rightarrow>
                          (errors_Join [result, e], h1\<lparr>ho_telemetry := t2\<rparr>))))))"

end
