(* ===== verification/Telemetry_Facts.thy ===== *)
theory Telemetry_Facts
  imports Telemetry
begin

text \<open>Lemmas on the telemetry package: what its set-up starts and stops, and the once-only completion of an operation.\<close>

section \<open>Providers\<close>

definition fresh_providers :: "telemetry \<Rightarrow> bool" where
  "fresh_providers t \<longleftrightarrow> list_all (\<lambda>r. fst r < tl_next t) (tl_running t)"

definition still_running :: "nat option \<Rightarrow> (nat \<times> provider) list \<Rightarrow> (nat \<times> provider) list" where
  "still_running stopped = filter (\<lambda>r. Some (fst r) \<noteq> stopped)"

lemma still_running_None [simp]: "still_running None rs = rs"
  by (simp add: still_running_def)

lemma still_running_fresh: "list_all (\<lambda>r. fst r < n) rs \<Longrightarrow> n \<le> m \<Longrightarrow> still_running (Some m) rs = rs"
  by (auto simp: still_running_def list_all_iff intro!: filter_True)

lemma still_running_head [simp]: "still_running (Some p) ((p, pv) # rs) = still_running (Some p) rs"
  by (simp add: still_running_def)

lemma still_running_other: "q \<noteq> p \<Longrightarrow> still_running (Some q) ((p, pv) # rs) = (p, pv) # still_running (Some q) rs"
  by (simp add: still_running_def)

lemma sdk_call_keeps:
  assumes "sdk_call t = (e, t1)"
  shows "tl_running t1 = tl_running t" "tl_active t1 = tl_active t" "tl_next t1 = tl_next t"
    "tl_tracers t1 = tl_tracers t" "tl_meters t1 = tl_meters t"
  using assms by (auto simp: sdk_call_def split: list.splits)

lemma provider_Shutdown_stops:
  assumes "provider_Shutdown p t = (e, t1)"
  shows "tl_running t1 = still_running (Some p) (tl_running t)" "tl_active t1 = tl_active t"
  using assms by (auto simp: provider_Shutdown_def still_running_def sdk_call_keeps split: prod.splits)

lemma shutdownProviders_stops:
  assumes "shutdownProviders mp tp t = (e, t1)"
  shows "tl_running t1 = still_running tp (still_running mp (tl_running t))" "tl_active t1 = tl_active t"
  using assms
  by (auto simp: shutdownProviders_def provider_Shutdown_stops split: option.splits prod.splits)

lemma run_shutdown_stops:
  assumes "run_shutdown sd t = (e, t1)"
  shows "tl_running t1 = still_running (ts_tracerProvider sd) (still_running (ts_meterProvider sd) (tl_running t))"
    "tl_active t1 = (if map_option rc_id (tl_active t) = Some (rc_id (ts_created sd)) then ts_previous sd else tl_active t)"
  using assms shutdownProviders_stops unfolding run_shutdown_def by (fastforce simp: active_CompareAndSwap_def)+

lemma give_up_stops:
  "give_up tp e t = (r, t1) \<longleftrightarrow> r = Inl e \<and> t1 = snd (give_up tp e t :: unit result \<times> telemetry)"
  "tl_running (snd (give_up tp e t :: unit result \<times> telemetry)) = still_running tp (tl_running t)"
  "tl_active (snd (give_up tp e t :: unit result \<times> telemetry)) = tl_active t"
  using provider_Shutdown_stops [OF surjective_pairing] by (auto simp: give_up_def split: option.splits)

section \<open>Set-up\<close>

lemma setup_resource_keeps:
  assumes "setup_resource needed config t = (r, t1)"
  shows "tl_running t1 = tl_running t" "tl_active t1 = tl_active t" "tl_next t1 = tl_next t"
  using assms by (auto simp: setup_resource_def sdk_call_keeps split: if_splits option.splits prod.splits)

text \<open>What a stage of the set-up leaves: a new provider in front of those that ran, or nothing new.\<close>

definition started :: "nat option \<Rightarrow> telemetry \<Rightarrow> telemetry \<Rightarrow> bool" where
  "started p t t1 \<longleftrightarrow> tl_active t1 = tl_active t
     \<and> (case p of
          None \<Rightarrow> tl_running t1 = tl_running t \<and> tl_next t1 = tl_next t
        | Some i \<Rightarrow> i = tl_next t \<and> tl_next t1 = Suc i \<and> (\<exists>pv. tl_running t1 = (i, pv) # tl_running t))"

lemma setup_traces_starts:
  assumes "setup_traces E enabled resource t = (r, t1)"
  shows "case r of Inl _ \<Rightarrow> started None t t1 | Inr p \<Rightarrow> started p t t1"
  using assms
  by (auto simp: setup_traces_def started_def provider_start_def sdk_call_keeps
      split: if_splits option.splits sum.splits prod.splits)

lemma setup_metrics_starts:
  assumes "setup_metrics E enabled resource tp t = (r, t1)"
  shows "case r of Inl _ \<Rightarrow> tl_running t1 = still_running tp (tl_running t) \<and> tl_active t1 = tl_active t | Inr p \<Rightarrow> started p t t1"
  using assms
  by (auto simp: setup_metrics_def started_def provider_start_def sdk_call_keeps give_up_stops
      split: if_splits option.splits sum.splits prod.splits)

lemma setup_recorder_starts:
  assumes "setup_recorder mp tp t = (r, t1)"
  shows "case r of
      Inl _ \<Rightarrow> tl_running t1 = still_running tp (still_running mp (tl_running t)) \<and> tl_active t1 = tl_active t
    | Inr sd \<Rightarrow> tl_running t1 = tl_running t \<and> tl_active t1 = Some (ts_created sd) \<and> ts_previous sd = tl_active t
        \<and> ts_meterProvider sd = mp \<and> ts_tracerProvider sd = tp"
  using assms
  by (auto simp: setup_recorder_def Let_def sdk_call_keeps run_shutdown_stops newRecorder_def
      split: if_splits option.splits prod.splits)

lemma started_stopped:
  assumes "started tp t t1" and "started mp t1 t2" and "fresh_providers t"
  shows "still_running tp (tl_running t1) = tl_running t"
    "still_running tp (still_running mp (tl_running t2)) = tl_running t"
  using assms
  by (auto simp: started_def fresh_providers_def still_running_fresh still_running_other split: option.splits)

text \<open>Whatever a set-up starts, it stops again itself or through the function it returns.\<close>

lemma Setup_balanced:
  assumes "Setup E config t = (r, t1)" and "fresh_providers t"
  shows "case r of
      Inl _ \<Rightarrow> tl_running t1 = tl_running t \<and> tl_active t1 = tl_active t
    | Inr sd \<Rightarrow> tl_active t1 = Some (ts_created sd)
        \<and> (\<forall>t2 e t3. tl_running t2 = tl_running t1 \<and> tl_active t2 = tl_active t1 \<and> run_shutdown sd t2 = (e, t3)
             \<longrightarrow> tl_running t3 = tl_running t \<and> tl_active t3 = tl_active t)"
proof (cases "enabled_signals E")
  case (Inl e)
  then show ?thesis using assms(1) by (auto simp: Setup_def)
next
  case (Inr signals)
  obtain tr me where signals: "enabled_signals E = Inr (tr, me)" using Inr by (cases signals) simp
  obtain rr u1 where one: "setup_resource (tr \<or> me) config t = (rr, u1)" by (cases "setup_resource (tr \<or> me) config t")
  note k = setup_resource_keeps [OF one]
  have fresh: "fresh_providers u1" using assms(2) k by (simp add: fresh_providers_def)
  show ?thesis
  proof (cases rr)
    case (Inl e)
    then show ?thesis using assms(1) signals one k by (auto simp: Setup_def)
  next
    case (Inr resource)
    obtain tp u2 where two: "setup_traces E tr resource u1 = (tp, u2)" by (cases "setup_traces E tr resource u1")
    note s2 = setup_traces_starts [OF two]
    show ?thesis
    proof (cases tp)
      case (Inl e)
      then show ?thesis using assms(1) signals one two s2 k \<open>rr = Inr resource\<close> by (auto simp: Setup_def started_def)
    next
      case (Inr p)
      obtain mp u3 where three: "setup_metrics E me resource p u2 = (mp, u3)" by (cases "setup_metrics E me resource p u2")
      note s3 = setup_metrics_starts [OF three]
      have p: "started p u1 u2" using s2 Inr by simp
      show ?thesis
      proof (cases mp)
        case (Inl e)
        have "started None u2 u2" by (simp add: started_def)
        from started_stopped(1) [OF p this fresh] show ?thesis
          using assms(1) signals one two three s3 p k Inl Inr \<open>rr = Inr resource\<close> by (auto simp: Setup_def started_def)
      next
        case (Inr q)
        have q: "started q u2 u3" using s3 Inr by simp
        have run: "setup_recorder q p u3 = (r, t1)"
          using assms(1) signals one two three Inr \<open>tp = Inr p\<close> \<open>rr = Inr resource\<close> by (simp add: Setup_def)
        have "still_running p (still_running q (tl_running u3)) = tl_running t" "tl_active u3 = tl_active t"
          using started_stopped(2) [OF p q fresh] p q k by (simp_all add: started_def)
        with setup_recorder_starts [OF run] show ?thesis
          by (cases r) (auto dest: run_shutdown_stops)
      qed
    qed
  qed
qed

section \<open>Operations\<close>

text \<open>
  The life of the process as far as operations are concerned: operations begin, complete or are completed
  by a panic, spans that belong to no operation come and go, and the other functions report. A context that completes is one that \<^verbatim>\<open>BeginOperation\<close> returned.
\<close>

inductive report :: "(telemetry \<Rightarrow> telemetry) \<Rightarrow> bool" where
  "report RecordSelfTradeRejection"
| "report (RecordAuthentication operation outcome stage elapsed)"
| "report (RecordRateFetch kind outcome units elapsed)"
| "report (RecordRateFetchSkip kind outcome)"
| "report (RecordRateCache outcome)"
| "report (RecordObservationAge age)"
| "report (RecordObservationValidation outcome)"
| "report (RecordEventDelivery outcome errorClass elapsed)"
| "report (RecordEventStage stage outcome)"
| "report (RecordEventPublisherCount count)"
| "report (RecordDatabaseRetry operation reason)"
| "report (Telemetry_RecordIdempotency operation outcome)"
| "report (RecordRateLimit operation outcome elapsed)"

inductive operation_step :: "telemetry \<Rightarrow> telemetry \<Rightarrow> bool" where
  begins: "operation_step t (snd (BeginOperation ctx operation now t))"
| completes: "cx_operation ctx = Some i \<Longrightarrow> i < length (tl_operations t)
    \<Longrightarrow> operation_step t (CompleteOperation ctx operation outcome errorCode streamed now t)"
| panics: "cx_operation ctx = Some i \<Longrightarrow> i < length (tl_operations t)
    \<Longrightarrow> operation_step t (snd (CompleteOperationOnPanic ctx operation streamed now (recovered :: unit option) t))"
| starts: "operation_step t (snd (Start ctx name attributes t))"
| ends: "sp \<notin> os_span ` set (tl_operations t) \<Longrightarrow> sp < tl_next t \<Longrightarrow> operation_step t (End sp errorClass t)"
| reports: "report f \<Longrightarrow> operation_step t (f t)"

definition counts_operations :: "measurement \<Rightarrow> bool" where
  "counts_operations me \<longleftrightarrow> in_name (me_instrument me) = ''bondexchange.operation.count''"

definition once :: "recorder \<Rightarrow> telemetry \<Rightarrow> bool" where
  "once r t \<longleftrightarrow> tl_active t = Some r
     \<and> distinct (map os_span (tl_operations t)) \<and> list_all (\<lambda>s. os_span s < tl_next t) (tl_operations t)
     \<and> (\<forall>sp. tl_next t \<le> sp \<longrightarrow> SpanEnded sp \<notin> set (tl_spans t))
     \<and> (\<forall>j<length (tl_operations t). count_list (tl_spans t) (SpanEnded (os_span (tl_operations t ! j)))
          = of_bool (os_completed (tl_operations t ! j)))
     \<and> length (filter counts_operations (tl_measured t)) = length (filter os_completed (tl_operations t))"

lemma newRecorder_counts:
  assumes "r = newRecorder address tp mp"
  shows "in_name (rc_operations r) = ''bondexchange.operation.count''"
    "in_name (rc_operationDuration r) \<noteq> ''bondexchange.operation.count''"
    "in_name (rc_streamedOfferCount r) \<noteq> ''bondexchange.operation.count''"
  by (simp_all add: assms newRecorder_def Let_def)

lemma filter_completed:
  assumes "i < length ops" and "\<not> os_completed (ops ! i)"
  shows "length (filter os_completed (ops[i := (ops ! i)\<lparr>os_completed := True\<rparr>])) = Suc (length (filter os_completed ops))"
  using assms
proof (induction ops arbitrary: i)
  case (Cons s ops)
  then show ?case by (cases i) simp_all
qed simp

lemma once_begins:
  assumes "once r t"
  shows "once r (snd (BeginOperation ctx operation now t))"
proof -
  have "SpanEnded (tl_next t) \<notin> set (tl_spans t)" using assms by (simp add: once_def)
  then show ?thesis
    using assms
    by (auto simp: once_def BeginOperation_def Start_def Let_def nth_append list_all_iff less_Suc_eq count_list_0_iff)
qed

lemma once_completes:
  assumes "once r t" and r: "r = newRecorder address tp mp" and "cx_operation ctx = Some i" and i: "i < length (tl_operations t)"
  shows "once r (CompleteOperation ctx operation outcome errorCode streamed now t)"
proof (cases "os_completed (tl_operations t ! i)")
  case True
  then show ?thesis using assms by (simp add: CompleteOperation_def Let_def)
next
  case False
  let ?s = "tl_operations t ! i" and ?t = "CompleteOperation ctx operation outcome errorCode streamed now t"
  have ops: "tl_operations ?t = (tl_operations t)[i := ?s\<lparr>os_completed := True\<rparr>]" "tl_active ?t = Some r" "tl_next ?t = tl_next t"
    and counted: "length (filter counts_operations (tl_measured ?t)) = Suc (length (filter counts_operations (tl_measured t)))"
    and ended: "\<exists>es. tl_spans ?t = tl_spans t @ es @ [SpanEnded (os_span ?s)] \<and> (\<forall>sp. SpanEnded sp \<notin> set es)"
    using assms False newRecorder_counts [OF r]
    by (auto simp: once_def CompleteOperation_def RecordOperation_def with_active_def measure_all_def span_events_def Let_def
        counts_operations_def)
  obtain es where es: "tl_spans ?t = tl_spans t @ es @ [SpanEnded (os_span ?s)]" "\<And>sp. count_list es (SpanEnded sp) = 0"
    using ended by (auto simp: count_list_0_iff)
  have spans: "map os_span (tl_operations ?t) = map os_span (tl_operations t)"
    by (simp add: ops(1) map_update list_update_same_conv i)
  have "count_list (tl_spans ?t) (SpanEnded (os_span (tl_operations ?t ! j))) = of_bool (os_completed (tl_operations ?t ! j))"
    if j: "j < length (tl_operations ?t)" for j
  proof (cases "j = i")
    case True
    then show ?thesis using assms(1) False i by (simp add: once_def ops(1) es)
  next
    case other: False
    have "os_span ?s \<noteq> os_span (tl_operations t ! j)"
      using assms(1) i j other by (auto simp: once_def ops(1) distinct_conv_nth)
    then show ?thesis using assms(1) j other by (auto simp: once_def ops(1) es)
  qed
  moreover have "list_all (\<lambda>s. os_span s < tl_next t) (tl_operations ?t)"
    using assms(1) spans by (simp add: once_def list_all_iff) (metis (no_types) imageE imageI list.set_map)
  moreover have "SpanEnded sp \<notin> set (tl_spans ?t)" if "tl_next t \<le> sp" for sp
    using assms(1) that i es by (auto simp: once_def list_all_length count_list_0_iff)
  ultimately show ?thesis
    using assms(1) counted filter_completed [OF i False] unfolding once_def spans ops(2,3) by (simp add: ops(1))
qed

lemmas report_defs = RecordSelfTradeRejection_def RecordAuthentication_def RecordRateFetch_def RecordRateFetchSkip_def
  RecordRateCache_def RecordObservationAge_def RecordObservationValidation_def RecordEventDelivery_def RecordEventStage_def
  RecordEventPublisherCount_def RecordDatabaseRetry_def Telemetry_RecordIdempotency_def RecordRateLimit_def

lemma measure_all_other:
  assumes "list_all (\<lambda>v. in_name (fst v) \<noteq> ''bondexchange.operation.count'') values"
  shows "\<exists>ms. measure_all values attributes t = t\<lparr>tl_measured := tl_measured t @ ms\<rparr> \<and> list_all (\<lambda>me. \<not> counts_operations me) ms"
  unfolding measure_all_def
  by (intro exI conjI, rule refl) (use assms in \<open>auto simp: list_all_iff counts_operations_def\<close>)

lemma report_measures:
  assumes "report f" and active: "tl_active t = Some (newRecorder address tp mp)"
  shows "\<exists>ms. f t = t\<lparr>tl_measured := tl_measured t @ ms\<rparr> \<and> list_all (\<lambda>me. \<not> counts_operations me) ms"
  using assms(1)
  by (cases rule: report.cases)
    (simp_all only: report_defs with_active_def active option.case,
      (rule measure_all_other, simp add: newRecorder_def Let_def)+)

lemma once_reports:
  assumes "report f" and "once r t" and "r = newRecorder address tp mp"
  shows "once r (f t)"
proof -
  obtain ms where "f t = t\<lparr>tl_measured := tl_measured t @ ms\<rparr>" "list_all (\<lambda>me. \<not> counts_operations me) ms"
    using report_measures [OF assms(1), of t address tp mp] assms(2,3) by (auto simp: once_def)
  then show ?thesis using assms(2) by (auto simp: once_def list_all_iff)
qed

lemma once_step:
  assumes "operation_step t t'" and "once r t" and r: "r = newRecorder address tp mp"
  shows "once r t'"
  using assms(1,2)
proof (cases rule: operation_step.cases)
  case (begins ctx operation now)
  then show ?thesis using once_begins [OF assms(2)] by simp
next
  case (completes ctx i operation outcome errorCode streamed now)
  then show ?thesis using once_completes [OF assms(2) r] by simp
next
  case (panics ctx i operation streamed now recovered)
  then show ?thesis using once_completes [OF assms(2) r] assms(2) by (cases recovered) (simp_all add: CompleteOperationOnPanic_def)
next
  case (starts ctx name attributes)
  then show ?thesis using assms(2) by (auto simp: once_def Start_def Let_def list_all_iff less_Suc_eq)
next
  case (ends sp errorClass)
  then have "\<forall>j<length (tl_operations t). os_span (tl_operations t ! j) \<noteq> sp" by (auto simp: image_iff)
  then show ?thesis using assms(2) ends by (auto simp: once_def End_def span_events_def)
next
  case (reports f)
  then show ?thesis using once_reports [OF _ assms(2) r] by simp
qed

lemma once_reachable:
  assumes "operation_step\<^sup>*\<^sup>* t t'" and "once (newRecorder address tp mp) t"
  shows "once (newRecorder address tp mp) t'"
  using assms by (induction rule: rtranclp_induct) (auto intro: once_step)

end
