(* ===== verification/Server_Facts.thy ===== *)
theory Server_Facts
  imports Server_Main Telemetry_Facts Authn_Facts Market
begin

text \<open>Lemmas on the server process: its listeners, its shutdown and its assembly.\<close>

section \<open>Listeners\<close>

lemma next_fault_open: "next_fault p = (f, p1) \<Longrightarrow> pr_open p1 = pr_open p"
  by (auto simp: next_fault_def split: list.splits)

lemma net_Listen_open:
  assumes "net_Listen address p = (r, p1)"
  shows "case r of Inl _ \<Rightarrow> pr_open p1 = pr_open p | Inr l \<Rightarrow> pr_open p1 = l # pr_open p"
  using assms by (auto simp: net_Listen_def dest: next_fault_open split: prod.splits option.splits)

lemma closeListener_open:
  assumes "closeListener (Some l) p = (r, p1)"
  shows "set (pr_open p1) = set (pr_open p) - {l}"
  using assms
  by (auto simp: closeListener_def listener_Close_def dest: next_fault_open split: prod.splits option.splits sum.splits if_splits)

lemma Listen_open:
  assumes "Listen config p = (r, p1)"
  shows "case r of
      Inl _ \<Rightarrow> set (pr_open p1) \<subseteq> set (pr_open p)
    | Inr ls \<Rightarrow> \<exists>rest grpc. ls = \<lparr>ls_REST = Some rest, ls_GRPC = Some grpc\<rparr> \<and> set (pr_open p1) = {rest, grpc} \<union> set (pr_open p)"
proof -
  obtain r1 q1 where one: "net_Listen (rt_RESTAddress config) p = (r1, q1)" by (cases "net_Listen (rt_RESTAddress config) p")
  show ?thesis
  proof (cases r1)
    case (Inl e)
    then show ?thesis using assms one net_Listen_open [OF one] by (auto simp: Listen_def)
  next
    case (Inr rest)
    obtain r2 q2 where two: "net_Listen (rt_GRPCAddress config) q1 = (r2, q2)" by (cases "net_Listen (rt_GRPCAddress config) q1")
    have q1: "pr_open q1 = rest # pr_open p" using net_Listen_open [OF one] Inr by simp
    show ?thesis
    proof (cases r2)
      case (Inl e)
      obtain c q3 where three: "closeListener (Some rest) q2 = (c, q3)" by (cases "closeListener (Some rest) q2")
      have "pr_open q2 = pr_open q1" using net_Listen_open [OF two] Inl by simp
      then have "set (pr_open q3) \<subseteq> set (pr_open p)" using closeListener_open [OF three] q1 by auto
      then show ?thesis using assms one two three Inl Inr by (auto simp: Listen_def)
    next
      case (Inr grpc)
      then have "set (pr_open q2) = {rest, grpc} \<union> set (pr_open p)" using net_Listen_open [OF two] q1 by auto
      then show ?thesis using assms one two Inr \<open>r1 = Inr rest\<close> by (auto simp: Listen_def)
    qed
  qed
qed

lemma Listeners_Close_open:
  assumes "Listeners_Close \<lparr>ls_REST = Some rest, ls_GRPC = Some grpc\<rparr> p = (r, p1)"
  shows "set (pr_open p1) = set (pr_open p) - {rest, grpc}"
  using assms by (auto simp: Listeners_Close_def split: prod.splits dest!: closeListener_open)

section \<open>The process\<close>

text \<open>Serving opens no further listener and leaves the pool and the telemetry providers alone.\<close>

definition serve_keeps :: "('u, 'd, 't, 'o, 'k) outside \<Rightarrow> bool" where
  "serve_keeps E \<longleftrightarrow> (\<forall>sv ls h. let h1 = snd (ou_Serve E sv ls h)
     in set (pr_open (ho_net h1)) \<subseteq> set (pr_open (ho_net h)) \<and> ho_pool h1 = ho_pool h
        \<and> tl_running (ho_telemetry h1) = tl_running (ho_telemetry h) \<and> tl_active (ho_telemetry h1) = tl_active (ho_telemetry h))"

definition same_telemetry :: "host \<Rightarrow> host \<Rightarrow> bool" where
  "same_telemetry h h1 \<longleftrightarrow> tl_running (ho_telemetry h1) = tl_running (ho_telemetry h)
     \<and> tl_active (ho_telemetry h1) = tl_active (ho_telemetry h)"

lemma run_serving_keeps:
  assumes "serve_keeps E" and "run_serving E sv ls h = (e, h1)"
  shows "set (pr_open (ho_net h1)) \<subseteq> set (pr_open (ho_net h)) \<and> ho_pool h1 = ho_pool h \<and> same_telemetry h h1"
proof -
  have "h1 = snd (ou_Serve E sv ls h)" using assms(2) by (simp add: run_serving_def split: prod.splits)
  then show ?thesis using assms(1) by (simp add: serve_keeps_def same_telemetry_def Let_def)
qed

lemma run_with_pool_releases:
  assumes "serve_keeps E" and "run_with_pool E config keys h = (r, h1)"
  shows "set (pr_open (ho_net h1)) \<subseteq> set (pr_open (ho_net h)) \<and> ho_pool h1 = ho_pool h \<and> same_telemetry h h1"
proof (cases "\<exists>sv ls p1. ou_RecordStats E = None \<and> ou_Ping E = None \<and> assemble (ou_libraries E) config keys = Inr sv
    \<and> Listen config (ho_net h) = (Inr ls, p1)")
  case True
  then obtain sv ls p1 where s: "ou_RecordStats E = None" "ou_Ping E = None" "assemble (ou_libraries E) config keys = Inr sv"
    "Listen config (ho_net h) = (Inr ls, p1)" by blast
  obtain rest grpc where ls: "ls = \<lparr>ls_REST = Some rest, ls_GRPC = Some grpc\<rparr>"
    "set (pr_open p1) = {rest, grpc} \<union> set (pr_open (ho_net h))"
    using Listen_open [OF s(4)] by auto
  obtain e h2 where run: "run_serving E sv ls (h\<lparr>ho_net := p1\<rparr>) = (e, h2)" by (cases "run_serving E sv ls (h\<lparr>ho_net := p1\<rparr>)")
  obtain c p3 where cl: "Listeners_Close ls (ho_net h2) = (c, p3)" by (cases "Listeners_Close ls (ho_net h2)")
  then have "set (pr_open p3) = set (pr_open (ho_net h2)) - {rest, grpc}"
    using Listeners_Close_open ls(1) by simp
  with run_serving_keeps [OF assms(1) run] show ?thesis
    using assms(2) s run ls(2) cl by (auto simp: run_with_pool_def same_telemetry_def)
next
  case False
  then show ?thesis
    using assms(2) Listen_open [of config "ho_net h"]
    by (auto simp: run_with_pool_def same_telemetry_def split: option.splits sum.splits prod.splits)
qed

lemma run_with_telemetry_releases:
  assumes "serve_keeps E" and "run_with_telemetry E config keys h = (r, h1)" and "\<not> ho_pool h"
  shows "set (pr_open (ho_net h1)) \<subseteq> set (pr_open (ho_net h)) \<and> \<not> ho_pool h1 \<and> same_telemetry h h1"
proof (cases "\<exists>pc. PoolConfig (ou_ParseConfig E) (rt_DatabaseURL config) = Inr pc \<and> ou_NewPool E pc = None")
  case True
  obtain r2 h2 where run: "run_with_pool E config keys (h\<lparr>ho_pool := True\<rparr>) = (r2, h2)"
    by (cases "run_with_pool E config keys (h\<lparr>ho_pool := True\<rparr>)")
  with run_with_pool_releases [OF assms(1) run] show ?thesis
    using assms(2) True by (clarsimp simp: run_with_telemetry_def same_telemetry_def)
next
  case False
  then show ?thesis
    using assms(2,3) by (auto simp: run_with_telemetry_def same_telemetry_def split: sum.splits option.splits)
qed

section \<open>Shutdown\<close>

text \<open>Every step uses up some of what is left to happen.\<close>

definition stage_rank :: "shutdown_stage \<Rightarrow> nat" where
  "stage_rank st = (case st of DrainHTTP \<Rightarrow> 3 | AwaitStop \<Rightarrow> 2 | ForcedStop \<Rightarrow> 1 | Returned_from _ \<Rightarrow> 0)"

definition shutdown_left :: "shutdown \<Rightarrow> nat" where
  "shutdown_left s = stage_rank (sh_stage s) + sh_requests s + sh_calls s + 2 * sh_arrivals s
     + (if sh_expired s then 0 else 1) + (if sh_stopped s then 0 else 1)"

lemma shutdown_decreases: "ShutdownServers s s' \<Longrightarrow> shutdown_left s' < shutdown_left s"
  by (erule ShutdownServersE) (simp_all add: shutdown_left_def stage_rank_def)

text \<open>What the stages mean, in every state a shutdown goes through.\<close>

definition shutdown_sound :: "shutdown \<Rightarrow> bool" where
  "shutdown_sound s \<longleftrightarrow> (sh_stage s = ForcedStop \<longrightarrow> sh_stop s) \<and> (sh_stop s \<longrightarrow> sh_expired s)
     \<and> (sh_http s = None \<or> sh_http s = Some ContextDeadlineExceeded \<and> sh_expired s)
     \<and> (\<forall>r. sh_stage s = Returned_from r \<longrightarrow> r = sh_http s \<and> sh_stopped s)
     \<and> (sh_stopped s \<longrightarrow> sh_stage s \<noteq> DrainHTTP \<and> (sh_calls s = 0 \<or> sh_stop s))"

lemma shutdown_sound_step: "ShutdownServers s s' \<Longrightarrow> shutdown_sound s \<Longrightarrow> shutdown_sound s'"
  by (erule ShutdownServersE) (auto simp: shutdown_sound_def)

lemma shutdown_sound_reachable: "ShutdownServers\<^sup>*\<^sup>* (draining requests calls arrivals) s \<Longrightarrow> shutdown_sound s"
proof (induction rule: rtranclp_induct)
  case base
  show ?case by (simp add: shutdown_sound_def draining_def)
qed (rule shutdown_sound_step)

lemma shutdown_progress:
  assumes "\<not> returned s" and sound: "shutdown_sound s"
  shows "\<exists>s'. ShutdownServers s s'"
proof (cases "sh_expired s")
  case False
  then show ?thesis using assms(1) ShutdownServers.expire by blast
next
  case True
  show ?thesis
  proof (cases "sh_stage s")
    case DrainHTTP
    then show ?thesis using True ShutdownServers.http_expired by blast
  next
    case AwaitStop
    then show ?thesis using True ShutdownServers.select_done by blast
  next
    case ForcedStop
    then have "sh_stop s" using sound by (simp add: shutdown_sound_def)
    with ForcedStop show ?thesis
      using ShutdownServers.await_stopped [of s] ShutdownServers.graceful_returns [of s] by blast
  qed (use assms in \<open>simp add: returned_def\<close>)
qed

section \<open>Assembly\<close>

lemma NewIntakeService_exchange: "NewIntakeService wall (Some ex) rates repository config = Inr sv \<Longrightarrow> is_exchange sv = ex"
  by (auto simp: NewIntakeService_def split: option.splits)

lemma NewDispatcher_none: "NewDispatcher store [] limit canceled = Inr ds \<Longrightarrow> ds_destinations ds = []"
  by (auto simp: NewDispatcher_def Let_def)

lemma NewClient_token: "NewClient c t otel config = Inr client \<Longrightarrow> validToken (cf_Token config)"
  by (auto simp: NewClient_def split: if_splits)

lemma assemble_Inr:
  assumes "assemble B config keys = Inr sv"
  shows "\<exists>ja intake dispatcher. sv = NewServer B (application_api (NewApplication (intake_exchange (lb_lib B) intake) Authorize dispatcher))
        (Authenticate (lb_lib B) (lb_jose B) ja) AdmitRequest
    \<and> NewJWTAuthenticator (lb_wall B) \<lparr>jw_Issuer = rt_AssertionIssuer config, jw_Audience = rt_AssertionAudience config,
        jw_Keys = keys, jw_Algorithms = [], jw_MaximumAge = 0, jw_ClockSkew = 0, jw_Now = None\<rparr> (Some ResolvePrincipal) = Inr ja
    \<and> is_exchange intake = exchange_service (lb_lib B) \<and> ds_destinations dispatcher = []
    \<and> validToken (rt_BanxicoSIEToken config)"
  using assms unfolding assemble_def bind_r_Inr Let_def sum.inject
  by (elim exE conjE) (frule NewIntakeService_exchange, frule NewDispatcher_none, frule NewClient_token, auto)

lemma Publish_nowhere: "ds_destinations ds = [] \<Longrightarrow> Publish ds ref = return_m ()"
  by (simp add: Publish_def destinationIDs_def)

lemma assembled_Buy:
  assumes "is_exchange intake = exchange_service L" and "ds_destinations ds = []"
  shows "App_Buy (NewApplication (intake_exchange L intake) authorizer ds :: 'd Application) access key offer = Service_Buy L (postgres_store L) access key offer"
proof -
  have "bind_m p return_m = p" "bind_m (return_m ()) (\<lambda>_. q) = q" for p q :: "'d Purchase m"
    by (auto simp: bind_m_def return_m_def fun_eq_iff split: prod.splits sum.splits)
  then show ?thesis
    using assms by (simp add: App_Buy_def NewApplication_def intake_exchange_def Intake_Buy_def exchange_service_def Publish_nowhere)
qed

end
