(* ===== verification/Demo_Site.thy ===== *)
theory Demo_Site
  imports Server_Facts Demo_Db
begin

text \<open>
  A concrete site: libraries, an environment and keys with which the server starts, and on the concrete
  database a buyer whose purchase it answers. It shows that the hypotheses of the properties of the
  server can hold.
\<close>

section \<open>The site\<close>

definition site_claims :: "jwt_claims \<times> operationClaims" where
  "site_claims = (\<lparr>jc_Issuer = ''https://issuer'', jc_Subject = ''buyer'', jc_Audience = [''aud''], jc_ID = key_id,
      jc_IssuedAt = Some 100, jc_NotBefore = None, jc_Expiry = Some 200\<rparr>,
     \<lparr>oc_ClientID = ''client'', oc_Details = [\<lparr>ad_Type = AuthorizationType, ad_Actions = [OperationBuy],
        ad_RequestSHA256 = hex_EncodeToString (Sum256 ''request''), ad_IdempotencyKey = key_id\<rparr>]\<rparr>)"

definition site_jose :: "(unit, nat) jose" where
  "site_jose = \<lparr>jo_ParseSigned = (\<lambda>raw algs. if raw = ''token'' then Some () else None),
     jo_Headers = (\<lambda>_. [(''k1'', ''EdDSA'')]), jo_Key = (\<lambda>ks i. filter (\<lambda>k. jk_KeyID k = i) ks),
     jo_Claims = (\<lambda>_ k. if k = 7 then Some site_claims else None),
     jo_ValidateWithLeeway = (\<lambda>c issuer audiences now leeway. jc_Issuer c = issuer
        \<and> list_ex (\<lambda>a. List.member (jc_Audience c) a) audiences
        \<and> (case jc_Expiry c of None \<Rightarrow> True | Some t \<Rightarrow> now \<le> t + leeway)
        \<and> (case jc_NotBefore c of None \<Rightarrow> True | Some t \<Rightarrow> t \<le> now + leeway))\<rparr>"

lemma site_jose_laws: "jose_laws site_jose"
  by (auto simp: jose_laws_def site_jose_def list_ex_iff)

definition site_wall :: "world \<Rightarrow> clock_time \<times> world" where
  "site_wall w = (\<lparr>tm_instant = 150, tm_offset = 0\<rparr>, w)"

definition site_libraries :: "(string, int \<times> nat, unit, unit, nat) libraries" where
  "site_libraries = \<lparr>lb_lib = demo_lib, lb_jose = site_jose, lb_fold = id, lb_Do = (\<lambda>_ _. fail_m ErrUpstreamUnavailable),
     lb_DefaultClient = \<lparr>hc_Transport = None, hc_Timeout = 0, hc_CheckRedirect = None\<rparr>, lb_DefaultTransport = (), lb_otel = id,
     lb_wall = site_wall, lb_jsonb = (\<lambda>_. Some 1), lb_marshal = (\<lambda>_. Some ''request''),
     lb_env = \<lparr>re_driver_text = (\<lambda>_. ''''), re_FromContextError = (\<lambda>_. status_Error Canceled '''')\<rparr>,
     lb_canceled = (\<lambda>_. False), lb_Ping = return_m ()\<rparr>"

definition site_environment :: "string \<Rightarrow> string" where
  "site_environment v =
     (if v = DatabaseURLVariable then ''postgres://db'' else if v = AssertionIssuerVariable then ''https://issuer''
      else if v = AssertionAudienceVariable then ''aud'' else if v = AssertionKeySetPathVariable then ''keys''
      else if v = BanxicoSIETokenVariable then replicate 64 (CHR ''a'') else '''')"

definition site_keys :: "nat jwk list" where
  "site_keys = [\<lparr>jk_KeyID = ''k1'', jk_Algorithm = ''EdDSA'', jk_Use = ''sig'', jk_IsPublic = True, jk_Key = 7\<rparr>]"

definition site_config :: RuntimeConfig where "site_config = environment_config site_environment"

definition site_authenticator :: "nat JWTAuthenticator" where
  "site_authenticator = \<lparr>ja_config = \<lparr>jw_Issuer = ''https://issuer'', jw_Audience = ''aud'', jw_Keys = site_keys,
      jw_Algorithms = [''EdDSA'', ''ES256''], jw_MaximumAge = 5 * ns_minute, jw_ClockSkew = 30 * ns_second, jw_Now = None\<rparr>,
     ja_now = site_wall, ja_resolver = ResolvePrincipal\<rparr>"

definition site_metadata :: "string \<Rightarrow> string list" where
  "site_metadata name = (if name = AuthorizationMetadata then [''Bearer token'']
     else if name = IdempotencyMetadata then [key_id] else [])"

definition site_outside :: "(string, int \<times> nat, unit, unit, nat) outside" where
  "site_outside = \<lparr>ou_libraries = site_libraries, ou_Getenv = site_environment, ou_Open = (\<lambda>_. Inr (''keys'', None)),
     ou_DecodeKeys = (\<lambda>_. Inr site_keys), ou_ParseFloat = (\<lambda>_. None), ou_url_Parse = (\<lambda>_. None),
     ou_ParseConfig = (\<lambda>_. Inr \<lparr>pc_MaxConns = 4, pc_MinConns = 0, pc_MaxConnLifetime = 0, pc_MaxConnIdleTime = 0,
        pc_HealthCheckPeriod = 0\<rparr>),
     ou_NewPool = (\<lambda>_. None), ou_RecordStats = None, ou_Ping = None, ou_Serve = (\<lambda>_ _ h. (Some ContextCanceled, h)),
     ou_Shutdown = None\<rparr>"

definition site_host :: host where
  "site_host = \<lparr>ho_net = \<lparr>pr_open = [], pr_next = 0, pr_faults = []\<rparr>, ho_telemetry = \<lparr>tl_tracers = None, tl_meters = None,
     tl_running = [], tl_next = 0, tl_active = None, tl_operations = [], tl_measured = [], tl_spans = [], tl_faults = []\<rparr>,
     ho_pool = False\<rparr>"

section \<open>It starts\<close>

lemma site_fields:
  "rt_AssertionIssuer site_config = ''https://issuer''" "rt_AssertionAudience site_config = ''aud''"
  "rt_BanxicoSIEToken site_config = replicate 64 (CHR ''a'')"
  by (simp_all add: site_config_def environment_config_def site_environment_def variable_defs)

lemma site_texts:
  "validClaimText ''https://issuer'' 1024" "validClaimText ''aud'' 1024" "validClaimText ''k1'' 128"
  "validClaimText ''buyer'' 256" "validClaimText ''client'' 256"
  by (simp_all add: validClaimText_iff byte_of_def)

lemma site_jwt: "NewJWTAuthenticator site_wall \<lparr>jw_Issuer = ''https://issuer'', jw_Audience = ''aud'', jw_Keys = site_keys,
    jw_Algorithms = [], jw_MaximumAge = 0, jw_ClockSkew = 0, jw_Now = None\<rparr> (Some ResolvePrincipal) = Inr site_authenticator"
  by (simp add: NewJWTAuthenticator_def site_texts site_keys_def site_authenticator_def ns_defs Let_def)

lemma site_token: "validToken (replicate 64 (CHR ''a''))"
  by (simp add: validToken_def list_all_iff byte_class_defs)

lemma site_assembles: "\<exists>sv. assemble site_libraries site_config site_keys = Inr sv"
  using site_jwt site_token
  by (simp add: assemble_def site_fields site_libraries_def NewClient_def NewRateService_def NewIntakeService_def
      NewDispatcher_def Let_def ns_defs)

section \<open>It sells\<close>

lemma site_resolves:
  "ResolvePrincipal ''https://issuer'' ''buyer'' (demo_world demo_db []) =
     (Inr \<lparr>p_ID = buyer_id, p_Issuer = '''', p_Subject = '''', p_ClientID = '''', p_ClientClass = ''human''\<rparr>, demo_world demo_db [])"
  by (simp add: ResolvePrincipal_def query_pool_def exec_pool_def trip_def bind_m_def scan_row_def return_m_def demo_world_def
      principalQuery_def) (simp add: demo_db_def suspended_def return_m_def)

definition site_access :: AccessContext where
  "site_access = \<lparr>ac_Principal = \<lparr>p_ID = buyer_id, p_Issuer = ''https://issuer'', p_Subject = ''buyer'', p_ClientID = ''client'',
     p_ClientClass = ''human''\<rparr>, ac_Operation = OperationBuy, ac_AssertionID = key_id, ac_AssertionDigest = Sum256 ''token'',
     ac_RequestDigest = Sum256 ''request''\<rparr>"

lemma site_authenticates:
  "\<exists>w'. Authenticate demo_lib site_jose site_authenticator site_metadata OperationBuy ''request'' True (demo_world demo_db [])
     = (Inr \<lparr>ar_Access = site_access, ar_IdempotencyKey = key_id\<rparr>, w') \<and> db w' = demo_db \<and> script w' = []"
proof -
  have key: "IsValidIdempotencyKey demo_lib key_id" using demo_key by (simp add: IsValidIdempotencyKey_def)
  have token: "singleBearerToken (site_metadata AuthorizationMetadata) = Inr ''token''"
    by (simp add: singleBearerToken_def site_metadata_def strings_ContainsAny_def)
  have idem: "requestIdempotencyKey demo_lib (site_metadata IdempotencyMetadata) True = Inr key_id"
    by (simp add: requestIdempotencyKey_def site_metadata_def key AuthorizationMetadata_def IdempotencyMetadata_def)
  have verified: "verified_claims site_jose (ja_config site_authenticator) ''token'' = Inr site_claims"
    by (simp add: verified_claims_def site_authenticator_def site_jose_def site_keys_def)
  have valid: "validateClaims demo_lib site_jose (ja_config site_authenticator) 150 (fst site_claims) (snd site_claims)
      OperationBuy ''request'' key_id = Inr ()"
    by (simp add: validateClaims_def site_claims_def site_authenticator_def site_jose_def key site_texts compare_decides
        time_Sub_def min_duration_def max_duration_def ns_defs)
  show ?thesis
    using token idem verified valid site_resolves
    by (simp add: Authenticate_def authenticate_stages_def metric_m_def site_authenticator_def site_wall_def
        site_claims_def site_access_def)
qed

lemma site_admits:
  assumes "script w = []" and "db w = demo_db"
  shows "\<exists>w' limits. AdmitRequest buyer_id w = (Inr (), w') \<and> db w' = demo_db\<lparr>rate_limits := limits\<rparr> \<and> script w' = []"
proof -
  have "admitRequestQuery buyer_id RequestsPerMinute t demo_db = Inr ([(True, retry_seconds t)], demo_db\<lparr>rate_limits :=
      [\<lparr>rl_principal = buyer_id, rl_window = date_trunc_minute t, rl_count = 1, rl_updated = t\<rparr>]\<rparr>)" for t
    by (simp add: admitRequestQuery_def principal_exists_def Let_def) (simp add: demo_db_def)
  with assms show ?thesis
    by (simp add: AdmitRequest_def exec_pool_def trip_def bind_m_def try_m_def scan_row_def return_m_def) blast
qed

lemma site_first:
  "first_request demo_lib \<lparr>mc_Access = site_access, mc_IdempotencyKey = key_id\<rparr> PermissionBuy (demo_db\<lparr>rate_limits := limits\<rparr>)"
proof -
  have "wf_db (demo_db\<lparr>rate_limits := limits\<rparr>)" using demo_wf by (simp add: wf_db_def wf_parts)
  moreover have "fresh_ids demo_lib (demo_db\<lparr>rate_limits := limits\<rparr>)" using demo_fresh by (simp add: fresh_ids_def)
  moreover have "effective_permission (demo_db\<lparr>rate_limits := limits\<rparr>) buyer_id PermissionBuy"
    using demo_permissions(1) by (simp add: effective_permission_def suspended_def)
  moreover have "valid_request demo_lib \<lparr>mc_Access = site_access, mc_IdempotencyKey = key_id\<rparr> (demo_db\<lparr>rate_limits := limits\<rparr>)"
    using demo_operations(1) demo_key demo_valid(1)
    by (simp add: valid_request_def claim_checks_def claim_row_of_def site_access_def principal_exists_def)
  ultimately show ?thesis by (simp add: first_request_def site_access_def) (simp add: demo_db_def)
qed

lemma site_buys:
  assumes "script w = []" and "db w = demo_db\<lparr>rate_limits := limits\<rparr>"
  shows "\<exists>purchase w'. Service_Buy demo_lib (postgres_store demo_lib) site_access key_id offer_id w = (Inr purchase, w')"
proof -
  let ?op = "\<lparr>mc_Access = site_access, mc_IdempotencyKey = key_id\<rparr>"
  have offer: "ParseOfferID demo_lib offer_id = Inr offer_id"
    by (simp add: ParseOfferID_def offer_id_def isCanonicalUUIDVersion_def demo_eval)
  obtain ts where ts: "(fst (Buy demo_lib ?op offer_id w), db (snd (Buy demo_lib ?op offer_id w))) = buy_effect demo_lib ?op offer_id ts (db w)"
    using buy_op.fault_free [OF assms(1), of demo_lib ?op offer_id] by blast
  have "buy_implements dec_val buyer_id offer_id ts (db w) (buy_effect demo_lib ?op offer_id ts (db w))"
    using buy_effect_refines [OF demo_decimal_laws demo_numeric_laws site_first [of limits], of offer_id ts] assms(2)
    by (simp add: site_access_def)
  moreover have "fst (market_buy buyer_id offer_id (market_of (db w))) = Inr ()"
    by (simp add: assms(2) market_buy_def market_of_def offer_lookup_def) (simp add: demo_db_def offer_lookup_def demo_ids)
  ultimately obtain purchase where "fst (Buy demo_lib ?op offer_id w) = Inr purchase"
    by (auto simp: buy_implements_def ts [symmetric])
  then have "Buy demo_lib ?op offer_id w = (Inr purchase, snd (Buy demo_lib ?op offer_id w))" by (metis prod.collapse)
  moreover have "IsValidIdempotencyKey demo_lib key_id" using demo_key by (simp add: IsValidIdempotencyKey_def)
  ultimately show ?thesis
    by (simp add: Service_Buy_def offer postgres_store_def) (simp add: site_access_def buyer_id_def, blast)
qed

text \<open>The whole way: the assembled server answers the buyer's call.\<close>

lemma site_admitted:
  assumes "sr_authenticator sv = Some (Authenticate demo_lib site_jose site_authenticator)"
    and "sr_marshal sv = (\<lambda>_. Some ''request'')" and "sr_rateLimiter sv = Some AdmitRequest"
  shows "\<exists>w limits. server_authenticate sv site_metadata OperationBuy (BuyRequest offer_id) True (demo_world demo_db [])
      = (Inr (Some \<lparr>ar_Access = site_access, ar_IdempotencyKey = key_id\<rparr>, None), w)
    \<and> db w = demo_db\<lparr>rate_limits := limits\<rparr> \<and> script w = []"
proof -
  obtain w1 where one: "Authenticate demo_lib site_jose site_authenticator site_metadata OperationBuy ''request'' True (demo_world demo_db [])
      = (Inr \<lparr>ar_Access = site_access, ar_IdempotencyKey = key_id\<rparr>, w1)" "db w1 = demo_db" "script w1 = []"
    using site_authenticates by blast
  obtain w2 limits where two: "AdmitRequest buyer_id w1 = (Inr (), w2)" "db w2 = demo_db\<lparr>rate_limits := limits\<rparr>" "script w2 = []"
    using site_admits [OF one(3,2)] by blast
  have "p_ID (ac_Principal site_access) = buyer_id" by (simp add: site_access_def)
  with one two show ?thesis
    by (simp add: server_authenticate_def assms bind_m_def try_m_def return_m_def metric_m_def) blast
qed

lemma site_sells:
  assumes "assemble site_libraries site_config site_keys = Inr sv"
  shows "\<exists>response w'. Rpc_Buy demo_lib sv site_metadata offer_id (demo_world demo_db []) = Some (Inr response, w')"
proof -
  have lib: "lb_lib site_libraries = demo_lib" "lb_jose site_libraries = site_jose" "lb_wall site_libraries = site_wall"
    "lb_marshal site_libraries = (\<lambda>_. Some ''request'')"
    by (simp_all add: site_libraries_def)
  obtain intake ds where sv: "sv = NewServer site_libraries (application_api (NewApplication (intake_exchange demo_lib intake) Authorize ds))
        (Authenticate demo_lib site_jose site_authenticator) AdmitRequest"
    and i: "is_exchange intake = exchange_service demo_lib" "ds_destinations ds = []"
    using assemble_Inr [OF assms] site_jwt unfolding lib site_fields by auto
  have app: "ra_Buy (sr_application sv) = Service_Buy demo_lib (postgres_store demo_lib)"
    using assembled_Buy [OF i] by (simp add: sv NewServer_def application_api_def fun_eq_iff)
  obtain w limits where a: "server_authenticate sv site_metadata OperationBuy (BuyRequest offer_id) True (demo_world demo_db [])
      = (Inr (Some \<lparr>ar_Access = site_access, ar_IdempotencyKey = key_id\<rparr>, None), w)"
      "db w = demo_db\<lparr>rate_limits := limits\<rparr>" "script w = []"
    using site_admitted [of sv] by (auto simp: sv NewServer_def lib)
  obtain purchase w' where "Service_Buy demo_lib (postgres_store demo_lib) site_access key_id offer_id w = (Inr purchase, w')"
    using site_buys [OF a(3,2)] by blast
  with a(1) app show ?thesis by (simp add: Rpc_Buy_def with_access_def conclude_def)
qed

end
