(* ===== verification/Server_Props.thy ===== *)
theory Server_Props
  imports Demo_Site
begin

text \<open>Properties of the server process.\<close>

section \<open>The assembled server\<close>


section \<open>Starting and stopping\<close>

text \<open>
  C36. The process fails closed: with a required variable missing, equal addresses, a malformed token,
  issuer or audience, or a key set that is unreadable, too long, empty or has an unfit key, it ends with
  an error, whatever its environment answers otherwise, and never serves: the outcome is the same for
  every behaviour of the serving part.
\<close>

definition misconfigured :: "('u, 'd, 't, 'o, 'k) outside \<Rightarrow> bool" where
  "misconfigured E \<longleftrightarrow>
     (\<exists>v\<in>{DatabaseURLVariable, AssertionIssuerVariable, AssertionAudienceVariable, AssertionKeySetPathVariable,
         BanxicoSIETokenVariable}. ou_Getenv E v = '''')
     \<or> (let config = environment_config (ou_Getenv E)
        in rt_RESTAddress config = rt_GRPCAddress config \<or> \<not> validToken (rt_BanxicoSIEToken config)
           \<or> \<not> validClaimText (rt_AssertionIssuer config) 1024 \<or> \<not> validClaimText (rt_AssertionAudience config) 1024
           \<or> (case ReadKeySet (ou_Open E) (ou_DecodeKeys E) (rt_AssertionKeySetPath config) of
                 Inl _ \<Rightarrow> True
               | Inr keys \<Rightarrow> \<not> is_ok (check_keys [''EdDSA'', ''ES256''] [] keys)))"

lemma assemble_fit:
  assumes "assemble B config keys = Inr sv"
  shows "validToken (rt_BanxicoSIEToken config) \<and> validClaimText (rt_AssertionIssuer config) 1024
    \<and> validClaimText (rt_AssertionAudience config) 1024 \<and> is_ok (check_keys [''EdDSA'', ''ES256''] [] keys)"
  using assemble_Inr [OF assms]
  by (auto simp: NewJWTAuthenticator_def bind_r_Inr Let_def is_ok_def split: if_splits)

lemma run_with_telemetry_unassembled:
  assumes "assemble (ou_libraries E) config keys = Inl e"
  shows "(\<exists>e. fst (run_with_telemetry E config keys h) = Some e)
    \<and> run_with_telemetry (E\<lparr>ou_Serve := serve\<rparr>) config keys h = run_with_telemetry E config keys h"
  using assms by (auto simp: run_with_telemetry_def run_with_pool_def split: sum.splits option.splits prod.splits)

theorem fails_closed:
  assumes "misconfigured E"
  shows "(\<exists>e. fst (run E h) = Some e) \<and> run (E\<lparr>ou_Serve := serve\<rparr>) h = run E h"
proof (cases "Load (ou_Getenv E)")
  case (Inl e)
  then show ?thesis by (simp add: run_def)
next
  case (Inr config)
  note loaded = Inr
  have config: "config = environment_config (ou_Getenv E)" "rt_RESTAddress config \<noteq> rt_GRPCAddress config"
    "\<not> (\<exists>v\<in>{DatabaseURLVariable, AssertionIssuerVariable, AssertionAudienceVariable, AssertionKeySetPathVariable,
         BanxicoSIETokenVariable}. ou_Getenv E v = '''')"
    using Inr by (auto simp: Load_def Let_def required_def environment_config_def split: if_splits)
  show ?thesis
  proof (cases "ReadKeySet (ou_Open E) (ou_DecodeKeys E) (rt_AssertionKeySetPath config)")
    case (Inl e)
    then show ?thesis using loaded by (simp add: run_def)
  next
    case (Inr keys)
    have "\<not> is_ok (assemble (ou_libraries E) config keys)"
      using assms config Inr assemble_fit [of "ou_libraries E" config keys]
      by (cases "assemble (ou_libraries E) config keys") (auto simp: misconfigured_def Let_def)
    then obtain e where "assemble (ou_libraries E) config keys = Inl e"
      by (cases "assemble (ou_libraries E) config keys") simp_all
    note unassembled = run_with_telemetry_unassembled [OF this]
    obtain r t1 where "Setup \<lparr>te_Getenv = ou_Getenv E, te_ParseFloat = ou_ParseFloat E, te_url_Parse = ou_url_Parse E\<rparr>
        \<lparr>tc_ServiceName = [], tc_ServiceVersion = []\<rparr> (ho_telemetry h) = (r, t1)"
      by (cases "Setup \<lparr>te_Getenv = ou_Getenv E, te_ParseFloat = ou_ParseFloat E, te_url_Parse = ou_url_Parse E\<rparr>
        \<lparr>tc_ServiceName = [], tc_ServiceVersion = []\<rparr> (ho_telemetry h)")
    with unassembled [of "h\<lparr>ho_telemetry := t1\<rparr>" serve] show ?thesis
      using loaded Inr
      by (cases r) (auto simp: run_def errors_Join_def List.map_filter_def Let_def split: option.splits prod.splits)
  qed
qed

text \<open>
  C37. Whatever fails, in the start, while serving or in the shutdown, the process ends without a port
  of its own, with its connection pool closed, with every telemetry provider it started shut down and
  with the earlier recorder active again, as long as serving itself opens no further listener and leaves
  these resources alone.
\<close>

theorem run_releases:
  assumes "serve_keeps E" and "run E h = (result, h')" and "\<not> ho_pool h" and "fresh_providers (ho_telemetry h)"
  shows "set (pr_open (ho_net h')) \<subseteq> set (pr_open (ho_net h)) \<and> \<not> ho_pool h'
    \<and> tl_running (ho_telemetry h') = tl_running (ho_telemetry h) \<and> tl_active (ho_telemetry h') = tl_active (ho_telemetry h)"
proof (cases "\<exists>config keys. Load (ou_Getenv E) = Inr config
    \<and> ReadKeySet (ou_Open E) (ou_DecodeKeys E) (rt_AssertionKeySetPath config) = Inr keys")
  case False
  then show ?thesis using assms(2,3) by (auto simp: run_def split: sum.splits)
next
  case True
  then obtain config keys where c: "Load (ou_Getenv E) = Inr config"
    "ReadKeySet (ou_Open E) (ou_DecodeKeys E) (rt_AssertionKeySetPath config) = Inr keys" by blast
  let ?start = "Setup \<lparr>te_Getenv = ou_Getenv E, te_ParseFloat = ou_ParseFloat E, te_url_Parse = ou_url_Parse E\<rparr>
    \<lparr>tc_ServiceName = [], tc_ServiceVersion = []\<rparr> (ho_telemetry h)"
  obtain r t1 where ready: "?start = (r, t1)" by (cases "?start")
  note balanced = Setup_balanced [OF ready assms(4)]
  show ?thesis
  proof (cases r)
    case (Inl e)
    then show ?thesis using assms(2,3) c ready balanced by (auto simp: run_def)
  next
    case (Inr sd)
    obtain e h1 where run: "run_with_telemetry E config keys (h\<lparr>ho_telemetry := t1\<rparr>) = (e, h1)"
      by (cases "run_with_telemetry E config keys (h\<lparr>ho_telemetry := t1\<rparr>)")
    have kept: "set (pr_open (ho_net h1)) \<subseteq> set (pr_open (ho_net h))" "\<not> ho_pool h1"
      "tl_running (ho_telemetry h1) = tl_running t1" "tl_active (ho_telemetry h1) = tl_active t1"
      using run_with_telemetry_releases [OF assms(1) run] assms(3) by (simp_all add: same_telemetry_def)
    obtain e2 t2 where stop: "run_shutdown sd (ho_telemetry h1) = (e2, t2)" by (cases "run_shutdown sd (ho_telemetry h1)")
    have "h' = h1\<lparr>ho_telemetry := t2\<rparr>" using assms(2) c ready Inr run stop by (simp add: run_def)
    moreover have "tl_running t2 = tl_running (ho_telemetry h) \<and> tl_active t2 = tl_active (ho_telemetry h)"
      using balanced kept(3,4) stop unfolding Inr sum.case by blast
    ultimately show ?thesis using kept(1,2) by simp
  qed
qed


section \<open>Witnesses\<close>


theorem fails_closed_witness:
  "(\<exists>e. fst (run (site_outside\<lparr>ou_Getenv := \<lambda>_. ''''\<rparr>) site_host) = Some e)
   \<and> run (site_outside\<lparr>ou_Getenv := \<lambda>_. '''', ou_Serve := \<lambda>_ _ h. (None, h)\<rparr>) site_host
     = run (site_outside\<lparr>ou_Getenv := \<lambda>_. ''''\<rparr>) site_host"
proof -
  have "misconfigured (site_outside\<lparr>ou_Getenv := \<lambda>_. ''''\<rparr>)" unfolding misconfigured_def by auto
  from fails_closed [OF this, of site_host "\<lambda>_ _ h. (None, h)"] show ?thesis by simp
qed

theorem run_releases_witness:
  "pr_open (ho_net (snd (run site_outside site_host))) = [] \<and> \<not> ho_pool (snd (run site_outside site_host))"
proof -
  obtain result h' where run: "run site_outside site_host = (result, h')" by (cases "run site_outside site_host")
  have "serve_keeps site_outside" by (simp add: serve_keeps_def site_outside_def)
  from run_releases [OF this run] show ?thesis unfolding run by (simp add: site_host_def fresh_providers_def)
qed


end
