(* ===== verification/Telemetry_Props.thy ===== *)
theory Telemetry_Props
  imports Telemetry_Facts
begin

text \<open>Properties of the telemetry package.\<close>

section \<open>Operations\<close>

text \<open>
  C39. Every operation is counted once: from a start with an active recorder, through any interleaving of
  operations that begin, complete, are completed by a panic, or report otherwise, the counter of the
  operations holds exactly one entry per completed operation, the span of an operation has ended exactly
  once when it is completed and not at all before, a completion always completes its operation, and a
  second one changes nothing.
\<close>

theorem operations_counted_once:
  assumes "tl_active t0 = Some (newRecorder address tp mp)" and "tl_operations t0 = []" and "tl_spans t0 = []"
    and "tl_measured t0 = []" and "operation_step\<^sup>*\<^sup>* t0 t"
  shows "length (filter counts_operations (tl_measured t)) = length (filter os_completed (tl_operations t))
    \<and> (\<forall>j<length (tl_operations t). count_list (tl_spans t) (SpanEnded (os_span (tl_operations t ! j)))
         = of_bool (os_completed (tl_operations t ! j)))
    \<and> (\<forall>ctx i. cx_operation ctx = Some i \<and> i < length (tl_operations t) \<longrightarrow>
         (let t' = CompleteOperation ctx operation outcome errorCode streamed now t
          in os_completed (tl_operations t' ! i) \<and> (os_completed (tl_operations t ! i) \<longrightarrow> t' = t)))"
proof -
  have "once (newRecorder address tp mp) t0" using assms(1-4) by (simp add: once_def)
  from once_reachable [OF assms(5) this] have "once (newRecorder address tp mp) t" .
  moreover have "os_completed (tl_operations (CompleteOperation ctx operation outcome errorCode streamed now t) ! i)"
    if "cx_operation ctx = Some i" "i < length (tl_operations t)" for ctx i
    using that by (simp add: CompleteOperation_def Let_def RecordOperation_def with_active_def measure_all_def span_events_def
        split: option.splits)
  moreover have "CompleteOperation ctx operation outcome errorCode streamed now t = t"
    if "cx_operation ctx = Some i" "os_completed (tl_operations t ! i)" for ctx i
    using that by (simp add: CompleteOperation_def)
  ultimately show ?thesis by (simp add: once_def)
qed

section \<open>Configuration\<close>

text \<open>
  The check of the sampling ratio compares with both ends, which a NaN passes, and the check of a duration
  precedes the product, which wraps: both accept settings that the messages rule out.
\<close>

lemma sampler_ratio_NaN:
  assumes "te_ParseFloat E (TrimSpace (te_Getenv E ''OTEL_TRACES_SAMPLER_ARG'')) = Some NaN"
  shows "sampler_ratio E = Inr (TraceIDRatioBased NaN)"
  using assms by (simp add: sampler_ratio_def)

lemma sampler_ratio_exact:
  assumes "sampler_ratio E = Inr sm"
  shows "\<exists>x. sm = TraceIDRatioBased x \<and> (x = NaN \<or> (\<exists>q. x = Finite q \<and> 0 \<le> q \<and> q \<le> 1))"
proof -
  obtain x where x: "sm = TraceIDRatioBased x" "\<not> float_less x 0" "\<not> float_greater x 1"
    using assms by (auto simp: sampler_ratio_def split: option.splits if_splits)
  then show ?thesis by (cases x) auto
qed

lemma millisecondDurationFromEnv_wraps:
  assumes "te_Getenv E name = ''9223372036855''"
  shows "millisecondDurationFromEnv E name fallback = Inr (- 9223372036854551616)"
proof -
  let ?bytes = "[57, 50, 50, 51, 51, 55, 50, 48, 51, 54, 56, 53, 53] :: nat list"
  have "map byte_of ''9223372036855'' = ?bytes" by (simp add: byte_of_def)
  moreover have "map char_of ?bytes = ''9223372036855''" by code_simp
  moreover have "trim_left ?bytes = ?bytes" by (simp add: decode_rune_ascii unicode_IsSpace_def)
  moreover have "trim_right ?bytes = ?bytes" by (simp add: trim_right.simps decode_last_def unicode_IsSpace_def)
  ultimately have "TrimSpace ''9223372036855'' = ''9223372036855''" by (simp only: TrimSpace_def)
  then show ?thesis
    using assms by (simp add: millisecondDurationFromEnv_def ParseInt64_def digits_value_def byte_class_defs wrap64_def)
qed

lemma millisecondDurationFromEnv_positive:
  assumes "millisecondDurationFromEnv E name fallback = Inr d" and "0 < fallback"
  shows "0 < d \<or> (\<exists>ms. ParseInt64 (TrimSpace (te_Getenv E name)) = Some ms \<and> max_duration div 1000000 < ms)"
proof -
  have "0 < wrap64 (ms * 1000000)" if "0 < ms" "ms \<le> max_duration div 1000000" for ms
    using that by (simp add: wrap64_def max_duration_def)
  then show ?thesis
    using assms by (auto simp: millisecondDurationFromEnv_def Let_def not_le split: if_splits option.splits)
qed

section \<open>Witnesses\<close>

definition recording :: telemetry where
  "recording = \<lparr>tl_tracers = None, tl_meters = None, tl_running = [], tl_next = 1, tl_active = Some (newRecorder 0 None None),
     tl_operations = [], tl_measured = [], tl_spans = [], tl_faults = []\<rparr>"

theorem operations_counted_once_witness:
  "let ctx = \<lparr>cx_span = None, cx_operation = Some 0\<rparr>;
       t1 = snd (BeginOperation \<lparr>cx_span = None, cx_operation = None\<rparr> ''buy'' 5 recording);
       t2 = CompleteOperation ctx ''buy'' ''succeeded'' '''' (- 1) 9 t1;
       t3 = snd (CompleteOperationOnPanic ctx ''buy'' None 9 (Some ()) t2)
   in length (filter counts_operations (tl_measured t3)) = 1"
proof -
  let ?ctx = "\<lparr>cx_span = None, cx_operation = Some 0\<rparr>"
  let ?t1 = "snd (BeginOperation \<lparr>cx_span = None, cx_operation = None\<rparr> ''buy'' 5 recording)"
  let ?t2 = "CompleteOperation ?ctx ''buy'' ''succeeded'' '''' (- 1) 9 ?t1"
  let ?t3 = "snd (CompleteOperationOnPanic ?ctx ''buy'' None 9 (Some ()) ?t2)"
  have one: "tl_operations ?t1 = [\<lparr>os_started = 5, os_span = 1, os_completed = False\<rparr>]"
    by (simp add: BeginOperation_def Start_def recording_def Let_def)
  have two: "tl_operations ?t2 = [\<lparr>os_started = 5, os_span = 1, os_completed = True\<rparr>]"
    by (simp add: CompleteOperation_def RecordOperation_def with_active_def measure_all_def span_events_def one Let_def
        split: option.splits)
  have s1: "operation_step recording ?t1" by (rule operation_step.begins)
  have s2: "operation_step ?t1 ?t2" by (rule operation_step.completes [where i = 0]) (simp_all add: one)
  have s3: "operation_step ?t2 ?t3" by (rule operation_step.panics [where i = 0]) (simp_all add: two)
  have steps: "operation_step\<^sup>*\<^sup>* recording ?t3"
    by (rule converse_rtranclp_into_rtranclp, rule s1, rule converse_rtranclp_into_rtranclp, rule s2,
        rule converse_rtranclp_into_rtranclp, rule s3, rule rtranclp.rtrancl_refl)
  have same: "tl_operations ?t3 = tl_operations ?t2"
    by (simp add: CompleteOperationOnPanic_def CompleteOperation_def [of ?ctx _ _ _ _ _ ?t2] two Let_def)
  have start: "tl_active recording = Some (newRecorder 0 None None)" "tl_operations recording = []" "tl_spans recording = []"
    "tl_measured recording = []" by (simp_all add: recording_def)
  from operations_counted_once [OF start steps, THEN conjunct1]
  have "length (filter counts_operations (tl_measured ?t3)) = 1" unfolding same two by simp
  then show ?thesis unfolding Let_def .
qed

end
