(* ===== verification/Demo_Auth.thy ===== *)
theory Demo_Auth
  imports Authn_Facts Rpc_Api Server_Runtime
begin

text \<open>
  Package \<^verbatim>\<open>demoauth\<close>: the development keys and the request-bound assertions that the demos and the
  integration tests sign. The file system, Ed25519, go-jose and the two encodings of messages are
  parameters.
\<close>

section \<open>What the package uses\<close>

text \<open>
  A file is its content with the error of closing it. \<open>sg_Unmarshal\<close> reads a JSON text into a message of the
  type of its first argument, and \<open>sg_NumericDate\<close> is \<^verbatim>\<open>jwt.NewNumericDate\<close>.
\<close>

record ('k, 'p, 's) signing =
  sg_MkdirAll :: "string \<Rightarrow> go_error option"
  sg_GenerateKey :: "('k \<times> 'p) result"
  sg_encode_private :: "'p jwk \<Rightarrow> string result"
  sg_encode_set :: "'k jwk list \<Rightarrow> string result"
  sg_Open :: "string \<Rightarrow> (string \<times> go_error option) result"
  sg_decode_private :: "string \<Rightarrow> 'p jwk result"
  sg_is_ed25519 :: "'p \<Rightarrow> bool"
  sg_Unmarshal :: "proto_request \<Rightarrow> string \<Rightarrow> proto_request result"
  sg_Marshal :: "proto_request \<Rightarrow> string result"
  sg_NewRandom :: "string result"
  sg_NumericDate :: "int \<Rightarrow> int option"
  sg_NewSigner :: "'p \<Rightarrow> string \<Rightarrow> 's result"
  sg_Serialize :: "'s \<Rightarrow> jwt_claims \<times> operationClaims \<Rightarrow> string result"

definition Issuer :: string where "Issuer = ''https://demo-issuer.invalid''"
definition Audience :: string where "Audience = ''bond-exchange-demo''"

section \<open>Keys\<close>

text \<open>The files written so far with their modes, and the outcomes of the writes to come.\<close>

record disk =
  dk_files :: "(string \<times> string \<times> nat) list"
  dk_faults :: "go_error option list"

definition os_WriteFile :: "string \<Rightarrow> string \<Rightarrow> nat \<Rightarrow> disk \<Rightarrow> go_error option \<times> disk" where
  "os_WriteFile path content mode d =
     (case dk_faults d of
        Some e # fs \<Rightarrow> (Some e, d\<lparr>dk_faults := fs\<rparr>)
      | fs \<Rightarrow> (None, d\<lparr>dk_faults := drop 1 fs, dk_files := (path, content, mode) # dk_files d\<rparr>))"

definition writeJSON :: "string \<Rightarrow> string result \<Rightarrow> nat \<Rightarrow> disk \<Rightarrow> go_error option \<times> disk" where
  "writeJSON path encoding mode d =
     (case encoding of
        Inl e \<Rightarrow> (Some e, d)
      | Inr encoded \<Rightarrow> os_WriteFile path (encoded @ [CHR 0x0A]) mode d)"

definition demo_jwk :: "bool \<Rightarrow> 'a \<Rightarrow> 'a jwk" where
  "demo_jwk public k = \<lparr>jk_KeyID = ''demo-key'', jk_Algorithm = ''EdDSA'', jk_Use = ''sig'', jk_IsPublic = public, jk_Key = k\<rparr>"

text \<open>\<^verbatim>\<open>filepath.Join\<close> is the parameter \<open>join\<close>; the modes are octal 600.\<close>

definition Initialize ::
  "('k, 'p, 's) signing \<Rightarrow> (string \<Rightarrow> string \<Rightarrow> string) \<Rightarrow> string \<Rightarrow> disk \<Rightarrow> go_error option \<times> disk" where
  "Initialize S join directory d =
     (case sg_MkdirAll S directory of
        Some e \<Rightarrow> (Some e, d)
      | None \<Rightarrow>
          (case sg_GenerateKey S of
             Inl e \<Rightarrow> (Some e, d)
           | Inr (publicKey, privateKey) \<Rightarrow>
               (case writeJSON (join directory ''private.jwk'') (sg_encode_private S (demo_jwk False privateKey)) 384 d of
                  (Some e, d1) \<Rightarrow> (Some e, d1)
                | (None, d1) \<Rightarrow> writeJSON (join directory ''public.jwks'') (sg_encode_set S [demo_jwk True publicKey]) 384 d1)))"

definition read_key :: "('k, 'p, 's) signing \<Rightarrow> string \<Rightarrow> 'p jwk result" where
  "read_key S content =
     bind_r (sg_decode_private S (take (64 * 1024) content)) (\<lambda>key.
       if \<not> sg_is_ed25519 S (jk_Key key) \<or> jk_KeyID key = '''' then
         Inl (ErrorString ''demo signing key is not an Ed25519 private JWK'')
       else Inr key)"

definition readPrivateKey :: "('k, 'p, 's) signing \<Rightarrow> string \<Rightarrow> 'p jwk result" where
  "readPrivateKey S path =
     bind_r (sg_Open S path) (\<lambda>(content, closeErr).
       case errors_Join [error_of (read_key S content), closeErr] of Some e \<Rightarrow> Inl e | None \<Rightarrow> read_key S content)"

section \<open>Assertions\<close>

definition requestMessage :: "string \<Rightarrow> proto_request result" where
  "requestMessage operation =
     (if operation = OperationBuy then Inr (BuyRequest '''')
      else if operation = OperationCreateSaleOffer then Inr (CreateSaleOfferRequest '''' '''' '''' '''')
      else if operation = OperationQuoteSaleOffer then Inr (QuoteSaleOfferRequest '''' '''' '''')
      else if operation = OperationListActiveOffers then Inr (ListActiveOffersRequest '''')
      else if operation = OperationListBondSeries then Inr ListActiveBondSeriesRequest
      else if operation = OperationCheckHealth then Inr CheckHealthRequest
      else if operation = OperationPublishPendingEvents then Inr (PublishPendingEventsRequest '''')
      else Inl (ErrorString ''unsupported operation''))"

definition requiresNonce :: "string \<Rightarrow> bool" where
  "requiresNonce operation \<longleftrightarrow> operation = OperationBuy \<or> operation = OperationQuoteSaleOffer
     \<or> operation = OperationCreateSaleOffer \<or> operation = OperationPublishPendingEvents"

definition demo_claims ::
  "('k, 'p, 's) signing \<Rightarrow> string \<Rightarrow> string \<Rightarrow> string \<Rightarrow> string \<Rightarrow> string \<Rightarrow> int \<Rightarrow> jwt_claims \<times> operationClaims" where
  "demo_claims S subject operation assertionID canonical idempotencyKey now =
     (\<lparr>jc_Issuer = Issuer, jc_Subject = subject, jc_Audience = [Audience], jc_ID = assertionID,
       jc_IssuedAt = sg_NumericDate S now, jc_NotBefore = None, jc_Expiry = sg_NumericDate S (now + 2 * ns_minute)\<rparr>,
      \<lparr>oc_ClientID = ''demo-cli'', oc_Details = [\<lparr>ad_Type = AuthorizationType, ad_Actions = [operation],
         ad_RequestSHA256 = hex_EncodeToString (Sum256 canonical), ad_IdempotencyKey = idempotencyKey\<rparr>]\<rparr>)"

definition IssueToken ::
  "('u, 'd) lib \<Rightarrow> ('k, 'p, 's) signing \<Rightarrow> string \<Rightarrow> string \<Rightarrow> string \<Rightarrow> string \<Rightarrow> string \<Rightarrow> int \<Rightarrow> string result" where
  "IssueToken L S privateKeyPath subject operation idempotencyKey requestJSON now =
     bind_r (readPrivateKey S privateKeyPath) (\<lambda>key.
     bind_r (requestMessage operation) (\<lambda>message.
     bind_r (case sg_Unmarshal S message requestJSON of
               Inl e \<Rightarrow> Inl (Errorf ''decode request JSON'' [e]) | Inr request \<Rightarrow> Inr request) (\<lambda>request.
     bind_r (sg_Marshal S request) (\<lambda>canonical.
       if idempotencyKey = ''-'' \<and> requiresNonce operation then Inl ErrInvalidIdempotencyKey
       else if idempotencyKey \<noteq> ''-'' \<and> (\<not> requiresNonce operation \<or> \<not> IsValidIdempotencyKey L idempotencyKey) then
         Inl ErrInvalidIdempotencyKey
       else
         bind_r (sg_NewRandom S) (\<lambda>assertionID.
         bind_r (sg_NewSigner S (jk_Key key) (jk_KeyID key)) (\<lambda>signer.
         sg_Serialize S signer (demo_claims S subject operation assertionID canonical
           (if requiresNonce operation then idempotencyKey else '''') now)))))))"

section \<open>Documented laws\<close>

text \<open>
  Version-4 identifiers are valid assertion identifiers, a numeric date is the instant cut to whole
  seconds, and a compact serialisation has no blank in it. What a key signed, its public half verifies:
  the token parses wherever EdDSA is allowed, names the key and algorithm in its one header, and carries
  the claims, whose texts JSON keeps when they are ASCII. A validation accepts the expected issuer and
  audience within the leeway.
\<close>

definition ascii_text :: "string \<Rightarrow> bool" where
  "ascii_text s \<longleftrightarrow> list_all (\<lambda>c. byte_of c < 128) s"

definition signs_for :: "('k, 'p, 's) signing \<Rightarrow> ('o, 'k) jose \<Rightarrow> 'p \<Rightarrow> 'k \<Rightarrow> bool" where
  "signs_for S J private public \<longleftrightarrow> (\<forall>kid signer claims raw algorithms.
     sg_NewSigner S private kid = Inr signer \<longrightarrow> sg_Serialize S signer claims = Inr raw
     \<longrightarrow> ascii_text (jc_Subject (fst claims)) \<longrightarrow> ''EdDSA'' \<in> set algorithms \<longrightarrow>
       (\<exists>token. jo_ParseSigned J raw algorithms = Some token \<and> jo_Headers J token = [(kid, ''EdDSA'')]
          \<and> jo_Claims J token public = Some claims))"

definition signing_laws :: "('u, 'd) lib \<Rightarrow> ('k, 'p, 's) signing \<Rightarrow> ('o, 'k) jose \<Rightarrow> bool" where
  "signing_laws L S J \<longleftrightarrow>
     (\<forall>i. sg_NewRandom S = Inr i \<longrightarrow> IsValidIdempotencyKey L i)
     \<and> (\<forall>t. 0 \<le> t \<longrightarrow> sg_NumericDate S t = Some (t div ns_second * ns_second))
     \<and> (\<forall>signer claims raw. sg_Serialize S signer claims = Inr raw \<longrightarrow>
          raw \<noteq> [] \<and> \<not> strings_ContainsAny raw [CHR '' '', CHR 0x09, CHR 0x0D, CHR 0x0A])
     \<and> (\<forall>c issuer audiences now leeway. jc_Issuer c = issuer \<longrightarrow> (\<exists>a\<in>set audiences. a \<in> set (jc_Audience c))
          \<longrightarrow> (\<forall>t. jc_Expiry c = Some t \<longrightarrow> now \<le> t + leeway) \<longrightarrow> (\<forall>t. jc_NotBefore c = Some t \<longrightarrow> t \<le> now + leeway)
          \<longrightarrow> (\<forall>t. jc_IssuedAt c = Some t \<longrightarrow> t \<le> now + leeway) \<longrightarrow> jo_ValidateWithLeeway J c issuer audiences now leeway)"

section \<open>Lemmas\<close>

lemma readPrivateKey_Inr:
  assumes "readPrivateKey S path = Inr key"
  shows "sg_is_ed25519 S (jk_Key key) \<and> jk_KeyID key \<noteq> ''''"
  using assms
  by (auto simp: readPrivateKey_def read_key_def bind_r_Inr errors_Join_def List.map_filter_def error_of_def Let_def
      split: prod.splits option.splits sum.splits if_splits)

lemma IssueToken_Inr:
  assumes "IssueToken L S path subject operation key requestJSON now = Inr raw"
  obtains k message request canonical assertionID signer where "readPrivateKey S path = Inr k"
    "requestMessage operation = Inr message" "sg_Unmarshal S message requestJSON = Inr request"
    "sg_Marshal S request = Inr canonical" "requiresNonce operation \<longleftrightarrow> key \<noteq> ''-''"
    "requiresNonce operation \<longrightarrow> IsValidIdempotencyKey L key" "sg_NewRandom S = Inr assertionID"
    "sg_NewSigner S (jk_Key k) (jk_KeyID k) = Inr signer"
    "sg_Serialize S signer (demo_claims S subject operation assertionID canonical (if requiresNonce operation then key else '''') now) = Inr raw"
proof -
  obtain k message request canonical where
      one: "readPrivateKey S path = Inr k" "requestMessage operation = Inr message"
        "(case sg_Unmarshal S message requestJSON of Inl e \<Rightarrow> Inl (Errorf ''decode request JSON'' [e]) | Inr request \<Rightarrow> Inr request) = Inr request"
        "sg_Marshal S request = Inr canonical"
    and rest: "(if key = ''-'' \<and> requiresNonce operation then Inl ErrInvalidIdempotencyKey
       else if key \<noteq> ''-'' \<and> (\<not> requiresNonce operation \<or> \<not> IsValidIdempotencyKey L key) then Inl ErrInvalidIdempotencyKey
       else bind_r (sg_NewRandom S) (\<lambda>assertionID. bind_r (sg_NewSigner S (jk_Key k) (jk_KeyID k)) (\<lambda>signer.
         sg_Serialize S signer (demo_claims S subject operation assertionID canonical
           (if requiresNonce operation then key else '''') now)))) = Inr raw"
    using assms unfolding IssueToken_def bind_r_Inr by blast
  have nonce: "requiresNonce operation \<longleftrightarrow> key \<noteq> ''-''" "requiresNonce operation \<longrightarrow> IsValidIdempotencyKey L key"
    using rest by (auto split: if_splits)
  with rest obtain assertionID signer where "sg_NewRandom S = Inr assertionID"
    "sg_NewSigner S (jk_Key k) (jk_KeyID k) = Inr signer"
    "sg_Serialize S signer (demo_claims S subject operation assertionID canonical (if requiresNonce operation then key else '''') now) = Inr raw"
    by (auto simp: bind_r_Inr split: if_splits)
  moreover have "sg_Unmarshal S message requestJSON = Inr request" using one(3) by (simp split: sum.splits)
  ultimately show thesis using that one nonce by blast
qed

text \<open>The claims of a token that is at most two minutes old pass the checks of an authenticator.\<close>

lemma demo_claims_valid:
  assumes "signing_laws L S J" and "validClaimText subject 256" and "sg_NewRandom S = Inr assertionID"
    and "0 \<le> issued" and "issued \<le> now" and "now \<le> issued + 2 * ns_minute - ns_second"
    and "jw_Issuer config = Issuer" and "jw_Audience config = Audience" and "0 \<le> jw_ClockSkew config"
    and "2 * ns_minute \<le> jw_MaximumAge config"
  shows "validateClaims L J config now (fst (demo_claims S subject operation assertionID canonical key issued))
    (snd (demo_claims S subject operation assertionID canonical key issued)) operation canonical key = Inr ()"
proof -
  let ?c = "fst (demo_claims S subject operation assertionID canonical key issued)"
  let ?at = "issued div ns_second * ns_second" and ?to = "issued div ns_second * ns_second + 2 * ns_minute"
  have dates: "jc_IssuedAt ?c = Some ?at" "jc_Expiry ?c = Some ?to" "jc_NotBefore ?c = None"
  proof -
    have "(issued + 2 * ns_minute) div ns_second * ns_second = ?to"
      using div_mult_self1 [of ns_second issued 120] by (simp add: ns_defs algebra_simps)
    then show "jc_IssuedAt ?c = Some ?at" "jc_Expiry ?c = Some ?to" "jc_NotBefore ?c = None"
      using assms(1,4) by (simp_all add: demo_claims_def signing_laws_def) (simp_all add: ns_defs)
  qed
  have near: "?at \<le> now" "now \<le> ?to" using assms(4-6) by (simp_all add: ns_defs)
  have "IsValidIdempotencyKey L assertionID" using assms(1,3) by (simp add: signing_laws_def)
  moreover have "jo_ValidateWithLeeway J ?c Issuer [Audience] now (jw_ClockSkew config)"
  proof -
    have "jc_Issuer ?c = Issuer" "\<exists>a\<in>set [Audience]. a \<in> set (jc_Audience ?c)" by (simp_all add: demo_claims_def)
    moreover have "\<forall>t. jc_Expiry ?c = Some t \<longrightarrow> now \<le> t + jw_ClockSkew config"
      "\<forall>t. jc_NotBefore ?c = Some t \<longrightarrow> t \<le> now + jw_ClockSkew config" "\<forall>t. jc_IssuedAt ?c = Some t \<longrightarrow> t \<le> now + jw_ClockSkew config"
      using dates near assms(9) by auto
    ultimately show ?thesis using assms(1) unfolding signing_laws_def by blast
  qed
  moreover have "\<not> now + jw_ClockSkew config < ?at" using near(1) assms(9) by simp
  moreover have "time_Sub ?to ?at = 2 * ns_minute" by (simp add: time_Sub_def min_duration_def max_duration_def ns_defs)
  moreover have "validClaimText ''demo-cli'' 256" by (simp add: validClaimText_iff byte_of_def)
  moreover have "jc_Subject ?c = subject" "jc_ID ?c = assertionID"
    "snd (demo_claims S subject operation assertionID canonical key issued) = \<lparr>oc_ClientID = ''demo-cli'',
       oc_Details = [\<lparr>ad_Type = AuthorizationType, ad_Actions = [operation],
         ad_RequestSHA256 = hex_EncodeToString (Sum256 canonical), ad_IdempotencyKey = key\<rparr>]\<rparr>"
    by (simp_all add: demo_claims_def)
  moreover have "0 < 2 * ns_minute" by (simp add: ns_defs)
  ultimately show ?thesis
    using assms(2,7,8,10) dates by (simp add: validateClaims_def compare_decides)
qed

end
