(* ===== verification/Demo_Auth_Props.thy ===== *)
theory Demo_Auth_Props
  imports Demo_Auth Demo_Db
begin

text \<open>The property that connects the signing of assertions with their verification.\<close>

section \<open>Tokens\<close>

text \<open>
  C40. What the demo signs, the server accepts: a token that \<^verbatim>\<open>IssueToken\<close> returns for an operation and a
  JSON request authenticates the subject, for two minutes less the second that dates are cut to, at
  every authenticator that trusts the demo issuer and the public half of the key, for exactly that
  operation and the canonical bytes of that request, with the idempotency key it was issued for.
\<close>

theorem issued_token_accepted:
  assumes "signing_laws L S J" and "IssueToken L S path subject operation key requestJSON issued = Inr raw"
    and "readPrivateKey S path = Inr signing_key" and "signs_for S J (jk_Key signing_key) (jk_Key k)"
    and "jo_Key J (jw_Keys (ja_config ja)) (jk_KeyID signing_key) = [k]" and "jk_Algorithm k = ''EdDSA''"
    and "''EdDSA'' \<in> set (jw_Algorithms (ja_config ja))" and "jw_Issuer (ja_config ja) = Issuer"
    and "jw_Audience (ja_config ja) = Audience" and "0 \<le> jw_ClockSkew (ja_config ja)"
    and "2 * ns_minute \<le> jw_MaximumAge (ja_config ja)" and "validClaimText subject 256" and "ascii_text subject"
    and "length raw \<le> 16 * 1024" and "ja_now ja w = (now, w1)" and "0 \<le> issued" and "issued \<le> tm_instant now"
    and "tm_instant now \<le> issued + 2 * ns_minute - ns_second" and "ja_resolver ja Issuer subject w1 = (Inr resolved, w2)"
    and "md AuthorizationMetadata = [''Bearer '' @ raw]"
    and "md IdempotencyMetadata = (if requiresNonce operation then [key] else [])"
  shows "\<exists>message request canonical (a :: AuthResult) w3. requestMessage operation = Inr message
      \<and> sg_Unmarshal S message requestJSON = Inr request \<and> sg_Marshal S request = Inr canonical
      \<and> Authenticate L J ja md operation canonical (requiresNonce operation) w = (Inr a, w3)
      \<and> ac_Principal (ar_Access a) = resolved\<lparr>p_Issuer := Issuer, p_Subject := subject, p_ClientID := ''demo-cli''\<rparr>
      \<and> ac_Operation (ar_Access a) = operation \<and> ac_RequestDigest (ar_Access a) = Sum256 canonical
      \<and> ar_IdempotencyKey a = (if requiresNonce operation then key else '''')"
proof -
  obtain message request canonical assertionID signer where t: "requestMessage operation = Inr message"
      "sg_Unmarshal S message requestJSON = Inr request" "sg_Marshal S request = Inr canonical"
      "requiresNonce operation \<longrightarrow> IsValidIdempotencyKey L key" "sg_NewRandom S = Inr assertionID"
      "sg_NewSigner S (jk_Key signing_key) (jk_KeyID signing_key) = Inr signer"
      "sg_Serialize S signer (demo_claims S subject operation assertionID canonical (if requiresNonce operation then key else '''') issued) = Inr raw"
    using assms(3) by (cases rule: IssueToken_Inr [OF assms(2)]) auto
  let ?key = "if requiresNonce operation then key else ''''"
  let ?claims = "demo_claims S subject operation assertionID canonical ?key issued"
  have subject: "jc_Issuer (fst ?claims) = Issuer" "jc_Subject (fst ?claims) = subject" "oc_ClientID (snd ?claims) = ''demo-cli''"
    by (simp_all add: demo_claims_def)
  have bearer: "singleBearerToken (md AuthorizationMetadata) = Inr raw"
  proof -
    have "raw \<noteq> [] \<and> \<not> strings_ContainsAny raw [CHR '' '', CHR 0x09, CHR 0x0D, CHR 0x0A]"
      using assms(1) t(7) unfolding signing_laws_def by blast
    then show ?thesis using assms(20) by (simp add: singleBearerToken_def)
  qed
  have idem: "requestIdempotencyKey L (md IdempotencyMetadata) (requiresNonce operation) = Inr ?key"
    using assms(21) t(4) by (simp add: requestIdempotencyKey_Inr)
  obtain token where token: "jo_ParseSigned J raw (jw_Algorithms (ja_config ja)) = Some token"
      "jo_Headers J token = [(jk_KeyID signing_key, ''EdDSA'')]" "jo_Claims J token (jk_Key k) = Some ?claims"
    using assms(4,7,13) t(6,7) subject(2) unfolding signs_for_def by metis
  have "jk_KeyID signing_key \<noteq> ''''" using readPrivateKey_Inr [OF assms(3)] by simp
  with token assms(5,6,14) have verified: "verified_claims J (ja_config ja) raw = Inr ?claims"
    by (simp add: verified_claims_def)
  have valid: "validateClaims L J (ja_config ja) (tm_instant now) (fst ?claims) (snd ?claims) operation canonical ?key = Inr ()"
    using demo_claims_valid [OF assms(1,12) t(5) assms(16,17,18,8-11)] .
  obtain standard claim where split: "?claims = (standard, claim)" by (cases ?claims)
  show ?thesis
    using t(1-3) bearer idem verified valid assms(15,19) subject unfolding split
    by (simp add: Authenticate_def authenticate_stages_def metric_m_def)
qed

section \<open>Witness\<close>

definition buyer_claims :: "jwt_claims \<times> operationClaims" where
  "buyer_claims =
     (\<lparr>jc_Issuer = Issuer, jc_Subject = ''buyer'', jc_Audience = [Audience], jc_ID = key_id, jc_IssuedAt = Some 0,
       jc_NotBefore = None, jc_Expiry = Some (2 * ns_minute)\<rparr>,
      \<lparr>oc_ClientID = ''demo-cli'', oc_Details = [\<lparr>ad_Type = AuthorizationType, ad_Actions = [OperationBuy],
         ad_RequestSHA256 = hex_EncodeToString (Sum256 ''request''), ad_IdempotencyKey = key_id\<rparr>]\<rparr>)"

definition buyer_signing :: "(nat, nat, string) signing" where
  "buyer_signing = \<lparr>sg_MkdirAll = (\<lambda>_. None), sg_GenerateKey = Inr (7, 8), sg_encode_private = (\<lambda>_. Inr ''private''),
     sg_encode_set = (\<lambda>_. Inr ''public''), sg_Open = (\<lambda>_. Inr (''private'', None)),
     sg_decode_private = (\<lambda>_. Inr (demo_jwk False 8)), sg_is_ed25519 = (\<lambda>k. k = 8),
     sg_Unmarshal = (\<lambda>_ _. Inr (BuyRequest offer_id)), sg_Marshal = (\<lambda>_. Inr ''request''), sg_NewRandom = Inr key_id,
     sg_NumericDate = (\<lambda>t. Some (t div ns_second * ns_second)), sg_NewSigner = (\<lambda>_ kid. Inr kid),
     sg_Serialize = (\<lambda>kid c. if kid = ''demo-key'' \<and> c = buyer_claims then Inr ''token'' else Inl ContextCanceled)\<rparr>"

definition buyer_jose :: "(unit, nat) jose" where
  "buyer_jose = \<lparr>jo_ParseSigned = (\<lambda>raw algs. if raw = ''token'' then Some () else None),
     jo_Headers = (\<lambda>_. [(''demo-key'', ''EdDSA'')]), jo_Key = (\<lambda>ks i. filter (\<lambda>k. jk_KeyID k = i) ks),
     jo_Claims = (\<lambda>_ k. if k = 7 then Some buyer_claims else None),
     jo_ValidateWithLeeway = (\<lambda>c issuer audiences now leeway. jc_Issuer c = issuer
        \<and> list_ex (\<lambda>a. List.member (jc_Audience c) a) audiences
        \<and> (case jc_Expiry c of None \<Rightarrow> True | Some t \<Rightarrow> now \<le> t + leeway)
        \<and> (case jc_NotBefore c of None \<Rightarrow> True | Some t \<Rightarrow> t \<le> now + leeway)
        \<and> (case jc_IssuedAt c of None \<Rightarrow> True | Some t \<Rightarrow> t \<le> now + leeway))\<rparr>"

definition buyer_authenticator :: "nat JWTAuthenticator" where
  "buyer_authenticator = \<lparr>ja_config = \<lparr>jw_Issuer = Issuer, jw_Audience = Audience, jw_Keys = [demo_jwk True 7],
      jw_Algorithms = [''EdDSA'', ''ES256''], jw_MaximumAge = 5 * ns_minute, jw_ClockSkew = 30 * ns_second, jw_Now = None\<rparr>,
     ja_now = (\<lambda>w. (\<lparr>tm_instant = 5, tm_offset = 0\<rparr>, w)),
     ja_resolver = (\<lambda>_ _. return_m \<lparr>p_ID = buyer_id, p_Issuer = [], p_Subject = [], p_ClientID = [], p_ClientClass = ''human''\<rparr>)\<rparr>"

definition buyer_metadata :: "string \<Rightarrow> string list" where
  "buyer_metadata name = (if name = AuthorizationMetadata then [''Bearer token'']
     else if name = IdempotencyMetadata then [key_id] else [])"

theorem issued_token_accepted_witness:
  "\<exists>(a :: AuthResult) w3. IssueToken demo_lib buyer_signing ''key'' ''buyer'' OperationBuy key_id ''{}'' 0 = Inr ''token''
     \<and> Authenticate demo_lib buyer_jose buyer_authenticator buyer_metadata OperationBuy ''request'' True (demo_world demo_db [])
       = (Inr a, w3)"
proof -
  have key: "IsValidIdempotencyKey demo_lib key_id" "key_id \<noteq> ''-''"
    using demo_key by (simp_all add: IsValidIdempotencyKey_def key_id_def)
  have laws: "signing_laws demo_lib buyer_signing buyer_jose"
    by (auto simp: signing_laws_def buyer_signing_def buyer_jose_def key list_ex_iff strings_ContainsAny_def
        split: if_splits option.splits)
  have read: "readPrivateKey buyer_signing ''key'' = Inr (demo_jwk False 8)"
    by (simp add: readPrivateKey_def read_key_def buyer_signing_def demo_jwk_def errors_Join_def error_of_def List.map_filter_def Let_def)
  have signs: "signs_for buyer_signing buyer_jose 8 7"
    by (auto simp: signs_for_def buyer_signing_def buyer_jose_def split: if_splits)
  have nonce: "requiresNonce OperationBuy" by (simp add: requiresNonce_def)
  have "demo_claims buyer_signing ''buyer'' OperationBuy key_id ''request'' key_id 0 = buyer_claims"
    by (simp add: demo_claims_def buyer_claims_def buyer_signing_def ns_defs)
  then have issued: "IssueToken demo_lib buyer_signing ''key'' ''buyer'' OperationBuy key_id ''{}'' 0 = Inr ''token''"
    using key nonce read by (simp add: IssueToken_def requestMessage_def) (simp add: buyer_signing_def demo_jwk_def)
  let ?w = "demo_world demo_db []" and ?now = "\<lparr>tm_instant = 5, tm_offset = 0\<rparr> :: clock_time"
  let ?buyer = "\<lparr>p_ID = buyer_id, p_Issuer = [], p_Subject = [], p_ClientID = [], p_ClientClass = ''human''\<rparr> :: Principal"
  have trust: "signs_for buyer_signing buyer_jose (jk_Key (demo_jwk False 8)) (jk_Key (demo_jwk True 7))"
    "jo_Key buyer_jose (jw_Keys (ja_config buyer_authenticator)) (jk_KeyID (demo_jwk False (8 :: nat))) = [demo_jwk True 7]"
    "jk_Algorithm (demo_jwk True (7 :: nat)) = ''EdDSA''" "''EdDSA'' \<in> set (jw_Algorithms (ja_config buyer_authenticator))"
    "jw_Issuer (ja_config buyer_authenticator) = Issuer" "jw_Audience (ja_config buyer_authenticator) = Audience"
    "0 \<le> jw_ClockSkew (ja_config buyer_authenticator)" "2 * ns_minute \<le> jw_MaximumAge (ja_config buyer_authenticator)"
    using signs by (simp_all add: demo_jwk_def buyer_jose_def buyer_authenticator_def ns_defs)
  have subject: "validClaimText ''buyer'' 256" "ascii_text ''buyer''" "length ''token'' \<le> 16 * 1024"
    by (simp_all add: validClaimText_iff ascii_text_def byte_of_def)
  have times: "ja_now buyer_authenticator ?w = (?now, ?w)" "0 \<le> (0 :: int)" "0 \<le> tm_instant ?now"
    "tm_instant ?now \<le> 0 + 2 * ns_minute - ns_second"
    by (simp_all add: buyer_authenticator_def ns_defs)
  have request: "ja_resolver buyer_authenticator Issuer ''buyer'' ?w = (Inr ?buyer, ?w)"
    "buyer_metadata AuthorizationMetadata = [''Bearer '' @ ''token'']"
    "buyer_metadata IdempotencyMetadata = (if requiresNonce OperationBuy then [key_id] else [])"
    using nonce by (simp_all add: buyer_authenticator_def return_m_def buyer_metadata_def AuthorizationMetadata_def IdempotencyMetadata_def)
  from issued_token_accepted [OF laws issued read trust subject times request] obtain canonical and a :: AuthResult and w3
    where "sg_Marshal buyer_signing (BuyRequest offer_id) = Inr canonical"
      "Authenticate demo_lib buyer_jose buyer_authenticator buyer_metadata OperationBuy canonical (requiresNonce OperationBuy) ?w
        = (Inr a, w3)"
    by (auto simp: buyer_signing_def)
  then show ?thesis using issued nonce by (auto simp: buyer_signing_def)
qed

end
