(* ===== verification/Spec2Isabelle.thy ===== *)
theory Spec2Isabelle
  imports Market_Props Admission_Props Event_Props Auth_Props Trading_Props Rates_Props Http_Props Sie_Props Server_Props
    Telemetry_Props Demo_Auth_Props
begin

text \<open>
  \<^bold>\<open>BondExchange.\<close> A bond marketplace: sellers list offers in pesos or, through a conversion quote, in
  dollars; buyers take an offer; every mutation is authorised by a signed assertion, admitted by a
  rate limit, executed once per idempotency key in one PostgreSQL transaction, and announced by an
  integration event. The Go sources are under \<^verbatim>\<open>src/application/\<close>, the schema under
  \<^verbatim>\<open>src/db/migrations/\<close>. This library models the Go packages below and the part of the schema their
  statements touch, and proves what the packages rely on each other for.

  \<^bold>\<open>How the parts interact.\<close> The command \<^verbatim>\<open>cmd/server\<close> reads its configuration, assembles the components
  and runs two servers: gRPC, and REST through \<^verbatim>\<open>internal/httpapi\<close>, which checks the body and calls the
  same handlers in process. A request enters through \<^verbatim>\<open>internal/rpcapi\<close>, which authenticates it
  (\<^verbatim>\<open>internal/authn\<close>), admits it (\<^verbatim>\<open>internal/ratelimit\<close>) and calls the application facade of
  \<^verbatim>\<open>internal/eventing\<close>; the facade calls \<^verbatim>\<open>internal/offerintake\<close>, which prices dollar offers with
  \<^verbatim>\<open>internal/exchangerates\<close>, fed by the central bank's service through \<^verbatim>\<open>internal/sie\<close>, and passes the rest
  to \<^verbatim>\<open>internal/exchange\<close>; all of them keep their state in \<^verbatim>\<open>internal/postgres\<close>. After a mutation the facade publishes the event of the new row.

  \<^bold>\<open>Foundations.\<close>
  \<^item> \<open>Prelude\<close>: errors as values of one datatype \<open>go_error\<close> with \<open>errors_Is\<close> and the wrapping of
    \<^verbatim>\<open>fmt.Errorf\<close>, the result type, rounding of rationals, and the record \<open>lib\<close> of the third-party
    packages (\<^verbatim>\<open>shopspring/decimal\<close>, \<^verbatim>\<open>google/uuid\<close>, PostgreSQL's numeric text and \<^verbatim>\<open>uuidv7()\<close>) with their
    documented laws; \<open>Demo_Lib\<close> is a concrete instance that satisfies them.
  \<^item> \<open>Go_Strings\<close>, \<open>Go_Time\<close>, \<open>Go_Sha256\<close>: the standard library the sources use, on bytes, proleptic
    Gregorian days and 32-bit words. \<open>Go_Json\<close>: the tokens and values of \<^verbatim>\<open>encoding/json\<close>, its encoder for
    strings, and the round trip; \<open>Go_Unmarshal\<close>: the decoding of values into structs. \<open>Go_Http\<close>: headers,
    media types and queries.
  \<^item> \<open>Database\<close>: the tables as lists of records, constraint violations as errors, the append-only rule.
    \<open>Pg_World\<close>: the connection. Every statement is a round trip for which the environment chooses a
    fault (refused, lost before or after it was applied, a server error) and a time; transactions,
    savepoints and lost commit replies are explicit. Hoare triples and the locale \<open>db_relation\<close> reason
    about programs over it. \<open>Tx_Logic\<close> relates a transaction to the pure function it computes.

  \<^bold>\<open>Components.\<close>
  \<^item> \<open>Exchange\<close>: \<^verbatim>\<open>exchange/model.go\<close>, \<^verbatim>\<open>service.go\<close>; parsing of identifiers, series and prices, the
    service's validation.
  \<^item> \<open>Store_Sql\<close>, \<open>Store\<close>: \<^verbatim>\<open>postgres/store.go\<close>; the SQL statements and the Go code around them
    (claim, replay, classification, retry). \<open>Store_Effect\<close> computes what an attempt commits,
    \<open>Store_Contract\<close> states the contract of a retried operation as the locale \<open>store_operation\<close>,
    interpreted for every mutation.
  \<^item> \<open>Market\<close>, \<open>Market_Spec\<close>, \<open>Replay\<close>: the invariant \<open>wf_db\<close> and its preservation, the abstract market
    and the simulation, the stability of recorded outcomes.
  \<^item> \<open>Rate_Limit\<close>: \<^verbatim>\<open>ratelimit/ratelimit.go\<close> and its store.
  \<^item> \<open>Rates_Model\<close>, \<open>Rates_Store\<close>, \<open>Rates_Service\<close>: \<^verbatim>\<open>exchangerates/\<close> and \<^verbatim>\<open>postgres/exchange_rates.go\<close>;
    work units, leases, imports, revisions of observations, the resolution loops (with fuel, see
    below). \<open>Rates_Facts\<close>, \<open>Rates_Effect\<close>, \<open>Rates_Lease\<close> hold their lemmas; the locale \<open>rate_transaction\<close>
    is the contract of a claim and of a completion.
  \<^item> \<open>Offer_Intake\<close>, \<open>Offer_Store\<close>, \<open>Offer_Effect\<close>: \<^verbatim>\<open>offerintake/\<close> and \<^verbatim>\<open>postgres/offer_intake.go\<close>; quotes
    and submissions.
  \<^item> \<open>Event_Store\<close>, \<open>Eventing\<close>: \<^verbatim>\<open>postgres/events.go\<close> and \<^verbatim>\<open>eventing/\<close>; leases of deliveries, the
    dispatcher, the application facade. \<open>Event_Delivery\<close>, \<open>Event_Lease\<close> hold the lemmas.
  \<^item> \<open>Authn\<close>, \<open>Rpc_Api\<close>: \<^verbatim>\<open>authn/authenticator.go\<close> and \<^verbatim>\<open>rpcapi/server.go\<close>; go-jose is a parameter
    with its documented laws. \<open>Authn_Facts\<close> holds the lemmas.
  \<^item> \<open>Http_Json\<close>, \<open>Http_Api\<close>: \<^verbatim>\<open>httpapi/handler.go\<close> and the registration of the generated gateway; the
    check of the body, the middleware, the routes, the stream of offers and the error bodies.
    \<open>Http_Facts\<close> holds the lemmas.
  \<^item> \<open>Sie_Client\<close>, \<open>Sie_Facts\<close>: \<^verbatim>\<open>sie/client.go\<close>; requests, bounded reading, the decoding and checking of a
    response, the classification of refusals.
  \<^item> \<open>Telemetry\<close>, \<open>Telemetry_Facts\<close>: \<^verbatim>\<open>telemetry/telemetry.go\<close>; the set-up of the providers, the completion
    of operations and the reports, over a record of what runs and what was reported.
  \<^item> \<open>Server_Runtime\<close>, \<open>Server_Main\<close>, \<open>Server_Facts\<close>: \<^verbatim>\<open>serverruntime/serverruntime.go\<close> and
    \<^verbatim>\<open>cmd/server/main.go\<close>; configuration, keys, listeners, the shutdown as the step relation
    \<open>ShutdownServers\<close>, the assembly of all the components above (\<open>assemble\<close>) and the life of the process
    (\<open>run\<close>). \<open>Demo_Db\<close> and \<open>Demo_Site\<close> are a concrete database and a concrete site on which it starts and sells.
  \<^item> \<open>Demo_Auth\<close>: \<^verbatim>\<open>cmd/internal/demoauth/demoauth.go\<close>; the assertions that demos and tests sign.

  \<^bold>\<open>What is shown.\<close> \<open>Market_Props\<close>: a purchase does what the abstract market says, commits all or nothing
  under any faults, and happens once per key. \<open>Trading_Props\<close>: listing through a quote, and that every
  reachable state is a sound market. \<open>Admission_Props\<close>: the exact allowance per minute. \<open>Event_Props\<close>:
  bounds of the retry delay, termination of publishing, exclusiveness of leases, finality of
  deliveries. \<open>Auth_Props\<close>: a successful authentication or purchase reply implies a verified assertion
  for exactly that request, and refused requests never reach the application. \<open>Rates_Props\<close>: batching,
  normalisation, month units, revisions, leases and completions of the rate cache. \<open>Http_Props\<close>: the body
  check accepts exactly one JSON object without repeated keys and guards every route, every response is
  hardened, panics become one error, error bodies and delays read back, telemetry sees only templates.
  \<open>Sie_Props\<close>: exactly which responses are accepted, that refusals are classified, that what is fetched
  can be stored, and that documents read back. \<open>Server_Props\<close>: a purchase answered by the assembled server
  is an authorised and admitted effect of the store, from the token to the ledger; a misconfigured
  process fails closed; every end of the process releases its ports, pool and providers; a shutdown
  always returns. \<open>Telemetry_Props\<close>: every operation is counted once. \<open>Demo_Auth_Props\<close>: an issued token is
  accepted for its operation, request and key.

  \<^bold>\<open>Bounds and fuel.\<close> Go durations and instants are integers in nanoseconds, the server's in
  microseconds; the ranges in use stay far below 64 bits, and where a width matters (hashes, digests)
  words are used. Retries run at most eight attempts, as in the source. The paging loop of the
  dispatcher and the waiting loops of the rate service are partial functions: \<open>None\<close> stands for not
  returning, and the termination theorem shows the dispatcher's never is. The walks over JSON texts count
  down from twice the length plus one, which \<open>parse_fuel\<close> shows to be enough; the nesting limit of 10000
  is the one of the standard library. The product that turns a setting in milliseconds into a duration
  is wrapped at 64 bits, because there it matters.

  \<^bold>\<open>Not modelled.\<close> Generated messages and stubs and the client side of the generated gateway (\<^verbatim>\<open>gen/\<close>); the
  goroutines that accept connections, which are a parameter of \<open>run\<close>; the exit code and log handler of
  \<^verbatim>\<open>main\<close>; the commands \<^verbatim>\<open>demo-auth\<close> and \<^verbatim>\<open>load-targets\<close>, which only call what is modelled and print; spans
  in the handlers, whose durations no code reads. The report functions of the handlers append to a log of
  metrics in the world of \<open>Pg_World\<close>, and \<open>Telemetry\<close> models what they do with an active recorder.
\<close>

end
